(* ===== verification/Prelude.thy ===== *)
theory Prelude
  imports Main "HOL-Library.Word" "HOL-Library.State_Monad"
begin

section \<open>Types, automation and lemmas the components share\<close>

text \<open>
  What every theory of the development builds on: the names of the machine types of the
  sources (Go's \<open>int64\<close>, \<open>int32\<close>, \<open>time.Time\<close> and \<open>time.Duration\<close>), the shape of a Go
  call that may fail (a sum, \<open>Inl\<close> the error), the frame rules of the state monad, and the
  lemmas on signed words and on association by key that the table operations use.
\<close>

named_theorems go_simps \<open>unfolding rules of small Go helpers\<close>
named_theorems frame_intros \<open>introduction rules: a computation relates its start and its final state\<close>

subsection \<open>Machine types\<close>

type_synonym int64 = "64 word"
type_synonym int32 = "32 word"

text \<open>Instants and durations in nanoseconds. An instant is unbounded (Go keeps seconds and
  nanoseconds apart); a \<open>time.Duration\<close> is an \<open>int64\<close>.\<close>

type_synonym time = int
type_synonym duration = int64

text \<open>A Go or a JavaScript string, as the sequence of its bytes.\<close>

type_synonym gostring = string

definition in_int64 :: "int \<Rightarrow> bool" where
  "in_int64 i \<longleftrightarrow> - (2 ^ 63) \<le> i \<and> i < 2 ^ 63"

lemma in_int64_sint [simp]: "in_int64 (sint (x :: int64))"
  using sint_greater_eq [of x] sint_less [of x] by (simp add: in_int64_def)

lemma sint_of_in_int64: "in_int64 i \<Longrightarrow> sint (word_of_int i :: int64) = i"
  by (simp add: in_int64_def sint_sbintrunc' signed_take_bit_int_eq_self)

lemma sint_add_in_int64:
  assumes "in_int64 (sint x + sint y)"
  shows "sint (x + y :: int64) = sint x + sint y"
proof -
  have "x + y = word_of_int (sint x + sint y)" by simp
  then show ?thesis using sint_of_in_int64 [OF assms] by simp
qed

lemma sint_neg_in_int64:
  assumes "in_int64 (- sint x)"
  shows "sint (- x :: int64) = - sint x"
proof -
  have "- x = word_of_int (- sint x)" by simp
  then show ?thesis using sint_of_in_int64 [OF assms] by simp
qed
lemma in_int64_neg_pos: "0 \<le> sint (x :: int64) \<Longrightarrow> in_int64 (- sint x)"
  using sint_less [of x] by (simp add: in_int64_def)

lemma sint_neg_pos: "0 \<le> sint x \<Longrightarrow> sint (- x :: int64) = - sint x"
  by (simp add: sint_neg_in_int64 in_int64_neg_pos)

lemma sint_inj: "sint (x :: 'a::len word) = sint y \<longleftrightarrow> x = y"
  using signed_word_eqI by blast

subsection \<open>Calls that may fail, in a state\<close>

text \<open>
  \<open>bindE m f\<close> is Go's \<^verbatim>\<open>x, err := m(); if err != nil { return err }; f(x)\<close>.
\<close>

definition bindE ::
  "('s, 'e + 'a) state \<Rightarrow> ('a \<Rightarrow> ('s, 'e + 'b) state) \<Rightarrow> ('s, 'e + 'b) state" where
  "bindE m f = do { r \<leftarrow> m; (case r of Inl e \<Rightarrow> State_Monad.return (Inl e) | Inr x \<Rightarrow> f x) }"

lemma run_bindE:
  "run_state (bindE m f) s =
     (case run_state m s of
        (Inl e, s') \<Rightarrow> (Inl e, s')
      | (Inr x, s') \<Rightarrow> run_state (f x) s')"
  by (auto simp: bindE_def split: prod.splits sum.splits)

lemma bindE_InrE:
  assumes "run_state (bindE m f) s = (Inr y, t)"
  obtains x u where "run_state m s = (Inr x, u)" and "run_state (f x) u = (Inr y, t)"
  using assms by (auto simp: run_bindE split: prod.splits sum.splits)

lemma bindE_Inr [simp]:
  "run_state m s = (Inr x, u) \<Longrightarrow> run_state (bindE m f) s = run_state (f x) u"
  by (simp add: run_bindE)

lemma bindE_Inl [simp]:
  "run_state m s = (Inl e, u) \<Longrightarrow> run_state (bindE m f) s = (Inl e, u)"
  by (simp add: run_bindE)

text \<open>
  \<open>caseE m f g\<close> is a handler's \<^verbatim>\<open>x, err := m(); if err != nil { f(err); return }; g(x)\<close>.
\<close>

definition caseE :: "('s, 'e + 'a) state \<Rightarrow> ('e \<Rightarrow> ('s, 'b) state) \<Rightarrow> ('a \<Rightarrow> ('s, 'b) state) \<Rightarrow> ('s, 'b) state" where
  "caseE m f g = do { r \<leftarrow> m; (case r of Inl e \<Rightarrow> f e | Inr x \<Rightarrow> g x) }"

lemma run_caseE:
  "run_state (caseE m f g) s =
     (case run_state m s of
        (Inl e, s') \<Rightarrow> run_state (f e) s'
      | (Inr x, s') \<Rightarrow> run_state (g x) s')"
  by (auto simp: caseE_def split: prod.splits sum.splits)

lemma caseE_Inr [simp]: "run_state m s = (Inr x, u) \<Longrightarrow> run_state (caseE m f g) s = run_state (g x) u"
  by (simp add: run_caseE)

lemma caseE_Inl [simp]: "run_state m s = (Inl e, u) \<Longrightarrow> run_state (caseE m f g) s = run_state (f e) u"
  by (simp add: run_caseE)

lemma not_isl_pairE:
  assumes "\<not> isl (fst x)"
  obtains y s where "x = (Inr y, s)"
  using assms by (cases x; cases "fst x") auto

subsection \<open>Frame rules\<close>

text \<open>
  \<open>state_io_rel R m\<close> of the library: every run of \<open>m\<close> relates its start to its final state
  by \<open>R\<close>. For a preorder \<open>R\<close> the rules below push the relation through a handler, so that
  an invariant of the whole handler is the sum of the invariants of the operations it calls.
\<close>

definition keeps :: "('s \<Rightarrow> bool) \<Rightarrow> ('s, 'a) state \<Rightarrow> bool" where
  "keeps P m \<longleftrightarrow> state_io_rel (\<lambda>s s'. P s \<longrightarrow> P s') m"

lemma keepsI: "(\<And>s a s'. run_state m s = (a, s') \<Longrightarrow> P s \<Longrightarrow> P s') \<Longrightarrow> keeps P m"
  by (auto simp: keeps_def)

lemma keepsD: "keeps P m \<Longrightarrow> run_state m s = (a, s') \<Longrightarrow> P s \<Longrightarrow> P s'"
  by (auto simp: keeps_def dest: state_io_relD)

lemma keeps_return [frame_intros]: "keeps P (State_Monad.return x)"
  by (rule keepsI) simp

lemma keeps_bind [frame_intros]:
  "keeps P m \<Longrightarrow> (\<And>x. keeps P (f x)) \<Longrightarrow> keeps P (m \<bind> f)"
  by (rule keepsI) (auto split: prod.splits dest: keepsD)

lemma keeps_bindE [frame_intros]:
  "keeps P m \<Longrightarrow> (\<And>x. keeps P (f x)) \<Longrightarrow> keeps P (bindE m f)"
  by (rule keepsI) (auto simp: run_bindE split: prod.splits sum.splits dest: keepsD)

lemma keeps_caseE [frame_intros]:
  "keeps P m \<Longrightarrow> (\<And>e. keeps P (f e)) \<Longrightarrow> (\<And>x. keeps P (g x)) \<Longrightarrow> keeps P (caseE m f g)"
  unfolding caseE_def by (rule keeps_bind) (auto split: sum.splits)

lemma keepsD_caseE:
  assumes "run_state (caseE m f g) s = (r, t)" and "run_state m s = (Inr x, u)" and "keeps P (g x)" and "P u"
  shows "P t"
  using assms by (auto dest: keepsD)

lemma keeps_if [frame_intros]: "(b \<Longrightarrow> keeps P m) \<Longrightarrow> (\<not> b \<Longrightarrow> keeps P n) \<Longrightarrow> keeps P (if b then m else n)"
  by simp

lemma keeps_case_sum [frame_intros]:
  "(\<And>e. keeps P (f e)) \<Longrightarrow> (\<And>x. keeps P (g x)) \<Longrightarrow> keeps P (case r of Inl e \<Rightarrow> f e | Inr x \<Rightarrow> g x)"
  by (cases r) auto

lemma keeps_case_option [frame_intros]:
  "keeps P m \<Longrightarrow> (\<And>x. keeps P (g x)) \<Longrightarrow> keeps P (case r of None \<Rightarrow> m | Some x \<Rightarrow> g x)"
  by (cases r) auto

lemma keeps_case_list [frame_intros]:
  "keeps P m \<Longrightarrow> (\<And>x xs. keeps P (g x xs)) \<Longrightarrow> keeps P (case l of [] \<Rightarrow> m | x # xs \<Rightarrow> g x xs)"
  by (cases l) auto

lemma keeps_case_prod [frame_intros]:
  "(\<And>x y. keeps P (f x y)) \<Longrightarrow> keeps P (case p of (x, y) \<Rightarrow> f x y)"
  by (cases p) auto

lemma keeps_get [frame_intros]: "keeps P State_Monad.get"
  by (rule keepsI) simp

subsection \<open>Association by key\<close>

lemma find_Some_iff_key:
  assumes "distinct (map key rows)"
  shows "find (\<lambda>r. key r = k) rows = Some r \<longleftrightarrow> r \<in> set rows \<and> key r = k"
  using assms by (induction rows) (auto split: if_splits)

lemma distinct_key_eq:
  "distinct (map key rows) \<Longrightarrow> a \<in> set rows \<Longrightarrow> b \<in> set rows \<Longrightarrow> key a = key b \<Longrightarrow> a = b"
  unfolding distinct_map inj_on_def by blast

lemma find_None_key: "find (\<lambda>r. key r = k) rows = None \<longleftrightarrow> k \<notin> key ` set rows"
  by (auto simp: find_None_iff)

lemma sum_list_map_update:
  fixes w :: "'r \<Rightarrow> int"
  assumes "distinct (map key rows)" and "r \<in> set rows"
  shows "(\<Sum>x\<leftarrow>map (\<lambda>x. if key x = key r then f x else x) rows. w x)
       = (\<Sum>x\<leftarrow>rows. w x) + (w (f r) - w r)"
  using assms(1,2)
proof (induction rows)
  case Nil
  then show ?case by simp
next
  case (Cons x xs)
  show ?case
  proof (cases "x = r")
    case True
    then have "map (\<lambda>x. if key x = key r then f x else x) xs = xs"
      using Cons.prems(1) by (intro map_idI) (auto simp: image_iff)
    then show ?thesis using True by simp
  next
    case False
    then have "key x \<noteq> key r" using Cons.prems by auto
    with False Cons show ?thesis by simp
  qed
qed
subsection \<open>Strings\<close>

definition has_prefix :: "string \<Rightarrow> string \<Rightarrow> bool" where
  "has_prefix p s \<longleftrightarrow> take (length p) s = p"

text \<open>A string split at the first, and at every occurrence of a character.\<close>

fun split_at :: "char \<Rightarrow> string \<Rightarrow> string \<times> string" where
  "split_at c [] = ([], [])"
| "split_at c (x # xs) = (if x = c then ([], xs) else (let (a, b) = split_at c xs in (x # a, b)))"

fun split_all :: "char \<Rightarrow> string \<Rightarrow> string list" where
  "split_all c [] = [[]]"
| "split_all c (x # xs) =
     (if x = c then [] # split_all c xs else (case split_all c xs of [] \<Rightarrow> [[x]] | w # ws \<Rightarrow> (x # w) # ws))"

end
