(* ===== verification/JsValues.thy ===== *)
theory JsValues
  imports Prelude
begin

section \<open>JavaScript values at run time\<close>

text \<open>
  The frontend is TypeScript, whose types are erased: what \<^verbatim>\<open>axios\<close> returns is whatever JSON the
  server sent. The values below are what the frontend's expressions meet: property access
  (which throws on \<open>undefined\<close> and \<open>null\<close>), optional chaining, truthiness, \<open>??\<close> and the
  conversion of template literals.
\<close>

datatype js =
    Undefined
  | Null
  | JBool bool
  | JNum int
  | JStr string
  | JObj "(string \<times> js) list"

text \<open>The one exception the frontend's own code can raise.\<close>

datatype js_exn = TypeError

definition nullish :: "js \<Rightarrow> bool" where
  "nullish v \<longleftrightarrow> v = Undefined \<or> v = Null"

text \<open>\<open>v.k\<close> on a value that is neither \<open>undefined\<close> nor \<open>null\<close>. The names read by the
  frontend are no methods or properties of strings, numbers or booleans.\<close>

fun js_member :: "js \<Rightarrow> string \<Rightarrow> js" where
  "js_member (JObj fs) k = (case map_of fs k of None \<Rightarrow> Undefined | Some v \<Rightarrow> v)"
| "js_member _ k = Undefined"

text \<open>\<open>v.k\<close> and \<open>v?.k\<close>.\<close>

definition js_get :: "js \<Rightarrow> string \<Rightarrow> js_exn + js" where
  "js_get v k = (if nullish v then Inl TypeError else Inr (js_member v k))"

definition js_opt :: "js \<Rightarrow> string \<Rightarrow> js" where
  "js_opt v k = (if nullish v then Undefined else js_member v k)"

fun truthy :: "js \<Rightarrow> bool" where
  "truthy Undefined = False"
| "truthy Null = False"
| "truthy (JBool b) = b"
| "truthy (JNum n) = (n \<noteq> 0)"
| "truthy (JStr s) = (s \<noteq> [])"
| "truthy (JObj _) = True"

text \<open>\<open>a ?? b\<close>.\<close>

definition nullish_coalesce :: "js \<Rightarrow> js \<Rightarrow> js" where
  "nullish_coalesce a b = (if nullish a then b else a)"

text \<open>Decimal digits of a natural number, and \<open>String(v)\<close>, which template literals apply.\<close>

fun digits :: "nat \<Rightarrow> string" where
  "digits n = (if n < 10 then [char_of (48 + n)] else digits (n div 10) @ [char_of (48 + n mod 10)])"

declare digits.simps [simp del]

definition decimal :: "int \<Rightarrow> string" where
  "decimal i = (if i < 0 then CHR ''-'' # digits (nat (- i)) else digits (nat i))"

fun js_string :: "js \<Rightarrow> string" where
  "js_string Undefined = ''undefined''"
| "js_string Null = ''null''"
| "js_string (JBool b) = (if b then ''true'' else ''false'')"
| "js_string (JNum n) = decimal n"
| "js_string (JStr s) = s"
| "js_string (JObj _) = ''[object Object]''"

lemma truthy_not_nullish: "truthy v \<Longrightarrow> \<not> nullish v"
  by (cases v) (auto simp: nullish_def)

lemma js_get_truthy [simp]: "truthy v \<Longrightarrow> js_get v k = Inr (js_member v k)"
  by (simp add: js_get_def truthy_not_nullish)

lemma js_opt_truthy [simp]: "truthy v \<Longrightarrow> js_opt v k = js_member v k"
  by (simp add: js_opt_def truthy_not_nullish)

lemma js_get_JObj [simp]: "js_get (JObj fs) k = Inr (js_member (JObj fs) k)"
  by (simp add: js_get_def nullish_def)

end
