(* ===== verification/AuthStore.thy ===== *)
theory AuthStore
  imports JsValues
begin

section \<open>The frontend's authentication store (frontend/src/store.ts, types/, api.ts)\<close>

text \<open>
  The reactive object \<open>state\<close> of \<^verbatim>\<open>store.ts\<close> with its two writers. Its fields hold run-time
  values: the interfaces \<open>User\<close> and \<open>AuthState\<close> of \<^verbatim>\<open>types/\<close> are predicates on them, which the
  compiler assumes and nobody checks.
\<close>

record auth_state =
  st_user :: js
  st_accessToken :: js
  st_refreshToken :: js

definition initial_auth :: auth_state where
  "initial_auth = \<lparr>st_user = Null, st_accessToken = Null, st_refreshToken = Null\<rparr>"

definition setUser :: "js \<Rightarrow> js \<Rightarrow> js \<Rightarrow> auth_state \<Rightarrow> auth_state" where
  "setUser user accessToken refreshToken st =
     st\<lparr>st_user := user, st_accessToken := accessToken, st_refreshToken := refreshToken\<rparr>"

definition clearUser :: "auth_state \<Rightarrow> auth_state" where
  "clearUser st = st\<lparr>st_user := Null, st_accessToken := Null, st_refreshToken := Null\<rparr>"

text \<open>The interfaces of \<^verbatim>\<open>types/user.ts\<close> and \<^verbatim>\<open>types/auth_state.ts\<close>.\<close>

fun is_JStr :: "js \<Rightarrow> bool" where
  "is_JStr (JStr _) = True"
| "is_JStr _ = False"

fun is_JObj :: "js \<Rightarrow> bool" where
  "is_JObj (JObj _) = True"
| "is_JObj _ = False"

definition is_User :: "js \<Rightarrow> bool" where
  "is_User u \<longleftrightarrow> is_JObj u \<and> is_JStr (js_member u ''username'') \<and>
     is_JStr (js_member u ''full_name'') \<and> is_JStr (js_member u ''email'')"

definition is_AuthState :: "auth_state \<Rightarrow> bool" where
  "is_AuthState st \<longleftrightarrow>
     (st_user st = Null \<or> is_User (st_user st)) \<and>
     (st_accessToken st = Null \<or> is_JStr (st_accessToken st)) \<and>
     (st_refreshToken st = Null \<or> is_JStr (st_refreshToken st))"

text \<open>\<^verbatim>\<open>api.ts\<close>: the base address, from the build environment or the default.\<close>

definition API_BASE_URL :: "js \<Rightarrow> js" where
  "API_BASE_URL vite_api_base_url = nullish_coalesce vite_api_base_url (JStr ''http://localhost:8080'')"

text \<open>The test of the navigation guard: \<open>store.state.user !== null\<close>.\<close>

definition isAuthenticated :: "auth_state \<Rightarrow> bool" where
  "isAuthenticated st \<longleftrightarrow> st_user st \<noteq> Null"

lemma setUser_simps [simp]:
  "st_user (setUser u a r st) = u"
  "st_accessToken (setUser u a r st) = a"
  "st_refreshToken (setUser u a r st) = r"
  by (simp_all add: setUser_def)

lemma clearUser_eq_initial [simp]: "clearUser st = initial_auth"
  by (cases st) (simp add: clearUser_def initial_auth_def)

lemma isAuthenticated_initial [simp]: "\<not> isAuthenticated initial_auth"
  by (simp add: isAuthenticated_def initial_auth_def)

lemma isAuthenticated_setUser [simp]: "isAuthenticated (setUser u a r st) \<longleftrightarrow> u \<noteq> Null"
  by (simp add: isAuthenticated_def)

lemma truthy_isAuthenticated: "truthy (st_user st) \<Longrightarrow> isAuthenticated st"
  by (auto simp: isAuthenticated_def)

lemma is_User_truthy: "is_User u \<Longrightarrow> truthy u"
  by (cases u) (auto simp: is_User_def)

text \<open>For a store of the declared type, the guard's test and the template's test agree.\<close>

lemma is_AuthState_test: "is_AuthState st \<Longrightarrow> isAuthenticated st \<longleftrightarrow> truthy (st_user st)"
  by (auto simp: is_AuthState_def isAuthenticated_def dest: is_User_truthy)

lemma is_AuthState_initial: "is_AuthState initial_auth"
  by (simp add: is_AuthState_def initial_auth_def)

lemma is_AuthState_setUser:
  "is_User u \<Longrightarrow> is_JStr a \<Longrightarrow> is_JStr r \<Longrightarrow> is_AuthState (setUser u a r st)"
  by (simp add: is_AuthState_def)

end
