(* ===== verification/NavGuard.thy ===== *)
theory NavGuard
  imports AuthStore
begin

section \<open>Routes and the navigation guard (frontend/src/router/index.ts)\<close>

text \<open>
  The route table and \<open>router.beforeEach\<close> are the source's. The router itself is vue-router: it
  is the parameter \<open>push\<close> below, of which the development uses one documented fact, that a
  navigation ends where the guards send it.
\<close>

datatype view = HomeView | RegisterView | DashboardView

record route =
  r_path :: string
  r_name :: string
  r_component :: view
  r_requiresGuest :: bool
  r_requiresAuth :: bool

definition routes :: "route list" where
  "routes = [
     \<lparr>r_path = ''/'', r_name = ''login'', r_component = HomeView,
      r_requiresGuest = True, r_requiresAuth = False\<rparr>,
     \<lparr>r_path = ''/register'', r_name = ''register'', r_component = RegisterView,
      r_requiresGuest = True, r_requiresAuth = False\<rparr>,
     \<lparr>r_path = ''/dashboard'', r_name = ''dashboard'', r_component = DashboardView,
      r_requiresGuest = False, r_requiresAuth = True\<rparr>,
     \<lparr>r_path = ''/home'', r_name = ''home'', r_component = HomeView,
      r_requiresGuest = True, r_requiresAuth = False\<rparr>]"

text \<open>The route of a path. No route: \<open>to.meta\<close> is empty and nothing is rendered.\<close>

definition match_route :: "string \<Rightarrow> route option" where
  "match_route p = find (\<lambda>r. r_path r = p) routes"

definition meta_requiresGuest :: "string \<Rightarrow> bool" where
  "meta_requiresGuest p = (case match_route p of None \<Rightarrow> False | Some r \<Rightarrow> r_requiresGuest r)"

definition meta_requiresAuth :: "string \<Rightarrow> bool" where
  "meta_requiresAuth p = (case match_route p of None \<Rightarrow> False | Some r \<Rightarrow> r_requiresAuth r)"

text \<open>What the guard hands to \<open>next\<close>: nothing, or a path to go to instead.\<close>

datatype next_arg = Proceed | NextTo string

definition beforeEach :: "auth_state \<Rightarrow> string \<Rightarrow> next_arg" where
  "beforeEach st p =
     (if meta_requiresGuest p \<and> isAuthenticated st then NextTo ''/dashboard''
      else if meta_requiresAuth p \<and> \<not> isAuthenticated st then NextTo ''/''
      else Proceed)"

text \<open>
  What vue-router promises of \<open>router.push(q)\<close> at the location \<open>cur\<close>: going where one is
  changes nothing, a guard that proceeds ends the navigation at \<open>q\<close>, and a guard that calls
  \<open>next(r)\<close> starts the navigation to \<open>r\<close> in its place.
\<close>

definition honours_guard :: "(auth_state \<Rightarrow> string \<Rightarrow> string \<Rightarrow> string) \<Rightarrow> bool" where
  "honours_guard push \<longleftrightarrow> (\<forall>st cur q.
     push st cur cur = cur \<and>
     (q \<noteq> cur \<longrightarrow> (case beforeEach st q of
        Proceed \<Rightarrow> push st cur q = q
      | NextTo r \<Rightarrow> push st cur q = push st cur r)))"

text \<open>The access rule the guard is there for.\<close>

definition may_be_at :: "auth_state \<Rightarrow> string \<Rightarrow> bool" where
  "may_be_at st p \<longleftrightarrow>
     \<not> (meta_requiresGuest p \<and> isAuthenticated st) \<and> \<not> (meta_requiresAuth p \<and> \<not> isAuthenticated st)"

lemma match_route_simps [simp]:
  "match_route ''/'' = Some (routes ! 0)"
  "match_route ''/register'' = Some (routes ! 1)"
  "match_route ''/dashboard'' = Some (routes ! 2)"
  "match_route ''/home'' = Some (routes ! 3)"
  by (simp_all add: match_route_def routes_def)

lemma routes_nth_component [simp]:
  "r_component (routes ! 0) = HomeView" "r_component (routes ! Suc 0) = RegisterView"
  "r_component (routes ! 2) = DashboardView" "r_component (routes ! 3) = HomeView"
  by (simp_all add: routes_def)

lemma meta_simps [simp]:
  "meta_requiresGuest ''/''" "meta_requiresGuest ''/register''" "meta_requiresGuest ''/home''"
  "\<not> meta_requiresGuest ''/dashboard''" "meta_requiresAuth ''/dashboard''"
  "\<not> meta_requiresAuth ''/''" "\<not> meta_requiresAuth ''/register''" "\<not> meta_requiresAuth ''/home''"
  by (simp_all add: meta_requiresGuest_def meta_requiresAuth_def routes_def)

lemma meta_exclusive: "\<not> (meta_requiresGuest p \<and> meta_requiresAuth p)"
  by (auto simp: meta_requiresGuest_def meta_requiresAuth_def match_route_def routes_def
      split: option.splits if_splits)

lemma beforeEach_simps [simp]:
  "isAuthenticated st \<Longrightarrow> beforeEach st ''/dashboard'' = Proceed"
  "\<not> isAuthenticated st \<Longrightarrow> beforeEach st ''/dashboard'' = NextTo ''/''"
  "isAuthenticated st \<Longrightarrow> beforeEach st ''/'' = NextTo ''/dashboard''"
  "\<not> isAuthenticated st \<Longrightarrow> beforeEach st ''/'' = Proceed"
  "isAuthenticated st \<Longrightarrow> beforeEach st ''/home'' = NextTo ''/dashboard''"
  "\<not> isAuthenticated st \<Longrightarrow> beforeEach st ''/home'' = Proceed"
  "isAuthenticated st \<Longrightarrow> beforeEach st ''/register'' = NextTo ''/dashboard''"
  "\<not> isAuthenticated st \<Longrightarrow> beforeEach st ''/register'' = Proceed"
  by (simp_all add: beforeEach_def)

text \<open>A redirect is never redirected: one call of \<open>next(path)\<close> settles every navigation.\<close>

lemma beforeEach_redirect_settles:
  "beforeEach st q = NextTo r \<Longrightarrow> beforeEach st r = Proceed"
  by (auto simp: beforeEach_def split: if_splits)

lemma beforeEach_Proceed_iff: "beforeEach st p = Proceed \<longleftrightarrow> may_be_at st p"
  by (auto simp: beforeEach_def may_be_at_def)

lemma honours_guardD:
  assumes "honours_guard push"
  shows "push st cur cur = cur"
    and "q \<noteq> cur \<Longrightarrow> beforeEach st q = Proceed \<Longrightarrow> push st cur q = q"
    and "q \<noteq> cur \<Longrightarrow> beforeEach st q = NextTo r \<Longrightarrow> push st cur q = push st cur r"
proof -
  note h = assms [unfolded honours_guard_def, THEN spec, THEN spec, THEN spec, of st cur]
  show "push st cur cur = cur" using h [of cur] by simp
  show "q \<noteq> cur \<Longrightarrow> beforeEach st q = Proceed \<Longrightarrow> push st cur q = q" using h [of q] by simp
  show "q \<noteq> cur \<Longrightarrow> beforeEach st q = NextTo r \<Longrightarrow> push st cur q = push st cur r"
    using h [of q] by simp
qed

text \<open>The promise determines the router: the target in closed form.\<close>

definition settled :: "auth_state \<Rightarrow> string \<Rightarrow> string \<Rightarrow> string" where
  "settled st cur q =
     (if q = cur then cur else case beforeEach st q of Proceed \<Rightarrow> q | NextTo r \<Rightarrow> r)"

lemma push_settled:
  assumes "honours_guard push"
  shows "push st cur q = settled st cur q"
proof (cases "q = cur")
  case True
  then show ?thesis by (simp add: settled_def honours_guardD(1) [OF assms])
next
  case False
  show ?thesis
  proof (cases "beforeEach st q")
    case Proceed
    with False show ?thesis by (simp add: settled_def honours_guardD(2) [OF assms])
  next
    case (NextTo r)
    with False have "push st cur q = push st cur r" by (rule honours_guardD(3) [OF assms])
    moreover have "push st cur r = r"
      using beforeEach_redirect_settles [OF NextTo] honours_guardD(1,2) [OF assms] by (cases "r = cur") auto
    ultimately show ?thesis using False NextTo by (simp add: settled_def)
  qed
qed

lemma settled_honours_guard: "honours_guard settled"
  unfolding honours_guard_def
  by (auto simp: settled_def split: next_arg.splits dest: beforeEach_redirect_settles)

lemma settled_may_be_at: "may_be_at st cur \<or> q \<noteq> cur \<Longrightarrow> may_be_at st (settled st cur q)"
  by (auto simp: settled_def beforeEach_Proceed_iff [symmetric] beforeEach_redirect_settles
      split: next_arg.splits)

end
