(* ===== verification/Views.thy ===== *)
theory Views
  imports NavGuard
begin

section \<open>The templates of the frontend (frontend/src/components, views, App.vue)\<close>

text \<open>
  Every template is a function from what it reads (the refs of its script, the store) to the
  tree it renders: elements with their attributes, bound attributes, listeners and models, and
  text. Components of PrimeVue are leaves of this tree, known by their tag. The listeners name
  the functions of the scripts, so that what a user can do in a state is read off the tree.
\<close>

subsection \<open>Trees\<close>

text \<open>The inputs bound by \<^verbatim>\<open>v-model\<close>, and the functions the listeners call. \<open>UserInfoLogout\<close> is
  \<^verbatim>\<open>UserInfo\<close>'s \<open>onLogout\<close>, which emits \<open>logout\<close> with the \<open>user\<close> it was given.\<close>

datatype field = LoginUsername | LoginPassword
  | RegUsername | RegFullName | RegEmail | RegPassword

datatype handler =
    HandleLogin | HandleKeyPress | HandleRegister | UserInfoLogout
  | GoToRegister | GoToDashboard | GoToHome | GoToLogin | Logout

datatype attr =
    At string string
  | Bind string js
  | On string handler
  | VModel field string

datatype vnode =
    El string "attr list" "vnode list"
  | Txt string
  | Interp js

fun attr_listener :: "attr \<Rightarrow> (string \<times> handler) list" where
  "attr_listener (On e h) = [(e, h)]"
| "attr_listener _ = []"

fun attr_model :: "attr \<Rightarrow> field list" where
  "attr_model (VModel f _) = [f]"
| "attr_model _ = []"

fun listeners :: "vnode \<Rightarrow> (string \<times> handler) list" where
  "listeners (El t as cs) = concat (map attr_listener as) @ concat (map listeners cs)"
| "listeners _ = []"

fun models :: "vnode \<Rightarrow> field list" where
  "models (El t as cs) = concat (map attr_model as) @ concat (map models cs)"
| "models _ = []"

text \<open>The elements of a tag, by their attributes.\<close>

fun elements :: "string \<Rightarrow> vnode \<Rightarrow> attr list list" where
  "elements t (El t' as cs) = (if t = t' then [as] else []) @ concat (map (elements t) cs)"
| "elements t _ = []"

subsection \<open>What the templates read\<close>

record login_form =
  lf_username :: string
  lf_password :: string
  lf_errorMessage :: js
  lf_loading :: bool

definition initial_login :: login_form where
  "initial_login = \<lparr>lf_username = [], lf_password = [], lf_errorMessage = JStr [], lf_loading = False\<rparr>"

record register_form =
  rf_username :: string
  rf_password :: string
  rf_fullName :: string
  rf_email :: string
  rf_loading :: bool

definition initial_register :: register_form where
  "initial_register =
     \<lparr>rf_username = [], rf_password = [], rf_fullName = [], rf_email = [], rf_loading = False\<rparr>"

subsection \<open>The components\<close>

definition input_row :: "string \<Rightarrow> attr list \<Rightarrow> string \<Rightarrow> string \<Rightarrow> vnode list \<Rightarrow> vnode" where
  "input_row icon attrs label_for label hint =
     El ''div'' [At ''class'' ''input-wrapper'']
       (El ''InputGroup'' []
          [El ''InputGroupAddon'' [] [El ''i'' [At ''class'' icon] []],
           El ''FloatLabel'' []
             [El ''InputText'' attrs [],
              El ''label'' [At ''for'' label_for] [Txt label]]] # hint)"

definition field_hint :: "string \<Rightarrow> vnode list" where
  "field_hint t = [El ''small'' [At ''class'' ''field-hint''] [Txt t]]"

definition render_LoginUser :: "login_form \<Rightarrow> vnode" where
  "render_LoginUser f =
     El ''Card'' [At ''class'' ''login-card'']
       [El ''template#header'' []
          [El ''div'' [At ''class'' ''card-header'']
             [El ''div'' [At ''class'' ''avatar-circle''] [El ''i'' [At ''class'' ''pi pi-user''] []],
              El ''h2'' [] [Txt ''Sign In''],
              El ''p'' [] [Txt ''Enter your credentials to access your account'']]],
        El ''template#content'' []
          [El ''div'' [At ''class'' ''login-form'']
             [input_row ''pi pi-user''
                [At ''id'' ''username'', VModel LoginUsername (lf_username f),
                 At ''class'' ''input-field'', On ''keypress'' HandleKeyPress]
                ''username'' ''Username'' [],
              input_row ''pi pi-lock''
                [At ''id'' ''password'', At ''type'' ''password'', VModel LoginPassword (lf_password f),
                 At ''class'' ''input-field'', On ''keypress'' HandleKeyPress]
                ''password'' ''Password'' [],
              El ''Button''
                [At ''label'' ''Sign In'', At ''icon'' ''pi pi-sign-in'',
                 Bind ''loading'' (JBool (lf_loading f)), On ''click'' HandleLogin,
                 At ''class'' ''login-button'', At ''severity'' ''success''] [],
              El ''div'' [At ''class'' ''demo-users'']
                [El ''p'' [At ''class'' ''demo-title''] [Txt ''Demo Users:''],
                 El ''div'' [At ''class'' ''demo-list'']
                   [El ''span'' [At ''class'' ''demo-user''] [Txt ''alice / password123''],
                    El ''span'' [At ''class'' ''demo-user''] [Txt ''bob / password123''],
                    El ''span'' [At ''class'' ''demo-user''] [Txt ''demo / demo123456'']]]]]]"

definition render_RegisterUser :: "register_form \<Rightarrow> vnode" where
  "render_RegisterUser f =
     El ''Card'' [At ''class'' ''register-card'']
       [El ''template#header'' []
          [El ''div'' [At ''class'' ''card-header'']
             [El ''div'' [At ''class'' ''avatar-circle''] [El ''i'' [At ''class'' ''pi pi-user-plus''] []],
              El ''h2'' [] [Txt ''Create Account''],
              El ''p'' [] [Txt ''Join Simple Bank today'']]],
        El ''template#content'' []
          [El ''div'' [At ''class'' ''register-form'']
             [input_row ''pi pi-user''
                [At ''id'' ''username'', VModel RegUsername (rf_username f), At ''class'' ''input-field'']
                ''username'' ''Username''
                (field_hint ''3-100 characters, letters, numbers, and underscore only''),
              input_row ''pi pi-id-card''
                [At ''id'' ''fullName'', VModel RegFullName (rf_fullName f), At ''class'' ''input-field'']
                ''fullName'' ''Full Name'' (field_hint ''Letters and spaces only''),
              input_row ''pi pi-envelope''
                [At ''id'' ''email'', VModel RegEmail (rf_email f), At ''type'' ''email'',
                 At ''class'' ''input-field'']
                ''email'' ''Email'' (field_hint ''Valid email address''),
              input_row ''pi pi-lock''
                [At ''id'' ''password'', At ''type'' ''password'', VModel RegPassword (rf_password f),
                 At ''class'' ''input-field'']
                ''password'' ''Password'' (field_hint ''Minimum 6 characters''),
              El ''Button''
                [At ''label'' ''Create Account'', At ''icon'' ''pi pi-user-plus'',
                 Bind ''loading'' (JBool (rf_loading f)), On ''click'' HandleRegister,
                 At ''class'' ''register-button'', At ''severity'' ''success''] []]]]"

text \<open>
  \<open>formatDate\<close> prints a date in the browser's time zone (\<^verbatim>\<open>toLocaleDateString\<close>): its result is the
  parameter \<open>localDate\<close>.
\<close>

definition detail_row :: "string \<Rightarrow> string \<Rightarrow> vnode list \<Rightarrow> vnode" where
  "detail_row icon label value =
     El ''div'' [At ''class'' ''detail-row'']
       [El ''div'' [At ''class'' ''detail-label'']
          [El ''i'' [At ''class'' icon] [], El ''span'' [] [Txt label]],
        El ''div'' [At ''class'' ''detail-value''] value]"

definition role_is_banker :: "js \<Rightarrow> bool" where
  "role_is_banker user \<longleftrightarrow> js_member user ''role'' = JStr ''banker''"

definition formatDate :: "(js \<Rightarrow> string) \<Rightarrow> js \<Rightarrow> js" where
  "formatDate localDate dateString = JStr (localDate dateString)"

definition render_UserInfo :: "(js \<Rightarrow> string) \<Rightarrow> js \<Rightarrow> vnode" where
  "render_UserInfo localDate user =
     (let banker = role_is_banker user;
          verified = truthy (js_member user ''is_email_verified'') in
     El ''Card'' [At ''class'' ''user-card'']
       [El ''template#header'' []
          [El ''div'' [At ''class'' ''profile-header'']
             [El ''div'' [At ''class'' ''avatar-large''] [El ''i'' [At ''class'' ''pi pi-user''] []],
              El ''h2'' [At ''class'' ''user-name''] [Interp (js_member user ''full_name'')],
              El ''p'' [At ''class'' ''user-username''] [Txt ''@'', Interp (js_member user ''username'')],
              El ''Chip''
                [Bind ''label'' (js_member user ''role''),
                 Bind ''icon'' (JStr (if banker then ''pi pi-star'' else ''pi pi-user'')),
                 Bind ''class'' (JStr (if banker then ''role-chip-banker'' else ''role-chip-depositor''))] []]],
        El ''template#content'' []
          [El ''div'' [At ''class'' ''user-details'']
             [detail_row ''pi pi-envelope'' ''Email''
                [El ''a'' [Bind ''href'' (JStr (''mailto:'' @ js_string (js_member user ''email''))),
                           At ''class'' ''email-link'']
                   [Interp (js_member user ''email'')]],
              detail_row ''pi pi-shield'' ''Email Status''
                [El ''Chip''
                   [Bind ''label'' (JStr (if verified then ''Verified'' else ''Not Verified'')),
                    Bind ''icon'' (JStr (if verified then ''pi pi-check-circle'' else ''pi pi-exclamation-triangle'')),
                    Bind ''class'' (JStr (if verified then ''status-verified'' else ''status-unverified''))] []],
              detail_row ''pi pi-calendar'' ''Member Since''
                [Interp (formatDate localDate (js_member user ''created_at''))],
              detail_row ''pi pi-key'' ''Password Changed''
                [Interp (if js_member user ''password_changed_at'' = JStr ''0001-01-01T00:00:00Z''
                         then JStr ''Never''
                         else formatDate localDate (js_member user ''password_changed_at''))]]],
        El ''template#footer'' []
          [El ''div'' [At ''class'' ''card-footer'']
             [El ''Button''
                [At ''label'' ''Sign Out'', At ''icon'' ''pi pi-sign-out'', At ''severity'' ''danger'',
                 At ''outlined'' [], On ''click'' UserInfoLogout, At ''class'' ''logout-button''] []]]])"

subsection \<open>The views\<close>

definition banner :: "string \<Rightarrow> vnode" where
  "banner subtitle =
     El ''div'' [At ''class'' ''header fade-in-up'']
       [El ''div'' [At ''class'' ''logo-container'']
          [El ''i'' [At ''class'' ''pi pi-building logo-icon''] [],
           El ''h1'' [At ''class'' ''title''] [Txt ''Simple Bank'']],
        El ''p'' [At ''class'' ''subtitle''] [Txt subtitle]]"

text \<open>The template of a view, and what it is rendered to: each component tag of its own replaced by the tree
  of that component.\<close>

definition HomeView_template :: "vnode \<Rightarrow> vnode \<Rightarrow> auth_state \<Rightarrow> vnode" where
  "HomeView_template userInfo loginUser st =
     El ''main'' [At ''class'' ''main-container'']
       [El ''Toast'' [] [],
        banner ''Your Trusted Banking Partner'',
        El ''div'' [At ''class'' ''content-container slide-in-left'']
          [(if truthy (st_user st) then userInfo else loginUser),
           (if \<not> truthy (st_user st)
            then El ''div'' [At ''class'' ''action-links'']
                   [El ''p'' [] [Txt ''Don't have an account?''],
                    El ''Button''
                      [At ''label'' ''Create Account'', At ''icon'' ''pi pi-user-plus'', At ''link'' [],
                       On ''click'' GoToRegister, At ''class'' ''link-button''] []]
            else El ''div'' [At ''class'' ''action-links'']
                   [El ''Button''
                      [At ''label'' ''Go to Dashboard'', At ''icon'' ''pi pi-th-large'',
                       On ''click'' GoToDashboard, At ''class'' ''dashboard-button''] []])],
        El ''div'' [At ''class'' ''footer fade-in-up''] [El ''p'' [] [Txt ''Powered by Go + gRPC + Vue 3'']]]"

definition render_HomeView :: "(js \<Rightarrow> string) \<Rightarrow> auth_state \<Rightarrow> login_form \<Rightarrow> vnode" where
  "render_HomeView localDate st f =
     HomeView_template (render_UserInfo localDate (st_user st)) (render_LoginUser f) st"

definition RegisterView_template :: "vnode \<Rightarrow> vnode" where
  "RegisterView_template registerUser =
     El ''main'' [At ''class'' ''main-container'']
       [El ''Toast'' [] [],
        banner ''Create Your Account'',
        El ''div'' [At ''class'' ''content-container slide-in-left'']
          [registerUser,
           El ''div'' [At ''class'' ''back-to-login'']
             [El ''p'' [] [Txt ''Already have an account?''],
              El ''Button''
                [At ''label'' ''Back to Login'', At ''icon'' ''pi pi-arrow-left'', At ''link'' [],
                 On ''click'' GoToLogin] []]]]"

definition render_RegisterView :: "register_form \<Rightarrow> vnode" where
  "render_RegisterView f = RegisterView_template (render_RegisterUser f)"

definition feature_card :: "string \<Rightarrow> attr list \<Rightarrow> string \<Rightarrow> string \<Rightarrow> vnode list \<Rightarrow> vnode" where
  "feature_card cls attrs icon title body =
     El ''Card'' (At ''class'' cls # attrs)
       [El ''template#header'' [] [El ''div'' [At ''class'' ''card-icon''] [El ''i'' [At ''class'' icon] []]],
        El ''template#title'' [] [Txt title],
        El ''template#content'' [] body]"

definition coming_soon :: "string \<Rightarrow> vnode list" where
  "coming_soon t = [El ''p'' [] [Txt t], El ''span'' [At ''class'' ''badge''] [Txt ''Coming Soon'']]"

definition render_DashboardView :: "auth_state \<Rightarrow> vnode" where
  "render_DashboardView st =
     El ''main'' [At ''class'' ''dashboard-container'']
       [El ''Toast'' [] [],
        El ''div'' [At ''class'' ''dashboard-header'']
          [El ''div'' [At ''class'' ''header-content'']
             [El ''div'' [At ''class'' ''logo-section'']
                [El ''i'' [At ''class'' ''pi pi-building''] [], El ''h1'' [] [Txt ''Simple Bank'']],
              El ''div'' [At ''class'' ''user-section'']
                [El ''span'' [At ''class'' ''welcome-text'']
                   [Txt ''Welcome, '', Interp (js_opt (st_user st) ''full_name'')],
                 El ''Button''
                   [At ''icon'' ''pi pi-sign-out'', At ''label'' ''Logout'', At ''outlined'' [],
                    At ''severity'' ''danger'', On ''click'' Logout] []]]],
        El ''div'' [At ''class'' ''dashboard-content'']
          [El ''h2'' [At ''class'' ''section-title''] [Txt ''Dashboard''],
           El ''div'' [At ''class'' ''features-grid'']
             [feature_card ''feature-card'' [On ''click'' GoToHome] ''pi pi-user'' ''My Profile''
                [El ''p'' [] [Txt ''View and manage your personal information'']],
              feature_card ''feature-card coming-soon'' [] ''pi pi-wallet'' ''My Accounts''
                (coming_soon ''Manage your bank accounts''),
              feature_card ''feature-card coming-soon'' [] ''pi pi-send'' ''Transfer Money''
                (coming_soon ''Send money to other accounts''),
              feature_card ''feature-card coming-soon'' [] ''pi pi-history'' ''Transaction History''
                (coming_soon ''View your transaction history'')]]]"

text \<open>\<^verbatim>\<open>App.vue\<close>: the \<open>RouterView\<close> shows the component of the current route, or nothing.\<close>

definition App_template :: "vnode" where
  "App_template = El ''RouterView'' [] []"

text \<open>The router puts the view of the route in the place of \<open>RouterView\<close>.\<close>

definition render_App :: "(js \<Rightarrow> string) \<Rightarrow> string \<Rightarrow> auth_state \<Rightarrow> login_form \<Rightarrow> register_form \<Rightarrow> vnode list" where
  "render_App localDate path st lf rf =
     (case match_route path of
        None \<Rightarrow> []
      | Some r \<Rightarrow>
          (case r_component r of
             HomeView \<Rightarrow> [render_HomeView localDate st lf]
           | RegisterView \<Rightarrow> [render_RegisterView rf]
           | DashboardView \<Rightarrow> [render_DashboardView st]))"

subsection \<open>What the user can do, and what is bound\<close>

lemmas tree_simps = HomeView_template_def RegisterView_template_def input_row_def field_hint_def detail_row_def banner_def feature_card_def
  coming_soon_def Let_def

lemma listeners_LoginUser [simp]:
  "listeners (render_LoginUser f) =
     [(''keypress'', HandleKeyPress), (''keypress'', HandleKeyPress), (''click'', HandleLogin)]"
  by (simp add: render_LoginUser_def tree_simps)

lemma listeners_RegisterUser [simp]: "listeners (render_RegisterUser f) = [(''click'', HandleRegister)]"
  by (simp add: render_RegisterUser_def tree_simps)

lemma listeners_UserInfo [simp]: "listeners (render_UserInfo ld u) = [(''click'', UserInfoLogout)]"
  by (simp add: render_UserInfo_def tree_simps)

lemma listeners_HomeView [simp]:
  "listeners (render_HomeView ld st f) =
     (if truthy (st_user st) then [(''click'', UserInfoLogout), (''click'', GoToDashboard)]
      else [(''keypress'', HandleKeyPress), (''keypress'', HandleKeyPress), (''click'', HandleLogin),
            (''click'', GoToRegister)])"
  by (simp add: render_HomeView_def tree_simps)

lemma listeners_RegisterView [simp]:
  "listeners (render_RegisterView f) = [(''click'', HandleRegister), (''click'', GoToLogin)]"
  by (simp add: render_RegisterView_def tree_simps)

lemma listeners_DashboardView [simp]:
  "listeners (render_DashboardView st) = [(''click'', Logout), (''click'', GoToHome)]"
  by (simp add: render_DashboardView_def tree_simps)

lemma models_LoginUser [simp]: "models (render_LoginUser f) = [LoginUsername, LoginPassword]"
  by (simp add: render_LoginUser_def tree_simps)

lemma models_RegisterUser [simp]:
  "models (render_RegisterUser f) = [RegUsername, RegFullName, RegEmail, RegPassword]"
  by (simp add: render_RegisterUser_def tree_simps)

lemma models_UserInfo [simp]: "models (render_UserInfo ld u) = []"
  by (simp add: render_UserInfo_def tree_simps)

lemma models_HomeView [simp]:
  "models (render_HomeView ld st f) = (if truthy (st_user st) then [] else [LoginUsername, LoginPassword])"
  by (simp add: render_HomeView_def tree_simps)

lemma models_RegisterView [simp]:
  "models (render_RegisterView f) = [RegUsername, RegFullName, RegEmail, RegPassword]"
  by (simp add: render_RegisterView_def tree_simps)

lemma models_DashboardView [simp]: "models (render_DashboardView st) = []"
  by (simp add: render_DashboardView_def tree_simps)

text \<open>The two chips of the profile card: the role and the state of the e-mail address.\<close>

lemma chips_UserInfo:
  "elements ''Chip'' (render_UserInfo ld u) =
     [[Bind ''label'' (js_member u ''role''),
       Bind ''icon'' (JStr (if role_is_banker u then ''pi pi-star'' else ''pi pi-user'')),
       Bind ''class'' (JStr (if role_is_banker u then ''role-chip-banker'' else ''role-chip-depositor''))],
      [Bind ''label'' (JStr (if truthy (js_member u ''is_email_verified'') then ''Verified'' else ''Not Verified'')),
       Bind ''icon'' (JStr (if truthy (js_member u ''is_email_verified'')
         then ''pi pi-check-circle'' else ''pi pi-exclamation-triangle'')),
       Bind ''class'' (JStr (if truthy (js_member u ''is_email_verified'')
         then ''status-verified'' else ''status-unverified''))]]"
  by (simp add: render_UserInfo_def tree_simps)

end
