(* ===== verification/Css.thy ===== *)
theory Css
  imports Views "HOL-Library.Product_Lexorder"
begin

section \<open>The style blocks of the frontend (components/*.vue, views/*.vue)\<close>

text \<open>
  The scoped style sheets, as data, with the part of CSS they use: selectors of tags, classes and
  pseudo-classes joined by descendant combinators, \<^verbatim>\<open>!important\<close>, media queries on the width of the
  window, and the cascade that decides between declarations of one property. The elements are those of
  the template of the same component, on which Vue's scoping lets the sheet act; the root of a PrimeVue
  component takes the class of its tag. Shorthand properties are properties of their own, and the sheets of
  the PrimeVue theme are not part of the model, and \<^verbatim>\<open>main.css\<close> is \<open>GlobalCss\<close>.
\<close>

subsection \<open>Sheets\<close>

datatype css_selector = Tag string | Cls string | NotCls string | Hover | LastChild

text \<open>The compound selectors from the outermost ancestor to the element itself.\<close>

type_synonym css_path = "css_selector list list"

datatype css_decl = Decl string string | Important string string

datatype css_rule = CssRule "css_path list" "css_decl list"

text \<open>\<open>Media n\<close> is \<^verbatim>\<open>@media (max-width: npx)\<close>.\<close>

datatype css_item = Style css_rule | Media nat "css_rule list"

fun decl_name :: "css_decl \<Rightarrow> string" where
  "decl_name (Decl p v) = p"
| "decl_name (Important p v) = p"

fun decl_value :: "css_decl \<Rightarrow> string" where
  "decl_value (Decl p v) = v"
| "decl_value (Important p v) = v"

fun is_important :: "css_decl \<Rightarrow> bool" where
  "is_important (Important p v) = True"
| "is_important _ = False"

subsection \<open>Elements\<close>

text \<open>An element with what selectors see of it; an element in its tree is the list of it and its ancestors.\<close>

record element =
  el_tag :: string
  el_classes :: "string list"
  el_last :: bool
  el_attrs :: "attr list"

fun split_blank :: "string \<Rightarrow> string \<Rightarrow> string list" where
  "split_blank w [] = [w]"
| "split_blank w (c # cs) = (if c = CHR '' '' then w # split_blank [] cs else split_blank (w @ [c]) cs)"

fun attr_classes :: "attr \<Rightarrow> string list" where
  "attr_classes (At n v) = (if n = ''class'' then split_blank [] v else [])"
| "attr_classes (Bind n v) = (if n = ''class'' then split_blank [] (js_string v) else [])"
| "attr_classes _ = []"

fun is_element :: "vnode \<Rightarrow> bool" where
  "is_element (El _ _ _) = True"
| "is_element _ = False"

text \<open>The last child is the last element among its siblings, whatever text follows.\<close>

fun tree_paths :: "element list \<Rightarrow> bool \<Rightarrow> vnode \<Rightarrow> element list list"
  and forest_paths :: "element list \<Rightarrow> vnode list \<Rightarrow> element list list" where
  "tree_paths up is_last (El t as cs) =
     (let e = \<lparr>el_tag = t, el_classes = concat (map attr_classes as), el_last = is_last, el_attrs = as\<rparr>
      in (e # up) # forest_paths (e # up) cs)"
| "tree_paths up is_last (Txt s) = []"
| "tree_paths up is_last (Interp v) = []"
| "forest_paths up [] = []"
| "forest_paths up (c # cs) = tree_paths up (\<not> list_ex is_element cs) c @ forest_paths up cs"

definition element_paths :: "vnode \<Rightarrow> element list list" where
  "element_paths t = tree_paths [] True t"

subsection \<open>Matching and the cascade\<close>

text \<open>\<open>hover\<close> says that the pointer is on the element, hence on its ancestors too.\<close>

fun match_simple :: "bool \<Rightarrow> element \<Rightarrow> css_selector \<Rightarrow> bool" where
  "match_simple hover e (Tag t) = (el_tag e = t)"
| "match_simple hover e (Cls c) = (c \<in> set (el_classes e))"
| "match_simple hover e (NotCls c) = (c \<notin> set (el_classes e))"
| "match_simple hover e Hover = hover"
| "match_simple hover e LastChild = el_last e"

fun match_above :: "bool \<Rightarrow> css_path \<Rightarrow> element list \<Rightarrow> bool" where
  "match_above hover [] es = True"
| "match_above hover (c # cs) [] = False"
| "match_above hover (c # cs) (e # es) =
     (if list_all (match_simple hover e) c then match_above hover cs es else match_above hover (c # cs) es)"

fun match_from :: "bool \<Rightarrow> css_path \<Rightarrow> element list \<Rightarrow> bool" where
  "match_from hover (c # cs) (e # es) = (list_all (match_simple hover e) c \<and> match_above hover cs es)"
| "match_from hover _ _ = False"

definition css_matches :: "bool \<Rightarrow> css_path \<Rightarrow> element list \<Rightarrow> bool" where
  "css_matches hover p es = match_from hover (rev p) es"

text \<open>A sheet as seen by a window of a width: its selectors with their declarations, in order.\<close>

fun rule_decls :: "css_rule \<Rightarrow> (css_path \<times> css_decl) list" where
  "rule_decls (CssRule ps ds) = concat (map (\<lambda>p. map (Pair p) ds) ps)"

fun item_decls :: "nat \<Rightarrow> css_item \<Rightarrow> (css_path \<times> css_decl) list" where
  "item_decls width (Style r) = rule_decls r"
| "item_decls width (Media n rs) = (if width \<le> n then concat (map rule_decls rs) else [])"

definition sheet_decls :: "nat \<Rightarrow> css_item list \<Rightarrow> (css_path \<times> css_decl) list" where
  "sheet_decls width sheet = concat (map (item_decls width) sheet)"

text \<open>Important before specificity (classes and pseudo-classes, then tags) before order.\<close>

fun is_tag :: "css_selector \<Rightarrow> bool" where
  "is_tag (Tag _) = True"
| "is_tag _ = False"

definition weight :: "css_path \<times> css_decl \<Rightarrow> nat \<times> nat \<times> nat" where
  "weight d =
     (if is_important (snd d) then 1 else 0,
      length (filter (\<lambda>s. \<not> is_tag s) (concat (fst d))), length (filter is_tag (concat (fst d))))"

fun heaviest :: "(css_path \<times> css_decl) list \<Rightarrow> (css_path \<times> css_decl) option" where
  "heaviest [] = None"
| "heaviest (d # ds) =
     (case heaviest ds of None \<Rightarrow> Some d | Some d' \<Rightarrow> if weight d \<le> weight d' then Some d' else Some d)"

definition applicable ::
  "bool \<Rightarrow> (css_path \<times> css_decl) list \<Rightarrow> element list \<Rightarrow> string \<Rightarrow> (css_path \<times> css_decl) list" where
  "applicable hover ds es prop = filter (\<lambda>d. decl_name (snd d) = prop \<and> css_matches hover (fst d) es) ds"

definition cascaded :: "nat \<Rightarrow> bool \<Rightarrow> css_item list \<Rightarrow> element list \<Rightarrow> string \<Rightarrow> string option" where
  "cascaded width hover sheet es prop =
     map_option (decl_value \<circ> snd) (heaviest (applicable hover (sheet_decls width sheet) es prop))"

subsection \<open>The sheets\<close>

text \<open>\<^verbatim>\<open>LoginUser.vue\<close>, the style block.\<close>

definition LoginUser_style :: "css_item list" where
  "LoginUser_style =
     [Style (CssRule [[[Cls ''login-card'']]]
        [Decl ''background'' ''rgba(255, 255, 255, 0.95)'', Decl ''backdrop-filter'' ''blur(10px)'',
         Decl ''border-radius'' ''20px'', Decl ''box-shadow'' ''0 20px 60px rgba(0, 0, 0, 0.3)'',
         Decl ''overflow'' ''hidden'']),
      Style (CssRule [[[Cls ''card-header'']]]
        [Decl ''text-align'' ''center'', Decl ''padding'' ''2rem 2rem 0 2rem'',
         Decl ''background'' ''linear-gradient(135deg, #667eea 0%, #764ba2 100%)'',
         Decl ''color'' ''white'', Decl ''margin'' ''-1rem -1rem 0 -1rem'',
         Decl ''padding-bottom'' ''2rem'']),
      Style (CssRule [[[Cls ''avatar-circle'']]]
        [Decl ''width'' ''80px'', Decl ''height'' ''80px'', Decl ''border-radius'' ''50%'',
         Decl ''background'' ''rgba(255, 255, 255, 0.2)'', Decl ''display'' ''flex'',
         Decl ''align-items'' ''center'', Decl ''justify-content'' ''center'',
         Decl ''margin'' ''0 auto 1rem auto'', Decl ''border'' ''3px solid rgba(255, 255, 255, 0.3)'']),
      Style (CssRule [[[Cls ''avatar-circle''], [Tag ''i'']]]
        [Decl ''font-size'' ''2rem'', Decl ''color'' ''white'']),
      Style (CssRule [[[Cls ''card-header''], [Tag ''h2'']]]
        [Decl ''margin'' ''0 0 0.5rem 0'', Decl ''font-size'' ''1.8rem'',
         Decl ''font-weight'' ''600'']),
      Style (CssRule [[[Cls ''card-header''], [Tag ''p'']]]
        [Decl ''margin'' ''0'', Decl ''font-size'' ''0.95rem'', Decl ''opacity'' ''0.9'',
         Decl ''font-weight'' ''300'']),
      Style (CssRule [[[Cls ''login-form'']]]
        [Decl ''padding'' ''1rem 0'']),
      Style (CssRule [[[Cls ''input-wrapper'']]]
        [Decl ''margin-bottom'' ''1.5rem'']),
      Style (CssRule [[[Cls ''input-field'']]]
        [Decl ''width'' ''100%'', Decl ''padding'' ''0.75rem'', Decl ''font-size'' ''1rem'']),
      Style (CssRule [[[Cls ''login-button'']]]
        [Decl ''width'' ''100%'', Decl ''padding'' ''0.75rem'', Decl ''font-size'' ''1.1rem'',
         Decl ''font-weight'' ''600'', Decl ''border-radius'' ''10px'', Decl ''margin-top'' ''1rem'',
         Decl ''transition'' ''all 0.3s ease'']),
      Style (CssRule [[[Cls ''login-button'', Hover]]]
        [Decl ''transform'' ''translateY(-2px)'',
         Decl ''box-shadow'' ''0 5px 15px rgba(102, 126, 234, 0.4)'']),
      Style (CssRule [[[Cls ''demo-users'']]]
        [Decl ''margin-top'' ''2rem'', Decl ''padding-top'' ''1.5rem'',
         Decl ''border-top'' ''1px solid rgba(0, 0, 0, 0.1)'', Decl ''text-align'' ''center'']),
      Style (CssRule [[[Cls ''demo-title'']]]
        [Decl ''font-size'' ''0.85rem'', Decl ''color'' ''#666'', Decl ''margin-bottom'' ''0.5rem'',
         Decl ''font-weight'' ''600'']),
      Style (CssRule [[[Cls ''demo-list'']]]
        [Decl ''display'' ''flex'', Decl ''flex-direction'' ''column'', Decl ''gap'' ''0.3rem'']),
      Style (CssRule [[[Cls ''demo-user'']]]
        [Decl ''font-size'' ''0.8rem'', Decl ''color'' ''#667eea'',
         Decl ''font-family'' ([CHR 0x27] @ ''Courier New'' @ [CHR 0x27] @ '', monospace''),
         Decl ''background'' ''rgba(102, 126, 234, 0.1)'', Decl ''padding'' ''0.3rem 0.6rem'',
         Decl ''border-radius'' ''5px'', Decl ''display'' ''inline-block'']),
      Media 768
       [CssRule [[[Cls ''card-header'']]]
          [Decl ''padding'' ''1.5rem 1.5rem 1.5rem 1.5rem''],
        CssRule [[[Cls ''avatar-circle'']]]
          [Decl ''width'' ''60px'', Decl ''height'' ''60px''],
        CssRule [[[Cls ''avatar-circle''], [Tag ''i'']]]
          [Decl ''font-size'' ''1.5rem''],
        CssRule [[[Cls ''card-header''], [Tag ''h2'']]]
          [Decl ''font-size'' ''1.5rem'']]]"

text \<open>\<^verbatim>\<open>RegisterUser.vue\<close>, the style block.\<close>

definition RegisterUser_style :: "css_item list" where
  "RegisterUser_style =
     [Style (CssRule [[[Cls ''register-card'']]]
        [Decl ''background'' ''rgba(255, 255, 255, 0.95)'', Decl ''backdrop-filter'' ''blur(10px)'',
         Decl ''border-radius'' ''20px'', Decl ''box-shadow'' ''0 20px 60px rgba(0, 0, 0, 0.3)'',
         Decl ''overflow'' ''hidden'']),
      Style (CssRule [[[Cls ''card-header'']]]
        [Decl ''text-align'' ''center'', Decl ''padding'' ''2rem 2rem 0 2rem'',
         Decl ''background'' ''linear-gradient(135deg, #667eea 0%, #764ba2 100%)'',
         Decl ''color'' ''white'', Decl ''margin'' ''-1rem -1rem 0 -1rem'',
         Decl ''padding-bottom'' ''2rem'']),
      Style (CssRule [[[Cls ''avatar-circle'']]]
        [Decl ''width'' ''80px'', Decl ''height'' ''80px'', Decl ''border-radius'' ''50%'',
         Decl ''background'' ''rgba(255, 255, 255, 0.2)'', Decl ''display'' ''flex'',
         Decl ''align-items'' ''center'', Decl ''justify-content'' ''center'',
         Decl ''margin'' ''0 auto 1rem auto'', Decl ''border'' ''3px solid rgba(255, 255, 255, 0.3)'']),
      Style (CssRule [[[Cls ''avatar-circle''], [Tag ''i'']]]
        [Decl ''font-size'' ''2rem'', Decl ''color'' ''white'']),
      Style (CssRule [[[Cls ''card-header''], [Tag ''h2'']]]
        [Decl ''margin'' ''0 0 0.5rem 0'', Decl ''font-size'' ''1.8rem'',
         Decl ''font-weight'' ''600'']),
      Style (CssRule [[[Cls ''card-header''], [Tag ''p'']]]
        [Decl ''margin'' ''0'', Decl ''font-size'' ''0.95rem'', Decl ''opacity'' ''0.9'',
         Decl ''font-weight'' ''300'']),
      Style (CssRule [[[Cls ''register-form'']]]
        [Decl ''padding'' ''1rem 0'']),
      Style (CssRule [[[Cls ''input-wrapper'']]]
        [Decl ''margin-bottom'' ''1.5rem'']),
      Style (CssRule [[[Cls ''input-field'']]]
        [Decl ''width'' ''100%'', Decl ''padding'' ''0.75rem'', Decl ''font-size'' ''1rem'']),
      Style (CssRule [[[Cls ''field-hint'']]]
        [Decl ''display'' ''block'', Decl ''margin-top'' ''0.3rem'', Decl ''margin-left'' ''3rem'',
         Decl ''color'' ''#666'', Decl ''font-size'' ''0.75rem'']),
      Style (CssRule [[[Cls ''register-button'']]]
        [Decl ''width'' ''100%'', Decl ''padding'' ''0.75rem'', Decl ''font-size'' ''1.1rem'',
         Decl ''font-weight'' ''600'', Decl ''border-radius'' ''10px'', Decl ''margin-top'' ''1rem'',
         Decl ''transition'' ''all 0.3s ease'']),
      Style (CssRule [[[Cls ''register-button'', Hover]]]
        [Decl ''transform'' ''translateY(-2px)'',
         Decl ''box-shadow'' ''0 5px 15px rgba(102, 126, 234, 0.4)'']),
      Media 768
       [CssRule [[[Cls ''card-header'']]]
          [Decl ''padding'' ''1.5rem 1.5rem 1.5rem 1.5rem''],
        CssRule [[[Cls ''avatar-circle'']]]
          [Decl ''width'' ''60px'', Decl ''height'' ''60px''],
        CssRule [[[Cls ''avatar-circle''], [Tag ''i'']]]
          [Decl ''font-size'' ''1.5rem''],
        CssRule [[[Cls ''card-header''], [Tag ''h2'']]]
          [Decl ''font-size'' ''1.5rem'']]]"

text \<open>\<^verbatim>\<open>UserInfo.vue\<close>, the style block.\<close>

definition UserInfo_style :: "css_item list" where
  "UserInfo_style =
     [Style (CssRule [[[Cls ''user-card'']]]
        [Decl ''background'' ''rgba(255, 255, 255, 0.95)'', Decl ''backdrop-filter'' ''blur(10px)'',
         Decl ''border-radius'' ''20px'', Decl ''box-shadow'' ''0 20px 60px rgba(0, 0, 0, 0.3)'',
         Decl ''overflow'' ''hidden'']),
      Style (CssRule [[[Cls ''profile-header'']]]
        [Decl ''text-align'' ''center'', Decl ''padding'' ''2rem'',
         Decl ''background'' ''linear-gradient(135deg, #667eea 0%, #764ba2 100%)'',
         Decl ''color'' ''white'', Decl ''margin'' ''-1rem -1rem 0 -1rem'']),
      Style (CssRule [[[Cls ''avatar-large'']]]
        [Decl ''width'' ''100px'', Decl ''height'' ''100px'', Decl ''border-radius'' ''50%'',
         Decl ''background'' ''rgba(255, 255, 255, 0.2)'', Decl ''display'' ''flex'',
         Decl ''align-items'' ''center'', Decl ''justify-content'' ''center'',
         Decl ''margin'' ''0 auto 1rem auto'', Decl ''border'' ''4px solid rgba(255, 255, 255, 0.3)'',
         Decl ''box-shadow'' ''0 10px 30px rgba(0, 0, 0, 0.2)'']),
      Style (CssRule [[[Cls ''avatar-large''], [Tag ''i'']]]
        [Decl ''font-size'' ''3rem'', Decl ''color'' ''white'']),
      Style (CssRule [[[Cls ''user-name'']]]
        [Decl ''margin'' ''0 0 0.25rem 0'', Decl ''font-size'' ''2rem'', Decl ''font-weight'' ''700'',
         Decl ''text-shadow'' ''0 2px 4px rgba(0, 0, 0, 0.1)'']),
      Style (CssRule [[[Cls ''user-username'']]]
        [Decl ''margin'' ''0 0 1rem 0'', Decl ''font-size'' ''1.1rem'', Decl ''opacity'' ''0.9'',
         Decl ''font-weight'' ''300'']),
      Style (CssRule [[[Cls ''role-chip-banker'']], [[Cls ''role-chip-depositor'']]]
        [Decl ''font-weight'' ''600'', Decl ''text-transform'' ''uppercase'',
         Decl ''font-size'' ''0.85rem'', Decl ''padding'' ''0.5rem 1rem'']),
      Style (CssRule [[[Cls ''role-chip-banker'']]]
        [Important ''background'' ''rgba(255, 215, 0, 0.9)'', Important ''color'' ''#000'']),
      Style (CssRule [[[Cls ''role-chip-depositor'']]]
        [Important ''background'' ''rgba(255, 255, 255, 0.3)'', Important ''color'' ''white'']),
      Style (CssRule [[[Cls ''user-details'']]]
        [Decl ''padding'' ''1rem 0'']),
      Style (CssRule [[[Cls ''detail-row'']]]
        [Decl ''display'' ''flex'', Decl ''justify-content'' ''space-between'',
         Decl ''align-items'' ''center'', Decl ''padding'' ''1rem'',
         Decl ''border-bottom'' ''1px solid rgba(0, 0, 0, 0.05)'',
         Decl ''transition'' ''background-color 0.3s ease'']),
      Style (CssRule [[[Cls ''detail-row'', Hover]]]
        [Decl ''background-color'' ''rgba(102, 126, 234, 0.05)'']),
      Style (CssRule [[[Cls ''detail-row'', LastChild]]]
        [Decl ''border-bottom'' ''none'']),
      Style (CssRule [[[Cls ''detail-label'']]]
        [Decl ''display'' ''flex'', Decl ''align-items'' ''center'', Decl ''gap'' ''0.75rem'',
         Decl ''font-weight'' ''600'', Decl ''color'' ''#555'']),
      Style (CssRule [[[Cls ''detail-label''], [Tag ''i'']]]
        [Decl ''color'' ''#667eea'', Decl ''font-size'' ''1.2rem'']),
      Style (CssRule [[[Cls ''detail-value'']]]
        [Decl ''color'' ''#333'', Decl ''font-weight'' ''500'']),
      Style (CssRule [[[Cls ''email-link'']]]
        [Decl ''color'' ''#667eea'', Decl ''text-decoration'' ''none'',
         Decl ''transition'' ''all 0.3s ease'']),
      Style (CssRule [[[Cls ''email-link'', Hover]]]
        [Decl ''color'' ''#764ba2'', Decl ''text-decoration'' ''underline'']),
      Style (CssRule [[[Cls ''status-verified'']]]
        [Important ''background'' ''rgba(34, 197, 94, 0.2)'', Important ''color'' ''#16a34a'']),
      Style (CssRule [[[Cls ''status-unverified'']]]
        [Important ''background'' ''rgba(251, 146, 60, 0.2)'', Important ''color'' ''#ea580c'']),
      Style (CssRule [[[Cls ''card-footer'']]]
        [Decl ''padding'' ''1rem 0 0 0'', Decl ''display'' ''flex'',
         Decl ''justify-content'' ''center'']),
      Style (CssRule [[[Cls ''logout-button'']]]
        [Decl ''width'' ''100%'', Decl ''padding'' ''0.75rem'', Decl ''font-size'' ''1rem'',
         Decl ''font-weight'' ''600'', Decl ''border-radius'' ''10px'',
         Decl ''transition'' ''all 0.3s ease'']),
      Style (CssRule [[[Cls ''logout-button'', Hover]]]
        [Decl ''transform'' ''translateY(-2px)'',
         Decl ''box-shadow'' ''0 5px 15px rgba(239, 68, 68, 0.3)''])]"

text \<open>\<^verbatim>\<open>UserInfo.vue\<close>, the style block.\<close>

definition UserInfo_narrow :: "css_item list" where
  "UserInfo_narrow =
     [Media 768
       [CssRule [[[Cls ''avatar-large'']]]
          [Decl ''width'' ''80px'', Decl ''height'' ''80px''],
        CssRule [[[Cls ''avatar-large''], [Tag ''i'']]]
          [Decl ''font-size'' ''2.5rem''],
        CssRule [[[Cls ''user-name'']]]
          [Decl ''font-size'' ''1.5rem''],
        CssRule [[[Cls ''detail-row'']]]
          [Decl ''flex-direction'' ''column'', Decl ''align-items'' ''flex-start'',
           Decl ''gap'' ''0.5rem''],
        CssRule [[[Cls ''detail-value'']]]
          [Decl ''width'' ''100%'']]]"

text \<open>\<^verbatim>\<open>HomeView.vue\<close>, the style block.\<close>

definition HomeView_style :: "css_item list" where
  "HomeView_style =
     [Style (CssRule [[[Cls ''main-container'']]]
        [Decl ''min-height'' ''80vh'', Decl ''display'' ''flex'', Decl ''flex-direction'' ''column'',
         Decl ''align-items'' ''center'', Decl ''justify-content'' ''center'', Decl ''gap'' ''2rem'']),
      Style (CssRule [[[Cls ''header'']]]
        [Decl ''text-align'' ''center'', Decl ''margin-bottom'' ''2rem'']),
      Style (CssRule [[[Cls ''logo-container'']]]
        [Decl ''display'' ''flex'', Decl ''align-items'' ''center'',
         Decl ''justify-content'' ''center'', Decl ''gap'' ''1rem'',
         Decl ''margin-bottom'' ''0.5rem'']),
      Style (CssRule [[[Cls ''logo-icon'']]]
        [Decl ''font-size'' ''3rem'', Decl ''color'' ''white'',
         Decl ''animation'' ''float 3s ease-in-out infinite'']),
      Style (CssRule [[[Cls ''title'']]]
        [Decl ''font-size'' ''3rem'', Decl ''font-weight'' ''700'', Decl ''color'' ''white'',
         Decl ''margin'' ''0'', Decl ''text-shadow'' ''0 4px 6px rgba(0, 0, 0, 0.1)'']),
      Style (CssRule [[[Cls ''subtitle'']]]
        [Decl ''font-size'' ''1.1rem'', Decl ''color'' ''rgba(255, 255, 255, 0.9)'',
         Decl ''font-weight'' ''300'', Decl ''letter-spacing'' ''1px'']),
      Style (CssRule [[[Cls ''content-container'']]]
        [Decl ''width'' ''100%'', Decl ''max-width'' ''500px'', Decl ''margin'' ''0 auto'']),
      Style (CssRule [[[Cls ''action-links'']]]
        [Decl ''margin-top'' ''2rem'', Decl ''text-align'' ''center'', Decl ''color'' ''white'']),
      Style (CssRule [[[Cls ''action-links''], [Tag ''p'']]]
        [Decl ''margin-bottom'' ''0.5rem'', Decl ''font-size'' ''0.95rem'']),
      Style (CssRule [[[Cls ''link-button'']]]
        [Important ''font-size'' ''1.1rem'', Important ''color'' ''white'',
         Important ''font-weight'' ''600'']),
      Style (CssRule [[[Cls ''link-button'', Hover]]]
        [Important ''text-decoration'' ''underline'']),
      Style (CssRule [[[Cls ''dashboard-button'']]]
        [Decl ''width'' ''100%'', Decl ''padding'' ''0.75rem'', Decl ''font-size'' ''1.1rem'',
         Decl ''font-weight'' ''600'', Decl ''border-radius'' ''10px'',
         Decl ''transition'' ''all 0.3s ease'']),
      Style (CssRule [[[Cls ''dashboard-button'', Hover]]]
        [Decl ''transform'' ''translateY(-2px)'',
         Decl ''box-shadow'' ''0 5px 15px rgba(102, 126, 234, 0.4)'']),
      Style (CssRule [[[Cls ''footer'']]]
        [Decl ''margin-top'' ''3rem'', Decl ''text-align'' ''center'',
         Decl ''color'' ''rgba(255, 255, 255, 0.7)'', Decl ''font-size'' ''0.9rem'']),
      Media 768
       [CssRule [[[Cls ''title'']]]
          [Decl ''font-size'' ''2rem''],
        CssRule [[[Cls ''logo-icon'']]]
          [Decl ''font-size'' ''2rem''],
        CssRule [[[Cls ''subtitle'']]]
          [Decl ''font-size'' ''1rem'']]]"

text \<open>\<^verbatim>\<open>RegisterView.vue\<close>, the style block.\<close>

definition RegisterView_style :: "css_item list" where
  "RegisterView_style =
     [Style (CssRule [[[Cls ''main-container'']]]
        [Decl ''min-height'' ''80vh'', Decl ''display'' ''flex'', Decl ''flex-direction'' ''column'',
         Decl ''align-items'' ''center'', Decl ''justify-content'' ''center'', Decl ''gap'' ''2rem'']),
      Style (CssRule [[[Cls ''header'']]]
        [Decl ''text-align'' ''center'', Decl ''margin-bottom'' ''2rem'']),
      Style (CssRule [[[Cls ''logo-container'']]]
        [Decl ''display'' ''flex'', Decl ''align-items'' ''center'',
         Decl ''justify-content'' ''center'', Decl ''gap'' ''1rem'',
         Decl ''margin-bottom'' ''0.5rem'']),
      Style (CssRule [[[Cls ''logo-icon'']]]
        [Decl ''font-size'' ''3rem'', Decl ''color'' ''white'',
         Decl ''animation'' ''float 3s ease-in-out infinite'']),
      Style (CssRule [[[Cls ''title'']]]
        [Decl ''font-size'' ''3rem'', Decl ''font-weight'' ''700'', Decl ''color'' ''white'',
         Decl ''margin'' ''0'', Decl ''text-shadow'' ''0 4px 6px rgba(0, 0, 0, 0.1)'']),
      Style (CssRule [[[Cls ''subtitle'']]]
        [Decl ''font-size'' ''1.1rem'', Decl ''color'' ''rgba(255, 255, 255, 0.9)'',
         Decl ''font-weight'' ''300'', Decl ''letter-spacing'' ''1px'']),
      Style (CssRule [[[Cls ''content-container'']]]
        [Decl ''width'' ''100%'', Decl ''max-width'' ''500px'', Decl ''margin'' ''0 auto'']),
      Style (CssRule [[[Cls ''back-to-login'']]]
        [Decl ''margin-top'' ''2rem'', Decl ''text-align'' ''center'', Decl ''color'' ''white'']),
      Style (CssRule [[[Cls ''back-to-login''], [Tag ''p'']]]
        [Decl ''margin-bottom'' ''0.5rem'', Decl ''font-size'' ''0.95rem'']),
      Media 768
       [CssRule [[[Cls ''title'']]]
          [Decl ''font-size'' ''2rem''],
        CssRule [[[Cls ''logo-icon'']]]
          [Decl ''font-size'' ''2rem''],
        CssRule [[[Cls ''subtitle'']]]
          [Decl ''font-size'' ''1rem'']]]"

text \<open>\<^verbatim>\<open>DashboardView.vue\<close>, the style block.\<close>

definition DashboardView_style :: "css_item list" where
  "DashboardView_style =
     [Style (CssRule [[[Cls ''dashboard-container'']]]
        [Decl ''min-height'' ''100vh'',
         Decl ''background'' ''linear-gradient(135deg, #667eea 0%, #764ba2 100%)'']),
      Style (CssRule [[[Cls ''dashboard-header'']]]
        [Decl ''background'' ''rgba(255, 255, 255, 0.1)'', Decl ''backdrop-filter'' ''blur(10px)'',
         Decl ''border-bottom'' ''1px solid rgba(255, 255, 255, 0.2)'',
         Decl ''padding'' ''1.5rem 2rem'']),
      Style (CssRule [[[Cls ''header-content'']]]
        [Decl ''max-width'' ''1200px'', Decl ''margin'' ''0 auto'', Decl ''display'' ''flex'',
         Decl ''justify-content'' ''space-between'', Decl ''align-items'' ''center'']),
      Style (CssRule [[[Cls ''logo-section'']]]
        [Decl ''display'' ''flex'', Decl ''align-items'' ''center'', Decl ''gap'' ''1rem'',
         Decl ''color'' ''white'']),
      Style (CssRule [[[Cls ''logo-section''], [Tag ''i'']]]
        [Decl ''font-size'' ''2rem'']),
      Style (CssRule [[[Cls ''logo-section''], [Tag ''h1'']]]
        [Decl ''font-size'' ''1.5rem'', Decl ''font-weight'' ''700'', Decl ''margin'' ''0'']),
      Style (CssRule [[[Cls ''user-section'']]]
        [Decl ''display'' ''flex'', Decl ''align-items'' ''center'', Decl ''gap'' ''1.5rem'']),
      Style (CssRule [[[Cls ''welcome-text'']]]
        [Decl ''color'' ''white'', Decl ''font-weight'' ''500'']),
      Style (CssRule [[[Cls ''dashboard-content'']]]
        [Decl ''max-width'' ''1200px'', Decl ''margin'' ''0 auto'', Decl ''padding'' ''3rem 2rem'']),
      Style (CssRule [[[Cls ''section-title'']]]
        [Decl ''color'' ''white'', Decl ''font-size'' ''2.5rem'', Decl ''font-weight'' ''700'',
         Decl ''margin-bottom'' ''2rem'', Decl ''text-shadow'' ''0 4px 6px rgba(0, 0, 0, 0.1)'']),
      Style (CssRule [[[Cls ''features-grid'']]]
        [Decl ''display'' ''grid'',
         Decl ''grid-template-columns'' ''repeat(auto-fit, minmax(280px, 1fr))'',
         Decl ''gap'' ''2rem'']),
      Style (CssRule [[[Cls ''feature-card'']]]
        [Decl ''background'' ''rgba(255, 255, 255, 0.95)'', Decl ''backdrop-filter'' ''blur(10px)'',
         Decl ''border-radius'' ''15px'', Decl ''cursor'' ''pointer'',
         Decl ''transition'' ''all 0.3s ease'', Decl ''position'' ''relative'']),
      Style (CssRule [[[Cls ''feature-card'', NotCls ''coming-soon'', Hover]]]
        [Decl ''transform'' ''translateY(-5px)'',
         Decl ''box-shadow'' ''0 15px 40px rgba(0, 0, 0, 0.3)'']),
      Style (CssRule [[[Cls ''feature-card'', Cls ''coming-soon'']]]
        [Decl ''opacity'' ''0.7'', Decl ''cursor'' ''not-allowed'']),
      Style (CssRule [[[Cls ''card-icon'']]]
        [Decl ''display'' ''flex'', Decl ''align-items'' ''center'',
         Decl ''justify-content'' ''center'', Decl ''height'' ''100px'',
         Decl ''background'' ''linear-gradient(135deg, #667eea 0%, #764ba2 100%)'',
         Decl ''margin'' ''-1rem -1rem 0 -1rem'', Decl ''border-radius'' ''15px 15px 0 0'']),
      Style (CssRule [[[Cls ''card-icon''], [Tag ''i'']]]
        [Decl ''font-size'' ''3rem'', Decl ''color'' ''white'']),
      Style (CssRule [[[Cls ''badge'']]]
        [Decl ''display'' ''inline-block'', Decl ''background'' ''rgba(251, 146, 60, 0.2)'',
         Decl ''color'' ''#ea580c'', Decl ''padding'' ''0.3rem 0.6rem'',
         Decl ''border-radius'' ''5px'', Decl ''font-size'' ''0.75rem'', Decl ''font-weight'' ''600'',
         Decl ''margin-top'' ''0.5rem'']),
      Media 768
       [CssRule [[[Cls ''header-content'']]]
          [Decl ''flex-direction'' ''column'', Decl ''gap'' ''1rem'', Decl ''text-align'' ''center''],
        CssRule [[[Cls ''user-section'']]]
          [Decl ''flex-direction'' ''column'', Decl ''gap'' ''0.5rem''],
        CssRule [[[Cls ''section-title'']]]
          [Decl ''font-size'' ''2rem''],
        CssRule [[[Cls ''features-grid'']]]
          [Decl ''grid-template-columns'' ''1fr'']]]"

definition UserInfo_sheet :: "css_item list" where
  "UserInfo_sheet = UserInfo_style @ UserInfo_narrow"

end
