(* ===== verification/StyleProps.thy ===== *)
theory StyleProps
  imports Css
begin

section \<open>What the style sheets make of the templates\<close>

text \<open>
  Lemmas on the cascade, the sheet of each component with the trees it renders (\<open>styled\<close>), and what follows
  for the user: responsive rules that apply, no dead rules, cards that look as they act. The sheets and trees
  are compared by evaluation; what holds for every width and every state is derived from that.
\<close>

subsection \<open>The cascade\<close>

lemma heaviest_None [simp]: "heaviest ds = None \<longleftrightarrow> ds = []"
  by (cases ds) (auto split: option.splits)

lemma heaviest_in: "heaviest ds = Some d \<Longrightarrow> d \<in> set ds"
  by (induction ds arbitrary: d) (auto split: option.splits if_splits)

lemma heaviest_weight: "heaviest ds = Some d \<Longrightarrow> e \<in> set ds \<Longrightarrow> weight e \<le> weight d"
  by (induction ds arbitrary: d) (auto split: option.splits if_splits)

text \<open>A sheet depends on the width only through its media queries.\<close>

fun breakpoints :: "css_item list \<Rightarrow> nat list" where
  "breakpoints [] = []"
| "breakpoints (Style r # is) = breakpoints is"
| "breakpoints (Media n rs # is) = n # breakpoints is"

lemma sheet_decls_width:
  assumes "\<forall>n \<in> set (breakpoints sheet). (width \<le> n) = (width' \<le> n)"
  shows "sheet_decls width sheet = sheet_decls width' sheet"
  using assms by (induction sheet rule: breakpoints.induct) (auto simp: sheet_decls_def)

text \<open>The declarations of the media blocks, and the sheet without them.\<close>

fun media_decls :: "css_item list \<Rightarrow> (css_path \<times> css_decl) list" where
  "media_decls [] = []"
| "media_decls (Style r # is) = media_decls is"
| "media_decls (Media n rs # is) = concat (map rule_decls rs) @ media_decls is"

fun wide_sheet :: "css_item list \<Rightarrow> css_item list" where
  "wide_sheet [] = []"
| "wide_sheet (Style r # is) = Style r # wide_sheet is"
| "wide_sheet (Media n rs # is) = wide_sheet is"

lemma sheet_decls_wide:
  assumes "\<forall>n \<in> set (breakpoints sheet). n < width"
  shows "sheet_decls width sheet = sheet_decls width (wide_sheet sheet)"
  using assms by (induction sheet rule: breakpoints.induct) (auto simp: sheet_decls_def)

subsection \<open>Components and their sheets\<close>

inductive styled :: "css_item list \<Rightarrow> vnode \<Rightarrow> bool" where
  "styled LoginUser_style (render_LoginUser f)"
| "styled RegisterUser_style (render_RegisterUser g)"
| "styled UserInfo_sheet (render_UserInfo ld u)"
| "styled HomeView_style (render_HomeView ld st f)"
| "styled RegisterView_style (render_RegisterView g)"
| "styled DashboardView_style (render_DashboardView st)"

inductive_cases styledE: "styled sheet t"


subsection \<open>No rule is dead\<close>

fun rule_paths :: "css_rule \<Rightarrow> css_path list" where
  "rule_paths (CssRule ps ds) = ps"

fun item_paths :: "css_item \<Rightarrow> css_path list" where
  "item_paths (Style r) = rule_paths r"
| "item_paths (Media n rs) = concat (map rule_paths rs)"

definition sheet_paths :: "css_item list \<Rightarrow> css_path list" where
  "sheet_paths sheet = concat (map item_paths sheet)"

definition live :: "css_item list \<Rightarrow> element list list \<Rightarrow> bool" where
  "live sheet ess \<longleftrightarrow> list_all (\<lambda>p. list_ex (css_matches True p) ess) (sheet_paths sheet)"

lemma live_LoginUser: "live LoginUser_style (element_paths (render_LoginUser initial_login))"
  by code_simp

lemma live_RegisterUser: "live RegisterUser_style (element_paths (render_RegisterUser initial_register))"
  by code_simp

definition plain_user :: js where
  "plain_user = JObj []"

definition verified_banker :: js where
  "verified_banker = JObj [(''role'', JStr ''banker''), (''is_email_verified'', JBool True)]"

lemma live_UserInfo:
  "live UserInfo_sheet (element_paths (render_UserInfo (\<lambda>_. []) plain_user) @ element_paths (render_UserInfo (\<lambda>_. []) verified_banker))"
  by code_simp

lemma live_HomeView:
  "live HomeView_style (element_paths (render_HomeView (\<lambda>_. []) initial_auth initial_login) @
     element_paths (render_HomeView (\<lambda>_. []) (initial_auth\<lparr>st_user := plain_user\<rparr>) initial_login))"
  by code_simp

lemma live_RegisterView: "live RegisterView_style (element_paths (render_RegisterView initial_register))"
  by code_simp

lemma live_DashboardView: "live DashboardView_style (element_paths (render_DashboardView initial_auth))"
  by code_simp

subsection \<open>Narrow windows\<close>

text \<open>Two selectors conflict when the one of the media block declares a property that the other one, outside
  it, declares with more weight.\<close>

definition conflicts :: "css_item list \<Rightarrow> (css_path \<times> css_path) list" where
  "conflicts sheet =
     concat (map (\<lambda>b. map (\<lambda>a. (fst b, fst a))
        (filter (\<lambda>a. decl_name (snd a) = decl_name (snd b) \<and> \<not> weight a \<le> weight b) (sheet_decls 768 (wide_sheet sheet))))
       (media_decls sheet))"

lemma conflict_lists:
  "conflicts LoginUser_style = []" "conflicts RegisterUser_style = []"
  "conflicts UserInfo_sheet =
     [([[Cls ''user-name'']], [[Cls ''avatar-large''], [Tag ''i'']]),
      ([[Cls ''user-name'']], [[Cls ''detail-label''], [Tag ''i'']])]"
  "conflicts HomeView_style =
     [([[Cls ''title'']], [[Cls ''action-links''], [Tag ''p'']]), ([[Cls ''title'']], [[Cls ''link-button'']]),
      ([[Cls ''logo-icon'']], [[Cls ''action-links''], [Tag ''p'']]), ([[Cls ''logo-icon'']], [[Cls ''link-button'']]),
      ([[Cls ''subtitle'']], [[Cls ''action-links''], [Tag ''p'']]), ([[Cls ''subtitle'']], [[Cls ''link-button'']])]"
  "conflicts RegisterView_style =
     [([[Cls ''title'']], [[Cls ''back-to-login''], [Tag ''p'']]),
      ([[Cls ''logo-icon'']], [[Cls ''back-to-login''], [Tag ''p'']]),
      ([[Cls ''subtitle'']], [[Cls ''back-to-login''], [Tag ''p'']])]"
  "conflicts DashboardView_style =
     [([[Cls ''section-title'']], [[Cls ''logo-section''], [Tag ''i'']]),
      ([[Cls ''section-title'']], [[Cls ''logo-section''], [Tag ''h1'']]),
      ([[Cls ''section-title'']], [[Cls ''card-icon''], [Tag ''i'']])]"
  by code_simp+

definition clashes :: "bool \<Rightarrow> (css_path \<times> css_path) list \<Rightarrow> element list list \<Rightarrow> bool" where
  "clashes hover cs ess \<longleftrightarrow>
     list_ex (\<lambda>es. list_ex (\<lambda>(b, a). css_matches hover b es \<and> css_matches hover a es) cs) ess"

lemma no_clash_RegisterView: "\<not> clashes hover (conflicts RegisterView_style) (element_paths (render_RegisterView f))"
  unfolding conflict_lists by code_simp

lemma no_clash_DashboardView: "\<not> clashes hover (conflicts DashboardView_style) (element_paths (render_DashboardView st))"
  unfolding conflict_lists by code_simp

lemma no_clash_UserInfo: "\<not> clashes hover (conflicts UserInfo_sheet) (element_paths (render_UserInfo ld u))"
  unfolding conflict_lists by (code_simp, simp)

lemma no_clash_HomeView: "\<not> clashes hover (conflicts HomeView_style) (element_paths (render_HomeView ld st f))"
proof (cases "truthy (st_user st)")
  case True
  then have *: "truthy (st_user st) = True" by simp
  show ?thesis unfolding conflict_lists render_HomeView_def HomeView_template_def * if_True not_True_eq_False if_False by (code_simp, simp)
next
  case False
  then have *: "truthy (st_user st) = False" by simp
  show ?thesis unfolding conflict_lists render_HomeView_def HomeView_template_def * if_True not_False_eq_True if_False by code_simp
qed

text \<open>Every sheet has one media block, its last item.\<close>

fun media_at_end :: "nat \<Rightarrow> css_item list \<Rightarrow> bool" where
  "media_at_end n [] = True"
| "media_at_end n (Style r # is) = media_at_end n is"
| "media_at_end n (Media m rs # is) = (m = n \<and> is = [])"

lemma media_at_end_decls:
  "media_at_end n sheet \<Longrightarrow> sheet_decls n sheet = sheet_decls n (wide_sheet sheet) @ media_decls sheet"
  "media_at_end n sheet \<Longrightarrow> set (breakpoints sheet) \<subseteq> {n}"
  by (induction n sheet rule: media_at_end.induct) (auto simp: sheet_decls_def)

lemma media_at_end_sheets:
  "media_at_end 768 LoginUser_style" "media_at_end 768 RegisterUser_style" "media_at_end 768 UserInfo_sheet"
  "media_at_end 768 HomeView_style" "media_at_end 768 RegisterView_style" "media_at_end 768 DashboardView_style"
  by (simp_all add: LoginUser_style_def RegisterUser_style_def UserInfo_sheet_def UserInfo_style_def UserInfo_narrow_def
      HomeView_style_def RegisterView_style_def DashboardView_style_def)

lemma no_clash: "styled sheet t \<Longrightarrow> \<not> clashes hover (conflicts sheet) (element_paths t)"
  by (erule styledE)
    (simp_all only: no_clash_UserInfo no_clash_HomeView no_clash_RegisterView no_clash_DashboardView,
      simp_all add: conflict_lists clashes_def list_ex_iff)

lemma styled_media: "styled sheet t \<Longrightarrow> media_at_end 768 sheet"
  by (erule styledE) (simp_all only: media_at_end_sheets)

lemma heaviest_append:
  "heaviest (as @ bs) =
     (case heaviest bs of None \<Rightarrow> heaviest as
      | Some b \<Rightarrow> (case heaviest as of None \<Rightarrow> Some b | Some a \<Rightarrow> if weight a \<le> weight b then Some b else Some a))"
  by (induction as) (auto split: option.splits)

lemma heaviest_later:
  assumes "\<And>a. a \<in> set as \<Longrightarrow> weight a \<le> weight b" "b \<in> set bs"
  shows "\<exists>x \<in> set bs. heaviest (as @ bs) = Some x"
proof -
  obtain x where x: "heaviest bs = Some x" using assms(2) by (cases "heaviest bs") auto
  have "weight a \<le> weight x" if "a \<in> set as" for a
    using assms(1) [OF that] heaviest_weight [OF x assms(2)] by (rule order_trans)
  then have "heaviest (as @ bs) = Some x" using x by (auto simp: heaviest_append dest: heaviest_in split: option.splits)
  with heaviest_in [OF x] show ?thesis by blast
qed

lemma media_wins:
  assumes media: "media_at_end n sheet" and n: "n = 768" and clash: "\<not> clashes hover (conflicts sheet) ess" "es \<in> set ess"
    and b: "(p, d) \<in> set (media_decls sheet)" "css_matches hover p es" and width: "width \<le> n"
  shows "\<exists>(p', d') \<in> set (media_decls sheet). decl_name d' = decl_name d \<and> css_matches hover p' es \<and>
    cascaded width hover sheet es (decl_name d) = Some (decl_value d')"
proof -
  let ?as = "sheet_decls 768 (wide_sheet sheet)" and ?bs = "media_decls sheet"
  have "weight a \<le> weight (p, d)" if "a \<in> set (applicable hover ?as es (decl_name d))" for a
  proof (rule ccontr)
    assume "\<not> weight a \<le> weight (p, d)"
    with that b(1) have "(p, fst a) \<in> set (conflicts sheet)"
      by (force simp: conflicts_def applicable_def)
    with that b(2) clash show False by (fastforce simp: clashes_def list_ex_iff applicable_def)
  qed
  moreover have "(p, d) \<in> set (applicable hover ?bs es (decl_name d))" using b by (simp add: applicable_def)
  ultimately obtain x where x: "x \<in> set (applicable hover ?bs es (decl_name d))"
    "heaviest (applicable hover ?as es (decl_name d) @ applicable hover ?bs es (decl_name d)) = Some x"
    using heaviest_later by blast
  have "sheet_decls width sheet = sheet_decls 768 sheet"
    by (rule sheet_decls_width) (use media_at_end_decls(2) [OF media] n width in auto)
  then have "sheet_decls width sheet = ?as @ ?bs" using media_at_end_decls(1) [OF media] n by simp
  with x show ?thesis by (auto simp: cascaded_def applicable_def split: prod.splits)
qed

text \<open>The style sheets of all six components respond to the window: up to 768 pixels every declaration of the
  media block is in force on every element its selector matches, whatever the state of the component and
  wherever the pointer is; on wider windows the block has no effect.\<close>

theorem narrow_windows:
  assumes "styled sheet t" and "es \<in> set (element_paths t)"
  shows "(width \<le> 768 \<longrightarrow> (\<forall>(p, d) \<in> set (media_decls sheet). css_matches hover p es \<longrightarrow>
      (\<exists>(p', d') \<in> set (media_decls sheet). decl_name d' = decl_name d \<and> css_matches hover p' es \<and>
         cascaded width hover sheet es (decl_name d) = Some (decl_value d')))) \<and>
    (768 < width \<longrightarrow> cascaded width hover sheet es = cascaded width hover (wide_sheet sheet) es)"
proof -
  have "sheet_decls width sheet = sheet_decls width (wide_sheet sheet)" if "768 < width"
    by (rule sheet_decls_wide) (use media_at_end_decls(2) [OF styled_media [OF assms(1)]] that in auto)
  then have "768 < width \<longrightarrow> cascaded width hover sheet es = cascaded width hover (wide_sheet sheet) es"
    by (auto simp: cascaded_def)
  with media_wins [OF styled_media [OF assms(1)] refl no_clash [OF assms(1)] assms(2)] show ?thesis by fastforce
qed

text \<open>The title of the dashboard.\<close>

definition dashboard_title :: "element list" where
  "dashboard_title = element_paths (render_DashboardView initial_auth) ! 11"

lemma dashboard_media:
  "media_decls DashboardView_style =
     [([[Cls ''header-content'']], Decl ''flex-direction'' ''column''), ([[Cls ''header-content'']], Decl ''gap'' ''1rem''),
      ([[Cls ''header-content'']], Decl ''text-align'' ''center''),
      ([[Cls ''user-section'']], Decl ''flex-direction'' ''column''), ([[Cls ''user-section'']], Decl ''gap'' ''0.5rem''),
      ([[Cls ''section-title'']], Decl ''font-size'' ''2rem''),
      ([[Cls ''features-grid'']], Decl ''grid-template-columns'' ''1fr'')]"
  by (simp add: DashboardView_style_def)

theorem narrow_windows_witness:
  "cascaded 700 False DashboardView_style dashboard_title ''font-size'' = Some ''2rem'' \<and>
   cascaded 800 False DashboardView_style dashboard_title = cascaded 800 False (wide_sheet DashboardView_style) dashboard_title"
proof -
  have title: "dashboard_title \<in> set (element_paths (render_DashboardView initial_auth))"
    unfolding dashboard_title_def by (rule nth_mem) code_simp
  have match: "css_matches False [[Cls ''section-title'']] dashboard_title" by code_simp
  note applied = narrow_windows [OF styled.intros(6) title]
  have "\<exists>(p', d') \<in> set (media_decls DashboardView_style). decl_name d' = ''font-size'' \<and>
      cascaded 700 False DashboardView_style dashboard_title ''font-size'' = Some (decl_value d')"
    using conjunct1 [OF applied [of 700 False]] match unfolding dashboard_media by simp
  then have "cascaded 700 False DashboardView_style dashboard_title ''font-size'' = Some ''2rem''"
    unfolding dashboard_media by simp
  with conjunct2 [OF applied [of 800 False]] show ?thesis by simp
qed

subsection \<open>Live rules\<close>

lemma live_path: "live sheet ess \<Longrightarrow> p \<in> set (sheet_paths sheet) \<Longrightarrow> \<exists>es \<in> set ess. css_matches True p es"
  by (auto simp: live_def list_all_iff list_ex_iff)

lemma styled_live:
  assumes "styled sheet t"
  shows "\<exists>ess. live sheet ess \<and> (\<forall>es \<in> set ess. \<exists>t'. styled sheet t' \<and> es \<in> set (element_paths t'))"
  using assms
proof cases
  case 3
  then show ?thesis using live_UserInfo styled.intros(3)
    by (intro exI [of _ "element_paths (render_UserInfo (\<lambda>_. []) plain_user) @ element_paths (render_UserInfo (\<lambda>_. []) verified_banker)"])
      auto
next
  case 4
  then show ?thesis using live_HomeView styled.intros(4)
    by (intro exI [of _ "element_paths (render_HomeView (\<lambda>_. []) initial_auth initial_login) @
        element_paths (render_HomeView (\<lambda>_. []) (initial_auth\<lparr>st_user := plain_user\<rparr>) initial_login)"]) auto
qed (use live_LoginUser live_RegisterUser live_RegisterView live_DashboardView styled.intros in blast)+

text \<open>No style sheet has a dead rule: every selector of every sheet selects, in some state of its component and
  with the pointer in the right place, an element of the component's template.\<close>

theorem no_dead_style_rule:
  assumes "styled sheet t" and "p \<in> set (sheet_paths sheet)"
  shows "\<exists>t' es. styled sheet t' \<and> es \<in> set (element_paths t') \<and> css_matches True p es"
  using styled_live [OF assms(1)] live_path [OF _ assms(2)] by blast

theorem no_dead_style_rule_witness:
  "\<exists>t es. styled UserInfo_sheet t \<and> es \<in> set (element_paths t) \<and> css_matches True [[Cls ''role-chip-banker'']] es"
proof -
  have "[[Cls ''role-chip-banker'']] \<in> set (sheet_paths UserInfo_sheet)" by code_simp
  with no_dead_style_rule [OF styled.intros(3)] show ?thesis by blast
qed

subsection \<open>The cards of the dashboard\<close>

definition card_paths :: "auth_state \<Rightarrow> element list list" where
  "card_paths st = filter (\<lambda>es. el_tag (hd es) = ''Card'') (element_paths (render_DashboardView st))"

fun listens :: "attr \<Rightarrow> bool" where
  "listens (On e h) = (e = ''click'')"
| "listens _ = False"

definition clickable :: "element list \<Rightarrow> bool" where
  "clickable es \<longleftrightarrow> list_ex listens (el_attrs (hd es))"

definition card_look :: "element list \<Rightarrow> bool" where
  "card_look es \<longleftrightarrow>
     cascaded 768 False DashboardView_style es ''cursor'' = Some (if clickable es then ''pointer'' else ''not-allowed'') \<and>
     cascaded 768 True DashboardView_style es ''cursor'' = Some (if clickable es then ''pointer'' else ''not-allowed'') \<and>
     cascaded 768 True DashboardView_style es ''transform'' = (if clickable es then Some ''translateY(-5px)'' else None)"

lemma cards_look: "list_all card_look (card_paths st)"
  by code_simp

lemma cascaded_cards:
  assumes "prop = ''cursor'' \<or> prop = ''transform''"
  shows "cascaded width hover DashboardView_style es prop = cascaded 768 hover DashboardView_style es prop"
proof -
  have "filter (\<lambda>d. decl_name (snd d) = prop \<and> css_matches hover (fst d) es) (media_decls DashboardView_style) = []"
    using assms by (auto simp: dashboard_media)
  then have narrow: "applicable hover (sheet_decls 768 DashboardView_style) es prop =
      applicable hover (sheet_decls 768 (wide_sheet DashboardView_style)) es prop"
    using media_at_end_decls(1) [OF media_at_end_sheets(6)] by (simp add: applicable_def)
  have same: "sheet_decls width (wide_sheet sheet) = sheet_decls width' (wide_sheet sheet)" for width' sheet
    by (induction sheet rule: wide_sheet.induct) (auto simp: sheet_decls_def)
  have "width \<le> 768 \<or> 768 < width" by linarith
  then have "sheet_decls width DashboardView_style = sheet_decls 768 DashboardView_style \<or>
      sheet_decls width DashboardView_style = sheet_decls 768 (wide_sheet DashboardView_style)"
  proof
    assume "width \<le> 768"
    then show ?thesis
      by (intro disjI1 sheet_decls_width) (use media_at_end_decls(2) [OF media_at_end_sheets(6)] in auto)
  next
    assume "768 < width"
    then have "sheet_decls width DashboardView_style = sheet_decls width (wide_sheet DashboardView_style)"
      by (intro sheet_decls_wide) (use media_at_end_decls(2) [OF media_at_end_sheets(6)] in auto)
    then show ?thesis using same [of DashboardView_style 768] by simp
  qed
  then show ?thesis using narrow by (auto simp: cascaded_def)
qed

text \<open>C39: A card of the dashboard looks as if it could be clicked exactly when it can: the cards that listen for a
  click have the pointer and rise under the mouse, the others have the forbidding cursor and stay, in
  windows of every width and for every user.\<close>

theorem cards_look_as_they_act:
  assumes "es \<in> set (card_paths st)"
  shows "(cascaded width hover DashboardView_style es ''cursor'' = Some ''pointer'' \<longleftrightarrow> clickable es) \<and>
     (cascaded width hover DashboardView_style es ''cursor'' = Some ''not-allowed'' \<longleftrightarrow> \<not> clickable es) \<and>
     (cascaded width True DashboardView_style es ''transform'' \<noteq> None \<longleftrightarrow> clickable es)"
proof -
  have "card_look es" using cards_look [of st] assms by (simp add: list_all_iff)
  then show ?thesis
    by (cases hover) (auto simp: card_look_def cascaded_cards [of _ width])
qed

theorem cards_look_as_they_act_witness:
  "map clickable (card_paths initial_auth) = [True, False, False, False] \<and>
   cascaded 1024 False DashboardView_style (card_paths initial_auth ! 1) ''cursor'' = Some ''not-allowed''"
proof -
  have facts: "map clickable (card_paths initial_auth) = [True, False, False, False]"
    "length (card_paths initial_auth) = 4" "\<not> clickable (card_paths initial_auth ! 1)"
    by code_simp+
  have "card_paths initial_auth ! 1 \<in> set (card_paths initial_auth)" by (rule nth_mem) (simp add: facts(2))
  from cards_look_as_they_act [OF this, of 1024 False] facts(1,3) show ?thesis by simp
qed

end
