(* ===== verification/Build.thy ===== *)
theory Build
  imports Views
begin

section \<open>The modules of the frontend and how they are built (frontend/)\<close>

text \<open>
  Everything a build looks at before a line of the application runs: the import statements of every
  module, what modules and components offer each other, the configuration of Vite, its test runner and
  the linter, and the pages that start the application. Resolution of a specifier follows the alias of
  \<^verbatim>\<open>vite.config.ts\<close>, relative paths, and otherwise the packages of \<^verbatim>\<open>package.json\<close>, whose contents are not
  part of the model.
\<close>

subsection \<open>Configuration (vite.config.ts, vitest.config.ts, .eslintrc.cjs, package.json)\<close>

record vite_config =
  vc_plugins :: "string list"
  vc_alias :: "(string \<times> string) list"
  vc_port :: int

definition viteConfig :: vite_config where
  "viteConfig = \<lparr>vc_plugins = [''vue'', ''vueJsx''], vc_alias = [(''@'', ''./src'')], vc_port = 3000\<rparr>"

text \<open>The origin of the page the development server delivers.\<close>

definition dev_origin :: string where
  "dev_origin = ''http://localhost:'' @ decimal (vc_port viteConfig)"

text \<open>The tests run with Vite's configuration and the runner's own exclusions, which are a parameter.\<close>

record vitest_config = vite_config +
  vt_environment :: string
  vt_exclude :: "string list"
  vt_root :: string

definition vitestConfig :: "string list \<Rightarrow> vitest_config" where
  "vitestConfig default_exclude =
     vite_config.extend viteConfig
       (vitest_config.fields ''jsdom'' (default_exclude @ [''e2e/**'']) ''./'')"

record eslint_config =
  es_root :: bool
  es_extends :: "string list"
  es_ecmaVersion :: string

definition eslintrc :: eslint_config where
  "eslintrc =
     \<lparr>es_root = True,
      es_extends = [''plugin:vue/vue3-essential'', ''eslint:recommended'', ''@vue/eslint-config-typescript'',
        ''@vue/eslint-config-prettier/skip-formatting''],
      es_ecmaVersion = ''latest''\<rparr>"

definition dependencies :: "string list" where
  "dependencies = [''axios'', ''primeflex'', ''primeicons'', ''primevue'', ''vue'', ''vue-router'']"

subsection \<open>Imports\<close>

datatype import_clause = Default string | Named "string list" | Types "string list" | SideEffect

datatype es_import = Import import_clause string

definition main_ts_imports :: "es_import list" where
  "main_ts_imports =
     [Import SideEffect ''./assets/main.css'',
      Import (Named [''createApp'']) ''vue'',
      Import (Default ''App'') ''./App.vue'',
      Import (Default ''router'') ''./router'',
      Import (Default ''PrimeVue'') ''primevue/config'',
      Import (Default ''ToastService'') ''primevue/toastservice'']"

definition App_imports :: "es_import list" where
  "App_imports =
     [Import (Named [''RouterView'']) ''vue-router'']"

definition router_imports :: "es_import list" where
  "router_imports =
     [Import (Named [''createRouter'', ''createWebHistory'']) ''vue-router'',
      Import (Default ''HomeView'') ''../views/HomeView.vue'',
      Import (Default ''RegisterView'') ''../views/RegisterView.vue'',
      Import (Default ''DashboardView'') ''../views/DashboardView.vue'',
      Import (Default ''store'') ''@/store'']"

definition store_imports :: "es_import list" where
  "store_imports =
     [Import (Named [''reactive'', ''readonly'']) ''vue'',
      Import (Types [''AuthState'']) ''./types/auth_state'',
      Import (Types [''User'']) ''./types/user'']"

definition auth_state_imports :: "es_import list" where
  "auth_state_imports =
     [Import (Types [''User'']) ''./user'']"

definition LoginUser_imports :: "es_import list" where
  "LoginUser_imports =
     [Import (Default ''InputGroup'') ''primevue/inputgroup'',
      Import (Default ''InputGroupAddon'') ''primevue/inputgroupaddon'',
      Import (Default ''FloatLabel'') ''primevue/floatlabel'',
      Import (Default ''InputText'') ''primevue/inputtext'',
      Import (Default ''Button'') ''primevue/button'',
      Import (Default ''Card'') ''primevue/card'',
      Import (Named [''useToast'']) ''primevue/usetoast'',
      Import (Named [''useRouter'']) ''vue-router'',
      Import (Named [''ref'']) ''vue'',
      Import (Default ''axios'') ''axios'',
      Import (Types [''User'']) ''@/types/user'',
      Import (Default ''store'') ''@/store'',
      Import (Default ''API_BASE_URL'') ''@/api'']"

definition RegisterUser_imports :: "es_import list" where
  "RegisterUser_imports =
     [Import (Default ''InputGroup'') ''primevue/inputgroup'',
      Import (Default ''InputGroupAddon'') ''primevue/inputgroupaddon'',
      Import (Default ''FloatLabel'') ''primevue/floatlabel'',
      Import (Default ''InputText'') ''primevue/inputtext'',
      Import (Default ''Button'') ''primevue/button'',
      Import (Default ''Card'') ''primevue/card'',
      Import (Named [''useToast'']) ''primevue/usetoast'',
      Import (Named [''ref'']) ''vue'',
      Import (Default ''axios'') ''axios'',
      Import (Default ''API_BASE_URL'') ''@/api'']"

definition UserInfo_imports :: "es_import list" where
  "UserInfo_imports =
     [Import (Default ''Card'') ''primevue/card'',
      Import (Default ''Button'') ''primevue/button'',
      Import (Default ''Chip'') ''primevue/chip'',
      Import (Types [''PropType'']) ''vue'',
      Import (Types [''User'']) ''@/types/user'']"

definition HomeView_imports :: "es_import list" where
  "HomeView_imports =
     [Import (Named [''useRouter'']) ''vue-router'',
      Import (Default ''UserInfo'') ''@/components/UserInfo.vue'',
      Import (Default ''LoginUser'') ''../components/LoginUser.vue'',
      Import (Default ''store'') ''../store'',
      Import (Types [''User'']) ''@/types/user'',
      Import (Default ''Toast'') ''primevue/toast'',
      Import (Default ''Button'') ''primevue/button'',
      Import (Named [''useToast'']) ''primevue/usetoast'']"

definition RegisterView_imports :: "es_import list" where
  "RegisterView_imports =
     [Import (Named [''useRouter'']) ''vue-router'',
      Import (Default ''RegisterUser'') ''@/components/RegisterUser.vue'',
      Import (Default ''Toast'') ''primevue/toast'',
      Import (Default ''Button'') ''primevue/button'']"

definition DashboardView_imports :: "es_import list" where
  "DashboardView_imports =
     [Import (Named [''useRouter'']) ''vue-router'',
      Import (Named [''computed'']) ''vue'',
      Import (Default ''store'') ''@/store'',
      Import (Default ''Card'') ''primevue/card'',
      Import (Default ''Button'') ''primevue/button'',
      Import (Default ''Toast'') ''primevue/toast'',
      Import (Named [''useToast'']) ''primevue/usetoast'']"

text \<open>A module with its imports, whether it has a default export, and the types it exports.\<close>

record es_module =
  em_path :: string
  em_imports :: "es_import list"
  em_default :: bool
  em_types :: "string list"

definition modules :: "es_module list" where
  "modules =
     [\<lparr>em_path = ''src/main.ts'', em_imports = main_ts_imports, em_default = False, em_types = []\<rparr>,
      \<lparr>em_path = ''src/App.vue'', em_imports = App_imports, em_default = True, em_types = []\<rparr>,
      \<lparr>em_path = ''src/router/index.ts'', em_imports = router_imports, em_default = True, em_types = []\<rparr>,
      \<lparr>em_path = ''src/store.ts'', em_imports = store_imports, em_default = True, em_types = []\<rparr>,
      \<lparr>em_path = ''src/api.ts'', em_imports = [], em_default = True, em_types = []\<rparr>,
      \<lparr>em_path = ''src/types/auth_state.ts'', em_imports = auth_state_imports, em_default = False,
        em_types = [''AuthState'']\<rparr>,
      \<lparr>em_path = ''src/types/user.ts'', em_imports = [], em_default = False, em_types = [''User'']\<rparr>,
      \<lparr>em_path = ''src/components/LoginUser.vue'', em_imports = LoginUser_imports, em_default = True, em_types = []\<rparr>,
      \<lparr>em_path = ''src/components/RegisterUser.vue'', em_imports = RegisterUser_imports, em_default = True, em_types = []\<rparr>,
      \<lparr>em_path = ''src/components/UserInfo.vue'', em_imports = UserInfo_imports, em_default = True, em_types = []\<rparr>,
      \<lparr>em_path = ''src/views/HomeView.vue'', em_imports = HomeView_imports, em_default = True, em_types = []\<rparr>,
      \<lparr>em_path = ''src/views/RegisterView.vue'', em_imports = RegisterView_imports, em_default = True, em_types = []\<rparr>,
      \<lparr>em_path = ''src/views/DashboardView.vue'', em_imports = DashboardView_imports, em_default = True, em_types = []\<rparr>]"

subsection \<open>Resolution\<close>

datatype import_target = File string | Package string

fun walk :: "string list \<Rightarrow> string list \<Rightarrow> string list" where
  "walk at [] = rev at"
| "walk at (s # ss) =
     (if s = ''.'' then walk at ss else if s = ''..'' then walk (tl at) ss else walk (s # at) ss)"

fun join_path :: "string list \<Rightarrow> string" where
  "join_path [] = []"
| "join_path [s] = s"
| "join_path (s # ss) = s @ ''/'' @ join_path ss"

definition package_name :: "string list \<Rightarrow> string" where
  "package_name segs = join_path (take (if has_prefix ''@'' (hd segs) then 2 else 1) segs)"

definition resolve_import :: "string \<Rightarrow> string \<Rightarrow> import_target" where
  "resolve_import importer spec =
     (let segs = split_all CHR ''/'' spec in
      case map_of (vc_alias viteConfig) (hd segs) of
        Some dir \<Rightarrow> File (join_path (walk [] (split_all CHR ''/'' dir @ tl segs)))
      | None \<Rightarrow>
          if hd segs = ''.'' \<or> hd segs = ''..''
          then File (join_path (walk (rev (butlast (split_all CHR ''/'' importer))) segs))
          else Package (package_name segs))"

text \<open>A file is found as it is, with the extension, or as the index of a directory.\<close>

definition files :: "string list" where
  "files = ''src/assets/main.css'' # map em_path modules"

definition find_file :: "string \<Rightarrow> string option" where
  "find_file p = find (\<lambda>q. q \<in> set files) [p, p @ ''.ts'', p @ ''/index.ts'']"

definition module_at :: "string \<Rightarrow> es_module option" where
  "module_at p = find (\<lambda>m. em_path m = p) modules"

fun provides :: "es_module \<Rightarrow> import_clause \<Rightarrow> bool" where
  "provides m (Default n) = em_default m"
| "provides m (Named ns) = (ns = [])"
| "provides m (Types ns) = list_all (\<lambda>n. n \<in> set (em_types m)) ns"
| "provides m SideEffect = True"

fun import_ok :: "string \<Rightarrow> es_import \<Rightarrow> bool" where
  "import_ok importer (Import c spec) =
     (case resolve_import importer spec of
        Package p \<Rightarrow> p \<in> set dependencies
      | File f \<Rightarrow>
          (case find_file f of
             None \<Rightarrow> False
           | Some q \<Rightarrow> (case module_at q of None \<Rightarrow> c = SideEffect | Some m \<Rightarrow> provides m c)))"

text \<open>The files a module needs at run time: its imports without those of types, which the compiler erases.\<close>

fun runtime_file :: "string \<Rightarrow> es_import \<Rightarrow> string list" where
  "runtime_file importer (Import (Types ns) spec) = []"
| "runtime_file importer (Import c spec) =
     (case resolve_import importer spec of
        Package p \<Rightarrow> []
      | File f \<Rightarrow> (case find_file f of None \<Rightarrow> [] | Some q \<Rightarrow> [q]))"

definition runtime_files :: "string \<Rightarrow> string list" where
  "runtime_files p = (case module_at p of None \<Rightarrow> [] | Some m \<Rightarrow> concat (map (runtime_file p) (em_imports m)))"

text \<open>The order in which modules are evaluated: imports first, from left to right, each once. The fuel bounds
  the depth of the imports.\<close>

fun evaluate :: "nat \<Rightarrow> string \<Rightarrow> string list \<Rightarrow> string list" where
  "evaluate 0 p done = done"
| "evaluate (Suc n) p done =
     (if p \<in> set done then done else fold (evaluate n) (runtime_files p) done @ [p])"

subsection \<open>Components and their users\<close>

text \<open>The required properties with their types, and the events with the types of what they carry.\<close>

record component_interface =
  ci_required :: "(string \<times> string) list"
  ci_emits :: "(string \<times> string list) list"

definition UserInfo_interface :: component_interface where
  "UserInfo_interface = \<lparr>ci_required = [(''user'', ''User'')], ci_emits = [(''logout'', [''User''])]\<rparr>"

definition RegisterUser_interface :: component_interface where
  "RegisterUser_interface = \<lparr>ci_required = [], ci_emits = [(''registered'', [])]\<rparr>"

definition interfaces :: "(string \<times> component_interface) list" where
  "interfaces =
     [(''UserInfo'', UserInfo_interface), (''RegisterUser'', RegisterUser_interface),
      (''LoginUser'', \<lparr>ci_required = [], ci_emits = []\<rparr>)]"

record component_use =
  cu_component :: string
  cu_props :: "string list"
  cu_listeners :: "string list"

definition HomeView_uses :: "component_use list" where
  "HomeView_uses =
     [\<lparr>cu_component = ''UserInfo'', cu_props = [''user''], cu_listeners = [''logout'']\<rparr>,
      \<lparr>cu_component = ''LoginUser'', cu_props = [], cu_listeners = []\<rparr>]"

definition RegisterView_uses :: "component_use list" where
  "RegisterView_uses = [\<lparr>cu_component = ''RegisterUser'', cu_props = [], cu_listeners = [''registered'']\<rparr>]"

definition use_ok :: "component_use \<Rightarrow> bool" where
  "use_ok u \<longleftrightarrow>
     (case map_of interfaces (cu_component u) of
        None \<Rightarrow> False
      | Some i \<Rightarrow> fst ` set (ci_required i) \<subseteq> set (cu_props u) \<and> set (cu_listeners u) \<subseteq> fst ` set (ci_emits i))"

fun bound_names :: "es_import \<Rightarrow> string list" where
  "bound_names (Import (Default n) spec) = [n]"
| "bound_names (Import (Named ns) spec) = ns"
| "bound_names _ = []"

definition names_of :: "es_import list \<Rightarrow> string list" where
  "names_of is = concat (map bound_names is)"

text \<open>What the store's module exports, and what the others use of it.\<close>

definition store_exports :: "string list" where
  "store_exports = [''state'', ''setUser'', ''clearUser'']"

definition store_uses :: "string list" where
  "store_uses = [''setUser''] @ [''state'', ''clearUser''] @ [''state'', ''clearUser''] @ [''state'']"

text \<open>The tags of a tree that name components: those with a capital letter.\<close>

definition is_component_tag :: "string \<Rightarrow> bool" where
  "is_component_tag t = (case t of [] \<Rightarrow> False | c # cs \<Rightarrow> 65 \<le> (of_char c :: nat) \<and> (of_char c :: nat) \<le> 90)"

fun component_tags :: "vnode \<Rightarrow> string list" where
  "component_tags (El t as cs) = (if is_component_tag t then [t] else []) @ concat (map component_tags cs)"
| "component_tags _ = []"

subsection \<open>Starting (main.ts, the Swagger page)\<close>

datatype plugin = Router | PrimeVue | ToastService

datatype main_step = ImportCss string | CreateApp string | Use plugin | Mount string

definition main_ts :: "main_step list" where
  "main_ts =
     [ImportCss ''./assets/main.css'', CreateApp ''./App.vue'', Use Router, Use PrimeVue, Use ToastService, Mount ''#app'']"

record swagger_ui =
  sw_url :: string
  sw_dom_id :: string
  sw_deepLinking :: bool
  sw_presets :: "string list"
  sw_plugins :: "string list"
  sw_layout :: string

definition swagger_initializer :: swagger_ui where
  "swagger_initializer =
     \<lparr>sw_url = ''simple_bank.swagger.json'', sw_dom_id = ''#swagger-ui'', sw_deepLinking = True,
      sw_presets = [''SwaggerUIBundle.presets.apis'', ''SwaggerUIStandalonePreset''],
      sw_plugins = [''SwaggerUIBundle.plugins.DownloadUrl''], sw_layout = ''StandaloneLayout''\<rparr>"

text \<open>The services a component injects, which the application must have installed before it is mounted.\<close>

definition LoginUser_injects :: "plugin list" where "LoginUser_injects = [ToastService, Router]"
definition RegisterUser_injects :: "plugin list" where "RegisterUser_injects = [ToastService]"
definition HomeView_injects :: "plugin list" where "HomeView_injects = [Router, ToastService]"
definition RegisterView_injects :: "plugin list" where "RegisterView_injects = [Router]"
definition DashboardView_injects :: "plugin list" where "DashboardView_injects = [Router, ToastService]"

fun installed :: "main_step list \<Rightarrow> plugin list" where
  "installed [] = []"
| "installed (Use p # steps) = p # installed steps"
| "installed (Mount r # steps) = []"
| "installed (_ # steps) = installed steps"

text \<open>What a page at a path asks for under a relative address.\<close>

definition relative_to :: "string \<Rightarrow> string \<Rightarrow> string" where
  "relative_to shown url = rev (dropWhile (\<lambda>c. c \<noteq> CHR ''/'') (rev shown)) @ url"

end
