(* ===== verification/GlobalCss.thy ===== *)
theory GlobalCss
  imports Css
begin

section \<open>The global style sheet (assets/main.css)\<close>

text \<open>
  The sheet \<^verbatim>\<open>main.ts\<close> imports: its own imports, its rules on the page around the application and on
  two classes, and the animations that the sheets of the components name. Its selectors are single
  compounds; an \<open>animation\<close> begins with the name of its keyframes.
\<close>

datatype global_selector = Universal | Id string | PseudoElement string | Sel css_selector

datatype keyframe = Keyframe "string list" "css_decl list"

datatype global_item =
    AtImport string
  | Global "global_selector list" "css_decl list"
  | Keyframes string "keyframe list"

definition main_css :: "global_item list" where
  "main_css =
     [AtImport ''primevue/resources/themes/aura-light-green/theme.css'',
      AtImport ''primeicons/primeicons.css'',
      AtImport ''primeflex/primeflex.css'',
      Global [Universal]
       [Decl ''margin'' ''0'', Decl ''padding'' ''0'', Decl ''box-sizing'' ''border-box''],
      Global [Sel (Tag ''body'')]
       [Decl ''font-family'' ([CHR 0x27] @ ''Inter'' @ [CHR 0x27] @ '', -apple-system, BlinkMacSystemFont, '' @ [CHR 0x27] @ ''Segoe UI'' @ [CHR 0x27] @ '', Roboto, Oxygen, Ubuntu, Cantarell, sans-serif''),
        Decl ''background'' ''linear-gradient(135deg, #667eea 0%, #764ba2 100%)'',
        Decl ''min-height'' ''100vh'', Decl ''display'' ''flex'', Decl ''align-items'' ''center'',
        Decl ''justify-content'' ''center'', Decl ''position'' ''relative'',
        Decl ''overflow'' ''hidden''],
      Global [Sel (Tag ''body''), PseudoElement ''before'']
       [Decl ''content'' ([CHR 0x27] @ [CHR 0x27]), Decl ''position'' ''absolute'',
        Decl ''top'' ''-50%'', Decl ''right'' ''-50%'', Decl ''width'' ''100%'',
        Decl ''height'' ''100%'',
        Decl ''background'' ''radial-gradient(circle, rgba(255,255,255,0.1) 0%, transparent 70%)'',
        Decl ''animation'' ''pulse 15s ease-in-out infinite''],
      Keyframes ''pulse''
       [Keyframe [''0%'', ''100%''] [Decl ''transform'' ''scale(1)'', Decl ''opacity'' ''0.5''],
        Keyframe [''50%''] [Decl ''transform'' ''scale(1.1)'', Decl ''opacity'' ''0.8'']],
      Global [Id ''app'']
       [Decl ''width'' ''100%'', Decl ''max-width'' ''1200px'', Decl ''padding'' ''2rem'',
        Decl ''position'' ''relative'', Decl ''z-index'' ''1''],
      Global [Sel (Tag ''a'')]
       [Decl ''text-decoration'' ''none'', Decl ''color'' ''#667eea'',
        Decl ''transition'' ''all 0.3s ease''],
      Global [Sel (Tag ''a''), Sel Hover]
       [Decl ''color'' ''#764ba2''],
      Keyframes ''fadeInUp''
       [Keyframe [''from''] [Decl ''opacity'' ''0'', Decl ''transform'' ''translateY(30px)''],
        Keyframe [''to''] [Decl ''opacity'' ''1'', Decl ''transform'' ''translateY(0)'']],
      Keyframes ''slideInLeft''
       [Keyframe [''from''] [Decl ''opacity'' ''0'', Decl ''transform'' ''translateX(-50px)''],
        Keyframe [''to''] [Decl ''opacity'' ''1'', Decl ''transform'' ''translateX(0)'']],
      Keyframes ''float''
       [Keyframe [''0%'', ''100%''] [Decl ''transform'' ''translateY(0px)''],
        Keyframe [''50%''] [Decl ''transform'' ''translateY(-20px)'']],
      Global [Sel (Cls ''fade-in-up'')]
       [Decl ''animation'' ''fadeInUp 0.6s ease-out''],
      Global [Sel (Cls ''slide-in-left'')]
       [Decl ''animation'' ''slideInLeft 0.6s ease-out''],
      Global [PseudoElement ''-webkit-scrollbar'']
       [Decl ''width'' ''10px''],
      Global [PseudoElement ''-webkit-scrollbar-track'']
       [Decl ''background'' ''rgba(255, 255, 255, 0.1)'', Decl ''border-radius'' ''10px''],
      Global [PseudoElement ''-webkit-scrollbar-thumb'']
       [Decl ''background'' ''rgba(255, 255, 255, 0.3)'', Decl ''border-radius'' ''10px''],
      Global [PseudoElement ''-webkit-scrollbar-thumb'', Sel Hover]
       [Decl ''background'' ''rgba(255, 255, 255, 0.5)'']]"

subsection \<open>Names\<close>

fun css_imports :: "global_item list \<Rightarrow> string list" where
  "css_imports [] = []"
| "css_imports (AtImport s # is) = s # css_imports is"
| "css_imports (_ # is) = css_imports is"

fun keyframe_names :: "global_item list \<Rightarrow> string list" where
  "keyframe_names [] = []"
| "keyframe_names (Keyframes n ks # is) = n # keyframe_names is"
| "keyframe_names (_ # is) = keyframe_names is"

fun global_classes :: "global_item list \<Rightarrow> string list" where
  "global_classes [] = []"
| "global_classes (Global [Sel (Cls c)] ds # is) = c # global_classes is"
| "global_classes (_ # is) = global_classes is"

fun animation_names :: "css_decl list \<Rightarrow> string list" where
  "animation_names [] = []"
| "animation_names (d # ds) =
     (if decl_name d = ''animation'' then [hd (split_all CHR '' '' (decl_value d))] else []) @ animation_names ds"

fun global_decls :: "global_item list \<Rightarrow> css_decl list" where
  "global_decls [] = []"
| "global_decls (Global ps ds # is) = ds @ global_decls is"
| "global_decls (_ # is) = global_decls is"

definition component_sheets :: "css_item list" where
  "component_sheets =
     LoginUser_style @ RegisterUser_style @ UserInfo_sheet @ HomeView_style @ RegisterView_style @ DashboardView_style"

definition named_animations :: "string list" where
  "named_animations = animation_names (global_decls main_css @ map snd (sheet_decls 0 component_sheets))"

end
