(* ===== verification/BuildProps.thy ===== *)
theory BuildProps
  imports Build GlobalCss
begin

section \<open>The frontend links\<close>

text \<open>
  Every import finds what it names, the modules can be evaluated in an order, and the templates use no
  component their script has not imported.
\<close>

text \<open>The order of evaluation when the page loads \<^verbatim>\<open>main.ts\<close>.\<close>

definition load_order :: "string list" where
  "load_order = evaluate 8 ''src/main.ts'' []"

lemma load_order_files:
  "load_order =
     [''src/assets/main.css'', ''src/App.vue'', ''src/components/UserInfo.vue'', ''src/store.ts'', ''src/api.ts'', ''src/components/LoginUser.vue'',
      ''src/views/HomeView.vue'', ''src/components/RegisterUser.vue'', ''src/views/RegisterView.vue'',
      ''src/views/DashboardView.vue'', ''src/router/index.ts'', ''src/main.ts'']"
  by code_simp

lemma imports_ok: "list_all (\<lambda>m. list_all (import_ok (em_path m)) (em_imports m)) modules"
  by code_simp

lemma load_order_sorted:
  "list_all (\<lambda>i. set (runtime_files (load_order ! i)) \<subseteq> set (take i load_order)) [0..<length load_order]"
  unfolding load_order_files by code_simp

text \<open>The component tags in a template of its own, the children being tags and not trees.\<close>

abbreviation HomeView_tags :: "auth_state \<Rightarrow> string list" where
  "HomeView_tags st \<equiv> component_tags (HomeView_template (El ''UserInfo'' [] []) (El ''LoginUser'' [] []) st)"

abbreviation RegisterView_tags :: "string list" where
  "RegisterView_tags \<equiv> component_tags (RegisterView_template (El ''RegisterUser'' [] []))"

lemma imported_tags:
  "set (component_tags App_template) \<subseteq> set (names_of App_imports)"
  "set (component_tags (render_LoginUser f)) \<subseteq> set (names_of LoginUser_imports)"
  "set (component_tags (render_RegisterUser g)) \<subseteq> set (names_of RegisterUser_imports)"
  "set (component_tags (render_UserInfo ld u)) \<subseteq> set (names_of UserInfo_imports)"
  "set (component_tags (render_DashboardView st)) \<subseteq> set (names_of DashboardView_imports)"
  "set RegisterView_tags \<subseteq> set (names_of RegisterView_imports)"
  by code_simp+

lemma home_tags:
  "HomeView_tags st = (if truthy (st_user st) then [''Toast'', ''UserInfo'', ''Button''] else [''Toast'', ''LoginUser'', ''Button''])"
  by (simp add: HomeView_template_def tree_simps is_component_tag_def)

lemma imported_tags_home: "set (HomeView_tags st) \<subseteq> set (names_of HomeView_imports)"
proof -
  have "set [''Toast'', ''UserInfo'', ''LoginUser'', ''Button''] \<subseteq> set (names_of HomeView_imports)" by code_simp
  then show ?thesis by (simp add: home_tags)
qed

text \<open>Style sheets: the packages \<^verbatim>\<open>main.css\<close> imports, the animations by name, and its classes on the pages.\<close>

lemma sheets_link:
  "list_all (\<lambda>s. case resolve_import ''src/assets/main.css'' s of Package p \<Rightarrow> p \<in> set dependencies | File f \<Rightarrow> False)
     (css_imports main_css)"
  "set named_animations = set (keyframe_names main_css)"
  by code_simp+

lemma classes_used:
  "list_all (\<lambda>c. list_ex (\<lambda>es. c \<in> set (el_classes (hd es)))
     (element_paths (render_HomeView (\<lambda>_. []) initial_auth initial_login))) (global_classes main_css)"
  by code_simp

text \<open>C40: The frontend links: every import of every module finds a file that exports what is imported, or a package
  of \<^verbatim>\<open>package.json\<close>, those of \<^verbatim>\<open>main.css\<close> too; every animation a style sheet names has its keyframes in
  \<^verbatim>\<open>main.css\<close>, and its classes and animations are all in use; loading \<^verbatim>\<open>main.ts\<close> evaluates each module once and after everything it imports; parents pass
  the components they use every required property and listen to declared events only; what is used of the
  store is exported; what components inject is installed before the application is mounted; and every
  template, also that of the application itself, uses only components that its own script imports, in any state.\<close>

theorem frontend_links:
  "list_all (\<lambda>m. list_all (import_ok (em_path m)) (em_imports m)) modules \<and>
   distinct load_order \<and> last load_order = ''src/main.ts'' \<and>
   list_all (\<lambda>i. set (runtime_files (load_order ! i)) \<subseteq> set (take i load_order)) [0..<length load_order] \<and>
   set files - set load_order = {''src/types/user.ts'', ''src/types/auth_state.ts''} \<and>
   list_all use_ok (HomeView_uses @ RegisterView_uses) \<and> set store_uses \<subseteq> set store_exports \<and>
   set (LoginUser_injects @ RegisterUser_injects @ HomeView_injects @ RegisterView_injects @ DashboardView_injects) \<subseteq>
     set (installed main_ts) \<and>
   set (component_tags (render_LoginUser f)) \<subseteq> set (names_of LoginUser_imports) \<and>
   set (component_tags (render_RegisterUser g)) \<subseteq> set (names_of RegisterUser_imports) \<and>
   set (component_tags (render_UserInfo ld u)) \<subseteq> set (names_of UserInfo_imports) \<and>
   set (component_tags (render_DashboardView st)) \<subseteq> set (names_of DashboardView_imports) \<and>
   set RegisterView_tags \<subseteq> set (names_of RegisterView_imports) \<and>
   set (HomeView_tags st) \<subseteq> set (names_of HomeView_imports) \<and>
   set (component_tags App_template) \<subseteq> set (names_of App_imports) \<and>
   list_all (\<lambda>s. case resolve_import ''src/assets/main.css'' s of Package p \<Rightarrow> p \<in> set dependencies | File f \<Rightarrow> False)
     (css_imports main_css) \<and>
   set named_animations = set (keyframe_names main_css) \<and>
   list_all (\<lambda>c. list_ex (\<lambda>es. c \<in> set (el_classes (hd es)))
     (element_paths (render_HomeView (\<lambda>_. []) initial_auth initial_login))) (global_classes main_css)"
proof -
  have uses: "list_all use_ok (HomeView_uses @ RegisterView_uses)" "set store_uses \<subseteq> set store_exports"
    "set (LoginUser_injects @ RegisterUser_injects @ HomeView_injects @ RegisterView_injects @ DashboardView_injects) \<subseteq>
       set (installed main_ts)"
    by code_simp+
  have "distinct load_order" "last load_order = ''src/main.ts''"
    "set files - set load_order = {''src/types/user.ts'', ''src/types/auth_state.ts''}"
    unfolding load_order_files by code_simp+
  with imports_ok load_order_sorted uses imported_tags imported_tags_home sheets_link classes_used show ?thesis by blast
qed

text \<open>The views as a guest and as a customer see them.\<close>

theorem frontend_links_witness:
  "set (HomeView_tags initial_auth) = {''Toast'', ''LoginUser'', ''Button''} \<and>
   {''Toast'', ''LoginUser'', ''Button''} \<subseteq> set (names_of HomeView_imports) \<and>
   set (HomeView_tags (setUser (JObj []) Null Null initial_auth)) = {''Toast'', ''UserInfo'', ''Button''} \<and>
   {''Toast'', ''UserInfo'', ''Button''} \<subseteq> set (names_of HomeView_imports)"
proof -
  have tags: "set (HomeView_tags initial_auth) = {''Toast'', ''LoginUser'', ''Button''}"
    "set (HomeView_tags (setUser (JObj []) Null Null initial_auth)) = {''Toast'', ''UserInfo'', ''Button''}"
    by (simp_all add: home_tags initial_auth_def setUser_def)
  note own = frontend_links [of initial_login initial_register "\<lambda>_. []" Null]
  from own [of initial_auth] have "set (HomeView_tags initial_auth) \<subseteq> set (names_of HomeView_imports)" by blast
  moreover from own [of "setUser (JObj []) Null Null initial_auth"]
  have "set (HomeView_tags (setUser (JObj []) Null Null initial_auth)) \<subseteq> set (names_of HomeView_imports)" by blast
  ultimately show ?thesis using tags by simp
qed

end
