(* ===== verification/Spa.thy ===== *)
theory Spa
  imports Views
begin

section \<open>The scripts of the frontend as a state machine (components, views)\<close>

text \<open>
  The single-page application: the store, the current path, the refs of the mounted forms, the
  requests under way, the timers set and the toasts shown. An event is what the browser delivers:
  input, a click or a key on something the current tree listens on, the settling of a request, a
  timer, a reload. The two asynchronous functions \<open>handleLogin\<close> and \<open>handleRegister\<close> are split at
  their \<^verbatim>\<open>await\<close>: what runs before it, and what runs when the promise settles, whatever happened in
  between.
\<close>

subsection \<open>State\<close>

record toast =
  t_severity :: string
  t_summary :: string
  t_detail :: js
  t_life :: int

record http_request =
  hr_method :: string
  hr_url :: string
  hr_body :: js
  hr_headers :: "(string \<times> string) list"

text \<open>A request under way, with the function that awaits it and the mounted instance that
  function belongs to.\<close>

datatype awaiting = AwaitLogin nat | AwaitRegister nat

record spa =
  sp_auth :: auth_state
  sp_path :: string
  sp_login :: login_form
  sp_login_mount :: nat
  sp_register :: register_form
  sp_register_mount :: nat
  sp_inflight :: "(awaiting \<times> http_request) list"
  sp_timers :: "(nat \<times> string) list"
  sp_toasts :: "toast list"

text \<open>How \<open>axios.post\<close> settles: with the response's \<open>data\<close>, or rejected, with a response
  (status and data) or without one.\<close>

datatype axios_outcome = Resolved js | Rejected "(int \<times> js) option"

text \<open>What a \<^verbatim>\<open>catch\<close> block gets: axios's error, or an exception of the \<^verbatim>\<open>try\<close> block.\<close>

datatype caught = AxiosError "(int \<times> js) option" | Thrown js_exn

definition add_toast :: "string \<Rightarrow> string \<Rightarrow> js \<Rightarrow> int \<Rightarrow> spa \<Rightarrow> spa" where
  "add_toast severity summary detail life s =
     s\<lparr>sp_toasts := sp_toasts s @
        [\<lparr>t_severity = severity, t_summary = summary, t_detail = detail, t_life = life\<rparr>]\<rparr>"

definition set_timeout :: "nat \<Rightarrow> string \<Rightarrow> spa \<Rightarrow> spa" where
  "set_timeout delay path s = s\<lparr>sp_timers := sp_timers s @ [(delay, path)]\<rparr>"

text \<open>A write to a ref of the instance \<open>m\<close>: it is seen as long as that instance is the last one
  mounted.\<close>

definition write_login :: "nat \<Rightarrow> (login_form \<Rightarrow> login_form) \<Rightarrow> spa \<Rightarrow> spa" where
  "write_login m f s = (if sp_login_mount s = m then s\<lparr>sp_login := f (sp_login s)\<rparr> else s)"

definition write_register :: "nat \<Rightarrow> (register_form \<Rightarrow> register_form) \<Rightarrow> spa \<Rightarrow> spa" where
  "write_register m f s = (if sp_register_mount s = m then s\<lparr>sp_register := f (sp_register s)\<rparr> else s)"

subsection \<open>LoginUser.vue\<close>

definition login_request :: "js \<Rightarrow> login_form \<Rightarrow> http_request" where
  "login_request base f =
     \<lparr>hr_method = ''POST'', hr_url = js_string base @ ''/v1/login_user'',
      hr_body = JObj [(''username'', JStr (lf_username f)), (''password'', JStr (lf_password f))],
      hr_headers = [(''Content-Type'', ''application/json''), (''Authorization'', ''none'')]\<rparr>"

definition handleLogin :: "js \<Rightarrow> spa \<Rightarrow> spa" where
  "handleLogin base s =
     (let f = sp_login s in
      if lf_username f = [] \<or> lf_password f = []
      then add_toast ''warn'' ''Validation Error'' (JStr ''Please enter both username and password'') 3000 s
      else
        (let s1 = write_login (sp_login_mount s) (\<lambda>f. f\<lparr>lf_loading := True\<rparr>) s in
         s1\<lparr>sp_inflight := sp_inflight s1 @ [(AwaitLogin (sp_login_mount s), login_request base f)]\<rparr>))"

definition handleKeyPress :: "js \<Rightarrow> string \<Rightarrow> spa \<Rightarrow> spa" where
  "handleKeyPress base key s = (if key = ''Enter'' then handleLogin base s else s)"

text \<open>The rest of the \<^verbatim>\<open>try\<close> block once the promise is fulfilled.\<close>

definition login_fulfilled :: "js \<Rightarrow> spa \<Rightarrow> js_exn option \<times> spa" where
  "login_fulfilled data s =
     (case js_get data ''user'' of Inl e \<Rightarrow> (Some e, s)
      | Inr user \<Rightarrow>
     (case js_get data ''access_token'' of Inl e \<Rightarrow> (Some e, s)
      | Inr access_token \<Rightarrow>
     (case js_get data ''refresh_token'' of Inl e \<Rightarrow> (Some e, s)
      | Inr refresh_token \<Rightarrow>
          (let s1 = s\<lparr>sp_auth := setUser user access_token refresh_token (sp_auth s)\<rparr> in
           case js_get user ''full_name'' of
             Inl e \<Rightarrow> (Some e, s1)
           | Inr full_name \<Rightarrow>
               (None, set_timeout 500 ''/dashboard''
                  (add_toast ''success'' (''Welcome back, '' @ js_string full_name @ ''!'')
                     (JStr ''Successfully logged in'') 2000 s1))))))"

definition login_failed_toast :: "nat \<Rightarrow> js \<Rightarrow> spa \<Rightarrow> spa" where
  "login_failed_toast m msg s =
     add_toast ''error'' ''Login Failed'' msg 3000 (write_login m (\<lambda>f. f\<lparr>lf_errorMessage := msg\<rparr>) s)"

text \<open>The \<^verbatim>\<open>catch\<close> block. It reads \<open>error.response.data.message\<close> for a 404, which throws for a response
  without a body; the exception then leaves \<open>handleLogin\<close>.\<close>

definition login_catch :: "nat \<Rightarrow> caught \<Rightarrow> spa \<Rightarrow> spa" where
  "login_catch m c s =
     (case c of
        AxiosError (Some (status, data)) \<Rightarrow>
          (if status = 404
           then (case js_get data ''message'' of
                   Inl _ \<Rightarrow> s
                 | Inr msg \<Rightarrow> login_failed_toast m msg s)
           else login_failed_toast m (JStr ''Invalid username or password'') s)
      | _ \<Rightarrow> login_failed_toast m (JStr ''Invalid username or password'') s)"

definition login_settled :: "nat \<Rightarrow> axios_outcome \<Rightarrow> spa \<Rightarrow> spa" where
  "login_settled m out s =
     write_login m (\<lambda>f. f\<lparr>lf_loading := False\<rparr>)
       (case out of
          Resolved data \<Rightarrow>
            (case login_fulfilled data s of
               (None, s1) \<Rightarrow> s1
             | (Some e, s1) \<Rightarrow> login_catch m (Thrown e) s1)
        | Rejected resp \<Rightarrow> login_catch m (AxiosError resp) s)"

subsection \<open>RegisterUser.vue and RegisterView.vue\<close>

definition register_request :: "js \<Rightarrow> register_form \<Rightarrow> http_request" where
  "register_request base f =
     \<lparr>hr_method = ''POST'', hr_url = js_string base @ ''/v1/create_user'',
      hr_body = JObj [(''username'', JStr (rf_username f)), (''password'', JStr (rf_password f)),
                      (''full_name'', JStr (rf_fullName f)), (''email'', JStr (rf_email f))],
      hr_headers = [(''Content-Type'', ''application/json'')]\<rparr>"

definition handleRegister :: "js \<Rightarrow> spa \<Rightarrow> spa" where
  "handleRegister base s =
     (let f = sp_register s in
      if rf_username f = [] \<or> rf_password f = [] \<or> rf_fullName f = [] \<or> rf_email f = []
      then add_toast ''warn'' ''Validation Error'' (JStr ''Please fill in all fields'') 3000 s
      else
        (let s1 = write_register (sp_register_mount s) (\<lambda>f. f\<lparr>rf_loading := True\<rparr>) s in
         s1\<lparr>sp_inflight := sp_inflight s1 @ [(AwaitRegister (sp_register_mount s), register_request base f)]\<rparr>))"

definition register_error_message :: "(int \<times> js) option \<Rightarrow> js" where
  "register_error_message resp =
     (case resp of
        Some (status, data) \<Rightarrow>
          (if status = 409 then JStr ''Username or email already exists''
           else if truthy (js_opt data ''message'') then js_opt data ''message''
           else JStr ''An error occurred during registration'')
      | None \<Rightarrow> JStr ''An error occurred during registration'')"

text \<open>What the tree of the current path shows.\<close>

definition showing :: "view \<Rightarrow> spa \<Rightarrow> bool" where
  "showing v s \<longleftrightarrow> (case match_route (sp_path s) of None \<Rightarrow> False | Some r \<Rightarrow> r_component r = v)"

text \<open>\<open>RegisterView.onRegistered\<close>; an event emitted by an unmounted instance is dropped by Vue.\<close>

definition onRegistered :: "spa \<Rightarrow> spa" where
  "onRegistered s = set_timeout 2000 ''/'' s"

definition emit_registered :: "nat \<Rightarrow> spa \<Rightarrow> spa" where
  "emit_registered m s = (if sp_register_mount s = m \<and> showing RegisterView s then onRegistered s else s)"

definition register_settled :: "nat \<Rightarrow> axios_outcome \<Rightarrow> spa \<Rightarrow> spa" where
  "register_settled m out s =
     write_register m (\<lambda>f. f\<lparr>rf_loading := False\<rparr>)
       (case out of
          Resolved _ \<Rightarrow>
            emit_registered m
              (add_toast ''success'' ''Registration Successful!''
                 (JStr ''You can now login with your credentials'') 5000 s)
        | Rejected resp \<Rightarrow>
            add_toast ''error'' ''Registration Failed'' (register_error_message resp) 5000 s)"

subsection \<open>HomeView.vue, DashboardView.vue and navigation\<close>

definition go :: "(auth_state \<Rightarrow> string \<Rightarrow> string \<Rightarrow> string) \<Rightarrow> string \<Rightarrow> spa \<Rightarrow> spa" where
  "go push path s = s\<lparr>sp_path := push (sp_auth s) (sp_path s) path\<rparr>"

definition home_onLogout :: "js \<Rightarrow> spa \<Rightarrow> spa" where
  "home_onLogout user s =
     (let s1 = add_toast ''success'' (''Goodbye, '' @ js_string (js_member user ''full_name'') @ ''!'')
                 (JStr ''You have successfully logged out.'') 3000 s
      in s1\<lparr>sp_auth := clearUser (sp_auth s1)\<rparr>)"

definition dashboard_logout :: "(auth_state \<Rightarrow> string \<Rightarrow> string \<Rightarrow> string) \<Rightarrow> spa \<Rightarrow> spa" where
  "dashboard_logout push s =
     (let s1 = add_toast ''success''
                 (''Goodbye, '' @ js_string (js_opt (st_user (sp_auth s)) ''full_name'') @ ''!'')
                 (JStr ''You have been logged out'') 3000 s
      in go push ''/'' (s1\<lparr>sp_auth := clearUser (sp_auth s1)\<rparr>))"

subsection \<open>Events\<close>

datatype event =
    Type field string
  | Click handler
  | KeyPress string
  | Settle nat axios_outcome
  | Timeout nat
  | Reload string

definition tree :: "(js \<Rightarrow> string) \<Rightarrow> spa \<Rightarrow> vnode list" where
  "tree ld s = render_App ld (sp_path s) (sp_auth s) (sp_login s) (sp_register s)"

definition offers :: "(js \<Rightarrow> string) \<Rightarrow> spa \<Rightarrow> string \<Rightarrow> handler \<Rightarrow> bool" where
  "offers ld s e h \<longleftrightarrow> (e, h) \<in> set (concat (map listeners (tree ld s)))"

definition has_model :: "(js \<Rightarrow> string) \<Rightarrow> spa \<Rightarrow> field \<Rightarrow> bool" where
  "has_model ld s f \<longleftrightarrow> f \<in> set (concat (map models (tree ld s)))"

fun type_into :: "field \<Rightarrow> string \<Rightarrow> spa \<Rightarrow> spa" where
  "type_into LoginUsername v s = s\<lparr>sp_login := (sp_login s)\<lparr>lf_username := v\<rparr>\<rparr>"
| "type_into LoginPassword v s = s\<lparr>sp_login := (sp_login s)\<lparr>lf_password := v\<rparr>\<rparr>"
| "type_into RegUsername v s = s\<lparr>sp_register := (sp_register s)\<lparr>rf_username := v\<rparr>\<rparr>"
| "type_into RegFullName v s = s\<lparr>sp_register := (sp_register s)\<lparr>rf_fullName := v\<rparr>\<rparr>"
| "type_into RegEmail v s = s\<lparr>sp_register := (sp_register s)\<lparr>rf_email := v\<rparr>\<rparr>"
| "type_into RegPassword v s = s\<lparr>sp_register := (sp_register s)\<lparr>rf_password := v\<rparr>\<rparr>"

fun run_handler ::
  "(auth_state \<Rightarrow> string \<Rightarrow> string \<Rightarrow> string) \<Rightarrow> js \<Rightarrow> handler \<Rightarrow> string \<Rightarrow> spa \<Rightarrow> spa" where
  "run_handler push base HandleLogin key s = handleLogin base s"
| "run_handler push base HandleKeyPress key s = handleKeyPress base key s"
| "run_handler push base HandleRegister key s = handleRegister base s"
| "run_handler push base UserInfoLogout key s = home_onLogout (st_user (sp_auth s)) s"
| "run_handler push base GoToRegister key s = go push ''/register'' s"
| "run_handler push base GoToDashboard key s = go push ''/dashboard'' s"
| "run_handler push base GoToHome key s = go push ''/home'' s"
| "run_handler push base GoToLogin key s = go push ''/'' s"
| "run_handler push base Logout key s = dashboard_logout push s"

definition drop_nth :: "nat \<Rightarrow> 'a list \<Rightarrow> 'a list" where
  "drop_nth i xs = take i xs @ drop (Suc i) xs"

definition settle :: "nat \<Rightarrow> axios_outcome \<Rightarrow> spa \<Rightarrow> spa" where
  "settle i out s =
     (if i < length (sp_inflight s) then
        (let s1 = s\<lparr>sp_inflight := drop_nth i (sp_inflight s)\<rparr> in
         case fst (sp_inflight s ! i) of
           AwaitLogin m \<Rightarrow> login_settled m out s1
         | AwaitRegister m \<Rightarrow> register_settled m out s1)
      else s)"

definition timeout :: "(auth_state \<Rightarrow> string \<Rightarrow> string \<Rightarrow> string) \<Rightarrow> nat \<Rightarrow> spa \<Rightarrow> spa" where
  "timeout push i s =
     (if i < length (sp_timers s)
      then go push (snd (sp_timers s ! i)) (s\<lparr>sp_timers := drop_nth i (sp_timers s)\<rparr>)
      else s)"

text \<open>Loading the page at \<open>p\<close>: nothing survives (the store is memory only), and the router
  navigates from its start location, which is no path.\<close>

definition boot :: "(auth_state \<Rightarrow> string \<Rightarrow> string \<Rightarrow> string) \<Rightarrow> string \<Rightarrow> spa" where
  "boot push p =
     \<lparr>sp_auth = initial_auth, sp_path = push initial_auth [] p,
      sp_login = initial_login, sp_login_mount = 0,
      sp_register = initial_register, sp_register_mount = 0,
      sp_inflight = [], sp_timers = [], sp_toasts = []\<rparr>"

text \<open>A form that appears is mounted anew: its script runs again, with fresh refs.\<close>

definition shows_login :: "spa \<Rightarrow> bool" where
  "shows_login s \<longleftrightarrow> showing HomeView s \<and> \<not> truthy (st_user (sp_auth s))"

definition shows_profile :: "spa \<Rightarrow> bool" where
  "shows_profile s \<longleftrightarrow> showing HomeView s \<and> truthy (st_user (sp_auth s))"

definition remount_login :: "spa \<Rightarrow> spa \<Rightarrow> spa" where
  "remount_login old new =
     (if \<not> shows_login old \<and> shows_login new
      then new\<lparr>sp_login := initial_login, sp_login_mount := Suc (sp_login_mount new)\<rparr> else new)"

definition remount_register :: "spa \<Rightarrow> spa \<Rightarrow> spa" where
  "remount_register old new =
     (if \<not> showing RegisterView old \<and> showing RegisterView new
      then new\<lparr>sp_register := initial_register, sp_register_mount := Suc (sp_register_mount new)\<rparr> else new)"

definition react ::
  "(auth_state \<Rightarrow> string \<Rightarrow> string \<Rightarrow> string) \<Rightarrow> js \<Rightarrow> (js \<Rightarrow> string) \<Rightarrow> spa \<Rightarrow> event \<Rightarrow> spa" where
  "react push base ld s ev =
     (case ev of
        Type f v \<Rightarrow> (if has_model ld s f then type_into f v s else s)
      | Click h \<Rightarrow> (if offers ld s ''click'' h then run_handler push base h [] s else s)
      | KeyPress key \<Rightarrow>
          (if offers ld s ''keypress'' HandleKeyPress then run_handler push base HandleKeyPress key s else s)
      | Settle i out \<Rightarrow> settle i out s
      | Timeout i \<Rightarrow> timeout push i s
      | Reload p \<Rightarrow> boot push p)"

definition spa_step ::
  "(auth_state \<Rightarrow> string \<Rightarrow> string \<Rightarrow> string) \<Rightarrow> js \<Rightarrow> (js \<Rightarrow> string) \<Rightarrow> spa \<Rightarrow> event \<Rightarrow> spa" where
  "spa_step push base ld s ev =
     (let new = react push base ld s ev in remount_register s (remount_login s new))"

definition spa_run ::
  "(auth_state \<Rightarrow> string \<Rightarrow> string \<Rightarrow> string) \<Rightarrow> js \<Rightarrow> (js \<Rightarrow> string) \<Rightarrow> spa \<Rightarrow> event list \<Rightarrow> spa" where
  "spa_run push base ld s evs = foldl (spa_step push base ld) s evs"

lemma spa_run_Nil [simp]: "spa_run push base ld s [] = s"
  by (simp add: spa_run_def)

lemma spa_run_Cons [simp]:
  "spa_run push base ld s (ev # evs) = spa_run push base ld (spa_step push base ld s ev) evs"
  by (simp add: spa_run_def)

text \<open>What \<^verbatim>\<open>LoginResponse\<close> promises of the data of a login.\<close>

definition is_LoginResponse :: "js \<Rightarrow> bool" where
  "is_LoginResponse d \<longleftrightarrow> is_JObj d \<and> is_User (js_member d ''user'') \<and>
     is_JStr (js_member d ''access_token'') \<and> is_JStr (js_member d ''refresh_token'')"

text \<open>A run in which the server keeps that promise: whatever fulfils a login request is of the
  declared type. Requests may fail in any way.\<close>

definition typed_event :: "spa \<Rightarrow> event \<Rightarrow> bool" where
  "typed_event s ev =
     (case ev of
        Settle i (Resolved d) \<Rightarrow>
          (case (if i < length (sp_inflight s) then Some (fst (sp_inflight s ! i)) else None) of
             Some (AwaitLogin _) \<Rightarrow> is_LoginResponse d
           | _ \<Rightarrow> True)
      | _ \<Rightarrow> True)"

fun typed_run ::
  "(auth_state \<Rightarrow> string \<Rightarrow> string \<Rightarrow> string) \<Rightarrow> js \<Rightarrow> (js \<Rightarrow> string) \<Rightarrow> spa \<Rightarrow> event list \<Rightarrow> bool" where
  "typed_run push base ld s [] = True"
| "typed_run push base ld s (ev # evs) =
     (typed_event s ev \<and> typed_run push base ld (spa_step push base ld s ev) evs)"

end
