(* ===== verification/SpaProps.thy ===== *)
theory SpaProps
  imports Spa
begin

section \<open>What the frontend guarantees\<close>

text \<open>
  Frame lemmas of the scripts (which field of the application each writes), the access and type
  invariants of every run, the life of a login and of a registration, and two places where the
  frontend does not do what it shows.
\<close>

subsection \<open>Frames\<close>

lemma add_toast_frame [simp]:
  "sp_auth (add_toast a b c d s) = sp_auth s" "sp_path (add_toast a b c d s) = sp_path s"
  "sp_login (add_toast a b c d s) = sp_login s" "sp_login_mount (add_toast a b c d s) = sp_login_mount s"
  "sp_register (add_toast a b c d s) = sp_register s"
  "sp_register_mount (add_toast a b c d s) = sp_register_mount s"
  "sp_inflight (add_toast a b c d s) = sp_inflight s" "sp_timers (add_toast a b c d s) = sp_timers s"
  by (simp_all add: add_toast_def)

lemma set_timeout_frame [simp]:
  "sp_auth (set_timeout n p s) = sp_auth s" "sp_path (set_timeout n p s) = sp_path s"
  "sp_login (set_timeout n p s) = sp_login s" "sp_login_mount (set_timeout n p s) = sp_login_mount s"
  "sp_register (set_timeout n p s) = sp_register s"
  "sp_register_mount (set_timeout n p s) = sp_register_mount s"
  "sp_inflight (set_timeout n p s) = sp_inflight s"
  "sp_timers (set_timeout n p s) = sp_timers s @ [(n, p)]"
  "sp_toasts (set_timeout n p s) = sp_toasts s"
  by (simp_all add: set_timeout_def)

lemma write_login_frame [simp]:
  "sp_auth (write_login m f s) = sp_auth s" "sp_path (write_login m f s) = sp_path s"
  "sp_login_mount (write_login m f s) = sp_login_mount s"
  "sp_register (write_login m f s) = sp_register s"
  "sp_register_mount (write_login m f s) = sp_register_mount s"
  "sp_inflight (write_login m f s) = sp_inflight s" "sp_timers (write_login m f s) = sp_timers s"
  "sp_toasts (write_login m f s) = sp_toasts s"
  by (simp_all add: write_login_def)

lemma write_register_frame [simp]:
  "sp_auth (write_register m f s) = sp_auth s" "sp_path (write_register m f s) = sp_path s"
  "sp_login (write_register m f s) = sp_login s"
  "sp_login_mount (write_register m f s) = sp_login_mount s"
  "sp_register_mount (write_register m f s) = sp_register_mount s"
  "sp_inflight (write_register m f s) = sp_inflight s" "sp_timers (write_register m f s) = sp_timers s"
  "sp_toasts (write_register m f s) = sp_toasts s"
  by (simp_all add: write_register_def)

lemma handleLogin_frame [simp]:
  "sp_auth (handleLogin base s) = sp_auth s" "sp_path (handleLogin base s) = sp_path s"
  "sp_timers (handleLogin base s) = sp_timers s"
  by (simp_all add: handleLogin_def Let_def)

lemma handleKeyPress_frame [simp]:
  "sp_auth (handleKeyPress base k s) = sp_auth s" "sp_path (handleKeyPress base k s) = sp_path s"
  "sp_timers (handleKeyPress base k s) = sp_timers s"
  by (simp_all add: handleKeyPress_def)

lemma handleRegister_frame [simp]:
  "sp_auth (handleRegister base s) = sp_auth s" "sp_path (handleRegister base s) = sp_path s"
  by (simp_all add: handleRegister_def Let_def)

lemma login_failed_toast_frame [simp]:
  "sp_auth (login_failed_toast m msg s) = sp_auth s" "sp_path (login_failed_toast m msg s) = sp_path s"
  "sp_timers (login_failed_toast m msg s) = sp_timers s"
  "sp_login_mount (login_failed_toast m msg s) = sp_login_mount s"
  by (simp_all add: login_failed_toast_def)

lemma login_catch_frame [simp]:
  "sp_auth (login_catch m c s) = sp_auth s" "sp_path (login_catch m c s) = sp_path s"
  "sp_timers (login_catch m c s) = sp_timers s"
  "sp_login_mount (login_catch m c s) = sp_login_mount s"
  by (auto simp: login_catch_def split: caught.splits option.splits sum.splits)

lemma login_fulfilled_frame:
  assumes "login_fulfilled d s = (r, t)"
  shows "sp_path t = sp_path s" and "sp_login_mount t = sp_login_mount s"
    and "sp_auth t = sp_auth s \<or>
         (\<not> nullish d \<and> sp_auth t = setUser (js_member d ''user'') (js_member d ''access_token'')
                        (js_member d ''refresh_token'') (sp_auth s))"
  using assms by (auto simp: login_fulfilled_def js_get_def Let_def split: if_splits)

lemma login_settled_path [simp]: "sp_path (login_settled m out s) = sp_path s"
  by (auto simp: login_settled_def split: axios_outcome.splits prod.splits option.splits
      dest: login_fulfilled_frame)

lemma login_settled_auth:
  "sp_auth (login_settled m out s) = sp_auth s \<or>
   (\<exists>d. out = Resolved d \<and> sp_auth (login_settled m out s) =
      setUser (js_member d ''user'') (js_member d ''access_token'') (js_member d ''refresh_token'') (sp_auth s))"
  by (auto simp: login_settled_def split: axios_outcome.splits prod.splits option.splits
      dest: login_fulfilled_frame(3))

lemma register_settled_frame [simp]:
  "sp_auth (register_settled m out s) = sp_auth s" "sp_path (register_settled m out s) = sp_path s"
  by (auto simp: register_settled_def emit_registered_def onRegistered_def split: axios_outcome.splits)

lemma type_into_frame [simp]:
  "sp_auth (type_into f v s) = sp_auth s" "sp_path (type_into f v s) = sp_path s"
  by (cases f; simp)+

lemma go_frame [simp]: "sp_auth (go push p s) = sp_auth s"
  "sp_path (go push p s) = push (sp_auth s) (sp_path s) p"
  by (simp_all add: go_def)

lemma home_onLogout_frame [simp]:
  "sp_auth (home_onLogout u s) = initial_auth" "sp_path (home_onLogout u s) = sp_path s"
  by (simp_all add: home_onLogout_def Let_def)

lemma dashboard_logout_frame [simp]:
  "sp_auth (dashboard_logout push s) = initial_auth"
  "sp_path (dashboard_logout push s) = push initial_auth (sp_path s) ''/''"
  by (simp_all add: dashboard_logout_def Let_def)

lemma remount_frame [simp]:
  "sp_auth (remount_login o1 s) = sp_auth s" "sp_path (remount_login o1 s) = sp_path s"
  "sp_auth (remount_register o1 s) = sp_auth s" "sp_path (remount_register o1 s) = sp_path s"
  "sp_inflight (remount_login o1 s) = sp_inflight s" "sp_inflight (remount_register o1 s) = sp_inflight s"
  "sp_timers (remount_login o1 s) = sp_timers s" "sp_timers (remount_register o1 s) = sp_timers s"
  "sp_toasts (remount_login o1 s) = sp_toasts s" "sp_toasts (remount_register o1 s) = sp_toasts s"
  "sp_login (remount_register o1 s) = sp_login s" "sp_login_mount (remount_register o1 s) = sp_login_mount s"
  by (simp_all add: remount_login_def remount_register_def)

lemma spa_step_react [simp]:
  "sp_auth (spa_step push base ld s ev) = sp_auth (react push base ld s ev)"
  "sp_path (spa_step push base ld s ev) = sp_path (react push base ld s ev)"
  "sp_inflight (spa_step push base ld s ev) = sp_inflight (react push base ld s ev)"
  "sp_timers (spa_step push base ld s ev) = sp_timers (react push base ld s ev)"
  "sp_toasts (spa_step push base ld s ev) = sp_toasts (react push base ld s ev)"
  by (simp_all add: spa_step_def Let_def)

subsection \<open>What each view offers\<close>

lemma showing_cases: "showing v s \<Longrightarrow> showing w s \<Longrightarrow> v = w"
  by (auto simp: showing_def split: option.splits)

lemma offers_iff:
  "offers ld s e h \<longleftrightarrow>
     (showing HomeView s \<and>
        (if truthy (st_user (sp_auth s)) then (e, h) \<in> {(''click'', UserInfoLogout), (''click'', GoToDashboard)}
         else (e, h) \<in> {(''keypress'', HandleKeyPress), (''click'', HandleLogin), (''click'', GoToRegister)})) \<or>
     (showing RegisterView s \<and> (e, h) \<in> {(''click'', HandleRegister), (''click'', GoToLogin)}) \<or>
     (showing DashboardView s \<and> (e, h) \<in> {(''click'', Logout), (''click'', GoToHome)})"
  by (auto simp: offers_def tree_def render_App_def showing_def split: option.splits view.splits)

lemma has_model_iff:
  "has_model ld s f \<longleftrightarrow>
     (showing HomeView s \<and> \<not> truthy (st_user (sp_auth s)) \<and> f \<in> {LoginUsername, LoginPassword}) \<or>
     (showing RegisterView s \<and> f \<in> {RegUsername, RegFullName, RegEmail, RegPassword})"
  by (auto simp: has_model_def tree_def render_App_def showing_def split: option.splits view.splits)

lemma showing_dashboard_iff: "showing DashboardView s \<longleftrightarrow> sp_path s = ''/dashboard''"
  by (auto simp: showing_def match_route_def routes_def eq_commute [of _ "sp_path s"] split: if_splits)

lemma showing_home_iff: "showing HomeView s \<longleftrightarrow> sp_path s = ''/'' \<or> sp_path s = ''/home''"
  by (auto simp: showing_def match_route_def routes_def eq_commute [of _ "sp_path s"] split: if_splits)

lemma showing_register_iff: "showing RegisterView s \<longleftrightarrow> sp_path s = ''/register''"
  by (auto simp: showing_def match_route_def routes_def eq_commute [of _ "sp_path s"] split: if_splits)

lemmas showing_iff = showing_dashboard_iff showing_home_iff showing_register_iff

subsection \<open>The invariant of every run\<close>

text \<open>The dashboard is shown to authenticated users only, and the store has its declared type.\<close>

definition spa_inv :: "spa \<Rightarrow> bool" where
  "spa_inv s \<longleftrightarrow> is_AuthState (sp_auth s) \<and> (sp_path s = ''/dashboard'' \<longrightarrow> isAuthenticated (sp_auth s))"

lemma settled_dashboard: "settled st cur q = ''/dashboard'' \<Longrightarrow> isAuthenticated st \<or> cur = ''/dashboard''"
  by (auto simp: settled_def beforeEach_def split: if_splits)

lemma spa_inv_boot:
  assumes "honours_guard push"
  shows "spa_inv (boot push p)"
  using settled_dashboard [of initial_auth "[]" p]
  by (auto simp: spa_inv_def boot_def push_settled [OF assms] is_AuthState_initial)

text \<open>Only a login that is fulfilled writes a user into the store.\<close>

lemma settle_auth_cases:
  obtains (same) "sp_auth (settle i out s) = sp_auth s"
    | (login) m d where "i < length (sp_inflight s)" and "fst (sp_inflight s ! i) = AwaitLogin m" and "out = Resolved d"
        and "sp_auth (settle i out s) = setUser (js_member d ''user'') (js_member d ''access_token'')
               (js_member d ''refresh_token'') (sp_auth s)"
proof (cases "i < length (sp_inflight s)")
  case False
  then show ?thesis using that by (simp add: settle_def)
next
  case True
  show ?thesis
  proof (cases "fst (sp_inflight s ! i)")
    case (AwaitRegister m)
    with True show ?thesis using that by (simp add: settle_def Let_def)
  next
    case (AwaitLogin m)
    with True login_settled_auth [of m out "s\<lparr>sp_inflight := drop_nth i (sp_inflight s)\<rparr>"] that
    show ?thesis by (auto simp: settle_def Let_def)
  qed
qed

lemma settle_auth:
  assumes "typed_event s (Settle i out)" and "is_AuthState (sp_auth s)"
  shows "is_AuthState (sp_auth (settle i out s))"
    and "isAuthenticated (sp_auth s) \<Longrightarrow> isAuthenticated (sp_auth (settle i out s))"
proof -
  have "is_AuthState (sp_auth (settle i out s)) \<and>
    (isAuthenticated (sp_auth s) \<longrightarrow> isAuthenticated (sp_auth (settle i out s)))"
  proof (cases rule: settle_auth_cases [of i out s])
    case (login m d)
    with assms(1) have "is_LoginResponse d" by (simp add: typed_event_def)
    with login(4) assms(2) show ?thesis
      by (fastforce simp: is_LoginResponse_def intro: is_AuthState_setUser dest: is_User_truthy)
  qed (use assms(2) in simp)
  then show "is_AuthState (sp_auth (settle i out s))"
    and "isAuthenticated (sp_auth s) \<Longrightarrow> isAuthenticated (sp_auth (settle i out s))" by simp_all
qed

lemma settle_path [simp]: "sp_path (settle i out s) = sp_path s"
  by (auto simp: settle_def Let_def split: awaiting.splits)

lemma spa_inv_handler:
  assumes "honours_guard push" and "spa_inv s" and "offers ld s e h"
  shows "spa_inv (run_handler push base h key s)"
proof (cases h)
  case UserInfoLogout
  with assms(3) have "showing HomeView s" by (auto simp: offers_iff split: if_splits)
  with UserInfoLogout show ?thesis by (auto simp: spa_inv_def showing_iff is_AuthState_initial)
next
  case Logout
  with assms(3) have "sp_path s = ''/dashboard''" by (auto simp: offers_iff showing_iff split: if_splits)
  with Logout show ?thesis
    by (simp add: spa_inv_def push_settled [OF assms(1)] is_AuthState_initial settled_def)
qed (use assms(2) settled_dashboard in \<open>auto simp: spa_inv_def push_settled [OF assms(1)]\<close>)

lemma spa_inv_step:
  assumes push: "honours_guard push" and "typed_event s ev" and "spa_inv s"
  shows "spa_inv (spa_step push base ld s ev)"
proof -
  have "spa_inv (react push base ld s ev)"
  proof (cases ev)
    case (Settle i out)
    with assms settle_auth [of s i out] show ?thesis by (auto simp: react_def spa_inv_def)
  next
    case (Timeout i)
    with assms(3) settled_dashboard show ?thesis
      by (auto simp: react_def spa_inv_def timeout_def push_settled [OF push])
  next
    case (Reload p)
    then show ?thesis by (simp add: react_def spa_inv_boot [OF push])
  next
    case (Type f v)
    with assms(3) show ?thesis by (simp add: react_def spa_inv_def)
  next
    case (Click h)
    with assms(3) show ?thesis
      by (auto simp: react_def intro: spa_inv_handler [OF push])
  next
    case (KeyPress k)
    with assms(3) spa_inv_handler [OF push, of s ld "''keypress''" HandleKeyPress base k] show ?thesis
      by (auto simp: react_def)
  qed
  then show ?thesis by (simp add: spa_inv_def)
qed

text \<open>Everything else leaves the store as it is or empties it.\<close>

lemma spa_step_auth_cases:
  obtains (same) "sp_auth (spa_step push base ld s ev) = sp_auth s"
    | (cleared) "sp_auth (spa_step push base ld s ev) = initial_auth"
    | (settled) i out where "ev = Settle i out" and "sp_auth (spa_step push base ld s ev) = sp_auth (settle i out s)"
proof -
  have handler: "sp_auth (run_handler push base h key s) \<in> {sp_auth s, initial_auth}" for h key
    by (cases h) simp_all
  show thesis
  proof (cases "\<exists>i out. ev = Settle i out")
    case True
    then show thesis using that(3) by (auto simp: react_def)
  next
    case False
    then have "sp_auth (react push base ld s ev) \<in> {sp_auth s, initial_auth}"
      using handler by (cases ev) (auto simp: react_def timeout_def boot_def)
    then show thesis using that(1,2) by auto
  qed
qed

lemma spa_inv_run:
  "honours_guard push \<Longrightarrow> spa_inv s \<Longrightarrow> typed_run push base ld s evs \<Longrightarrow>
     spa_inv (spa_run push base ld s evs)"
  by (induction evs arbitrary: s) (simp_all add: spa_inv_step)

text \<open>C10: In every run of the frontend whose login responses have the declared type, from loading any
  page on, the dashboard is shown to authenticated users only, and the store keeps its declared type
  (so that the guard's test and the templates' test of the user agree).\<close>

theorem dashboard_needs_login:
  assumes "honours_guard push" and "typed_run push base ld (boot push p) evs"
  shows "(sp_path (spa_run push base ld (boot push p) evs) = ''/dashboard'' \<longrightarrow>
            isAuthenticated (sp_auth (spa_run push base ld (boot push p) evs))) \<and>
         is_AuthState (sp_auth (spa_run push base ld (boot push p) evs)) \<and>
         (isAuthenticated (sp_auth (spa_run push base ld (boot push p) evs)) \<longleftrightarrow>
            truthy (st_user (sp_auth (spa_run push base ld (boot push p) evs))))"
proof -
  have "spa_inv (spa_run push base ld (boot push p) evs)"
    using assms by (simp add: spa_inv_run spa_inv_boot)
  then show ?thesis by (auto simp: spa_inv_def is_AuthState_test)
qed

text \<open>A session: load \<open>/\<close>, type the credentials, press Enter, receive the tokens, wait.\<close>

definition alice_user :: js where
  "alice_user = JObj [(''username'', JStr ''alice''), (''full_name'', JStr ''Alice A''),
                      (''email'', JStr ''a@b.c'')]"

definition alice_response :: js where
  "alice_response = JObj [(''user'', alice_user), (''access_token'', JStr ''acc''), (''refresh_token'', JStr ''ref'')]"

definition alice_events :: "event list" where
  "alice_events = [Type LoginUsername ''alice'', Type LoginPassword ''secret1'', KeyPress ''Enter'',
     Settle 0 (Resolved alice_response), Timeout 0]"

abbreviation alice_run :: "event list \<Rightarrow> spa" where
  "alice_run evs \<equiv> spa_run settled Undefined (\<lambda>_. []) (boot settled ''/'') evs"

lemma alice_typed: "typed_run settled Undefined (\<lambda>_. []) (boot settled ''/'') alice_events"
  by code_simp

theorem dashboard_needs_login_witness:
  "sp_path (alice_run alice_events) = ''/dashboard'' \<and> isAuthenticated (sp_auth (alice_run alice_events))"
proof -
  have "sp_path (alice_run alice_events) = ''/dashboard''" by code_simp
  with dashboard_needs_login [OF settled_honours_guard alice_typed] show ?thesis by blast
qed

subsection \<open>Timers and the unreachable profile\<close>

definition timers_ok :: "spa \<Rightarrow> bool" where
  "timers_ok s \<longleftrightarrow> (\<forall>t \<in> set (sp_timers s). snd t = ''/'' \<or> snd t = ''/dashboard'')"

lemma set_drop_nth: "set (drop_nth i xs) \<subseteq> set xs"
  by (auto simp: drop_nth_def dest: in_set_takeD in_set_dropD)

lemma login_fulfilled_timers:
  "login_fulfilled d s = (r, t) \<Longrightarrow> sp_timers t = sp_timers s \<or> sp_timers t = sp_timers s @ [(500, ''/dashboard'')]"
  by (auto simp: login_fulfilled_def Let_def split: sum.splits)

lemma login_settled_timers:
  "sp_timers (login_settled m out s) = sp_timers s \<or>
   sp_timers (login_settled m out s) = sp_timers s @ [(500, ''/dashboard'')]"
proof (cases out)
  case (Resolved d)
  obtain r t where "login_fulfilled d s = (r, t)" by fastforce
  with Resolved login_fulfilled_timers [OF this] show ?thesis
    by (auto simp: login_settled_def split: option.splits)
qed (simp add: login_settled_def)

lemma register_settled_timers:
  "sp_timers (register_settled m out s) = sp_timers s \<or>
   sp_timers (register_settled m out s) = sp_timers s @ [(2000, ''/'')]"
  by (cases out) (simp_all add: register_settled_def emit_registered_def onRegistered_def)

lemma timers_ok_settled:
  assumes "timers_ok s"
  shows "timers_ok (login_settled m out s)" and "timers_ok (register_settled m out s)"
  using assms login_settled_timers [of m out s] register_settled_timers [of m out s]
  by (auto simp: timers_ok_def)

lemma type_into_timers [simp]: "sp_timers (type_into f v s) = sp_timers s"
  by (cases f) simp_all

lemma run_handler_timers [simp]: "sp_timers (run_handler push base h key s) = sp_timers s"
  by (cases h) (simp_all add: handleRegister_def handleKeyPress_def home_onLogout_def dashboard_logout_def
      go_def Let_def)

lemma timers_ok_step: "timers_ok s \<Longrightarrow> timers_ok (spa_step push base ld s ev)"
proof -
  assume ok: "timers_ok s"
  then have "timers_ok (react push base ld s ev)"
  proof (cases ev)
    case (Settle i out)
    have "timers_ok (s\<lparr>sp_inflight := drop_nth i (sp_inflight s)\<rparr>)" using ok by (simp add: timers_ok_def)
    with Settle ok timers_ok_settled show ?thesis
      by (auto simp: react_def settle_def Let_def split: awaiting.splits)
  next
    case (Timeout i)
    have "\<forall>t \<in> set (drop_nth i (sp_timers s)). snd t = ''/'' \<or> snd t = ''/dashboard''"
      using ok set_drop_nth [of i "sp_timers s"] by (auto simp: timers_ok_def)
    with Timeout ok show ?thesis by (simp add: react_def timeout_def timers_ok_def go_def)
  qed (auto simp: react_def timers_ok_def boot_def)
  then show ?thesis by (simp add: timers_ok_def)
qed

lemma timers_ok_run: "timers_ok s \<Longrightarrow> timers_ok (spa_run push base ld s evs)"
  by (induction evs arbitrary: s) (simp_all add: timers_ok_step)

lemma timers_ok_boot: "timers_ok (boot push p)"
  by (simp add: timers_ok_def boot_def)

definition on_dashboard :: "spa \<Rightarrow> bool" where
  "on_dashboard s \<longleftrightarrow> sp_path s = ''/dashboard'' \<and> spa_inv s \<and> timers_ok s"

lemma settled_from_dashboard:
  "isAuthenticated st \<Longrightarrow> q \<in> {''/'', ''/home'', ''/register'', ''/dashboard''} \<Longrightarrow>
     settled st ''/dashboard'' q = ''/dashboard''"
  by (auto simp: settled_def)

lemma on_dashboard_step:
  assumes push: "honours_guard push" and s: "on_dashboard s" and typed: "typed_event s ev"
    and ev: "\<forall>p. ev \<noteq> Reload p" "ev \<noteq> Click Logout"
  shows "on_dashboard (spa_step push base ld s ev)"
proof -
  have auth: "isAuthenticated (sp_auth s)" using s by (simp add: on_dashboard_def spa_inv_def)
  have "sp_path (react push base ld s ev) = ''/dashboard''"
  proof (cases ev)
    case (Timeout i)
    have "i < length (sp_timers s) \<Longrightarrow> snd (sp_timers s ! i) \<in> {''/'', ''/dashboard''}"
      using s by (simp add: on_dashboard_def timers_ok_def)
    with Timeout auth s show ?thesis
      by (auto simp: react_def timeout_def on_dashboard_def push_settled [OF push] settled_from_dashboard)
  next
    case (Click h)
    with s auth ev(2) show ?thesis
      by (auto simp: react_def offers_iff showing_iff on_dashboard_def push_settled [OF push] settled_from_dashboard)
  qed (use s ev(1) in \<open>auto simp: react_def on_dashboard_def\<close>)
  with s show ?thesis
    by (simp add: on_dashboard_def spa_inv_step [OF push typed] timers_ok_step)
qed

lemma on_dashboard_run:
  assumes push: "honours_guard push"
  shows "on_dashboard s \<Longrightarrow> typed_run push base ld s evs \<Longrightarrow> (\<forall>p. Reload p \<notin> set evs) \<Longrightarrow>
     Click Logout \<notin> set evs \<Longrightarrow> on_dashboard (spa_run push base ld s evs)"
proof (induction evs arbitrary: s)
  case Nil
  then show ?case by simp
next
  case (Cons ev evs)
  have "on_dashboard (spa_step push base ld s ev)"
    using Cons.prems by (intro on_dashboard_step [OF push]) auto
  with Cons show ?case by simp
qed

lemma typed_run_append:
  "typed_run push base ld s (xs @ ys) \<longleftrightarrow>
     typed_run push base ld s xs \<and> typed_run push base ld (spa_run push base ld s xs) ys"
  by (induction xs arbitrary: s) auto

text \<open>C38: Once a run has reached the dashboard, no sequence of events without a logout or a reload leaves
  it, whatever is clicked: the card My Profile goes to \<open>/home\<close>, which the guard sends back, so the
  profile card (\<open>UserInfo\<close>) cannot be seen again.\<close>

theorem profile_unreachable_from_dashboard:
  assumes push: "honours_guard push"
    and "typed_run push base ld (boot push p) (before @ evs)"
    and "sp_path (spa_run push base ld (boot push p) before) = ''/dashboard''"
    and "\<forall>q. Reload q \<notin> set evs" and "Click Logout \<notin> set evs"
  shows "sp_path (spa_run push base ld (boot push p) (before @ evs)) = ''/dashboard'' \<and>
         \<not> shows_profile (spa_run push base ld (boot push p) (before @ evs))"
proof -
  let ?s = "spa_run push base ld (boot push p) before"
  have "on_dashboard ?s"
    using assms by (simp add: on_dashboard_def typed_run_append spa_inv_run spa_inv_boot timers_ok_run timers_ok_boot)
  then have "on_dashboard (spa_run push base ld ?s evs)"
    using assms(2,4,5) by (rule_tac on_dashboard_run [OF push]) (simp_all add: typed_run_append)
  then show ?thesis by (simp add: on_dashboard_def spa_run_def shows_profile_def showing_iff)
qed

theorem profile_unreachable_from_dashboard_witness:
  "offers (\<lambda>_. []) (alice_run alice_events) ''click'' GoToHome \<and>
   sp_path (alice_run (alice_events @ [Click GoToHome])) = ''/dashboard'' \<and>
   \<not> shows_profile (alice_run (alice_events @ [Click GoToHome]))"
proof -
  have typed: "typed_run settled Undefined (\<lambda>_. []) (boot settled ''/'') (alice_events @ [Click GoToHome])"
    by code_simp
  have there: "sp_path (alice_run alice_events) = ''/dashboard''" by code_simp
  have "offers (\<lambda>_. []) (alice_run alice_events) ''click'' GoToHome" by code_simp
  with profile_unreachable_from_dashboard [OF settled_honours_guard typed there] show ?thesis by simp
qed

subsection \<open>The life of a login\<close>

lemma login_fulfilled_typed:
  assumes "is_LoginResponse d"
  shows "login_fulfilled d s =
    (None, set_timeout 500 ''/dashboard''
       (add_toast ''success''
          (''Welcome back, '' @ js_string (js_member (js_member d ''user'') ''full_name'') @ ''!'')
          (JStr ''Successfully logged in'') 2000
          (s\<lparr>sp_auth := setUser (js_member d ''user'') (js_member d ''access_token'')
                         (js_member d ''refresh_token'') (sp_auth s)\<rparr>)))"
proof -
  from assms obtain fs where d: "d = JObj fs" and "is_User (js_member d ''user'')"
    by (cases d) (auto simp: is_LoginResponse_def)
  then have "truthy (js_member (JObj fs) ''user'')" using is_User_truthy by blast
  then show ?thesis by (simp add: d login_fulfilled_def Let_def)
qed

lemma drop_nth_last [simp]: "drop_nth (length xs) (xs @ [x]) = xs"
  by (simp add: drop_nth_def)

lemma sp_inflight_handleLogin:
  "lf_username (sp_login s) \<noteq> [] \<Longrightarrow> lf_password (sp_login s) \<noteq> [] \<Longrightarrow>
     sp_inflight (handleLogin base s) =
       sp_inflight s @ [(AwaitLogin (sp_login_mount s), login_request base (sp_login s))]"
  by (simp add: handleLogin_def Let_def)

lemma react_click_login:
  assumes "shows_login s"
  shows "react push base ld s (Click HandleLogin) = handleLogin base s"
    and "react push base ld s (KeyPress ''Enter'') = handleLogin base s"
  using assms by (auto simp: react_def offers_iff shows_login_def handleKeyPress_def)

text \<open>C36: Signing in works: from any state that shows the login form with both fields filled, the click
  sends one request to \<open>/v1/login_user\<close> with exactly those credentials; when it is fulfilled with a
  response of the declared type, the store holds the user and the two tokens of that response; and
  when the timer then fires the application is on the dashboard.\<close>

theorem login_reaches_dashboard:
  assumes push: "honours_guard push" and form: "shows_login s"
    and filled: "lf_username (sp_login s) \<noteq> []" "lf_password (sp_login s) \<noteq> []"
    and d: "is_LoginResponse d"
    and t: "t = spa_run push base ld s
              [Click HandleLogin, Settle (length (sp_inflight s)) (Resolved d), Timeout (length (sp_timers s))]"
  shows "sp_inflight (spa_step push base ld s (Click HandleLogin)) =
           sp_inflight s @ [(AwaitLogin (sp_login_mount s),
             \<lparr>hr_method = ''POST'', hr_url = js_string base @ ''/v1/login_user'',
              hr_body = JObj [(''username'', JStr (lf_username (sp_login s))),
                              (''password'', JStr (lf_password (sp_login s)))],
              hr_headers = [(''Content-Type'', ''application/json''), (''Authorization'', ''none'')]\<rparr>)] \<and>
         sp_auth t = setUser (js_member d ''user'') (js_member d ''access_token'')
                       (js_member d ''refresh_token'') (sp_auth s) \<and>
         sp_path t = ''/dashboard'' \<and> sp_inflight t = sp_inflight s \<and> sp_timers t = sp_timers s"
proof -
  let ?m = "sp_login_mount s"
  let ?a = "spa_step push base ld s (Click HandleLogin)"
  let ?b = "spa_step push base ld ?a (Settle (length (sp_inflight s)) (Resolved d))"
  have a: "sp_inflight ?a = sp_inflight s @ [(AwaitLogin ?m, login_request base (sp_login s))]"
    "sp_auth ?a = sp_auth s" "sp_path ?a = sp_path s" "sp_timers ?a = sp_timers s"
    using filled by (simp_all add: react_click_login [OF form] sp_inflight_handleLogin)
  have b: "sp_auth ?b = setUser (js_member d ''user'') (js_member d ''access_token'')
                          (js_member d ''refresh_token'') (sp_auth s)"
    "sp_path ?b = sp_path s" "sp_inflight ?b = sp_inflight s"
    "sp_timers ?b = sp_timers s @ [(500, ''/dashboard'')]"
    using a by (simp_all add: react_def settle_def Let_def login_settled_def login_fulfilled_typed [OF d] nth_append)
  have "js_member d ''user'' \<noteq> Null" using d by (auto simp: is_LoginResponse_def is_User_def)
  then have "push (sp_auth ?b) (sp_path s) ''/dashboard'' = ''/dashboard''"
    using b(1) by (auto simp: push_settled [OF push] settled_def)
  with b have "sp_auth (spa_step push base ld ?b (Timeout (length (sp_timers s)))) = sp_auth ?b"
    "sp_path (spa_step push base ld ?b (Timeout (length (sp_timers s)))) = ''/dashboard''"
    "sp_inflight (spa_step push base ld ?b (Timeout (length (sp_timers s)))) = sp_inflight s"
    "sp_timers (spa_step push base ld ?b (Timeout (length (sp_timers s)))) = sp_timers s"
    by (simp_all add: react_def timeout_def go_def nth_append)
  with a(1) b(1) show ?thesis by (simp add: t login_request_def)
qed

theorem login_reaches_dashboard_witness:
  "sp_path (spa_run settled Undefined (\<lambda>_. [])
      (alice_run [Type LoginUsername ''alice'', Type LoginPassword ''secret1''])
      [Click HandleLogin, Settle 0 (Resolved alice_response), Timeout 0]) = ''/dashboard''"
proof -
  let ?s = "alice_run [Type LoginUsername ''alice'', Type LoginPassword ''secret1'']"
  have h: "shows_login ?s" "lf_username (sp_login ?s) \<noteq> []" "lf_password (sp_login ?s) \<noteq> []"
    "is_LoginResponse alice_response" "length (sp_inflight ?s) = 0" "length (sp_timers ?s) = 0"
    by code_simp+
  show ?thesis
    using login_reaches_dashboard [OF settled_honours_guard h(1-4) refl, of Undefined "\<lambda>_. []"] h(5,6) by simp
qed

text \<open>What the user is told when a login request is rejected.\<close>

definition login_message :: "(int \<times> js) option \<Rightarrow> js" where
  "login_message resp =
     (case resp of
        Some (status, data) \<Rightarrow> if status = 404 then js_member data ''message'' else JStr ''Invalid username or password''
      | None \<Rightarrow> JStr ''Invalid username or password'')"

definition has_body :: "(int \<times> js) option \<Rightarrow> bool" where
  "has_body resp \<longleftrightarrow> (case resp of None \<Rightarrow> True | Some (status, data) \<Rightarrow> \<not> nullish data)"

lemma login_catch_rejected:
  "has_body resp \<Longrightarrow> login_catch m (AxiosError resp) s = login_failed_toast m (login_message resp) s"
  by (auto simp: login_catch_def has_body_def login_message_def js_get_def split: option.splits)

text \<open>A rejected login changes nothing but the form: the store, the path and the timers are as before,
  the loading flag of the form is down again, and one error toast shows the server's message for a 404
  and a fixed message for anything else (for a rejection whose response, if any, has a body).\<close>

theorem login_rejected:
  assumes "has_body resp" and "t = login_settled m (Rejected resp) s"
  shows "sp_auth t = sp_auth s \<and> sp_path t = sp_path s \<and> sp_timers t = sp_timers s \<and>
         sp_toasts t = sp_toasts s @ [\<lparr>t_severity = ''error'', t_summary = ''Login Failed'',
           t_detail = login_message resp, t_life = 3000\<rparr>] \<and>
         (m = sp_login_mount s \<longrightarrow>
            sp_login t = (sp_login s)\<lparr>lf_errorMessage := login_message resp, lf_loading := False\<rparr>)"
  using assms
  by (simp add: login_settled_def login_catch_rejected login_failed_toast_def add_toast_def write_login_def)

theorem login_rejected_witness:
  "sp_toasts (login_settled 0 (Rejected (Some (404, JObj [(''message'', JStr ''user not found'')]))) (boot settled ''/'')) =
     [\<lparr>t_severity = ''error'', t_summary = ''Login Failed'', t_detail = JStr ''user not found'', t_life = 3000\<rparr>]"
proof -
  have "has_body (Some (404, JObj [(''message'', JStr ''user not found'')]))"
    by (simp add: has_body_def nullish_def)
  from login_rejected [OF this refl, of 0 "boot settled ''/''"] show ?thesis
    by (simp add: boot_def login_message_def)
qed

lemma login_fulfilled_mount:
  "login_fulfilled d s = (r, t) \<Longrightarrow> sp_login_mount t = sp_login_mount s"
  by (rule login_fulfilled_frame(2))

text \<open>However a login settles, with whatever data, the \<^verbatim>\<open>finally\<close> block is reached: the loading flag of
  the form that sent it is down.\<close>

theorem login_always_finishes:
  "lf_loading (sp_login (login_settled (sp_login_mount s) out s)) = False"
proof (cases out)
  case (Resolved d)
  obtain r t where "login_fulfilled d s = (r, t)" by fastforce
  with Resolved login_fulfilled_mount [OF this] show ?thesis
    by (auto simp: login_settled_def write_login_def split: option.splits)
next
  case (Rejected r)
  then show ?thesis by (simp add: login_settled_def write_login_def)
qed

text \<open>A response without a user leaves the frontend half logged in: the user sees the toast Login
  Failed and no navigation is set, but the guard takes the session for authenticated (the user is
  \<open>undefined\<close>, not \<open>null\<close>), while the home page still shows the login form; from there the button
  Create Account leads to the dashboard.\<close>

theorem login_without_user:
  assumes push: "honours_guard push" and form: "shows_login s" and "length (sp_inflight s) = i"
    and filled: "lf_username (sp_login s) \<noteq> []" "lf_password (sp_login s) \<noteq> []"
    and fs: "map_of fs ''user'' = None"
    and t: "t = spa_run push base ld s [Click HandleLogin, Settle i (Resolved (JObj fs))]"
  shows "isAuthenticated (sp_auth t) \<and> shows_login t \<and> sp_timers t = sp_timers s \<and>
         t_summary (last (sp_toasts t)) = ''Login Failed'' \<and>
         sp_path (spa_step push base ld t (Click GoToRegister)) = ''/dashboard''"
proof -
  let ?a = "spa_step push base ld s (Click HandleLogin)"
  have a: "sp_inflight ?a = sp_inflight s @ [(AwaitLogin (sp_login_mount s), login_request base (sp_login s))]"
    "sp_auth ?a = sp_auth s" "sp_path ?a = sp_path s" "sp_timers ?a = sp_timers s"
    using filled by (simp_all add: react_click_login [OF form] sp_inflight_handleLogin)
  have t': "sp_auth t = setUser Undefined (js_member (JObj fs) ''access_token'')
              (js_member (JObj fs) ''refresh_token'') (sp_auth s)"
    "sp_path t = sp_path s" "sp_timers t = sp_timers s" "t_summary (last (sp_toasts t)) = ''Login Failed''"
    using a assms(3) fs
    by (simp_all add: t react_def settle_def Let_def login_settled_def login_fulfilled_def nth_append
        login_catch_def login_failed_toast_def add_toast_def js_get_def nullish_def)
  have home: "sp_path t = ''/'' \<or> sp_path t = ''/home''"
    using form t'(2) by (simp add: shows_login_def showing_iff)
  then have "sp_path (spa_step push base ld t (Click GoToRegister)) = ''/dashboard''"
    using t'(1) by (auto simp: react_def offers_iff showing_iff push_settled [OF push] settled_def)
  with home t' show ?thesis by (auto simp: shows_login_def showing_iff)
qed

theorem login_without_user_witness:
  "isAuthenticated (sp_auth (alice_run [Type LoginUsername ''alice'', Type LoginPassword ''secret1'',
      Click HandleLogin, Settle 0 (Resolved (JObj []))]))"
proof -
  let ?s = "alice_run [Type LoginUsername ''alice'', Type LoginPassword ''secret1'']"
  have h: "shows_login ?s" "length (sp_inflight ?s) = 0"
    "lf_username (sp_login ?s) \<noteq> []" "lf_password (sp_login ?s) \<noteq> []"
    by code_simp+
  show ?thesis
    using login_without_user [OF settled_honours_guard h, of "[]", OF _ refl] by simp
qed

text \<open>The loading flag does not stop a second submission: pressing Enter again while a login is under
  way sends the same request again.\<close>

theorem enter_submits_again:
  assumes form: "shows_login s" and filled: "lf_username (sp_login s) \<noteq> []" "lf_password (sp_login s) \<noteq> []"
    and a: "a = spa_step push base ld s (KeyPress ''Enter'')"
  shows "lf_loading (sp_login a) \<and>
         map snd (sp_inflight (spa_step push base ld a (KeyPress ''Enter''))) =
           map snd (sp_inflight s) @ [login_request base (sp_login s), login_request base (sp_login s)]"
proof -
  have r: "react push base ld s (KeyPress ''Enter'') = handleLogin base s"
    by (rule react_click_login(2) [OF form])
  have same: "sp_auth a = sp_auth s" "sp_path a = sp_path s" by (simp_all add: a r)
  then have form': "shows_login a" using form by (simp add: shows_login_def showing_iff)
  have "remount_login s (handleLogin base s) = handleLogin base s"
    using form by (simp add: remount_login_def)
  then have login: "sp_login a = (sp_login s)\<lparr>lf_loading := True\<rparr>"
    using filled by (simp add: a spa_step_def r Let_def handleLogin_def write_login_def)
  moreover have "sp_inflight a = sp_inflight s @ [(AwaitLogin (sp_login_mount s), login_request base (sp_login s))]"
    using filled by (simp add: a r sp_inflight_handleLogin)
  moreover have "login_request base (sp_login a) = login_request base (sp_login s)"
    by (simp add: login login_request_def)
  ultimately show ?thesis
    using filled by (simp add: react_click_login(2) [OF form'] sp_inflight_handleLogin)
qed

theorem enter_submits_again_witness:
  "length (sp_inflight (alice_run [Type LoginUsername ''alice'', Type LoginPassword ''secret1'',
     KeyPress ''Enter'', KeyPress ''Enter''])) = 2"
proof -
  let ?s = "alice_run [Type LoginUsername ''alice'', Type LoginPassword ''secret1'']"
  have h: "shows_login ?s" "lf_username (sp_login ?s) \<noteq> []" "lf_password (sp_login ?s) \<noteq> []"
    "length (sp_inflight ?s) = 0"
    by code_simp+
  have "length (map snd (sp_inflight (spa_step settled Undefined (\<lambda>_. [])
          (spa_step settled Undefined (\<lambda>_. []) ?s (KeyPress ''Enter'')) (KeyPress ''Enter'')))) = 2"
    using enter_submits_again [OF h(1-3) refl, of settled Undefined "\<lambda>_. []"] h(4) by simp
  then show ?thesis by simp
qed

subsection \<open>The life of a registration\<close>

text \<open>C37: Registering, as a guest: a fulfilled request shows the success toast and nothing else, and, if the form is
  still the mounted one, sets the timer that leads to the login page; a rejected one sets no timer, and
  shows one toast, which says that the name is taken exactly for a 409, and otherwise the server's message where
  there is one, or else a fixed message. The store is not touched either way, and the mounted form stops loading.\<close>

theorem register_outcome:
  assumes push: "honours_guard push" and guest: "\<not> isAuthenticated (sp_auth s)"
    and here: "here \<longleftrightarrow> showing RegisterView s \<and> m = sp_register_mount s"
  shows "(let t = register_settled m (Resolved d) s in
            sp_auth t = sp_auth s \<and>
            sp_toasts t = sp_toasts s @ [\<lparr>t_severity = ''success'', t_summary = ''Registration Successful!'',
              t_detail = JStr ''You can now login with your credentials'', t_life = 5000\<rparr>] \<and>
            sp_timers t = sp_timers s @ (if here then [(2000, ''/'')] else []) \<and>
            (here \<longrightarrow> \<not> rf_loading (sp_register t) \<and>
               sp_path (spa_step push base ld t (Timeout (length (sp_timers s)))) = ''/'')) \<and>
         (let t = register_settled m (Rejected resp) s in
            sp_auth t = sp_auth s \<and> sp_timers t = sp_timers s \<and> (here \<longrightarrow> \<not> rf_loading (sp_register t)) \<and>
            sp_toasts t = sp_toasts s @ [\<lparr>t_severity = ''error'', t_summary = ''Registration Failed'', t_detail =
              (case resp of
                 None \<Rightarrow> JStr ''An error occurred during registration''
               | Some (status, data) \<Rightarrow>
                   if status = 409 then JStr ''Username or email already exists''
                   else if truthy (js_opt data ''message'') then js_opt data ''message''
                   else JStr ''An error occurred during registration''), t_life = 5000\<rparr>])"
proof -
  let ?t = "register_settled m (Resolved d) s"
  have t: "sp_auth ?t = sp_auth s" "sp_timers ?t = sp_timers s @ (if here then [(2000, ''/'')] else [])"
    "sp_toasts ?t = sp_toasts s @ [\<lparr>t_severity = ''success'', t_summary = ''Registration Successful!'',
       t_detail = JStr ''You can now login with your credentials'', t_life = 5000\<rparr>]"
    and form: "here \<Longrightarrow> \<not> rf_loading (sp_register ?t)" "here \<Longrightarrow> sp_path ?t = ''/register''"
    by (auto simp: register_settled_def emit_registered_def onRegistered_def showing_iff write_register_def
        add_toast_def set_timeout_def here)
  have "settled (sp_auth s) ''/register'' ''/'' = ''/''" using guest by (simp add: settled_def)
  with t form(2) have "sp_path (spa_step push base ld ?t (Timeout (length (sp_timers s)))) = ''/''" if here
    using that by (simp add: react_def timeout_def nth_append push_settled [OF push])
  moreover have "sp_auth (register_settled m (Rejected resp) s) = sp_auth s"
    "sp_timers (register_settled m (Rejected resp) s) = sp_timers s"
    "here \<longrightarrow> \<not> rf_loading (sp_register (register_settled m (Rejected resp) s))"
    "sp_toasts (register_settled m (Rejected resp) s) = sp_toasts s @ [\<lparr>t_severity = ''error'',
       t_summary = ''Registration Failed'', t_detail = register_error_message resp, t_life = 5000\<rparr>]"
    by (simp_all add: register_settled_def write_register_def add_toast_def here)
  ultimately show ?thesis using t form(1) by (simp add: Let_def register_error_message_def)
qed

theorem register_outcome_witness:
  "sp_timers (register_settled 0 (Resolved Null) (boot settled ''/register'')) = [(2000, ''/'')] \<and>
   map t_severity (sp_toasts (register_settled 0 (Resolved Null) (boot settled ''/register''))) = [''success'']"
proof -
  have h: "\<not> isAuthenticated (sp_auth (boot settled ''/register''))"
    "True \<longleftrightarrow> showing RegisterView (boot settled ''/register'') \<and> 0 = sp_register_mount (boot settled ''/register'')"
    "sp_timers (boot settled ''/register'') = []" "sp_toasts (boot settled ''/register'') = []"
    by code_simp+
  show ?thesis
    using register_outcome [OF settled_honours_guard h(1,2), of Null Undefined "\<lambda>_. []" None] h(3,4)
    by (simp add: Let_def)
qed

end
