(* ===== verification/GoBase.thy ===== *)
theory GoBase
  imports Prelude
begin

section \<open>Go errors and strings\<close>

text \<open>
  The error values of the backend, with what \<open>errors.As\<close> and \<open>errors.Is\<close> find in their chains
  (\<^verbatim>\<open>db/sqlc/error.go\<close>), and the functions of Go's \<open>strings\<close> package the authorization code uses.
\<close>

subsection \<open>Errors (db/sqlc/error.go)\<close>

text \<open>
  \<open>PgError c\<close> is a \<^verbatim>\<open>*pgconn.PgError\<close> with its SQLSTATE code, \<open>NoRows\<close> is \<^verbatim>\<open>pgx.ErrNoRows\<close>,
  \<open>ConnError\<close> any other error of a driver or of the system (a lost connection, a cancelled context, no
  random bytes), \<open>Wrap p e\<close> an error made with \<^verbatim>\<open>fmt.Errorf("p: %w", e)\<close>, and \<open>Plain m\<close> one made with
  \<^verbatim>\<open>errors.New\<close> or with \<^verbatim>\<open>%v\<close>, which keeps no chain.
\<close>

datatype go_error = PgError string | NoRows | ConnError | Wrap string go_error | Plain string

definition ForeignKeyViolation :: string where "ForeignKeyViolation = ''23503''"
definition UniqueViolation :: string where "UniqueViolation = ''23505''"
definition ErrRecordNotFound :: go_error where "ErrRecordNotFound = NoRows"
definition ErrUniqueViolation :: go_error where "ErrUniqueViolation = PgError UniqueViolation"

fun ErrorCode :: "go_error \<Rightarrow> string" where
  "ErrorCode (PgError c) = c"
| "ErrorCode (Wrap _ e) = ErrorCode e"
| "ErrorCode _ = []"

text \<open>\<open>errors.Is(err, ErrRecordNotFound)\<close>.\<close>

fun is_not_found :: "go_error \<Rightarrow> bool" where
  "is_not_found (Wrap _ e) = is_not_found e"
| "is_not_found e = (e = ErrRecordNotFound)"

text \<open>\<open>err.Error()\<close>; the text of a driver's error is the driver's.\<close>

fun error_text :: "(go_error \<Rightarrow> string) \<Rightarrow> go_error \<Rightarrow> string" where
  "error_text drv (Wrap p e) = p @ error_text drv e"
| "error_text drv (Plain m) = m"
| "error_text drv e = drv e"

lemma codes_differ [simp]:
  "UniqueViolation \<noteq> ForeignKeyViolation" "ForeignKeyViolation \<noteq> UniqueViolation"
  "UniqueViolation \<noteq> []" "ForeignKeyViolation \<noteq> []"
  by (simp_all add: UniqueViolation_def ForeignKeyViolation_def)

lemma is_not_found_simps [simp]: "is_not_found NoRows" "\<not> is_not_found ConnError"
  "\<not> is_not_found (PgError c)" "\<not> is_not_found (Plain m)"
  by (simp_all add: ErrRecordNotFound_def)

declare is_not_found.simps(2-5) [simp del]

subsection \<open>strings.Fields and strings.ToLower\<close>

text \<open>
  A Go string is a sequence of bytes, which \<open>Fields\<close> cuts at runs of Unicode white space. The
  white space runes that UTF-8 writes with more than one byte start with a byte that is never
  inside another rune, so looking for them at every byte finds what decoding finds.
\<close>

definition space_len :: "string \<Rightarrow> nat" where
  "space_len s =
     (case map of_char (take 3 s) :: nat list of
        [] \<Rightarrow> 0
      | b # r \<Rightarrow>
          if b \<in> {9, 10, 11, 12, 13, 32} then 1
          else (case r of
             [] \<Rightarrow> 0
           | c # r' \<Rightarrow>
               if b = 0xC2 \<and> (c = 0x85 \<or> c = 0xA0) then 2
               else (case r' of
                  [] \<Rightarrow> 0
                | d # _ \<Rightarrow>
                    if b = 0xE1 \<and> c = 0x9A \<and> d = 0x80
                     \<or> b = 0xE2 \<and> c = 0x80 \<and> (0x80 \<le> d \<and> d \<le> 0x8A \<or> d = 0xA8 \<or> d = 0xA9 \<or> d = 0xAF)
                     \<or> b = 0xE2 \<and> c = 0x81 \<and> d = 0x9F
                     \<or> b = 0xE3 \<and> c = 0x80 \<and> d = 0x80
                    then 3 else 0)))"

function fields_from :: "string \<Rightarrow> string \<Rightarrow> string list" where
  "fields_from cur [] = (if cur = [] then [] else [rev cur])"
| "fields_from cur (c # cs) =
     (if space_len (c # cs) = 0 then fields_from (c # cur) cs
      else (if cur = [] then [] else [rev cur]) @ fields_from [] (drop (space_len (c # cs) - 1) cs))"
  by pat_completeness auto
termination
  by (relation "measure (\<lambda>(cur, s). length s)") auto

definition Fields :: "string \<Rightarrow> string list" where
  "Fields s = fields_from [] s"

lemma Fields_Nil [simp]: "Fields [] = []"
  by (simp add: Fields_def)

text \<open>\<open>strings.ToLower\<close> on the letters of ASCII. No letter of \<open>bearer\<close> is the lower case of a letter
  outside ASCII, so comparing with that word sees no difference.\<close>

definition lower_char :: "char \<Rightarrow> char" where
  "lower_char c = (let n = of_char c :: nat in if 65 \<le> n \<and> n \<le> 90 then char_of (n + 32) else c)"

definition ToLower :: "string \<Rightarrow> string" where
  "ToLower s = map lower_char s"

text \<open>Printable ASCII without the blank: what tokens and scheme names are made of.\<close>

definition graphic :: "string \<Rightarrow> bool" where
  "graphic s \<longleftrightarrow> list_all (\<lambda>c. 33 \<le> (of_char c :: nat) \<and> (of_char c :: nat) \<le> 126) s"

lemma space_len_graphic: "33 \<le> (of_char c :: nat) \<Longrightarrow> (of_char c :: nat) \<le> 126 \<Longrightarrow> space_len (c # cs) = 0"
  by (auto simp: space_len_def split: list.splits)

lemma space_len_blank [simp]: "space_len (CHR '' '' # cs) = 1"
  by (simp add: space_len_def)

lemma fields_from_graphic:
  "graphic s \<Longrightarrow> fields_from cur (s @ rest) = fields_from (rev s @ cur) rest"
  by (induction s arbitrary: cur) (auto simp: graphic_def space_len_graphic)

text \<open>Two words around a blank.\<close>

lemma Fields_two:
  assumes "graphic x" "graphic y" "x \<noteq> []" "y \<noteq> []"
  shows "Fields (x @ '' '' @ y) = [x, y]"
  using fields_from_graphic [OF assms(1), of "[]" "'' '' @ y"] fields_from_graphic [OF assms(2), of "[]" "[]"]
    assms(3,4)
  by (simp add: Fields_def)

end
