(* ===== verification/Models.thy ===== *)
theory Models
  imports GoBase
begin

section \<open>Rows, tables and the schema (db/sqlc/models.go, db/migration)\<close>

text \<open>
  One record per struct of \<^verbatim>\<open>models.go\<close>, the database as its six tables with the counters of their
  \<open>bigserial\<close> columns, and the constraints of the migrations as one invariant.
\<close>

type_synonym uuid = "128 word"

record account =
  a_ID :: int64
  a_Owner :: gostring
  a_Balance :: int64
  a_Currency :: gostring
  a_CreatedAt :: time

record entry =
  e_ID :: int64
  e_AccountID :: int64
  e_Amount :: int64
  e_CreatedAt :: time

record session =
  s_ID :: uuid
  s_Username :: gostring
  s_RefreshToken :: gostring
  s_UserAgent :: gostring
  s_ClientIp :: gostring
  s_IsBlocked :: bool
  s_ExpiresAt :: time
  s_CreatedAt :: time

record transfer =
  tr_ID :: int64
  tr_FromAccountID :: int64
  tr_ToAccountID :: int64
  tr_Amount :: int64
  tr_CreatedAt :: time

record user =
  u_Username :: gostring
  u_HashedPassword :: gostring
  u_FullName :: gostring
  u_Email :: gostring
  u_PasswordChangedAt :: time
  u_CreatedAt :: time
  u_IsEmailVerified :: bool
  u_Role :: gostring

record verify_email =
  v_ID :: int64
  v_Username :: gostring
  v_Email :: gostring
  v_SecretCode :: gostring
  v_IsUsed :: bool
  v_CreatedAt :: time
  v_ExpiredAt :: time

record database =
  accounts :: "account list"
  entries :: "entry list"
  transfers :: "transfer list"
  users :: "user list"
  sessions :: "session list"
  verify_emails :: "verify_email list"
  seq_accounts :: nat
  seq_entries :: nat
  seq_transfers :: nat
  seq_verify_emails :: nat

definition empty_database :: database where
  "empty_database =
     \<lparr>accounts = [], entries = [], transfers = [], users = [], sessions = [], verify_emails = [],
      seq_accounts = 0, seq_entries = 0, seq_transfers = 0, seq_verify_emails = 0\<rparr>"

subsection \<open>Serial keys\<close>

text \<open>A \<open>bigserial\<close> key: the values handed out so far are the numbers up to the counter.\<close>

definition serial :: "('r \<Rightarrow> int64) \<Rightarrow> 'r list \<Rightarrow> nat \<Rightarrow> bool" where
  "serial key rows n \<longleftrightarrow> distinct (map key rows) \<and>
     (\<forall>r \<in> set rows. 0 < sint (key r) \<and> sint (key r) \<le> int n) \<and> int n < 2 ^ 63"

definition serial_id :: "nat \<Rightarrow> int64" where
  "serial_id n = word_of_nat n"

lemma sint_serial_id: "int n < 2 ^ 63 \<Longrightarrow> sint (serial_id n) = int n"
  using sint_of_in_int64 [of "int n"] by (simp add: serial_id_def in_int64_def)

lemma serial_empty: "serial key [] 0"
  by (simp add: serial_def)

lemma serial_fresh: "serial key rows n \<Longrightarrow> int (Suc n) < 2 ^ 63 \<Longrightarrow> r \<in> set rows \<Longrightarrow> key r \<noteq> serial_id (Suc n)"
  using sint_serial_id [of "Suc n"] by (fastforce simp: serial_def)

lemma serial_insert:
  assumes "serial key rows n" and "int (Suc n) < 2 ^ 63" and "key r = serial_id (Suc n)"
  shows "serial key (rows @ [r]) (Suc n)"
  using assms serial_fresh [OF assms(1,2)] sint_serial_id [OF assms(2)]
  by (fastforce simp: serial_def)

lemma serial_step: "serial key rows n \<Longrightarrow> int (Suc n) < 2 ^ 63 \<Longrightarrow> serial key rows (Suc n)"
  by (fastforce simp: serial_def)

lemma serial_map: "(\<And>r. key (f r) = key r) \<Longrightarrow> serial key (map f rows) n \<longleftrightarrow> serial key rows n"
  by (simp add: serial_def comp_def)

lemma serial_filter: "serial key rows n \<Longrightarrow> serial key (filter P rows) n"
  by (auto simp: serial_def distinct_map_filter)

lemma serial_distinct: "serial key rows n \<Longrightarrow> distinct (map key rows)"
  by (simp add: serial_def)

subsection \<open>The constraints of the migrations\<close>

definition account_ids :: "database \<Rightarrow> int64 set" where
  "account_ids d = a_ID ` set (accounts d)"

definition usernames :: "database \<Rightarrow> string set" where
  "usernames d = u_Username ` set (users d)"

definition account_key :: "account \<Rightarrow> string \<times> string" where
  "account_key a = (a_Owner a, a_Currency a)"

definition schema_ok :: "database \<Rightarrow> bool" where
  "schema_ok d \<longleftrightarrow>
     serial a_ID (accounts d) (seq_accounts d) \<and>
     distinct (map account_key (accounts d)) \<and>
     a_Owner ` set (accounts d) \<subseteq> usernames d \<and>
     serial e_ID (entries d) (seq_entries d) \<and>
     e_AccountID ` set (entries d) \<subseteq> account_ids d \<and>
     serial tr_ID (transfers d) (seq_transfers d) \<and>
     tr_FromAccountID ` set (transfers d) \<subseteq> account_ids d \<and>
     tr_ToAccountID ` set (transfers d) \<subseteq> account_ids d \<and>
     distinct (map u_Username (users d)) \<and>
     distinct (map u_Email (users d)) \<and>
     distinct (map s_ID (sessions d)) \<and>
     s_Username ` set (sessions d) \<subseteq> usernames d \<and>
     serial v_ID (verify_emails d) (seq_verify_emails d) \<and>
     v_Username ` set (verify_emails d) \<subseteq> usernames d"

lemma schema_ok_empty: "schema_ok empty_database"
  by (simp add: schema_ok_def empty_database_def serial_empty)

end
