(* ===== verification/World.thy ===== *)
theory World
  imports Models
begin

section \<open>The state of the backend, and what answers it from outside\<close>

text \<open>
  The backend keeps nothing in memory between requests: its state is the database, the task queue
  (Redis) and the mail it has sent. A request also asks things of the outside whose answers are not
  in the sources: the clock, random values, the libraries for PASETO, JWT and bcrypt, and whether a
  call to the database, the queue or the mail server gets through. The record \<open>env\<close> holds these
  answers as functions of the number of the question, \<open>tick\<close>; theorems hold for every \<open>env\<close>, or name
  what they assume of it.
\<close>

subsection \<open>Values that cross components\<close>

text \<open>\<^verbatim>\<open>token/payload.go\<close>.\<close>

type_synonym token_type = "8 word"

definition TokenTypeAccessToken :: token_type where "TokenTypeAccessToken = 1"
definition TokenTypeRefreshToken :: token_type where "TokenTypeRefreshToken = 2"

lemma token_types_differ [simp]:
  "TokenTypeAccessToken \<noteq> TokenTypeRefreshToken" "TokenTypeRefreshToken \<noteq> TokenTypeAccessToken"
  by (simp_all add: TokenTypeAccessToken_def TokenTypeRefreshToken_def)

record payload =
  p_ID :: uuid
  p_Type :: token_type
  p_Username :: gostring
  p_Role :: gostring
  p_IssuedAt :: time
  p_ExpiredAt :: time

text \<open>\<^verbatim>\<open>worker/task_send_verify_email.go\<close>: a task with its JSON payload (\<open>None\<close>: bytes that are no
  payload) and the options given to asynq.\<close>

record send_verify_email =
  sv_Username :: gostring

datatype task_option = MaxRetry int | ProcessIn duration | Queue gostring

record task =
  tk_Type :: gostring
  tk_Payload :: "send_verify_email option"
  tk_Options :: "task_option list"

record mail =
  m_From :: gostring
  m_Subject :: gostring
  m_HTML :: gostring
  m_To :: "gostring list"
  m_Cc :: "gostring list"
  m_Bcc :: "gostring list"
  m_Attachments :: "gostring list"

subsection \<open>The outside\<close>

text \<open>A call over a connection gets through, does not arrive, or arrives without the answer coming
  back.\<close>

datatype fault = Through | Lost | Unacked

text \<open>What \<^verbatim>\<open>jwt.ParseWithClaims\<close> gives: the claims, or the error that the token has expired, or another.\<close>

datatype jwt_result = JwtClaims payload | JwtExpired | JwtRejected

text \<open>A field of a request, as the validator of gin sees it.\<close>

datatype field_value = FStr gostring | FInt int

record env =
  clock :: "nat \<Rightarrow> time"
  random_uuid :: "nat \<Rightarrow> uuid option"
  random_nat :: "nat \<Rightarrow> nat"
  db_fault :: "nat \<Rightarrow> fault"
  queue_fault :: "nat \<Rightarrow> fault"
  mail_fault :: "nat \<Rightarrow> fault"
  attach_file :: "gostring \<Rightarrow> go_error option"
  bcrypt_generate :: "nat \<Rightarrow> gostring \<Rightarrow> go_error + gostring"
  bcrypt_compare :: "gostring \<Rightarrow> gostring \<Rightarrow> go_error option"
  paseto_encrypt :: "nat \<Rightarrow> gostring \<Rightarrow> payload \<Rightarrow> go_error + gostring"
  paseto_decrypt :: "gostring \<Rightarrow> gostring \<Rightarrow> payload option"
  jwt_sign :: "gostring \<Rightarrow> payload \<Rightarrow> go_error + gostring"
  jwt_parse :: "gostring \<Rightarrow> gostring \<Rightarrow> time \<Rightarrow> jwt_result"
  parse_address :: "gostring \<Rightarrow> bool"
  validate_tag :: "gostring \<Rightarrow> field_value \<Rightarrow> bool"
  binding_error :: go_error
  driver_text :: "go_error \<Rightarrow> gostring"

record world =
  db :: database
  queue :: "task list"
  outbox :: "mail list"
  tick :: nat

type_synonym 'a io = "(world, 'a) state"
type_synonym 'a result = "go_error + 'a"

subsection \<open>Questions to the outside\<close>

definition ask :: "(nat \<Rightarrow> 'a) \<Rightarrow> 'a io" where
  "ask f = State (\<lambda>w. (f (tick w), w\<lparr>tick := Suc (tick w)\<rparr>))"

text \<open>\<open>time.Now()\<close> and \<open>t.Add(d)\<close>.\<close>

definition Now :: "env \<Rightarrow> time io" where
  "Now E = ask (clock E)"

definition Add :: "time \<Rightarrow> duration \<Rightarrow> time" where
  "Add t d = t + sint d"

text \<open>Only the number of questions asked has changed.\<close>

definition only_tick :: "world \<Rightarrow> world \<Rightarrow> bool" where
  "only_tick w w' \<longleftrightarrow> db w' = db w \<and> queue w' = queue w \<and> outbox w' = outbox w"

lemma run_ask [simp]: "run_state (ask f) w = (f (tick w), w\<lparr>tick := Suc (tick w)\<rparr>)"
  by (simp add: ask_def)

lemma run_Now [simp]: "run_state (Now E) w = (clock E (tick w), w\<lparr>tick := Suc (tick w)\<rparr>)"
  by (simp add: Now_def)

lemma only_tick_refl [simp]: "only_tick w w"
  by (simp add: only_tick_def)

lemma only_tick_update [simp]: "only_tick w (w\<lparr>tick := n\<rparr>)"
  by (simp add: only_tick_def)

lemma only_tick_trans: "only_tick u v \<Longrightarrow> only_tick v w \<Longrightarrow> only_tick u w"
  by (simp add: only_tick_def)

lemma keeps_only_tick:
  assumes "\<And>w r w'. run_state m w = (r, w') \<Longrightarrow> only_tick w w'"
    and "\<And>w w'. only_tick w w' \<Longrightarrow> P w \<Longrightarrow> P w'"
  shows "keeps P m"
  by (rule keepsI) (blast intro: assms)

text \<open>The invariant of the stored data, on the state.\<close>

definition world_ok :: "world \<Rightarrow> bool" where
  "world_ok w \<longleftrightarrow> schema_ok (db w)"

lemma world_ok_only_tick: "only_tick w w' \<Longrightarrow> world_ok w \<Longrightarrow> world_ok w'"
  by (simp add: only_tick_def world_ok_def)

lemma keeps_ask [frame_intros]: "keeps world_ok (ask f)"
  by (rule keepsI) (simp add: world_ok_def split: prod.splits)

lemma keeps_Now [frame_intros]: "keeps world_ok (Now E)"
  by (simp add: Now_def keeps_ask)

end
