(* ===== verification/Queries.thy ===== *)
theory Queries
  imports World
begin

section \<open>The queries (db/query/*.sql, db/sqlc/*.sql.go)\<close>

text \<open>
  Each query is its SQL statement as a function on the database: an insertion takes the next value of
  its sequence (kept even when the insertion fails), then meets the unique constraints, then the
  foreign keys; an update that matches no row scans none (\<open>ErrNoRows\<close>); a sum out of the range of
  \<open>bigint\<close> is error 22003; a negative LIMIT or OFFSET is an error. The Go wrapper runs the statement
  over a connection or in a transaction, where it may fail to get through.
\<close>

subsection \<open>Parameters\<close>

record create_account_params =
  ca_Owner :: gostring
  ca_Balance :: int64
  ca_Currency :: gostring

record list_accounts_params =
  la_Owner :: gostring
  la_Limit :: int32
  la_Offset :: int32

record update_account_params =
  ua_ID :: int64
  ua_Balance :: int64

record add_account_balance_params =
  ab_Amount :: int64
  ab_ID :: int64

record create_entry_params =
  ce_AccountID :: int64
  ce_Amount :: int64

record list_entries_params =
  le_AccountID :: int64
  le_Limit :: int32
  le_Offset :: int32

record create_transfer_params =
  ct_FromAccountID :: int64
  ct_ToAccountID :: int64
  ct_Amount :: int64

record list_transfers_params =
  lt_FromAccountID :: int64
  lt_ToAccountID :: int64
  lt_Limit :: int32
  lt_Offset :: int32

record create_user_params =
  cu_Username :: gostring
  cu_HashedPassword :: gostring
  cu_FullName :: gostring
  cu_Email :: gostring

text \<open>A \<^verbatim>\<open>pgtype\<close> value that may be absent (\<open>Valid = false\<close>) is an option.\<close>

definition pgtype_text :: "gostring \<Rightarrow> bool \<Rightarrow> gostring option" where
  "pgtype_text s valid = (if valid then Some s else None)"

record update_user_params =
  uu_HashedPassword :: "gostring option"
  uu_PasswordChangedAt :: "time option"
  uu_FullName :: "gostring option"
  uu_Email :: "gostring option"
  uu_IsEmailVerified :: "bool option"
  uu_Username :: gostring

record create_session_params =
  cs_ID :: uuid
  cs_Username :: gostring
  cs_RefreshToken :: gostring
  cs_UserAgent :: gostring
  cs_ClientIp :: gostring
  cs_IsBlocked :: bool
  cs_ExpiresAt :: time

record create_verify_email_params =
  cv_Username :: gostring
  cv_Email :: gostring
  cv_SecretCode :: gostring

record update_verify_email_params =
  uv_ID :: int64
  uv_SecretCode :: gostring

subsection \<open>Statements\<close>

type_synonym 'a stmt = "time \<Rightarrow> database \<Rightarrow> 'a result \<times> database"

text \<open>The error of a sequence at its maximum, of a sum out of range, of a negative LIMIT, OFFSET.\<close>

definition SequenceLimit :: go_error where "SequenceLimit = PgError ''2200H''"
definition NumericOutOfRange :: go_error where "NumericOutOfRange = PgError ''22003''"
definition InvalidLimit :: go_error where "InvalidLimit = PgError ''2201W''"
definition InvalidOffset :: go_error where "InvalidOffset = PgError ''2201X''"

definition read_row :: "('r \<Rightarrow> 'k) \<Rightarrow> 'k \<Rightarrow> 'r list \<Rightarrow> 'r result" where
  "read_row key k rows = (case find (\<lambda>r. key r = k) rows of None \<Rightarrow> Inl NoRows | Some r \<Rightarrow> Inr r)"

definition write_row :: "('r \<Rightarrow> 'k) \<Rightarrow> 'k \<Rightarrow> ('r \<Rightarrow> 'r) \<Rightarrow> 'r list \<Rightarrow> 'r list" where
  "write_row key k f rows = map (\<lambda>r. if key r = k then f r else r) rows"

definition page :: "('r \<Rightarrow> int64) \<Rightarrow> int32 \<Rightarrow> int32 \<Rightarrow> 'r list \<Rightarrow> 'r list result" where
  "page key lim off rows =
     (if sint off < 0 then Inl InvalidOffset
      else if sint lim < 0 then Inl InvalidLimit
      else Inr (take (nat (sint lim)) (drop (nat (sint off)) (sort_key (\<lambda>r. sint (key r)) rows))))"

definition has_user :: "database \<Rightarrow> gostring \<Rightarrow> bool" where
  "has_user d u \<longleftrightarrow> list_ex (\<lambda>r. u_Username r = u) (users d)"

definition has_account :: "database \<Rightarrow> int64 \<Rightarrow> bool" where
  "has_account d i \<longleftrightarrow> list_ex (\<lambda>r. a_ID r = i) (accounts d)"

subsubsection \<open>account.sql\<close>

definition sql_CreateAccount :: "create_account_params \<Rightarrow> account stmt" where
  "sql_CreateAccount arg now d =
     (let n = Suc (seq_accounts d); d1 = d\<lparr>seq_accounts := n\<rparr>;
          r = \<lparr>a_ID = serial_id n, a_Owner = ca_Owner arg, a_Balance = ca_Balance arg,
               a_Currency = ca_Currency arg, a_CreatedAt = now\<rparr> in
      if 2 ^ 63 \<le> int n then (Inl SequenceLimit, d)
      else if list_ex (\<lambda>a. a_ID a = a_ID r \<or> account_key a = account_key r) (accounts d)
      then (Inl (PgError UniqueViolation), d1)
      else if \<not> has_user d (ca_Owner arg) then (Inl (PgError ForeignKeyViolation), d1)
      else (Inr r, d1\<lparr>accounts := accounts d @ [r]\<rparr>))"

definition sql_GetAccount :: "int64 \<Rightarrow> account stmt" where
  "sql_GetAccount i now d = (read_row a_ID i (accounts d), d)"

text \<open>The row lock of \<open>FOR NO KEY UPDATE\<close> is no matter to one session.\<close>

definition sql_GetAccountForUpdate :: "int64 \<Rightarrow> account stmt" where
  "sql_GetAccountForUpdate i now d = (read_row a_ID i (accounts d), d)"

definition sql_ListAccounts :: "list_accounts_params \<Rightarrow> account list stmt" where
  "sql_ListAccounts arg now d =
     (page a_ID (la_Limit arg) (la_Offset arg) (filter (\<lambda>a. a_Owner a = la_Owner arg) (accounts d)), d)"

definition sql_UpdateAccount :: "update_account_params \<Rightarrow> account stmt" where
  "sql_UpdateAccount arg now d =
     (case read_row a_ID (ua_ID arg) (accounts d) of
        Inl e \<Rightarrow> (Inl e, d)
      | Inr a \<Rightarrow>
          (Inr (a\<lparr>a_Balance := ua_Balance arg\<rparr>),
           d\<lparr>accounts := write_row a_ID (ua_ID arg) (\<lambda>a. a\<lparr>a_Balance := ua_Balance arg\<rparr>) (accounts d)\<rparr>))"

definition sql_AddAccountBalance :: "add_account_balance_params \<Rightarrow> account stmt" where
  "sql_AddAccountBalance arg now d =
     (case read_row a_ID (ab_ID arg) (accounts d) of
        Inl e \<Rightarrow> (Inl e, d)
      | Inr a \<Rightarrow>
          if \<not> in_int64 (sint (a_Balance a) + sint (ab_Amount arg)) then (Inl NumericOutOfRange, d)
          else
            (Inr (a\<lparr>a_Balance := a_Balance a + ab_Amount arg\<rparr>),
             d\<lparr>accounts := write_row a_ID (ab_ID arg)
                 (\<lambda>a. a\<lparr>a_Balance := a_Balance a + ab_Amount arg\<rparr>) (accounts d)\<rparr>))"

definition sql_DeleteAccount :: "int64 \<Rightarrow> unit stmt" where
  "sql_DeleteAccount i now d =
     (if list_ex (\<lambda>a. a_ID a = i) (accounts d) \<and>
         (list_ex (\<lambda>e. e_AccountID e = i) (entries d) \<or>
          list_ex (\<lambda>t. tr_FromAccountID t = i \<or> tr_ToAccountID t = i) (transfers d))
      then (Inl (PgError ForeignKeyViolation), d)
      else (Inr (), d\<lparr>accounts := filter (\<lambda>a. a_ID a \<noteq> i) (accounts d)\<rparr>))"

subsubsection \<open>entry.sql\<close>

definition sql_CreateEntry :: "create_entry_params \<Rightarrow> entry stmt" where
  "sql_CreateEntry arg now d =
     (let n = Suc (seq_entries d); d1 = d\<lparr>seq_entries := n\<rparr>;
          r = \<lparr>e_ID = serial_id n, e_AccountID = ce_AccountID arg, e_Amount = ce_Amount arg,
               e_CreatedAt = now\<rparr> in
      if 2 ^ 63 \<le> int n then (Inl SequenceLimit, d)
      else if list_ex (\<lambda>e. e_ID e = e_ID r) (entries d) then (Inl (PgError UniqueViolation), d1)
      else if \<not> has_account d (ce_AccountID arg) then (Inl (PgError ForeignKeyViolation), d1)
      else (Inr r, d1\<lparr>entries := entries d @ [r]\<rparr>))"

definition sql_GetEntry :: "int64 \<Rightarrow> entry stmt" where
  "sql_GetEntry i now d = (read_row e_ID i (entries d), d)"

definition sql_ListEntries :: "list_entries_params \<Rightarrow> entry list stmt" where
  "sql_ListEntries arg now d =
     (page e_ID (le_Limit arg) (le_Offset arg) (filter (\<lambda>e. e_AccountID e = le_AccountID arg) (entries d)), d)"

subsubsection \<open>transfer.sql\<close>

definition sql_CreateTransfer :: "create_transfer_params \<Rightarrow> transfer stmt" where
  "sql_CreateTransfer arg now d =
     (let n = Suc (seq_transfers d); d1 = d\<lparr>seq_transfers := n\<rparr>;
          r = \<lparr>tr_ID = serial_id n, tr_FromAccountID = ct_FromAccountID arg,
               tr_ToAccountID = ct_ToAccountID arg, tr_Amount = ct_Amount arg, tr_CreatedAt = now\<rparr> in
      if 2 ^ 63 \<le> int n then (Inl SequenceLimit, d)
      else if list_ex (\<lambda>t. tr_ID t = tr_ID r) (transfers d) then (Inl (PgError UniqueViolation), d1)
      else if \<not> has_account d (ct_FromAccountID arg) \<or> \<not> has_account d (ct_ToAccountID arg)
      then (Inl (PgError ForeignKeyViolation), d1)
      else (Inr r, d1\<lparr>transfers := transfers d @ [r]\<rparr>))"

definition sql_GetTransfer :: "int64 \<Rightarrow> transfer stmt" where
  "sql_GetTransfer i now d = (read_row tr_ID i (transfers d), d)"

definition sql_ListTransfers :: "list_transfers_params \<Rightarrow> transfer list stmt" where
  "sql_ListTransfers arg now d =
     (page tr_ID (lt_Limit arg) (lt_Offset arg)
        (filter (\<lambda>t. tr_FromAccountID t = lt_FromAccountID arg \<or> tr_ToAccountID t = lt_ToAccountID arg)
           (transfers d)), d)"

subsubsection \<open>user.sql\<close>

text \<open>The defaults of the columns are the migrations': the zero time of Go, not verified, depositor.
  Instants are counted from the zero time \<^verbatim>\<open>0001-01-01 00:00:00Z\<close>.\<close>

definition zero_time :: time where "zero_time = 0"

definition sql_CreateUser :: "create_user_params \<Rightarrow> user stmt" where
  "sql_CreateUser arg now d =
     (let r = \<lparr>u_Username = cu_Username arg, u_HashedPassword = cu_HashedPassword arg,
               u_FullName = cu_FullName arg, u_Email = cu_Email arg, u_PasswordChangedAt = zero_time,
               u_CreatedAt = now, u_IsEmailVerified = False, u_Role = ''depositor''\<rparr> in
      if list_ex (\<lambda>u. u_Username u = cu_Username arg \<or> u_Email u = cu_Email arg) (users d)
      then (Inl (PgError UniqueViolation), d)
      else (Inr r, d\<lparr>users := users d @ [r]\<rparr>))"

definition sql_GetUser :: "gostring \<Rightarrow> user stmt" where
  "sql_GetUser username now d = (read_row u_Username username (users d), d)"

definition coalesce :: "'a option \<Rightarrow> 'a \<Rightarrow> 'a" where
  "coalesce x y = (case x of None \<Rightarrow> y | Some v \<Rightarrow> v)"

definition set_user :: "update_user_params \<Rightarrow> user \<Rightarrow> user" where
  "set_user arg u = u\<lparr>
     u_HashedPassword := coalesce (uu_HashedPassword arg) (u_HashedPassword u),
     u_PasswordChangedAt := coalesce (uu_PasswordChangedAt arg) (u_PasswordChangedAt u),
     u_FullName := coalesce (uu_FullName arg) (u_FullName u),
     u_Email := coalesce (uu_Email arg) (u_Email u),
     u_IsEmailVerified := coalesce (uu_IsEmailVerified arg) (u_IsEmailVerified u)\<rparr>"

definition sql_UpdateUser :: "update_user_params \<Rightarrow> user stmt" where
  "sql_UpdateUser arg now d =
     (case read_row u_Username (uu_Username arg) (users d) of
        Inl e \<Rightarrow> (Inl e, d)
      | Inr u \<Rightarrow>
          if list_ex (\<lambda>v. u_Username v \<noteq> uu_Username arg \<and> u_Email v = u_Email (set_user arg u)) (users d)
          then (Inl (PgError UniqueViolation), d)
          else (Inr (set_user arg u),
                d\<lparr>users := write_row u_Username (uu_Username arg) (set_user arg) (users d)\<rparr>))"

subsubsection \<open>session.sql\<close>

definition sql_CreateSession :: "create_session_params \<Rightarrow> session stmt" where
  "sql_CreateSession arg now d =
     (let r = \<lparr>s_ID = cs_ID arg, s_Username = cs_Username arg, s_RefreshToken = cs_RefreshToken arg,
               s_UserAgent = cs_UserAgent arg, s_ClientIp = cs_ClientIp arg, s_IsBlocked = cs_IsBlocked arg,
               s_ExpiresAt = cs_ExpiresAt arg, s_CreatedAt = now\<rparr> in
      if list_ex (\<lambda>s. s_ID s = cs_ID arg) (sessions d) then (Inl (PgError UniqueViolation), d)
      else if \<not> has_user d (cs_Username arg) then (Inl (PgError ForeignKeyViolation), d)
      else (Inr r, d\<lparr>sessions := sessions d @ [r]\<rparr>))"

definition sql_GetSession :: "uuid \<Rightarrow> session stmt" where
  "sql_GetSession i now d = (read_row s_ID i (sessions d), d)"

subsubsection \<open>verify\_email.sql\<close>

text \<open>The default of \<open>expired_at\<close>: fifteen minutes after the insertion.\<close>

definition fifteen_minutes :: time where "fifteen_minutes = 15 * 60 * 1000000000"

definition sql_CreateVerifyEmail :: "create_verify_email_params \<Rightarrow> verify_email stmt" where
  "sql_CreateVerifyEmail arg now d =
     (let n = Suc (seq_verify_emails d); d1 = d\<lparr>seq_verify_emails := n\<rparr>;
          r = \<lparr>v_ID = serial_id n, v_Username = cv_Username arg, v_Email = cv_Email arg,
               v_SecretCode = cv_SecretCode arg, v_IsUsed = False, v_CreatedAt = now,
               v_ExpiredAt = now + fifteen_minutes\<rparr> in
      if 2 ^ 63 \<le> int n then (Inl SequenceLimit, d)
      else if list_ex (\<lambda>v. v_ID v = v_ID r) (verify_emails d) then (Inl (PgError UniqueViolation), d1)
      else if \<not> has_user d (cv_Username arg) then (Inl (PgError ForeignKeyViolation), d1)
      else (Inr r, d1\<lparr>verify_emails := verify_emails d @ [r]\<rparr>))"

definition link_valid :: "update_verify_email_params \<Rightarrow> time \<Rightarrow> verify_email \<Rightarrow> bool" where
  "link_valid arg now v \<longleftrightarrow>
     v_ID v = uv_ID arg \<and> v_SecretCode v = uv_SecretCode arg \<and> \<not> v_IsUsed v \<and> now < v_ExpiredAt v"

definition sql_UpdateVerifyEmail :: "update_verify_email_params \<Rightarrow> verify_email stmt" where
  "sql_UpdateVerifyEmail arg now d =
     (case find (link_valid arg now) (verify_emails d) of
        None \<Rightarrow> (Inl NoRows, d)
      | Some v \<Rightarrow>
          (Inr (v\<lparr>v_IsUsed := True\<rparr>),
           d\<lparr>verify_emails := map (\<lambda>v. if link_valid arg now v then v\<lparr>v_IsUsed := True\<rparr> else v)
                                (verify_emails d)\<rparr>))"

end
