(* ===== verification/Schema.thy ===== *)
theory Schema
  imports Queries
begin

section \<open>Every statement keeps the constraints; what a query finds after an insertion\<close>

text \<open>
  Lemmas on reading and writing rows by key, and the preservation of the schema's constraints (primary and
  foreign keys, uniqueness, sequences) by every statement of \<open>Queries\<close>.
\<close>

subsection \<open>Rows by key\<close>

lemma read_row_Inr:
  "distinct (map key rows) \<Longrightarrow> read_row key k rows = Inr r \<longleftrightarrow> r \<in> set rows \<and> key r = k"
  using find_Some_iff_key [of key rows k r] by (auto simp: read_row_def split: option.splits)

lemma find_SomeD: "find P rows = Some r \<Longrightarrow> r \<in> set rows \<and> P r"
  by (induction rows) (auto split: if_splits)

lemma read_row_Inr_in: "read_row key k rows = Inr r \<Longrightarrow> r \<in> set rows \<and> key r = k"
  by (auto simp: read_row_def split: option.splits dest: find_SomeD)

lemma read_row_Inl: "read_row key k rows = Inl e \<longleftrightarrow> e = NoRows \<and> k \<notin> key ` set rows"
  using find_None_key [of key k rows] by (auto simp: read_row_def split: option.splits dest: find_SomeD)

lemma read_row_append_new:
  "\<forall>x \<in> set rows. key x \<noteq> k \<Longrightarrow> key r = k \<Longrightarrow> read_row key k (rows @ [r]) = Inr r"
  by (induction rows) (auto simp: read_row_def)

lemma read_row_append_old:
  "read_row key k rows = Inr r \<Longrightarrow> read_row key k (rows @ [r']) = Inr r"
  by (induction rows) (auto simp: read_row_def split: if_splits option.splits)

lemma read_row_append_other: "key r \<noteq> k \<Longrightarrow> read_row key k (rows @ [r]) = read_row key k rows"
  by (induction rows) (auto simp: read_row_def)

lemma write_row_Cons:
  "write_row key k f (x # xs) = (if key x = k then f x else x) # write_row key k f xs"
  by (simp add: write_row_def)

lemma map_write_row: "(\<And>r. g (f r) = g r) \<Longrightarrow> map g (write_row key k f rows) = map g rows"
  by (auto simp: write_row_def)

lemma image_write_row: "(\<And>r. g (f r) = g r) \<Longrightarrow> g ` set (write_row key k f rows) = g ` set rows"
  by (metis map_write_row set_map)

lemma read_write_same:
  "(\<And>r. key (f r) = key r) \<Longrightarrow> read_row key k rows = Inr r \<Longrightarrow> read_row key k (write_row key k f rows) = Inr (f r)"
  by (induction rows) (auto simp: read_row_def write_row_def split: if_splits option.splits)

lemma read_write_other:
  "(\<And>r. key (f r) = key r) \<Longrightarrow> k' \<noteq> k \<Longrightarrow> read_row key k' (write_row key k f rows) = read_row key k' rows"
  by (induction rows) (auto simp: read_row_def write_row_def)

lemma has_user_iff [simp]: "has_user d u \<longleftrightarrow> u \<in> usernames d"
  by (auto simp: has_user_def usernames_def list_ex_iff)

lemma has_account_iff [simp]: "has_account d i \<longleftrightarrow> i \<in> account_ids d"
  by (auto simp: has_account_def account_ids_def list_ex_iff)

subsection \<open>Preservation\<close>

text \<open>The sets of keys other tables refer to, under updates of the database.\<close>

lemma account_ids_simps [simp]:
  "account_ids (d\<lparr>accounts := as\<rparr>) = a_ID ` set as"
  "account_ids (d\<lparr>entries := es\<rparr>) = account_ids d" "account_ids (d\<lparr>transfers := ts\<rparr>) = account_ids d"
  "account_ids (d\<lparr>users := us\<rparr>) = account_ids d" "account_ids (d\<lparr>sessions := ss\<rparr>) = account_ids d"
  "account_ids (d\<lparr>verify_emails := vs\<rparr>) = account_ids d" "account_ids (d\<lparr>seq_accounts := n\<rparr>) = account_ids d"
  "account_ids (d\<lparr>seq_entries := n\<rparr>) = account_ids d" "account_ids (d\<lparr>seq_transfers := n\<rparr>) = account_ids d"
  "account_ids (d\<lparr>seq_verify_emails := n\<rparr>) = account_ids d"
  by (simp_all add: account_ids_def)

lemma usernames_simps [simp]:
  "usernames (d\<lparr>users := us\<rparr>) = u_Username ` set us"
  "usernames (d\<lparr>accounts := as\<rparr>) = usernames d" "usernames (d\<lparr>entries := es\<rparr>) = usernames d"
  "usernames (d\<lparr>transfers := ts\<rparr>) = usernames d" "usernames (d\<lparr>sessions := ss\<rparr>) = usernames d"
  "usernames (d\<lparr>verify_emails := vs\<rparr>) = usernames d" "usernames (d\<lparr>seq_accounts := n\<rparr>) = usernames d"
  "usernames (d\<lparr>seq_entries := n\<rparr>) = usernames d" "usernames (d\<lparr>seq_transfers := n\<rparr>) = usernames d"
  "usernames (d\<lparr>seq_verify_emails := n\<rparr>) = usernames d"
  by (simp_all add: usernames_def)

lemma image_in_account_ids: "a_ID ` set (accounts d) = account_ids d"
  by (simp add: account_ids_def)

lemma image_in_usernames: "u_Username ` set (users d) = usernames d"
  by (simp add: usernames_def)

text \<open>What an insertion does to the database: nothing, a step of the sequence, or a new row.\<close>

lemmas insert_simps = Let_def list_ex_iff image_subset_iff serial_step serial_insert
  image_in_account_ids image_in_usernames

lemma schema_CreateAccount:
  assumes ok: "schema_ok d" and "sql_CreateAccount arg now d = (r, d')"
  shows "schema_ok d'"
proof -
  let ?n = "Suc (seq_accounts d)"
  from assms(2) consider "d' = d" | "d' = d\<lparr>seq_accounts := ?n\<rparr>" "int ?n < 2 ^ 63"
    | a where "d' = d\<lparr>seq_accounts := ?n, accounts := accounts d @ [a]\<rparr>" "int ?n < 2 ^ 63"
        "a_ID a = serial_id ?n" "a_Owner a \<in> usernames d" "account_key a \<notin> account_key ` set (accounts d)"
    by (fastforce simp: sql_CreateAccount_def Let_def list_ex_iff split: if_splits)
  then show ?thesis
    by cases (use ok in \<open>auto simp: schema_ok_def insert_simps\<close>)
qed

lemma schema_write_accounts:
  assumes "schema_ok d" and "\<And>a. a_ID (f a) = a_ID a" "\<And>a. account_key (f a) = account_key a"
  shows "schema_ok (d\<lparr>accounts := write_row a_ID k f (accounts d)\<rparr>)"
proof -
  have own: "\<And>a. a_Owner (f a) = a_Owner a" using assms(3) by (simp add: account_key_def)
  have "serial a_ID (write_row a_ID k f (accounts d)) (seq_accounts d)"
    using assms(1,2) by (simp add: write_row_def schema_ok_def serial_map)
  then show ?thesis
    using assms(1) by (simp add: schema_ok_def map_write_row image_write_row assms(2,3) own image_in_account_ids)
qed

lemma schema_UpdateAccount: "schema_ok d \<Longrightarrow> sql_UpdateAccount arg now d = (r, d') \<Longrightarrow> schema_ok d'"
  by (auto simp: sql_UpdateAccount_def account_key_def split: sum.splits intro!: schema_write_accounts)

lemma schema_AddAccountBalance: "schema_ok d \<Longrightarrow> sql_AddAccountBalance arg now d = (r, d') \<Longrightarrow> schema_ok d'"
  by (auto simp: sql_AddAccountBalance_def account_key_def split: sum.splits if_splits intro!: schema_write_accounts)

lemma schema_DeleteAccount:
  assumes ok: "schema_ok d" and "sql_DeleteAccount i now d = (r, d')"
  shows "schema_ok d'"
proof -
  from assms(2) consider "d' = d"
    | "d' = d\<lparr>accounts := filter (\<lambda>a. a_ID a \<noteq> i) (accounts d)\<rparr>"
      "i \<in> account_ids d \<longrightarrow> i \<notin> e_AccountID ` set (entries d) \<and>
         i \<notin> tr_FromAccountID ` set (transfers d) \<and> i \<notin> tr_ToAccountID ` set (transfers d)"
    by (fastforce simp: sql_DeleteAccount_def list_ex_iff account_ids_def split: if_splits)
  then show ?thesis
  proof cases
    case 2
    have "a_ID ` set (filter (\<lambda>a. a_ID a \<noteq> i) (accounts d)) = account_ids d - {i}"
      by (auto simp: account_ids_def)
    with 2 ok show ?thesis
      by (auto simp: schema_ok_def serial_filter distinct_map_filter image_subset_iff)
  qed (use ok in simp)
qed

lemma schema_CreateEntry:
  assumes ok: "schema_ok d" and "sql_CreateEntry arg now d = (r, d')"
  shows "schema_ok d'"
proof -
  let ?n = "Suc (seq_entries d)"
  from assms(2) consider "d' = d" | "d' = d\<lparr>seq_entries := ?n\<rparr>" "int ?n < 2 ^ 63"
    | e where "d' = d\<lparr>seq_entries := ?n, entries := entries d @ [e]\<rparr>" "int ?n < 2 ^ 63"
        "e_ID e = serial_id ?n" "e_AccountID e \<in> account_ids d"
    by (fastforce simp: sql_CreateEntry_def Let_def split: if_splits)
  then show ?thesis
    by cases (use ok in \<open>auto simp: schema_ok_def insert_simps\<close>)
qed

lemma schema_CreateTransfer:
  assumes ok: "schema_ok d" and "sql_CreateTransfer arg now d = (r, d')"
  shows "schema_ok d'"
proof -
  let ?n = "Suc (seq_transfers d)"
  from assms(2) consider "d' = d" | "d' = d\<lparr>seq_transfers := ?n\<rparr>" "int ?n < 2 ^ 63"
    | t where "d' = d\<lparr>seq_transfers := ?n, transfers := transfers d @ [t]\<rparr>" "int ?n < 2 ^ 63"
        "tr_ID t = serial_id ?n" "tr_FromAccountID t \<in> account_ids d" "tr_ToAccountID t \<in> account_ids d"
    by (fastforce simp: sql_CreateTransfer_def Let_def split: if_splits)
  then show ?thesis
    by cases (use ok in \<open>auto simp: schema_ok_def insert_simps\<close>)
qed

lemma schema_CreateUser:
  assumes ok: "schema_ok d" and "sql_CreateUser arg now d = (r, d')"
  shows "schema_ok d'"
proof -
  from assms(2) consider "d' = d"
    | u where "d' = d\<lparr>users := users d @ [u]\<rparr>" "u_Username u \<notin> usernames d" "u_Email u \<notin> u_Email ` set (users d)"
    by (fastforce simp: sql_CreateUser_def Let_def list_ex_iff usernames_def split: if_splits)
  then show ?thesis
    by cases (use ok in \<open>auto simp: schema_ok_def insert_simps\<close>)
qed

lemma schema_CreateSession:
  assumes ok: "schema_ok d" and "sql_CreateSession arg now d = (r, d')"
  shows "schema_ok d'"
proof -
  from assms(2) consider "d' = d"
    | s where "d' = d\<lparr>sessions := sessions d @ [s]\<rparr>" "s_ID s \<notin> s_ID ` set (sessions d)" "s_Username s \<in> usernames d"
    by (fastforce simp: sql_CreateSession_def Let_def list_ex_iff split: if_splits)
  then show ?thesis
    by cases (use ok in \<open>auto simp: schema_ok_def insert_simps\<close>)
qed

lemma schema_CreateVerifyEmail:
  assumes ok: "schema_ok d" and "sql_CreateVerifyEmail arg now d = (r, d')"
  shows "schema_ok d'"
proof -
  let ?n = "Suc (seq_verify_emails d)"
  from assms(2) consider "d' = d" | "d' = d\<lparr>seq_verify_emails := ?n\<rparr>" "int ?n < 2 ^ 63"
    | v where "d' = d\<lparr>seq_verify_emails := ?n, verify_emails := verify_emails d @ [v]\<rparr>" "int ?n < 2 ^ 63"
        "v_ID v = serial_id ?n" "v_Username v \<in> usernames d"
    by (fastforce simp: sql_CreateVerifyEmail_def Let_def split: if_splits)
  then show ?thesis
    by cases (use ok in \<open>auto simp: schema_ok_def insert_simps\<close>)
qed

lemma set_user_username [simp]: "u_Username (set_user arg u) = u_Username u"
  by (simp add: set_user_def)

lemma distinct_write_email:
  assumes "distinct (map key rows)" and "distinct (map g rows)" and "r \<in> set rows" and "key r = k"
    and new: "\<And>x. x \<in> set rows \<Longrightarrow> key x \<noteq> k \<Longrightarrow> g x \<noteq> g (f r)"
  shows "distinct (map g (write_row key k f rows))"
proof -
  have inj: "inj_on key (set rows)" "inj_on g (set rows)" "distinct rows" using assms(1,2) by (simp_all add: distinct_map)
  have only: "x = r" if "x \<in> set rows" "key x = k" for x
    using inj_onD [OF inj(1) _ that(1) assms(3)] that(2) assms(4) by simp
  have "inj_on (\<lambda>x. g (if key x = k then f x else x)) (set rows)"
  proof (rule inj_onI)
    fix x y assume xy: "x \<in> set rows" "y \<in> set rows" "g (if key x = k then f x else x) = g (if key y = k then f y else y)"
    then show "x = y" using only new [of x] new [of y] inj_onD [OF inj(2)] by (auto split: if_splits dest: sym)
  qed
  with inj(3) show ?thesis by (simp add: write_row_def distinct_map comp_def)
qed

lemma schema_UpdateUser:
  assumes ok: "schema_ok d" and run: "sql_UpdateUser arg now d = (r, d')"
  shows "schema_ok d'"
proof (cases "d' = d")
  case True
  with ok show ?thesis by simp
next
  case False
  then obtain u where u: "read_row u_Username (uu_Username arg) (users d) = Inr u"
    and fresh: "\<not> list_ex (\<lambda>v. u_Username v \<noteq> uu_Username arg \<and> u_Email v = u_Email (set_user arg u)) (users d)"
    and d': "d' = d\<lparr>users := write_row u_Username (uu_Username arg) (set_user arg) (users d)\<rparr>"
    using run by (auto simp: sql_UpdateUser_def split: sum.splits if_splits)
  have names: "distinct (map u_Username (users d))" using ok by (simp add: schema_ok_def)
  have "distinct (map u_Email (write_row u_Username (uu_Username arg) (set_user arg) (users d)))"
    using ok fresh u by (intro distinct_write_email [OF names, where r = u])
      (auto simp: schema_ok_def read_row_Inr [OF names] list_ex_iff)
  with ok show ?thesis by (simp add: d' schema_ok_def map_write_row image_write_row image_in_usernames)
qed

lemma schema_UpdateVerifyEmail:
  assumes ok: "schema_ok d" and run: "sql_UpdateVerifyEmail arg now d = (r, d')"
  shows "schema_ok d'"
proof -
  define vs where "vs = map (\<lambda>v. if link_valid arg now v then v\<lparr>v_IsUsed := True\<rparr> else v) (verify_emails d)"
  have "serial v_ID vs (seq_verify_emails d)"
    using ok unfolding vs_def by (subst serial_map) (simp_all add: schema_ok_def)
  moreover have "v_Username ` set vs = v_Username ` set (verify_emails d)"
    unfolding vs_def set_map [symmetric] by (simp add: comp_def if_distrib cong: if_cong)
  moreover have "d' = d \<or> d' = d\<lparr>verify_emails := vs\<rparr>"
    using run by (auto simp: sql_UpdateVerifyEmail_def vs_def split: option.splits)
  ultimately show ?thesis using ok by (elim disjE) (simp_all add: schema_ok_def)
qed

subsection \<open>Insertion and lookup as an interface\<close>

text \<open>What the callers of a pair Create/Get rely on: a row that was created is found under its key, and
  no later insertion changes what a key finds.\<close>

fun insert_all :: "('p \<Rightarrow> 'r stmt) \<Rightarrow> (time \<times> 'p) list \<Rightarrow> database \<Rightarrow> database" where
  "insert_all ins [] d = d"
| "insert_all ins ((now, arg) # ps) d = insert_all ins ps (snd (ins arg now d))"

locale create_get =
  fixes ins :: "'p \<Rightarrow> 'r stmt" and get :: "'k \<Rightarrow> 'r stmt" and key :: "'r \<Rightarrow> 'k"
  assumes ins_ok: "schema_ok d \<Longrightarrow> ins arg now d = (res, d') \<Longrightarrow> schema_ok d'"
    and get_inserted: "schema_ok d \<Longrightarrow> ins arg now d = (Inr r, d') \<Longrightarrow> get (key r) now' d' = (Inr r, d')"
    and get_stable: "schema_ok d \<Longrightarrow> ins arg now d = (res, d') \<Longrightarrow> fst (get k now' d) = Inr x \<Longrightarrow>
                       fst (get k now' d') = Inr x"
begin

lemma insert_all_ok: "schema_ok d \<Longrightarrow> schema_ok (insert_all ins ps d)"
proof (induction ps arbitrary: d)
  case (Cons p ps)
  then show ?case using ins_ok [OF Cons.prems prod.collapse [symmetric]] by (cases p) simp
qed simp

lemma get_after_insert_all:
  "schema_ok d \<Longrightarrow> fst (get k now' d) = Inr x \<Longrightarrow> fst (get k now' (insert_all ins ps d)) = Inr x"
proof (induction ps arbitrary: d)
  case (Cons p ps)
  obtain now arg where p: "p = (now, arg)" by fastforce
  obtain res d' where d': "ins arg now d = (res, d')" by fastforce
  then have "fst (get k now' d') = Inr x" using get_stable Cons.prems by blast
  with Cons.IH ins_ok [OF Cons.prems(1) d'] show ?case by (simp add: p d')
qed simp

lemma created_is_found:
  "schema_ok d \<Longrightarrow> ins arg now d = (Inr r, d') \<Longrightarrow> fst (get (key r) now' (insert_all ins ps d')) = Inr r"
  using get_after_insert_all ins_ok get_inserted by (metis fst_conv)

end

lemmas create_get_simps = Let_def list_ex_iff read_row_append_new read_row_append_old

interpretation accounts: create_get sql_CreateAccount sql_GetAccount a_ID
  by unfold_locales (erule (1) schema_CreateAccount, auto simp: sql_CreateAccount_def sql_GetAccount_def create_get_simps split: if_splits)

interpretation entries: create_get sql_CreateEntry sql_GetEntry e_ID
  by unfold_locales (erule (1) schema_CreateEntry, auto simp: sql_CreateEntry_def sql_GetEntry_def create_get_simps split: if_splits)

interpretation transfers: create_get sql_CreateTransfer sql_GetTransfer tr_ID
  by unfold_locales (erule (1) schema_CreateTransfer, auto simp: sql_CreateTransfer_def sql_GetTransfer_def create_get_simps split: if_splits)

interpretation users: create_get sql_CreateUser sql_GetUser u_Username
  by unfold_locales (erule (1) schema_CreateUser, auto simp: sql_CreateUser_def sql_GetUser_def create_get_simps split: if_splits)

interpretation sessions: create_get sql_CreateSession sql_GetSession s_ID
  by unfold_locales (erule (1) schema_CreateSession, auto simp: sql_CreateSession_def sql_GetSession_def create_get_simps split: if_splits)

end
