(* ===== verification/Store.thy ===== *)
theory Store
  imports Schema
begin

section \<open>Connections, transactions and the store (db/sqlc)\<close>

text \<open>
  \<open>Queries\<close> runs a statement on the pool or in a transaction, \<open>execTx\<close> runs a function in a
  transaction, and the store is the record of operations the servers hold (the Go interface
  \<open>Store\<close>), of which \<open>SQLStore\<close> is the implementation on the database.
\<close>

subsection \<open>Queries (db.go and *.sql.go)\<close>

text \<open>What a \<open>*Queries\<close> holds (\<open>DBTX\<close>): the pool, or a transaction with its start time, which is
  \<open>now()\<close> for its statements.\<close>

datatype dbtx = Pool | Tx time

definition run_query :: "env \<Rightarrow> dbtx \<Rightarrow> 'a stmt \<Rightarrow> 'a result io" where
  "run_query E q st = State (\<lambda>w.
     let k = tick w; w1 = w\<lparr>tick := Suc k\<rparr>;
         (r, d) = st (case q of Pool \<Rightarrow> clock E k | Tx t \<Rightarrow> t) (db w) in
     case db_fault E k of
       Through \<Rightarrow> (r, w1\<lparr>db := d\<rparr>)
     | Lost \<Rightarrow> (Inl ConnError, w1)
     | Unacked \<Rightarrow> (Inl ConnError, w1\<lparr>db := d\<rparr>))"

definition q_CreateAccount where "q_CreateAccount E q arg = run_query E q (sql_CreateAccount arg)"
definition q_GetAccount where "q_GetAccount E q i = run_query E q (sql_GetAccount i)"
definition q_GetAccountForUpdate where "q_GetAccountForUpdate E q i = run_query E q (sql_GetAccountForUpdate i)"
definition q_ListAccounts where "q_ListAccounts E q arg = run_query E q (sql_ListAccounts arg)"
definition q_UpdateAccount where "q_UpdateAccount E q arg = run_query E q (sql_UpdateAccount arg)"
definition q_AddAccountBalance where "q_AddAccountBalance E q arg = run_query E q (sql_AddAccountBalance arg)"
definition q_DeleteAccount where "q_DeleteAccount E q i = run_query E q (sql_DeleteAccount i)"
definition q_CreateEntry where "q_CreateEntry E q arg = run_query E q (sql_CreateEntry arg)"
definition q_GetEntry where "q_GetEntry E q i = run_query E q (sql_GetEntry i)"
definition q_ListEntries where "q_ListEntries E q arg = run_query E q (sql_ListEntries arg)"
definition q_CreateTransfer where "q_CreateTransfer E q arg = run_query E q (sql_CreateTransfer arg)"
definition q_GetTransfer where "q_GetTransfer E q i = run_query E q (sql_GetTransfer i)"
definition q_ListTransfers where "q_ListTransfers E q arg = run_query E q (sql_ListTransfers arg)"
definition q_CreateUser where "q_CreateUser E q arg = run_query E q (sql_CreateUser arg)"
definition q_GetUser where "q_GetUser E q u = run_query E q (sql_GetUser u)"
definition q_UpdateUser where "q_UpdateUser E q arg = run_query E q (sql_UpdateUser arg)"
definition q_CreateSession where "q_CreateSession E q arg = run_query E q (sql_CreateSession arg)"
definition q_GetSession where "q_GetSession E q i = run_query E q (sql_GetSession i)"
definition q_CreateVerifyEmail where "q_CreateVerifyEmail E q arg = run_query E q (sql_CreateVerifyEmail arg)"
definition q_UpdateVerifyEmail where "q_UpdateVerifyEmail E q arg = run_query E q (sql_UpdateVerifyEmail arg)"

lemmas query_defs = q_CreateAccount_def q_GetAccount_def q_GetAccountForUpdate_def q_ListAccounts_def
  q_UpdateAccount_def q_AddAccountBalance_def q_DeleteAccount_def q_CreateEntry_def q_GetEntry_def
  q_ListEntries_def q_CreateTransfer_def q_GetTransfer_def q_ListTransfers_def q_CreateUser_def
  q_GetUser_def q_UpdateUser_def q_CreateSession_def q_GetSession_def q_CreateVerifyEmail_def
  q_UpdateVerifyEmail_def

subsection \<open>Transactions (exec\_tx.go)\<close>

text \<open>Undoing a transaction brings the rows back; sequences are not transactional.\<close>

definition rollback_to :: "database \<Rightarrow> database \<Rightarrow> database" where
  "rollback_to d0 d = d0\<lparr>seq_accounts := seq_accounts d, seq_entries := seq_entries d,
     seq_transfers := seq_transfers d, seq_verify_emails := seq_verify_emails d\<rparr>"

text \<open>A rollback whose answer is lost happens all the same (the server drops the transaction of a lost
  connection), but its error hides the first one. A commit that is not acknowledged may have happened
  or not.\<close>

definition execTx :: "env \<Rightarrow> (dbtx \<Rightarrow> 'a result io) \<Rightarrow> 'a result io" where
  "execTx E fn = State (\<lambda>w.
     let k = tick w; w1 = w\<lparr>tick := Suc k\<rparr> in
     if db_fault E k \<noteq> Through then (Inl ConnError, w1)
     else
       (case run_state (fn (Tx (clock E k))) w1 of
          (Inl e, w2) \<Rightarrow>
            (let w3 = w2\<lparr>tick := Suc (tick w2), db := rollback_to (db w) (db w2)\<rparr> in
             if db_fault E (tick w2) \<noteq> Through then 
               (Inl (Plain (''tx err: '' @ error_text (driver_text E) e @ '', rb err: '' @ driver_text E ConnError)), w3)
             else (Inl e, w3))
        | (Inr x, w2) \<Rightarrow>
            (let w3 = w2\<lparr>tick := Suc (tick w2)\<rparr> in
             case db_fault E (tick w2) of
               Through \<Rightarrow> (Inr x, w3)
             | Lost \<Rightarrow> (Inl ConnError, w3\<lparr>db := rollback_to (db w) (db w2)\<rparr>)
             | Unacked \<Rightarrow> (Inl ConnError, w3))))"

subsection \<open>TransferTx (tx\_transfer.go)\<close>

record transfer_tx_params =
  tp_FromAccountID :: int64
  tp_ToAccountID :: int64
  tp_Amount :: int64

record transfer_tx_result =
  tx_Transfer :: transfer
  tx_FromAccount :: account
  tx_ToAccount :: account
  tx_FromEntry :: entry
  tx_ToEntry :: entry

definition addMoney ::
  "env \<Rightarrow> dbtx \<Rightarrow> int64 \<Rightarrow> int64 \<Rightarrow> int64 \<Rightarrow> int64 \<Rightarrow> (account \<times> account) result io" where
  "addMoney E q accountID1 amount1 accountID2 amount2 =
     bindE (q_AddAccountBalance E q \<lparr>ab_Amount = amount1, ab_ID = accountID1\<rparr>) (\<lambda>account1.
     bindE (q_AddAccountBalance E q \<lparr>ab_Amount = amount2, ab_ID = accountID2\<rparr>) (\<lambda>account2.
       State_Monad.return (Inr (account1, account2))))"

definition transfer_body :: "env \<Rightarrow> transfer_tx_params \<Rightarrow> dbtx \<Rightarrow> transfer_tx_result result io" where
  "transfer_body E arg q =
     bindE (q_CreateTransfer E q
              \<lparr>ct_FromAccountID = tp_FromAccountID arg, ct_ToAccountID = tp_ToAccountID arg,
               ct_Amount = tp_Amount arg\<rparr>) (\<lambda>tr.
     bindE (q_CreateEntry E q \<lparr>ce_AccountID = tp_FromAccountID arg, ce_Amount = - tp_Amount arg\<rparr>) (\<lambda>fromEntry.
     bindE (q_CreateEntry E q \<lparr>ce_AccountID = tp_ToAccountID arg, ce_Amount = tp_Amount arg\<rparr>) (\<lambda>toEntry.
     bindE
       (if sint (tp_FromAccountID arg) < sint (tp_ToAccountID arg)
        then bindE (addMoney E q (tp_FromAccountID arg) (- tp_Amount arg) (tp_ToAccountID arg) (tp_Amount arg))
               (\<lambda>(fromAccount, toAccount). State_Monad.return (Inr (fromAccount, toAccount)))
        else bindE (addMoney E q (tp_ToAccountID arg) (tp_Amount arg) (tp_FromAccountID arg) (- tp_Amount arg))
               (\<lambda>(toAccount, fromAccount). State_Monad.return (Inr (fromAccount, toAccount))))
       (\<lambda>(fromAccount, toAccount).
          State_Monad.return (Inr
            \<lparr>tx_Transfer = tr, tx_FromAccount = fromAccount, tx_ToAccount = toAccount,
             tx_FromEntry = fromEntry, tx_ToEntry = toEntry\<rparr>)))))"

definition TransferTx :: "env \<Rightarrow> transfer_tx_params \<Rightarrow> transfer_tx_result result io" where
  "TransferTx E arg = execTx E (transfer_body E arg)"

subsection \<open>CreateUserTx (tx\_create\_user.go)\<close>

definition CreateUserTx ::
  "env \<Rightarrow> create_user_params \<Rightarrow> (user \<Rightarrow> unit result io) \<Rightarrow> user result io" where
  "CreateUserTx E arg AfterCreate =
     execTx E (\<lambda>q.
       bindE (q_CreateUser E q arg) (\<lambda>user.
       bindE (AfterCreate user) (\<lambda>_.
         State_Monad.return (Inr user))))"

subsection \<open>VerifyEmailTx (tx\_verify\_email.go)\<close>

record verify_email_tx_params =
  vp_EmailId :: int64
  vp_SecretCode :: gostring

record verify_email_tx_result =
  vr_User :: user
  vr_VerifyEmail :: verify_email

definition VerifyEmailTx :: "env \<Rightarrow> verify_email_tx_params \<Rightarrow> verify_email_tx_result result io" where
  "VerifyEmailTx E arg =
     execTx E (\<lambda>q.
       bindE (q_UpdateVerifyEmail E q \<lparr>uv_ID = vp_EmailId arg, uv_SecretCode = vp_SecretCode arg\<rparr>) (\<lambda>ve.
       bindE (q_UpdateUser E q
                \<lparr>uu_HashedPassword = None, uu_PasswordChangedAt = None, uu_FullName = None, uu_Email = None,
                 uu_IsEmailVerified = Some True, uu_Username = v_Username ve\<rparr>) (\<lambda>user.
         State_Monad.return (Inr \<lparr>vr_User = user, vr_VerifyEmail = ve\<rparr>))))"

subsection \<open>The store (store.go, querier.go)\<close>

record store =
  AddAccountBalance :: "add_account_balance_params \<Rightarrow> account result io"
  CreateAccount :: "create_account_params \<Rightarrow> account result io"
  CreateEntry :: "create_entry_params \<Rightarrow> entry result io"
  CreateSession :: "create_session_params \<Rightarrow> session result io"
  CreateTransfer :: "create_transfer_params \<Rightarrow> transfer result io"
  CreateUser :: "create_user_params \<Rightarrow> user result io"
  CreateVerifyEmail :: "create_verify_email_params \<Rightarrow> verify_email result io"
  DeleteAccount :: "int64 \<Rightarrow> unit result io"
  GetAccount :: "int64 \<Rightarrow> account result io"
  GetAccountForUpdate :: "int64 \<Rightarrow> account result io"
  GetEntry :: "int64 \<Rightarrow> entry result io"
  GetSession :: "uuid \<Rightarrow> session result io"
  GetTransfer :: "int64 \<Rightarrow> transfer result io"
  GetUser :: "gostring \<Rightarrow> user result io"
  ListAccounts :: "list_accounts_params \<Rightarrow> account list result io"
  ListEntries :: "list_entries_params \<Rightarrow> entry list result io"
  ListTransfers :: "list_transfers_params \<Rightarrow> transfer list result io"
  UpdateAccount :: "update_account_params \<Rightarrow> account result io"
  UpdateUser :: "update_user_params \<Rightarrow> user result io"
  UpdateVerifyEmail :: "update_verify_email_params \<Rightarrow> verify_email result io"
  st_TransferTx :: "transfer_tx_params \<Rightarrow> transfer_tx_result result io"
  st_CreateUserTx :: "create_user_params \<Rightarrow> (user \<Rightarrow> unit result io) \<Rightarrow> user result io"
  st_VerifyEmailTx :: "verify_email_tx_params \<Rightarrow> verify_email_tx_result result io"

definition SQLStore :: "env \<Rightarrow> store" where
  "SQLStore E =
     \<lparr>AddAccountBalance = q_AddAccountBalance E Pool, CreateAccount = q_CreateAccount E Pool,
      CreateEntry = q_CreateEntry E Pool, CreateSession = q_CreateSession E Pool,
      CreateTransfer = q_CreateTransfer E Pool, CreateUser = q_CreateUser E Pool,
      CreateVerifyEmail = q_CreateVerifyEmail E Pool, DeleteAccount = q_DeleteAccount E Pool,
      GetAccount = q_GetAccount E Pool, GetAccountForUpdate = q_GetAccountForUpdate E Pool,
      GetEntry = q_GetEntry E Pool, GetSession = q_GetSession E Pool, GetTransfer = q_GetTransfer E Pool,
      GetUser = q_GetUser E Pool, ListAccounts = q_ListAccounts E Pool, ListEntries = q_ListEntries E Pool,
      ListTransfers = q_ListTransfers E Pool, UpdateAccount = q_UpdateAccount E Pool,
      UpdateUser = q_UpdateUser E Pool, UpdateVerifyEmail = q_UpdateVerifyEmail E Pool,
      st_TransferTx = TransferTx E, st_CreateUserTx = CreateUserTx E, st_VerifyEmailTx = VerifyEmailTx E\<rparr>"

end
