(* ===== verification/Samples.thy ===== *)
theory Samples
  imports World JsValues
begin

section \<open>A concrete outside and a concrete world\<close>

text \<open>
  An environment and a state on which the witnesses run the model. Nothing fails to get through, the
  clock advances by a nanosecond per question, and the token and password functions are invertible encodings
  that satisfy the laws the theorems assume of the libraries.
\<close>

subsection \<open>An encoding of payloads\<close>

definition enc_nat :: "nat \<Rightarrow> string" where
  "enc_nat n = digits n @ ''.''"

definition dec_nat :: "string \<Rightarrow> nat \<times> string" where
  "dec_nat s = (foldl (\<lambda>a c. 10 * a + (of_char c - 48)) 0 (takeWhile (\<lambda>c. c \<noteq> CHR ''.'') s),
                tl (dropWhile (\<lambda>c. c \<noteq> CHR ''.'') s))"

definition enc_str :: "string \<Rightarrow> string" where
  "enc_str s = enc_nat (length s) @ s"

definition dec_str :: "string \<Rightarrow> string \<times> string" where
  "dec_str s = (let (n, r) = dec_nat s in (take n r, drop n r))"

definition enc_int :: "int \<Rightarrow> string" where
  "enc_int i = enc_nat (if 0 \<le> i then 2 * nat i else 2 * nat (- i) - 1)"

definition dec_int :: "string \<Rightarrow> int \<times> string" where
  "dec_int s = (let (n, r) = dec_nat s in (if even n then int (n div 2) else - int (Suc n div 2), r))"

definition enc_payload :: "payload \<Rightarrow> string" where
  "enc_payload p = enc_nat (unat (p_ID p)) @ enc_nat (unat (p_Type p)) @ enc_str (p_Username p) @
     enc_str (p_Role p) @ enc_int (p_IssuedAt p) @ enc_int (p_ExpiredAt p)"

definition dec_payload :: "string \<Rightarrow> payload" where
  "dec_payload s0 =
     (let (i, s1) = dec_nat s0; (t, s2) = dec_nat s1; (u, s3) = dec_str s2; (r, s4) = dec_str s3;
          (a, s5) = dec_int s4; (e, s6) = dec_int s5 in
      \<lparr>p_ID = of_nat i, p_Type = of_nat t, p_Username = u, p_Role = r, p_IssuedAt = a, p_ExpiredAt = e\<rparr>)"

lemma of_char_digit: "n < 10 \<Longrightarrow> (of_char (char_of (48 + n)) :: nat) = 48 + n"
  by simp

lemma digit_not_dot: "n < 10 \<Longrightarrow> char_of (48 + n :: nat) \<noteq> CHR ''.''"
proof
  assume "n < 10" and "char_of (48 + n :: nat) = CHR ''.''"
  then have "(48 + n :: nat) = of_char (CHR ''.'')" using of_char_digit [of n] by simp
  then show False by simp
qed

lemma digits_no_dot: "c \<in> set (digits n) \<Longrightarrow> c \<noteq> CHR ''.''"
proof (induction n rule: digits.induct)
  case (1 n)
  then show ?case
    using digit_not_dot [of n] digit_not_dot [of "n mod 10"]
    by (subst (asm) (2) digits.simps) (auto split: if_splits)
qed

lemma foldl_digits: "foldl (\<lambda>a c. 10 * a + (of_char c - 48)) 0 (digits n) = n"
proof (induction n rule: digits.induct)
  case (1 n)
  show ?case
  proof (cases "n < 10")
    case True
    then show ?thesis using of_char_digit [of n] by (subst digits.simps) simp
  next
    case False
    with 1 of_char_digit [of "n mod 10"] show ?thesis by (subst digits.simps) simp
  qed
qed

lemma dec_enc_nat [simp]: "dec_nat (enc_nat n @ r) = (n, r)"
proof -
  have "takeWhile (\<lambda>c. c \<noteq> CHR ''.'') (digits n @ ''.'' @ r) = digits n"
    "dropWhile (\<lambda>c. c \<noteq> CHR ''.'') (digits n @ ''.'' @ r) = ''.'' @ r"
    using digits_no_dot [of _ n] by (auto simp: takeWhile_append dropWhile_append)
  then show ?thesis by (simp add: dec_nat_def enc_nat_def foldl_digits)
qed

lemma dec_enc_str [simp]: "dec_str (enc_str s @ r) = (s, r)"
  by (simp add: dec_str_def enc_str_def)

lemma dec_enc_int [simp]: "dec_int (enc_int i @ r) = (i, r)"
  by (auto simp: dec_int_def enc_int_def)

lemma dec_enc_payload [simp]: "dec_payload (enc_payload p) = p"
  using dec_enc_int [of _ "[]"] by (simp add: dec_payload_def enc_payload_def)

subsection \<open>An environment\<close>

definition strip_prefix :: "string \<Rightarrow> string \<Rightarrow> string option" where
  "strip_prefix p s = (if take (length p) s = p then Some (drop (length p) s) else None)"

lemma strip_prefix_append [simp]: "strip_prefix p (p @ s) = Some s"
  by (simp add: strip_prefix_def)

fun sample_tag :: "gostring \<Rightarrow> field_value \<Rightarrow> bool" where
  "sample_tag t (FStr s) =
     (if t = ''required'' then s \<noteq> []
      else if t = ''alphanum'' then s \<noteq> [] \<and> list_all (\<lambda>c. let n = of_char c :: nat in
             48 \<le> n \<and> n \<le> 57 \<or> 65 \<le> n \<and> n \<le> 90 \<or> 97 \<le> n \<and> n \<le> 122) s
      else if t = ''min=6'' then 6 \<le> length (filter (\<lambda>c. (of_char c :: nat) div 64 \<noteq> 2) s)
      else if t = ''email'' then CHR ''@'' \<in> set s
      else False)"
| "sample_tag t (FInt i) =
     (if t = ''required'' then i \<noteq> 0
      else if t = ''min=1'' then 1 \<le> i
      else if t = ''min=5'' then 5 \<le> i
      else if t = ''max=10'' then i \<le> 10
      else if t = ''gt=0'' then 0 < i
      else False)"

definition sample_env :: env where
  "sample_env =
     \<lparr>clock = (\<lambda>n. int n), random_uuid = (\<lambda>n. Some (of_nat n)), random_nat = (\<lambda>n. 7 * n),
      db_fault = (\<lambda>_. Through), queue_fault = (\<lambda>_. Through), mail_fault = (\<lambda>_. Through),
      attach_file = (\<lambda>_. None),
      bcrypt_generate = (\<lambda>_ pw. if 72 < length pw then Inl (Plain ''bcrypt: password length exceeds 72 bytes'')
                                else Inr (''$2a$10$'' @ pw)),
      bcrypt_compare = (\<lambda>hash pw. if hash = ''$2a$10$'' @ take 72 pw then None
                               else Some (Plain ''hashedPassword is not the hash of the given password'')),
      paseto_encrypt = (\<lambda>_ key p. Inr (''v2.local.'' @ enc_str key @ enc_payload p)),
      paseto_decrypt = (\<lambda>key tok. map_option dec_payload (strip_prefix (''v2.local.'' @ enc_str key) tok)),
      jwt_sign = (\<lambda>key p. Inr (''eyJ.'' @ enc_str key @ enc_payload p)),
      jwt_parse = (\<lambda>key tok now. case strip_prefix (''eyJ.'' @ enc_str key) tok of
          None \<Rightarrow> JwtRejected
        | Some s \<Rightarrow>
            if p_ExpiredAt (dec_payload s) \<le> now then JwtExpired
            else if now < p_IssuedAt (dec_payload s) then JwtRejected
            else JwtClaims (dec_payload s)),
      parse_address = (\<lambda>s. CHR ''@'' \<in> set s),
      validate_tag = sample_tag, binding_error = Plain ''Field validation failed'',
      driver_text = (\<lambda>_. ''driver error'')\<rparr>"

subsection \<open>A world with two users and two accounts\<close>

definition sample_user :: "gostring \<Rightarrow> gostring \<Rightarrow> gostring \<Rightarrow> user" where
  "sample_user name mail_address pw =
     \<lparr>u_Username = name, u_HashedPassword = ''$2a$10$'' @ pw, u_FullName = name, u_Email = mail_address,
      u_PasswordChangedAt = 0, u_CreatedAt = 0, u_IsEmailVerified = False, u_Role = ''depositor''\<rparr>"

definition sample_account :: "nat \<Rightarrow> gostring \<Rightarrow> int64 \<Rightarrow> account" where
  "sample_account n who b =
     \<lparr>a_ID = serial_id n, a_Owner = who, a_Balance = b, a_Currency = ''USD'', a_CreatedAt = 0\<rparr>"

definition sample_db :: database where
  "sample_db = empty_database\<lparr>
     users := [sample_user ''alice'' ''alice@bank.org'' ''secret1'', sample_user ''bob'' ''bob@bank.org'' ''secret2''],
     accounts := [sample_account 1 ''alice'' 100, sample_account 2 ''bob'' 50],
     seq_accounts := 2\<rparr>"

definition sample_world :: world where
  "sample_world = \<lparr>db = sample_db, queue = [], outbox = [], tick = 0\<rparr>"

lemma sample_world_ok [simp]: "world_ok sample_world"
  by code_simp

end
