(* ===== verification/Util.thy ===== *)
theory Util
  imports Samples
begin

section \<open>Helpers of the backend (util/) and its validators (val/)\<close>

text \<open>
  Currencies, roles, passwords, random values, the configuration, and the checks of \<open>val\<close> that the
  gRPC handlers apply to every field. Hashing and address parsing are the libraries'.
\<close>

subsection \<open>currency.go, role.go, config.go\<close>

definition USD :: gostring where "USD = ''USD''"
definition EUR :: gostring where "EUR = ''EUR''"
definition CAD :: gostring where "CAD = ''CAD''"

definition IsSupportedCurrency :: "gostring \<Rightarrow> bool" where
  "IsSupportedCurrency currency \<longleftrightarrow> currency = USD \<or> currency = EUR \<or> currency = CAD"

definition DepositorRole :: gostring where "DepositorRole = ''depositor''"
definition BankerRole :: gostring where "BankerRole = ''banker''"

lemma roles_differ [simp]: "DepositorRole \<noteq> BankerRole" "BankerRole \<noteq> DepositorRole"
  by (simp_all add: DepositorRole_def BankerRole_def)

record Config =
  Environment :: gostring
  AllowedOrigins :: "gostring list"
  DBSource :: gostring
  MigrationURL :: gostring
  RedisAddress :: gostring
  HTTPServerAddress :: gostring
  GRPCServerAddress :: gostring
  TokenSymmetricKey :: gostring
  AccessTokenDuration :: duration
  RefreshTokenDuration :: duration
  EmailSenderName :: gostring
  EmailSenderAddress :: gostring
  EmailSenderPassword :: gostring

subsection \<open>password.go\<close>

definition HashPassword :: "env \<Rightarrow> gostring \<Rightarrow> gostring result io" where
  "HashPassword E password =
     do {
       r \<leftarrow> ask (\<lambda>n. bcrypt_generate E n password);
       State_Monad.return (case r of
          Inl e \<Rightarrow> Inl (Wrap ''failed to hash password: '' e)
        | Inr hashedPassword \<Rightarrow> Inr hashedPassword)
     }"

definition CheckPassword :: "env \<Rightarrow> gostring \<Rightarrow> gostring \<Rightarrow> go_error option" where
  "CheckPassword E password hashedPassword = bcrypt_compare E hashedPassword password"

text \<open>What bcrypt promises of its pair of functions.\<close>

definition bcrypt_ok :: "env \<Rightarrow> bool" where
  "bcrypt_ok E \<longleftrightarrow> (\<forall>n pw h. bcrypt_generate E n pw = Inr h \<longrightarrow> bcrypt_compare E h pw = None)"

lemma bcrypt_ok_sample: "bcrypt_ok sample_env"
  by (auto simp: bcrypt_ok_def sample_env_def split: if_splits)

subsection \<open>random.go\<close>

definition alphabet :: gostring where "alphabet = ''abcdefghijklmnopqrstuvwxyz''"

text \<open>\<^verbatim>\<open>rand.Intn(k)\<close> and \<^verbatim>\<open>rand.Int63n(n)\<close>, which panics for \<open>n \<le> 0\<close>.\<close>

definition Intn :: "env \<Rightarrow> nat \<Rightarrow> nat io" where
  "Intn E k = ask (\<lambda>n. random_nat E n mod k)"

definition RandomInt :: "env \<Rightarrow> int64 \<Rightarrow> int64 \<Rightarrow> int64 result io" where
  "RandomInt E min_value max_value =
     (let n = max_value - min_value + 1 in
      if sint n \<le> 0 then State_Monad.return (Inl (Plain ''panic: invalid argument to Int63n''))
      else do {
        r \<leftarrow> Intn E (nat (sint n));
        State_Monad.return (Inr (min_value + word_of_nat r))
      })"

fun random_chars :: "env \<Rightarrow> nat \<Rightarrow> gostring io" where
  "random_chars E 0 = State_Monad.return []"
| "random_chars E (Suc n) =
     do {
       i \<leftarrow> Intn E (length alphabet);
       cs \<leftarrow> random_chars E n;
       State_Monad.return (alphabet ! i # cs)
     }"

definition RandomString :: "env \<Rightarrow> int \<Rightarrow> gostring io" where
  "RandomString E n = random_chars E (nat n)"

definition RandomOwner :: "env \<Rightarrow> gostring io" where
  "RandomOwner E = RandomString E 6"

definition RandomMoney :: "env \<Rightarrow> int64 result io" where
  "RandomMoney E = RandomInt E 0 1000"

definition RandomCurrency :: "env \<Rightarrow> gostring io" where
  "RandomCurrency E = (let currencies = [USD, EUR, CAD] in
     do { i \<leftarrow> Intn E (length currencies); State_Monad.return (currencies ! i) })"

definition RandomEmail :: "env \<Rightarrow> gostring io" where
  "RandomEmail E = do { s \<leftarrow> RandomString E 6; State_Monad.return (s @ ''@email.com'') }"

lemma length_alphabet [simp]: "length alphabet = 26"
  by (simp add: alphabet_def)

lemma random_chars_run:
  "run_state (random_chars E n) w = (cs, w') \<Longrightarrow>
     length cs = n \<and> set cs \<subseteq> set alphabet \<and> w' = w\<lparr>tick := tick w + n\<rparr>"
proof (induction n arbitrary: w cs)
  case (Suc n)
  have "alphabet ! (random_nat E (tick w) mod 26) \<in> set alphabet" by (rule nth_mem) simp
  moreover obtain cs1 where "run_state (random_chars E n) (w\<lparr>tick := Suc (tick w)\<rparr>) = (cs1, w')"
    "cs = alphabet ! (random_nat E (tick w) mod 26) # cs1"
    using Suc.prems by (auto simp: Intn_def split: prod.splits)
  ultimately show ?case using Suc.IH by fastforce
qed simp

lemma RandomString_run:
  "0 \<le> n \<Longrightarrow> run_state (RandomString E n) w = (cs, w') \<Longrightarrow>
     int (length cs) = n \<and> set cs \<subseteq> set alphabet \<and> only_tick w w'"
  using random_chars_run [of E "nat n" w cs w'] by (simp add: RandomString_def)

subsection \<open>val/validator.go\<close>

definition lower_or_digit :: "char \<Rightarrow> bool" where
  "lower_or_digit c \<longleftrightarrow> (let n = of_char c :: nat in 97 \<le> n \<and> n \<le> 122 \<or> 48 \<le> n \<and> n \<le> 57)"

definition letter :: "char \<Rightarrow> bool" where
  "letter c \<longleftrightarrow> (let n = of_char c :: nat in 97 \<le> n \<and> n \<le> 122 \<or> 65 \<le> n \<and> n \<le> 90)"

text \<open>The regular expressions: a non-empty string of a class of bytes; \<^verbatim>\<open>\s\<close> is tab, newline, form feed,
  carriage return and blank.\<close>

definition isValidUsername :: "gostring \<Rightarrow> bool" where
  "isValidUsername s \<longleftrightarrow> s \<noteq> [] \<and> list_all (\<lambda>c. lower_or_digit c \<or> c = CHR ''_'') s"

definition isValidFullName :: "gostring \<Rightarrow> bool" where
  "isValidFullName s \<longleftrightarrow> s \<noteq> [] \<and>
     list_all (\<lambda>c. letter c \<or> (of_char c :: nat) \<in> {9, 10, 12, 13, 32}) s"

definition ValidateString :: "gostring \<Rightarrow> nat \<Rightarrow> nat \<Rightarrow> go_error option" where
  "ValidateString value minLength maxLength =
     (let n = length value in
      if n < minLength \<or> maxLength < n
      then Some (Plain (''must contain from '' @ digits minLength @ ''-'' @ digits maxLength @ '' characters''))
      else None)"

definition ValidateUsername :: "gostring \<Rightarrow> go_error option" where
  "ValidateUsername value =
     (case ValidateString value 3 100 of
        Some err \<Rightarrow> Some err
      | None \<Rightarrow>
          if \<not> isValidUsername value
          then Some (Plain ''must contain only lowercase letters, digits, or underscore'')
          else None)"

definition ValidateFullName :: "gostring \<Rightarrow> go_error option" where
  "ValidateFullName value =
     (case ValidateString value 3 100 of
        Some err \<Rightarrow> Some err
      | None \<Rightarrow>
          if \<not> isValidFullName value then Some (Plain ''must contain only letters or spaces'') else None)"

definition ValidatePassword :: "gostring \<Rightarrow> go_error option" where
  "ValidatePassword value = ValidateString value 6 100"

definition ValidateEmail :: "env \<Rightarrow> gostring \<Rightarrow> go_error option" where
  "ValidateEmail E value =
     (case ValidateString value 3 200 of
        Some err \<Rightarrow> Some err
      | None \<Rightarrow>
          if \<not> parse_address E value then Some (Plain ''is not a valid email address'') else None)"

definition ValidateEmailId :: "int64 \<Rightarrow> go_error option" where
  "ValidateEmailId value = (if sint value \<le> 0 then Some (Plain ''must be a positive integer'') else None)"

definition ValidateSecretCode :: "gostring \<Rightarrow> go_error option" where
  "ValidateSecretCode value = ValidateString value 32 128"

subsection \<open>What the validators accept\<close>

lemma ValidateString_None [simp]:
  "ValidateString value m n = None \<longleftrightarrow> m \<le> length value \<and> length value \<le> n"
  by (auto simp: ValidateString_def Let_def)

lemma ValidateUsername_None:
  "ValidateUsername s = None \<longleftrightarrow> 3 \<le> length s \<and> length s \<le> 100 \<and>
     list_all (\<lambda>c. lower_or_digit c \<or> c = CHR ''_'') s"
  by (auto simp: ValidateUsername_def isValidUsername_def ValidateString_def Let_def)

lemma ValidateFullName_None:
  "ValidateFullName s = None \<longleftrightarrow> 3 \<le> length s \<and> length s \<le> 100 \<and>
     list_all (\<lambda>c. letter c \<or> (of_char c :: nat) \<in> {9, 10, 12, 13, 32}) s"
  by (auto simp: ValidateFullName_def isValidFullName_def ValidateString_def Let_def)

lemma ValidateEmail_None:
  "ValidateEmail E s = None \<longleftrightarrow> 3 \<le> length s \<and> length s \<le> 200 \<and> parse_address E s"
  by (auto simp: ValidateEmail_def ValidateString_def Let_def)

lemma ValidateEmailId_None [simp]: "ValidateEmailId i = None \<longleftrightarrow> 0 < sint i"
  by (auto simp: ValidateEmailId_def)

lemma valid_username_graphic: "ValidateUsername s = None \<Longrightarrow> graphic s"
  by (auto simp: ValidateUsername_None graphic_def lower_or_digit_def Let_def list_all_iff)

lemma secret_code_valid: "length s = 32 \<Longrightarrow> ValidateSecretCode s = None"
  by (simp add: ValidateSecretCode_def)

end
