(* ===== verification/Token.thy ===== *)
theory Token
  imports Util
begin

section \<open>Tokens (token/)\<close>

text \<open>
  The payload of a token, its validity, and the two makers behind the Go interface \<open>Maker\<close>: PASETO
  and JWT. Encryption and signing are the libraries' (fields of \<open>env\<close>); what the code relies on is
  \<open>paseto_ok\<close> and \<open>jwt_ok\<close>. The locale \<open>token_maker\<close> is the contract of the interface, which both
  makers meet.
\<close>

subsection \<open>Payload (payload.go)\<close>

definition ErrInvalidToken :: go_error where "ErrInvalidToken = Plain ''token is invalid''"
definition ErrExpiredToken :: go_error where "ErrExpiredToken = Plain ''token has expired''"

lemma token_errors_differ [simp]: "ErrInvalidToken \<noteq> ErrExpiredToken" "ErrExpiredToken \<noteq> ErrInvalidToken"
  by (simp_all add: ErrInvalidToken_def ErrExpiredToken_def)

definition NewPayload ::
  "env \<Rightarrow> gostring \<Rightarrow> gostring \<Rightarrow> duration \<Rightarrow> token_type \<Rightarrow> payload result io" where
  "NewPayload E username role d tokenType =
     do {
       tokenID \<leftarrow> ask (random_uuid E);
       (case tokenID of
          None \<Rightarrow> State_Monad.return (Inl ConnError)
        | Some i \<Rightarrow>
            do {
              issued \<leftarrow> Now E;
              now \<leftarrow> Now E;
              State_Monad.return (Inr
                \<lparr>p_ID = i, p_Type = tokenType, p_Username = username, p_Role = role,
                 p_IssuedAt = issued, p_ExpiredAt = Add now d\<rparr>)
            })
     }"

definition Valid :: "env \<Rightarrow> payload \<Rightarrow> token_type \<Rightarrow> unit result io" where
  "Valid E p tokenType =
     (if p_Type p \<noteq> tokenType then State_Monad.return (Inl ErrInvalidToken)
      else do {
        now \<leftarrow> Now E;
        State_Monad.return (if p_ExpiredAt p < now then Inl ErrExpiredToken else Inr ())
      })"

text \<open>The claims the JWT library reads off a payload.\<close>

definition GetExpirationTime :: "payload \<Rightarrow> time" where "GetExpirationTime p = p_ExpiredAt p"
definition GetIssuedAt :: "payload \<Rightarrow> time" where "GetIssuedAt p = p_IssuedAt p"
definition GetNotBefore :: "payload \<Rightarrow> time" where "GetNotBefore p = p_IssuedAt p"

subsection \<open>Makers (maker.go, paseto\_maker.go, jwt\_maker.go)\<close>

record maker =
  CreateToken :: "gostring \<Rightarrow> gostring \<Rightarrow> duration \<Rightarrow> token_type \<Rightarrow> (gostring \<times> payload) result io"
  VerifyToken :: "gostring \<Rightarrow> token_type \<Rightarrow> payload result io"

definition paseto_CreateToken ::
  "env \<Rightarrow> gostring \<Rightarrow> gostring \<Rightarrow> gostring \<Rightarrow> duration \<Rightarrow> token_type \<Rightarrow> (gostring \<times> payload) result io" where
  "paseto_CreateToken E key username role d tokenType =
     bindE (NewPayload E username role d tokenType) (\<lambda>payload.
     bindE (ask (\<lambda>n. paseto_encrypt E n key payload)) (\<lambda>token.
       State_Monad.return (Inr (token, payload))))"

definition paseto_VerifyToken :: "env \<Rightarrow> gostring \<Rightarrow> gostring \<Rightarrow> token_type \<Rightarrow> payload result io" where
  "paseto_VerifyToken E key token tokenType =
     (case paseto_decrypt E key token of
        None \<Rightarrow> State_Monad.return (Inl ErrInvalidToken)
      | Some payload \<Rightarrow>
          bindE (Valid E payload tokenType) (\<lambda>_. State_Monad.return (Inr payload)))"

definition PasetoMaker :: "env \<Rightarrow> gostring \<Rightarrow> maker" where
  "PasetoMaker E key =
     \<lparr>CreateToken = paseto_CreateToken E key, VerifyToken = paseto_VerifyToken E key\<rparr>"

text \<open>\<^verbatim>\<open>chacha20poly1305.KeySize\<close> is 32.\<close>

definition KeySize :: nat where "KeySize = 32"

definition NewPasetoMaker :: "env \<Rightarrow> gostring \<Rightarrow> maker result" where
  "NewPasetoMaker E symmetricKey =
     (if length symmetricKey \<noteq> KeySize
      then Inl (Plain ''invalid key size: must be exactly 32 characters'')
      else Inr (PasetoMaker E symmetricKey))"

definition jwt_CreateToken ::
  "env \<Rightarrow> gostring \<Rightarrow> gostring \<Rightarrow> gostring \<Rightarrow> duration \<Rightarrow> token_type \<Rightarrow> (gostring \<times> payload) result io" where
  "jwt_CreateToken E key username role d tokenType =
     bindE (NewPayload E username role d tokenType) (\<lambda>payload.
     bindE (State_Monad.return (jwt_sign E key payload)) (\<lambda>token.
       State_Monad.return (Inr (token, payload))))"

text \<open>\<^verbatim>\<open>jwt.ParseWithClaims\<close> refuses other signing methods than HMAC by the key function, and checks the
  times of the claims (\<open>GetExpirationTime\<close>, \<open>GetNotBefore\<close>) at an instant of its own.\<close>

definition jwt_VerifyToken :: "env \<Rightarrow> gostring \<Rightarrow> gostring \<Rightarrow> token_type \<Rightarrow> payload result io" where
  "jwt_VerifyToken E key token tokenType =
     do {
       now \<leftarrow> Now E;
       (case jwt_parse E key token now of
          JwtExpired \<Rightarrow> State_Monad.return (Inl ErrExpiredToken)
        | JwtRejected \<Rightarrow> State_Monad.return (Inl ErrInvalidToken)
        | JwtClaims payload \<Rightarrow>
            bindE (Valid E payload tokenType) (\<lambda>_. State_Monad.return (Inr payload)))
     }"

definition JWTMaker :: "env \<Rightarrow> gostring \<Rightarrow> maker" where
  "JWTMaker E key = \<lparr>CreateToken = jwt_CreateToken E key, VerifyToken = jwt_VerifyToken E key\<rparr>"

definition minSecretKeySize :: nat where "minSecretKeySize = 32"

definition NewJWTMaker :: "env \<Rightarrow> gostring \<Rightarrow> maker result" where
  "NewJWTMaker E secretKey =
     (if length secretKey < minSecretKeySize
      then Inl (Plain ''invalid key size: must be at least 32 characters'')
      else Inr (JWTMaker E secretKey))"

subsection \<open>What the libraries promise\<close>

text \<open>Both serialize the payload as JSON, which keeps ASCII text and instants, and give back what was
  encrypted or signed under the same key.\<close>

definition ascii :: "string \<Rightarrow> bool" where
  "ascii s \<longleftrightarrow> list_all (\<lambda>c. (of_char c :: nat) < 128) s"

definition paseto_ok :: "env \<Rightarrow> bool" where
  "paseto_ok E \<longleftrightarrow> (\<forall>n key p tok. ascii (p_Username p) \<and> ascii (p_Role p) \<longrightarrow>
     paseto_encrypt E n key p = Inr tok \<longrightarrow> paseto_decrypt E key tok = Some p)"

text \<open>A JWT is accepted from its time of issue up to, and not at, its expiration.\<close>

definition jwt_ok :: "env \<Rightarrow> bool" where
  "jwt_ok E \<longleftrightarrow> (\<forall>key p tok now. ascii (p_Username p) \<and> ascii (p_Role p) \<longrightarrow>
     jwt_sign E key p = Inr tok \<longrightarrow>
     jwt_parse E key tok now =
       (if GetExpirationTime p \<le> now then JwtExpired
        else if now < GetNotBefore p then JwtRejected else JwtClaims p))"

lemma paseto_ok_sample: "paseto_ok sample_env"
  by (auto simp: paseto_ok_def sample_env_def strip_prefix_append [of "''v2.local.'' @ _", simplified])

lemma jwt_ok_sample: "jwt_ok sample_env"
  by (auto simp: jwt_ok_def GetExpirationTime_def GetNotBefore_def sample_env_def strip_prefix_append [of "''eyJ.'' @ _", simplified])

subsection \<open>The contract of the interface\<close>

text \<open>A verification reads the clock at most twice; the token is alive, or dead, at both readings.\<close>

definition alive :: "env \<Rightarrow> world \<Rightarrow> payload \<Rightarrow> bool" where
  "alive E w p \<longleftrightarrow> (\<forall>n \<in> {tick w, Suc (tick w)}. p_IssuedAt p \<le> clock E n \<and> clock E n < p_ExpiredAt p)"

definition dead :: "env \<Rightarrow> world \<Rightarrow> payload \<Rightarrow> bool" where
  "dead E w p \<longleftrightarrow> (\<forall>n \<in> {tick w, Suc (tick w)}. p_ExpiredAt p < clock E n)"

locale token_maker =
  fixes E :: env and M :: maker and sound :: bool
  assumes create_only_tick: "run_state (CreateToken M u r d t) w = (res, w') \<Longrightarrow> only_tick w w'"
    and create_payload: "run_state (CreateToken M u r d t) w = (Inr (tok, p), w') \<Longrightarrow>
      random_uuid E (tick w) = Some (p_ID p) \<and> p_Type p = t \<and> p_Username p = u \<and> p_Role p = r \<and>
      p_IssuedAt p = clock E (Suc (tick w)) \<and> p_ExpiredAt p = Add (clock E (Suc (Suc (tick w)))) d"
    and verify_only_tick: "run_state (VerifyToken M tok t) w = (res', w') \<Longrightarrow> only_tick w w'"
    and verify_type: "run_state (VerifyToken M tok t) w = (Inr p, w') \<Longrightarrow> p_Type p = t"
    and verify_created: "sound \<Longrightarrow> ascii u \<Longrightarrow> ascii r \<Longrightarrow>
      run_state (CreateToken M u r d t) w = (Inr (tok, p), w1) \<Longrightarrow> alive E w2 p \<Longrightarrow>
      fst (run_state (VerifyToken M tok t) w2) = Inr p"
    and verify_same: "sound \<Longrightarrow> ascii u \<Longrightarrow> ascii r \<Longrightarrow>
      run_state (CreateToken M u r d t) w = (Inr (tok, p), w1) \<Longrightarrow>
      run_state (VerifyToken M tok t') w2 = (Inr p', w3) \<Longrightarrow> p' = p"
    and verify_expired: "sound \<Longrightarrow> ascii u \<Longrightarrow> ascii r \<Longrightarrow>
      run_state (CreateToken M u r d t) w = (Inr (tok, p), w1) \<Longrightarrow> dead E w2 p \<Longrightarrow>
      fst (run_state (VerifyToken M tok t) w2) = Inl ErrExpiredToken"
begin

text \<open>A refresh token is no access token, and the other way round.\<close>

lemma wrong_type:
  assumes "sound" "ascii u" "ascii r" "run_state (CreateToken M u r d t) w = (Inr (tok, p), w1)" "t' \<noteq> t"
  shows "isl (fst (run_state (VerifyToken M tok t') w2))"
proof (rule ccontr)
  assume "\<not> isl (fst (run_state (VerifyToken M tok t') w2))"
  then obtain p' where p': "run_state (VerifyToken M tok t') w2 = (Inr p', snd (run_state (VerifyToken M tok t') w2))"
    by (metis isl_def prod.collapse sum.exhaust)
  have "p' = p" by (rule verify_same [OF assms(1-4) p'])
  with verify_type [OF p'] create_payload [OF assms(4)] assms(5) show False by simp
qed

lemma keeps_create: "(\<And>w w'. only_tick w w' \<Longrightarrow> P w \<Longrightarrow> P w') \<Longrightarrow> keeps P (CreateToken M u r d t)"
  by (rule keepsI) (blast dest: create_only_tick)

lemma keeps_verify: "(\<And>w w'. only_tick w w' \<Longrightarrow> P w \<Longrightarrow> P w') \<Longrightarrow> keeps P (VerifyToken M tok t)"
  by (rule keepsI) (blast dest: verify_only_tick)

text \<open>A token for a positive lifetime, checked before it ends, is accepted, and what it says is what it was
  made of.\<close>

lemma lifecycle:
  assumes "sound" "ascii u" "ascii r" "run_state (CreateToken M u r d t) w = (Inr (tok, p), w1)"
  shows "p_Type p = t \<and> p_Username p = u \<and> p_Role p = r \<and>
     p_ExpiredAt p = Add (clock E (Suc (Suc (tick w)))) d \<and>
     (alive E w2 p \<longrightarrow> fst (run_state (VerifyToken M tok t) w2) = Inr p) \<and>
     (dead E w2 p \<longrightarrow> fst (run_state (VerifyToken M tok t) w2) = Inl ErrExpiredToken) \<and>
     (t' \<noteq> t \<longrightarrow> isl (fst (run_state (VerifyToken M tok t') w2)))"
  using create_payload [OF assms(4)] verify_created [OF assms] verify_expired [OF assms] wrong_type [OF assms]
  by blast

end

subsection \<open>Both makers meet it\<close>

lemma run_NewPayload:
  "run_state (NewPayload E u r d t) w =
     (case random_uuid E (tick w) of
        None \<Rightarrow> (Inl ConnError, w\<lparr>tick := Suc (tick w)\<rparr>)
      | Some i \<Rightarrow>
          (Inr \<lparr>p_ID = i, p_Type = t, p_Username = u, p_Role = r, p_IssuedAt = clock E (Suc (tick w)),
                p_ExpiredAt = Add (clock E (Suc (Suc (tick w)))) d\<rparr>,
           w\<lparr>tick := Suc (Suc (Suc (tick w)))\<rparr>))"
  by (simp add: NewPayload_def split: option.splits)

lemma run_Valid:
  "run_state (Valid E p t) w =
     (if p_Type p \<noteq> t then (Inl ErrInvalidToken, w)
      else (if p_ExpiredAt p < clock E (tick w) then Inl ErrExpiredToken else Inr (),
            w\<lparr>tick := Suc (tick w)\<rparr>))"
  by (simp add: Valid_def)

lemmas token_runs = run_bindE run_NewPayload run_Valid paseto_CreateToken_def paseto_VerifyToken_def
  PasetoMaker_def jwt_CreateToken_def jwt_VerifyToken_def JWTMaker_def

lemma paseto_created:
  assumes "run_state (paseto_CreateToken E key u r d t) w = (Inr (tok, p), w1)"
  shows "\<exists>n. paseto_encrypt E n key p = Inr tok"
    and "p_Username p = u" "p_Role p = r" "p_Type p = t"
  using assms by (auto simp: token_runs split: option.splits sum.splits)

lemma jwt_created:
  assumes "run_state (jwt_CreateToken E key u r d t) w = (Inr (tok, p), w1)"
  shows "jwt_sign E key p = Inr tok" and "p_Username p = u" "p_Role p = r" "p_Type p = t"
  using assms by (auto simp: token_runs split: option.splits sum.splits)

lemma paseto_decrypt_created:
  "paseto_ok E \<Longrightarrow> ascii u \<Longrightarrow> ascii r \<Longrightarrow> run_state (paseto_CreateToken E key u r d t) w = (Inr (tok, p), w1) \<Longrightarrow>
     paseto_decrypt E key tok = Some p"
  using paseto_created [of E key u r d t w tok p w1] unfolding paseto_ok_def by metis

lemma jwt_parse_created:
  "jwt_ok E \<Longrightarrow> ascii u \<Longrightarrow> ascii r \<Longrightarrow> run_state (jwt_CreateToken E key u r d t) w = (Inr (tok, p), w1) \<Longrightarrow>
     jwt_parse E key tok now =
       (if p_ExpiredAt p \<le> now then JwtExpired else if now < p_IssuedAt p then JwtRejected else JwtClaims p)"
  using jwt_created [of E key u r d t w tok p w1]
  unfolding jwt_ok_def GetExpirationTime_def GetNotBefore_def by metis

interpretation paseto: token_maker E "PasetoMaker E key" "paseto_ok E" for E key
proof
  fix u r d t w w1 w2 w3 tok and p p' :: payload and t'
  assume sound: "paseto_ok E" "ascii u" "ascii r"
    and c: "run_state (CreateToken (PasetoMaker E key) u r d t) w = (Inr (tok, p), w1)"
  have dec: "paseto_decrypt E key tok = Some p"
    using paseto_decrypt_created [OF sound, of key d t w] c by (simp add: PasetoMaker_def)
  have p: "p_Type p = t" using paseto_created(4) c by (simp add: PasetoMaker_def)
  show "alive E w2 p \<Longrightarrow> fst (run_state (VerifyToken (PasetoMaker E key) tok t) w2) = Inr p"
    by (simp add: token_runs dec p alive_def)
  show "run_state (VerifyToken (PasetoMaker E key) tok t') w2 = (Inr p', w3) \<Longrightarrow> p' = p"
    by (auto simp: token_runs dec split: if_splits)
  show "dead E w2 p \<Longrightarrow> fst (run_state (VerifyToken (PasetoMaker E key) tok t) w2) = Inl ErrExpiredToken"
    by (simp add: token_runs dec p dead_def)
qed (auto simp: token_runs split: option.splits sum.splits if_splits)

interpretation jwt: token_maker E "JWTMaker E key" "jwt_ok E" for E key
proof
  fix u r d t w w1 w2 w3 tok and p p' :: payload and t'
  assume sound: "jwt_ok E" "ascii u" "ascii r"
    and c: "run_state (CreateToken (JWTMaker E key) u r d t) w = (Inr (tok, p), w1)"
  have parse: "jwt_parse E key tok now =
       (if p_ExpiredAt p \<le> now then JwtExpired else if now < p_IssuedAt p then JwtRejected else JwtClaims p)" for now
    using jwt_parse_created [OF sound, of key d t w] c by (simp add: JWTMaker_def)
  have p: "p_Type p = t" using jwt_created(4) c by (simp add: JWTMaker_def)
  show "alive E w2 p \<Longrightarrow> fst (run_state (VerifyToken (JWTMaker E key) tok t) w2) = Inr p"
    by (simp add: token_runs parse p alive_def)
  show "run_state (VerifyToken (JWTMaker E key) tok t') w2 = (Inr p', w3) \<Longrightarrow> p' = p"
    by (auto simp: token_runs parse split: if_splits)
  show "dead E w2 p \<Longrightarrow> fst (run_state (VerifyToken (JWTMaker E key) tok t) w2) = Inl ErrExpiredToken"
    by (simp add: token_runs parse dead_def)
qed (auto simp: token_runs split: option.splits sum.splits if_splits jwt_result.splits)

end
