(* ===== verification/Worker.thy ===== *)
theory Worker
  imports Store Token
begin

section \<open>Background tasks and mail (worker/, mail/)\<close>

text \<open>
  The distributor puts a task into the queue, the processor sends the verification mail. The queue is
  Redis behind asynq, the mail server is Gmail: a call to either may not arrive, or arrive without an
  answer (\<open>queue_fault\<close>, \<open>mail_fault\<close> of \<open>env\<close>). What is logged is not modelled.
\<close>

subsection \<open>Distributing (distributor.go, task\_send\_verify\_email.go)\<close>

definition QueueCritical :: gostring where "QueueCritical = ''critical''"
definition QueueDefault :: gostring where "QueueDefault = ''default''"

definition TaskSendVerifyEmail :: gostring where "TaskSendVerifyEmail = ''task:send_verify_email''"

text \<open>The Go interface \<open>TaskDistributor\<close> has one method.\<close>

type_synonym task_distributor = "send_verify_email \<Rightarrow> task_option list \<Rightarrow> unit result io"

definition enqueue :: "env \<Rightarrow> task \<Rightarrow> unit result io" where
  "enqueue E t = State (\<lambda>w.
     let w1 = w\<lparr>tick := Suc (tick w)\<rparr> in
     case queue_fault E (tick w) of
       Through \<Rightarrow> (Inr (), w1\<lparr>queue := queue w1 @ [t]\<rparr>)
     | Lost \<Rightarrow> (Inl ConnError, w1)
     | Unacked \<Rightarrow> (Inl ConnError, w1\<lparr>queue := queue w1 @ [t]\<rparr>))"

definition DistributeTaskSendVerifyEmail :: "env \<Rightarrow> task_distributor" where
  "DistributeTaskSendVerifyEmail E payload opts =
     caseE (enqueue E \<lparr>tk_Type = TaskSendVerifyEmail, tk_Payload = Some payload, tk_Options = opts\<rparr>)
       (\<lambda>err. State_Monad.return (Inl (Wrap ''failed to enqueue task: '' err)))
       (\<lambda>_. State_Monad.return (Inr ()))"

subsection \<open>Mail (sender.go)\<close>

record gmail_sender =
  gs_name :: gostring
  gs_fromEmailAddress :: gostring
  gs_fromEmailPassword :: gostring

text \<open>\<^verbatim>\<open>e.AttachFile(f)\<close> for every file, up to the first that fails.\<close>

fun attach_all :: "env \<Rightarrow> gostring list \<Rightarrow> unit result" where
  "attach_all E [] = Inr ()"
| "attach_all E (f # fs) =
     (case attach_file E f of
        Some err \<Rightarrow> Inl (Wrap (''failed to attach file '' @ f @ '': '') err)
      | None \<Rightarrow> attach_all E fs)"

definition smtp_send :: "env \<Rightarrow> mail \<Rightarrow> unit result io" where
  "smtp_send E m = State (\<lambda>w.
     let w1 = w\<lparr>tick := Suc (tick w)\<rparr> in
     case mail_fault E (tick w) of
       Through \<Rightarrow> (Inr (), w1\<lparr>outbox := outbox w1 @ [m]\<rparr>)
     | Lost \<Rightarrow> (Inl ConnError, w1)
     | Unacked \<Rightarrow> (Inl ConnError, w1\<lparr>outbox := outbox w1 @ [m]\<rparr>))"

type_synonym email_sender =
  "gostring \<Rightarrow> gostring \<Rightarrow> gostring list \<Rightarrow> gostring list \<Rightarrow> gostring list \<Rightarrow> gostring list \<Rightarrow> unit result io"

definition SendEmail :: "env \<Rightarrow> gmail_sender \<Rightarrow> email_sender" where
  "SendEmail E sender subject content to_list cc bcc attachFiles =
     bindE (State_Monad.return (attach_all E attachFiles)) (\<lambda>_.
       smtp_send E
         \<lparr>m_From = gs_name sender @ '' <'' @ gs_fromEmailAddress sender @ ''>'', m_Subject = subject,
          m_HTML = content, m_To = to_list, m_Cc = cc, m_Bcc = bcc, m_Attachments = attachFiles\<rparr>)"

subsection \<open>Processing (processor.go, task\_send\_verify\_email.go)\<close>

definition SkipRetry :: go_error where "SkipRetry = Plain ''skip retry for the task''"

definition verify_url :: "verify_email \<Rightarrow> gostring" where
  "verify_url v = ''http://localhost:8080/v1/verify_email?email_id='' @ decimal (sint (v_ID v)) @
     ''&secret_code='' @ v_SecretCode v"

definition newline :: gostring where "newline = [char_of (10 :: nat)]"
definition tabulator :: gostring where "tabulator = [char_of (9 :: nat)]"

definition verify_mail_content :: "user \<Rightarrow> verify_email \<Rightarrow> gostring" where
  "verify_mail_content u v =
     ''Hello '' @ u_FullName u @ '',<br/>'' @ newline @ tabulator @
     ''Thank you for registering with us!<br/>'' @ newline @ tabulator @
     ''Please <a href='' @ [CHR 0x22] @ verify_url v @ [CHR 0x22] @ ''>click here</a> to verify your email address.<br/>'' @
     newline @ tabulator"

definition ProcessTaskSendVerifyEmail :: "env \<Rightarrow> store \<Rightarrow> email_sender \<Rightarrow> task \<Rightarrow> unit result io" where
  "ProcessTaskSendVerifyEmail E S mailer t =
     (case tk_Payload t of
        None \<Rightarrow> State_Monad.return (Inl (Wrap ''failed to unmarshal payload: '' SkipRetry))
      | Some payload \<Rightarrow>
          caseE (GetUser S (sv_Username payload))
            (\<lambda>err. State_Monad.return (Inl (Wrap ''failed to get user: '' err))) (\<lambda>user. do {
          secretCode \<leftarrow> RandomString E 32;
          caseE (CreateVerifyEmail S \<lparr>cv_Username = u_Username user, cv_Email = u_Email user, cv_SecretCode = secretCode\<rparr>)
            (\<lambda>err. State_Monad.return (Inl (Wrap ''failed to create verify email: '' err))) (\<lambda>verifyEmail.
          caseE (mailer ''Welcome to Simple Bank'' (verify_mail_content user verifyEmail) [u_Email user] [] [] [])
            (\<lambda>err. State_Monad.return (Inl (Wrap ''failed to send verify email: '' err)))
            (\<lambda>_. State_Monad.return (Inr ())))}))"

text \<open>The handler the server's mux is given for each type of task (\<open>Start\<close>).\<close>

definition task_handler :: "env \<Rightarrow> store \<Rightarrow> email_sender \<Rightarrow> gostring \<Rightarrow> (task \<Rightarrow> unit result io) option" where
  "task_handler E S mailer typ =
     (if typ = TaskSendVerifyEmail then Some (ProcessTaskSendVerifyEmail E S mailer) else None)"

text \<open>The queues the processor serves, with their weights (\<open>NewRedisTaskProcessor\<close>).\<close>

definition processor_queues :: "(gostring \<times> nat) list" where
  "processor_queues = [(QueueCritical, 10), (QueueDefault, 5)]"

end
