(* ===== verification/Gapi.thy ===== *)
theory Gapi
  imports Worker Util
begin

section \<open>The gRPC API (gapi/)\<close>

text \<open>
  The four methods of the service with their validation and every error branch, the authorization of
  requests by role, the metadata, and the logging interceptors as far as they pass results on. The
  messages are the fields of the protobuf messages; an optional field is an option, whose getter
  gives the empty string for an absent one. gRPC itself and the generated code are not modelled.
\<close>

subsection \<open>Status codes and errors (error.go)\<close>

datatype grpc_code = Unknown | InvalidArgument | NotFound | AlreadyExists | PermissionDenied
  | Internal | Unauthenticated

record field_violation =
  fv_Field :: gostring
  fv_Description :: gostring

record grpc_status =
  gr_code :: grpc_code
  gr_message :: gostring
  gr_violations :: "field_violation list"

definition Errorf :: "grpc_code \<Rightarrow> gostring \<Rightarrow> grpc_status" where
  "Errorf c m = \<lparr>gr_code = c, gr_message = m, gr_violations = []\<rparr>"

definition fieldViolation :: "env \<Rightarrow> gostring \<Rightarrow> go_error \<Rightarrow> field_violation" where
  "fieldViolation E field err = \<lparr>fv_Field = field, fv_Description = error_text (driver_text E) err\<rparr>"

definition invalidArgumentError :: "field_violation list \<Rightarrow> grpc_status" where
  "invalidArgumentError violations =
     \<lparr>gr_code = InvalidArgument, gr_message = ''invalid parameters'', gr_violations = violations\<rparr>"

definition unauthenticatedError :: "env \<Rightarrow> go_error \<Rightarrow> grpc_status" where
  "unauthenticatedError E err = Errorf Unauthenticated (''unauthorized: '' @ error_text (driver_text E) err)"

subsection \<open>Context, metadata and the server (metadata.go, server.go)\<close>

text \<open>The incoming metadata, if any, under lower-case keys; the address of the peer, if any.\<close>

record grpc_context =
  gx_metadata :: "(gostring \<Rightarrow> gostring list) option"
  gx_peer :: "gostring option"

record Metadata =
  md_UserAgent :: gostring
  md_ClientIP :: gostring

definition extractMetadata :: "grpc_context \<Rightarrow> Metadata" where
  "extractMetadata ctx =
     (let mtdt = \<lparr>md_UserAgent = [], md_ClientIP = []\<rparr>;
          mtdt = (case gx_metadata ctx of
              None \<Rightarrow> mtdt
            | Some md \<Rightarrow>
                (let mtdt = (case md ''grpcgateway-user-agent'' of [] \<Rightarrow> mtdt | ua # _ \<Rightarrow> mtdt\<lparr>md_UserAgent := ua\<rparr>);
                     mtdt = (case md ''user-agent'' of [] \<Rightarrow> mtdt | ua # _ \<Rightarrow> mtdt\<lparr>md_UserAgent := ua\<rparr>)
                 in (case md ''x-forwarded-for'' of [] \<Rightarrow> mtdt | ip # _ \<Rightarrow> mtdt\<lparr>md_ClientIP := ip\<rparr>)))
      in (case gx_peer ctx of None \<Rightarrow> mtdt | Some addr \<Rightarrow> mtdt\<lparr>md_ClientIP := addr\<rparr>))"

record grpc_server =
  gsv_config :: Config
  gsv_store :: store
  gsv_tokenMaker :: maker
  gsv_taskDistributor :: task_distributor

definition NewGrpcServer :: "env \<Rightarrow> Config \<Rightarrow> store \<Rightarrow> task_distributor \<Rightarrow> grpc_server result" where
  "NewGrpcServer E config S taskDistributor =
     (case NewPasetoMaker E (TokenSymmetricKey config) of
        Inl err \<Rightarrow> Inl (Wrap ''cannot create token maker: '' err)
      | Inr tokenMaker \<Rightarrow>
          Inr \<lparr>gsv_config = config, gsv_store = S, gsv_tokenMaker = tokenMaker,
               gsv_taskDistributor = taskDistributor\<rparr>)"

subsection \<open>Authorization (authorization.go)\<close>

fun hasPermission :: "gostring \<Rightarrow> gostring list \<Rightarrow> bool" where
  "hasPermission userRole [] = False"
| "hasPermission userRole (role # roles) = (if userRole = role then True else hasPermission userRole roles)"

definition authorizationBearer :: gostring where "authorizationBearer = ''bearer''"

definition authorizeUser ::
  "env \<Rightarrow> grpc_server \<Rightarrow> grpc_context \<Rightarrow> gostring list \<Rightarrow> payload result io" where
  "authorizeUser E server ctx accessibleRoles =
     (case gx_metadata ctx of
        None \<Rightarrow> State_Monad.return (Inl (Plain ''missing metadata''))
      | Some md \<Rightarrow>
     (case md ''authorization'' of
        [] \<Rightarrow> State_Monad.return (Inl (Plain ''missing authorization header''))
      | authHeader # _ \<Rightarrow>
          (let fields = Fields authHeader in
           if length fields < 2
           then State_Monad.return (Inl (Plain ''invalid authorization header format''))
           else
             (let authType = ToLower (fields ! 0) in
              if authType \<noteq> authorizationBearer
              then State_Monad.return (Inl (Plain (''unsupported authorization type: '' @ authType)))
              else
                caseE (VerifyToken (gsv_tokenMaker server) (fields ! 1) TokenTypeAccessToken)
                  (\<lambda>err. State_Monad.return (Inl (Plain (''invalid access token: '' @ error_text (driver_text E) err))))
                  (\<lambda>payload.
                     if \<not> hasPermission (p_Role payload) accessibleRoles
                     then State_Monad.return (Inl (Plain ''permission denied''))
                     else State_Monad.return (Inr payload))))))"

subsection \<open>Messages (converter.go and the protobuf messages)\<close>

record pb_user =
  pu_Username :: gostring
  pu_FullName :: gostring
  pu_Email :: gostring
  pu_PasswordChangedAt :: time
  pu_CreatedAt :: time

definition convertUser :: "user \<Rightarrow> pb_user" where
  "convertUser user =
     \<lparr>pu_Username = u_Username user, pu_FullName = u_FullName user, pu_Email = u_Email user,
      pu_PasswordChangedAt = u_PasswordChangedAt user, pu_CreatedAt = u_CreatedAt user\<rparr>"

record CreateUserRequest =
  gcu_Username :: gostring
  gcu_FullName :: gostring
  gcu_Email :: gostring
  gcu_Password :: gostring

record LoginUserRequest =
  glu_Username :: gostring
  glu_Password :: gostring

record LoginUserResponse =
  glr_User :: pb_user
  glr_SessionId :: uuid
  glr_AccessToken :: gostring
  glr_RefreshToken :: gostring
  glr_AccessTokenExpiresAt :: time
  glr_RefreshTokenExpiresAt :: time

record UpdateUserRequest =
  guu_Username :: gostring
  guu_FullName :: "gostring option"
  guu_Email :: "gostring option"
  guu_Password :: "gostring option"

text \<open>The generated getter of an optional field.\<close>

definition opt_string :: "gostring option \<Rightarrow> gostring" where
  "opt_string x = (case x of None \<Rightarrow> [] | Some s \<Rightarrow> s)"

record VerifyEmailRequest =
  gve_EmailId :: int64
  gve_SecretCode :: gostring

subsection \<open>Validation of requests\<close>

definition violation :: "env \<Rightarrow> gostring \<Rightarrow> go_error option \<Rightarrow> field_violation list" where
  "violation E field r = (case r of None \<Rightarrow> [] | Some err \<Rightarrow> [fieldViolation E field err])"

definition validateCreateUserRequest :: "env \<Rightarrow> CreateUserRequest \<Rightarrow> field_violation list" where
  "validateCreateUserRequest E req =
     violation E ''username'' (ValidateUsername (gcu_Username req)) @
     violation E ''password'' (ValidatePassword (gcu_Password req)) @
     violation E ''full_name'' (ValidateFullName (gcu_FullName req)) @
     violation E ''email'' (ValidateEmail E (gcu_Email req))"

definition validateLoginUserRequest :: "env \<Rightarrow> LoginUserRequest \<Rightarrow> field_violation list" where
  "validateLoginUserRequest E req =
     violation E ''username'' (ValidateUsername (glu_Username req)) @
     violation E ''password'' (ValidatePassword (glu_Password req))"

definition validateUpdateUserRequest :: "env \<Rightarrow> UpdateUserRequest \<Rightarrow> field_violation list" where
  "validateUpdateUserRequest E req =
     violation E ''username'' (ValidateUsername (guu_Username req)) @
     (if guu_Password req \<noteq> None
      then violation E ''password'' (ValidatePassword (opt_string (guu_Password req))) else []) @
     (if guu_FullName req \<noteq> None
      then violation E ''full_name'' (ValidateFullName (opt_string (guu_FullName req))) else []) @
     (if guu_Email req \<noteq> None
      then violation E ''email'' (ValidateEmail E (opt_string (guu_Email req))) else [])"

definition validateVerifyEmailRequest :: "env \<Rightarrow> VerifyEmailRequest \<Rightarrow> field_violation list" where
  "validateVerifyEmailRequest E req =
     violation E ''email_id'' (ValidateEmailId (gve_EmailId req)) @
     violation E ''secret_code'' (ValidateSecretCode (gve_SecretCode req))"

subsection \<open>rpc\_create\_user.go\<close>

definition verify_email_options :: "task_option list" where
  "verify_email_options = [MaxRetry 10, ProcessIn (word_of_int (10 * 1000000000)), Queue QueueCritical]"

definition rpc_CreateUser ::
  "env \<Rightarrow> grpc_server \<Rightarrow> CreateUserRequest \<Rightarrow> (grpc_status + pb_user) io" where
  "rpc_CreateUser E server req =
     (let violations = validateCreateUserRequest E req in
      if violations \<noteq> [] then State_Monad.return (Inl (invalidArgumentError violations))
      else
        caseE (HashPassword E (gcu_Password req))
          (\<lambda>err. State_Monad.return (Inl (Errorf Internal
             (''failed to hash password: '' @ error_text (driver_text E) err)))) (\<lambda>hashedPassword.
        caseE
          (st_CreateUserTx (gsv_store server)
             \<lparr>cu_Username = gcu_Username req, cu_HashedPassword = hashedPassword,
              cu_FullName = gcu_FullName req, cu_Email = gcu_Email req\<rparr>
             (\<lambda>user. gsv_taskDistributor server \<lparr>sv_Username = u_Username user\<rparr> verify_email_options))
          (\<lambda>err.
             if ErrorCode err = UniqueViolation
             then State_Monad.return (Inl (Errorf AlreadyExists (error_text (driver_text E) err)))
             else State_Monad.return (Inl (Errorf Internal
               (''failed to create user: '' @ error_text (driver_text E) err))))
          (\<lambda>user. State_Monad.return (Inr (convertUser user)))))"

subsection \<open>rpc\_login\_user.go\<close>

definition rpc_LoginUser ::
  "env \<Rightarrow> grpc_server \<Rightarrow> grpc_context \<Rightarrow> LoginUserRequest \<Rightarrow> (grpc_status + LoginUserResponse) io" where
  "rpc_LoginUser E server ctx req =
     (let violations = validateLoginUserRequest E req in
      if violations \<noteq> [] then State_Monad.return (Inl (invalidArgumentError violations))
      else
        caseE (GetUser (gsv_store server) (glu_Username req))
          (\<lambda>err. if is_not_found err then State_Monad.return (Inl (Errorf NotFound ''user not found''))
                 else State_Monad.return (Inl (Errorf Internal ''failed to find user''))) (\<lambda>user.
        case CheckPassword E (glu_Password req) (u_HashedPassword user) of
          Some err \<Rightarrow> State_Monad.return (Inl (Errorf NotFound ''incorrect password''))
        | None \<Rightarrow>
        caseE
          (CreateToken (gsv_tokenMaker server) (u_Username user) (u_Role user)
             (AccessTokenDuration (gsv_config server)) TokenTypeAccessToken)
          (\<lambda>err. State_Monad.return (Inl (Errorf Internal ''failed to create access token'')))
          (\<lambda>(accessToken, accessPayload).
        caseE
          (CreateToken (gsv_tokenMaker server) (u_Username user) (u_Role user)
             (RefreshTokenDuration (gsv_config server)) TokenTypeRefreshToken)
          (\<lambda>err. State_Monad.return (Inl (Errorf Internal ''failed to create refresh token'')))
          (\<lambda>(refreshToken, refreshPayload).
        let mtdt = extractMetadata ctx in
        caseE
          (CreateSession (gsv_store server)
             \<lparr>cs_ID = p_ID refreshPayload, cs_Username = u_Username user, cs_RefreshToken = refreshToken,
              cs_UserAgent = md_UserAgent mtdt, cs_ClientIp = md_ClientIP mtdt, cs_IsBlocked = False,
              cs_ExpiresAt = p_ExpiredAt refreshPayload\<rparr>)
          (\<lambda>err. State_Monad.return (Inl (Errorf Internal ''failed to create session''))) (\<lambda>session.
        State_Monad.return (Inr
          \<lparr>glr_User = convertUser user, glr_SessionId = s_ID session, glr_AccessToken = accessToken,
           glr_RefreshToken = refreshToken, glr_AccessTokenExpiresAt = p_ExpiredAt accessPayload,
           glr_RefreshTokenExpiresAt = p_ExpiredAt refreshPayload\<rparr>))))))"

subsection \<open>rpc\_update\_user.go\<close>

definition update_arg :: "UpdateUserRequest \<Rightarrow> gostring option \<Rightarrow> time option \<Rightarrow> update_user_params" where
  "update_arg req hashed changed =
     \<lparr>uu_HashedPassword = hashed, uu_PasswordChangedAt = changed,
      uu_FullName = pgtype_text (opt_string (guu_FullName req)) (guu_FullName req \<noteq> None),
      uu_Email = pgtype_text (opt_string (guu_Email req)) (guu_Email req \<noteq> None),
      uu_IsEmailVerified = None, uu_Username = guu_Username req\<rparr>"

definition update_stored_user ::
  "env \<Rightarrow> grpc_server \<Rightarrow> update_user_params \<Rightarrow> (grpc_status + pb_user) io" where
  "update_stored_user E server arg =
     caseE (UpdateUser (gsv_store server) arg)
       (\<lambda>err. if is_not_found err then State_Monad.return (Inl (Errorf NotFound ''user not found''))
              else State_Monad.return (Inl (Errorf Internal
                (''failed to update user: '' @ error_text (driver_text E) err))))
       (\<lambda>user. State_Monad.return (Inr (convertUser user)))"

definition rpc_UpdateUser ::
  "env \<Rightarrow> grpc_server \<Rightarrow> grpc_context \<Rightarrow> UpdateUserRequest \<Rightarrow> (grpc_status + pb_user) io" where
  "rpc_UpdateUser E server ctx req =
     caseE (authorizeUser E server ctx [BankerRole, DepositorRole])
       (\<lambda>err. State_Monad.return (Inl (unauthenticatedError E err))) (\<lambda>authPayload.
     let violations = validateUpdateUserRequest E req in
     if violations \<noteq> [] then State_Monad.return (Inl (invalidArgumentError violations))
     else if p_Role authPayload \<noteq> BankerRole \<and> p_Username authPayload \<noteq> guu_Username req
     then State_Monad.return (Inl (Errorf PermissionDenied ''cannot update other user's info''))
     else if guu_Password req \<noteq> None
     then
       caseE (HashPassword E (opt_string (guu_Password req)))
         (\<lambda>err. State_Monad.return (Inl (Errorf Internal
            (''failed to hash password: '' @ error_text (driver_text E) err)))) (\<lambda>hashedPassword. do {
       now \<leftarrow> Now E;
       update_stored_user E server (update_arg req (pgtype_text hashedPassword True) (Some now))
     })
     else update_stored_user E server (update_arg req None None))"

subsection \<open>rpc\_verify\_email.go\<close>

definition rpc_VerifyEmail ::
  "env \<Rightarrow> grpc_server \<Rightarrow> VerifyEmailRequest \<Rightarrow> (grpc_status + bool) io" where
  "rpc_VerifyEmail E server req =
     (let violations = validateVerifyEmailRequest E req in
      if violations \<noteq> [] then State_Monad.return (Inl (invalidArgumentError violations))
      else
        caseE
          (st_VerifyEmailTx (gsv_store server)
             \<lparr>vp_EmailId = gve_EmailId req, vp_SecretCode = gve_SecretCode req\<rparr>)
          (\<lambda>err. State_Monad.return (Inl (Errorf Internal ''failed to verify email'')))
          (\<lambda>txResult. State_Monad.return (Inr (u_IsEmailVerified (vr_User txResult)))))"

subsection \<open>logger.go\<close>

text \<open>The interceptor runs the handler between two readings of the clock and gives back its result. What it
  logs is the protocol's code: that of the status, or OK.\<close>

definition GrpcLogger :: "env \<Rightarrow> (grpc_status + 'a) io \<Rightarrow> (grpc_status + 'a) io" where
  "GrpcLogger E handler =
     do {
       startTime \<leftarrow> Now E;
       result \<leftarrow> handler;
       now \<leftarrow> Now E;
       State_Monad.return result
     }"

text \<open>What the recorder of \<open>HttpLogger\<close> has seen of a response: the writes of its handler. The status
  starts at 200, the body is the last write's.\<close>

datatype http_write = WriteHeader int | Write gostring

record response_recorder =
  rec_StatusCode :: int
  rec_Body :: gostring

fun record_write :: "http_write \<Rightarrow> response_recorder \<Rightarrow> response_recorder" where
  "record_write (WriteHeader statusCode) rec = rec\<lparr>rec_StatusCode := statusCode\<rparr>"
| "record_write (Write body) rec = rec\<lparr>rec_Body := body\<rparr>"

definition HttpLogger :: "http_write list \<Rightarrow> http_write list \<times> response_recorder" where
  "HttpLogger writes = (writes, fold record_write writes \<lparr>rec_StatusCode = 200, rec_Body = []\<rparr>)"

subsection \<open>The service\<close>

datatype grpc_call =
    RpcCreateUser CreateUserRequest
  | RpcLoginUser LoginUserRequest
  | RpcUpdateUser UpdateUserRequest
  | RpcVerifyEmail VerifyEmailRequest

datatype grpc_response = RspUser pb_user | RspLogin LoginUserResponse | RspVerified bool

definition map_response :: "('a \<Rightarrow> 'b) \<Rightarrow> (grpc_status + 'a) io \<Rightarrow> (grpc_status + 'b) io" where
  "map_response f m = caseE m (\<lambda>e. State_Monad.return (Inl e)) (\<lambda>x. State_Monad.return (Inr (f x)))"

fun grpc_handler ::
  "env \<Rightarrow> grpc_server \<Rightarrow> grpc_context \<Rightarrow> grpc_call \<Rightarrow> (grpc_status + grpc_response) io" where
  "grpc_handler E server ctx (RpcCreateUser req) = map_response RspUser (rpc_CreateUser E server req)"
| "grpc_handler E server ctx (RpcLoginUser req) = map_response RspLogin (rpc_LoginUser E server ctx req)"
| "grpc_handler E server ctx (RpcUpdateUser req) = map_response RspUser (rpc_UpdateUser E server ctx req)"
| "grpc_handler E server ctx (RpcVerifyEmail req) = map_response RspVerified (rpc_VerifyEmail E server req)"

text \<open>Over gRPC a call passes the interceptor, over the gateway it does not.\<close>

definition serve_grpc ::
  "env \<Rightarrow> grpc_server \<Rightarrow> grpc_context \<Rightarrow> grpc_call \<Rightarrow> (grpc_status + grpc_response) io" where
  "serve_grpc E server ctx call = GrpcLogger E (grpc_handler E server ctx call)"

end
