(* ===== verification/StoreFrames.thy ===== *)
theory StoreFrames
  imports Store
begin

section \<open>The invariant of the stored data, through queries and transactions\<close>

text \<open>
  Every operation of the store keeps the constraints of the schema, whatever fails on the way: the
  statements by the lemmas of \<open>Schema\<close>, a transaction because undoing it gives back the rows of its
  start and sequences only grow. The locale \<open>bank_store\<close> is what the servers rely on; its
  interpretation is \<open>SQLStore\<close>.
\<close>

subsection \<open>Statements that keep the schema and never lower a sequence\<close>

definition seqs_le :: "database \<Rightarrow> database \<Rightarrow> bool" where
  "seqs_le d d' \<longleftrightarrow> seq_accounts d \<le> seq_accounts d' \<and> seq_entries d \<le> seq_entries d' \<and>
     seq_transfers d \<le> seq_transfers d' \<and> seq_verify_emails d \<le> seq_verify_emails d'"

lemma seqs_le_refl [simp]: "seqs_le d d"
  by (simp add: seqs_le_def)

lemma seqs_le_trans: "seqs_le a b \<Longrightarrow> seqs_le b c \<Longrightarrow> seqs_le a c"
  by (simp add: seqs_le_def)

definition good_stmt :: "'a stmt \<Rightarrow> bool" where
  "good_stmt st \<longleftrightarrow> (\<forall>now d r d'. schema_ok d \<longrightarrow> st now d = (r, d') \<longrightarrow> schema_ok d' \<and> seqs_le d d')"

lemma good_stmtI:
  "(\<And>now d r d'. schema_ok d \<Longrightarrow> st now d = (r, d') \<Longrightarrow> schema_ok d') \<Longrightarrow>
   (\<And>now d r d'. st now d = (r, d') \<Longrightarrow> seqs_le d d') \<Longrightarrow> good_stmt st"
  unfolding good_stmt_def by blast

lemma good_read: "(\<And>now d. snd (st now d) = d) \<Longrightarrow> good_stmt st"
  unfolding good_stmt_def by (metis seqs_le_refl snd_conv)

named_theorems good_stmts \<open>the statements that keep the schema\<close>

lemma good_CreateAccount [good_stmts]: "good_stmt (sql_CreateAccount arg)"
  by (rule good_stmtI, erule (1) schema_CreateAccount)
    (auto simp: sql_CreateAccount_def Let_def seqs_le_def split: if_splits)

lemma good_UpdateAccount [good_stmts]: "good_stmt (sql_UpdateAccount arg)"
  by (rule good_stmtI, erule (1) schema_UpdateAccount)
    (auto simp: sql_UpdateAccount_def seqs_le_def split: sum.splits)

lemma good_AddAccountBalance [good_stmts]: "good_stmt (sql_AddAccountBalance arg)"
  by (rule good_stmtI, erule (1) schema_AddAccountBalance)
    (auto simp: sql_AddAccountBalance_def seqs_le_def split: sum.splits if_splits)

lemma good_DeleteAccount [good_stmts]: "good_stmt (sql_DeleteAccount i)"
  by (rule good_stmtI, erule (1) schema_DeleteAccount)
    (auto simp: sql_DeleteAccount_def seqs_le_def split: if_splits)

lemma good_CreateEntry [good_stmts]: "good_stmt (sql_CreateEntry arg)"
  by (rule good_stmtI, erule (1) schema_CreateEntry)
    (auto simp: sql_CreateEntry_def Let_def seqs_le_def split: if_splits)

lemma good_CreateTransfer [good_stmts]: "good_stmt (sql_CreateTransfer arg)"
  by (rule good_stmtI, erule (1) schema_CreateTransfer)
    (auto simp: sql_CreateTransfer_def Let_def seqs_le_def split: if_splits)

lemma good_CreateUser [good_stmts]: "good_stmt (sql_CreateUser arg)"
  by (rule good_stmtI, erule (1) schema_CreateUser)
    (auto simp: sql_CreateUser_def Let_def seqs_le_def split: if_splits)

lemma good_UpdateUser [good_stmts]: "good_stmt (sql_UpdateUser arg)"
  by (rule good_stmtI, erule (1) schema_UpdateUser)
    (auto simp: sql_UpdateUser_def seqs_le_def split: sum.splits if_splits)

lemma good_CreateSession [good_stmts]: "good_stmt (sql_CreateSession arg)"
  by (rule good_stmtI, erule (1) schema_CreateSession)
    (auto simp: sql_CreateSession_def Let_def seqs_le_def split: if_splits)

lemma good_CreateVerifyEmail [good_stmts]: "good_stmt (sql_CreateVerifyEmail arg)"
  by (rule good_stmtI, erule (1) schema_CreateVerifyEmail)
    (auto simp: sql_CreateVerifyEmail_def Let_def seqs_le_def split: if_splits)

lemma good_UpdateVerifyEmail [good_stmts]: "good_stmt (sql_UpdateVerifyEmail arg)"
  by (rule good_stmtI, erule (1) schema_UpdateVerifyEmail)
    (auto simp: sql_UpdateVerifyEmail_def seqs_le_def split: option.splits)

lemma good_reads [good_stmts]:
  "good_stmt (sql_GetAccount i)" "good_stmt (sql_GetAccountForUpdate i)" "good_stmt (sql_ListAccounts la)"
  "good_stmt (sql_GetEntry i)" "good_stmt (sql_ListEntries le)" "good_stmt (sql_GetTransfer i)"
  "good_stmt (sql_ListTransfers lt)" "good_stmt (sql_GetUser u)" "good_stmt (sql_GetSession s)"
  by (rule good_read, simp add: sql_GetAccount_def sql_GetAccountForUpdate_def sql_ListAccounts_def
      sql_GetEntry_def sql_ListEntries_def sql_GetTransfer_def sql_ListTransfers_def sql_GetUser_def
      sql_GetSession_def)+

subsection \<open>Queries\<close>

text \<open>The invariant relative to a database \<open>d0\<close> seen before: valid, and no sequence below it.\<close>

definition since :: "database \<Rightarrow> world \<Rightarrow> bool" where
  "since d0 w \<longleftrightarrow> world_ok w \<and> seqs_le d0 (db w)"

lemma keeps_since_world_ok: "(\<And>d0. keeps (since d0) m) \<Longrightarrow> keeps world_ok m"
  by (rule keepsI) (metis keepsD seqs_le_refl since_def)

lemma run_query_cases:
  assumes "run_state (run_query E q st) w = (r, w')"
  obtains now x d where "st now (db w) = (x, d)"
    and "w' = w\<lparr>tick := Suc (tick w), db := d\<rparr> \<and> (r = x \<or> r = Inl ConnError)
       \<or> w' = w\<lparr>tick := Suc (tick w)\<rparr> \<and> r = Inl ConnError"
proof -
  let ?now = "case q of Pool \<Rightarrow> clock E (tick w) | Tx t \<Rightarrow> t"
  obtain x d where st: "st ?now (db w) = (x, d)" by fastforce
  with assms show ?thesis
    by (intro that [OF st]) (auto simp: run_query_def Let_def split: fault.splits)
qed

lemma run_query_InrE:
  assumes "run_state (run_query E q st) w = (Inr x, w')"
  obtains now d where "st now (db w) = (Inr x, d)" and "w' = w\<lparr>tick := Suc (tick w), db := d\<rparr>"
  using run_query_cases [OF assms] by (metis sum.distinct(1))

lemma run_query_through:
  assumes "db_fault E (tick w) = Through"
    and "st (case q of Pool \<Rightarrow> clock E (tick w) | Tx t \<Rightarrow> t) (db w) = (x, d)"
  shows "run_state (run_query E q st) w = (x, w\<lparr>tick := Suc (tick w), db := d\<rparr>)"
  using assms by (simp add: run_query_def Let_def)

lemma keeps_run_query [frame_intros]:
  assumes "good_stmt st"
  shows "keeps (since d0) (run_query E q st)"
proof (rule keepsI)
  fix w r w'
  assume run: "run_state (run_query E q st) w = (r, w')" and w: "since d0 w"
  from run_query_cases [OF run] obtain now x d where st: "st now (db w) = (x, d)"
    and w': "w' = w\<lparr>tick := Suc (tick w), db := d\<rparr> \<or> w' = w\<lparr>tick := Suc (tick w)\<rparr>"
    by metis
  have "schema_ok d \<and> seqs_le (db w) d"
    using assms st w by (auto simp: good_stmt_def since_def world_ok_def)
  with w w' show "since d0 w'" by (auto simp: since_def world_ok_def intro: seqs_le_trans)
qed

lemma keeps_queries [frame_intros]:
  "keeps (since d0) (q_CreateAccount E q a1)" "keeps (since d0) (q_GetAccount E q a2)"
  "keeps (since d0) (q_GetAccountForUpdate E q a3)" "keeps (since d0) (q_ListAccounts E q a4)"
  "keeps (since d0) (q_UpdateAccount E q a5)" "keeps (since d0) (q_AddAccountBalance E q a6)"
  "keeps (since d0) (q_DeleteAccount E q a7)" "keeps (since d0) (q_CreateEntry E q a8)"
  "keeps (since d0) (q_GetEntry E q a9)" "keeps (since d0) (q_ListEntries E q a10)"
  "keeps (since d0) (q_CreateTransfer E q a11)" "keeps (since d0) (q_GetTransfer E q a12)"
  "keeps (since d0) (q_ListTransfers E q a13)" "keeps (since d0) (q_CreateUser E q a14)"
  "keeps (since d0) (q_GetUser E q a15)" "keeps (since d0) (q_UpdateUser E q a16)"
  "keeps (since d0) (q_CreateSession E q a17)" "keeps (since d0) (q_GetSession E q a18)"
  "keeps (since d0) (q_CreateVerifyEmail E q a19)" "keeps (since d0) (q_UpdateVerifyEmail E q a20)"
  by (simp_all add: query_defs keeps_run_query good_stmts)

subsection \<open>Transactions\<close>

lemma schema_rollback: "schema_ok d0 \<Longrightarrow> schema_ok d \<Longrightarrow> seqs_le d0 d \<Longrightarrow> schema_ok (rollback_to d0 d)"
  by (auto simp: schema_ok_def rollback_to_def seqs_le_def serial_def account_ids_def usernames_def)

lemma seqs_le_rollback [simp]: "seqs_le d (rollback_to d0 d)"
  by (simp add: seqs_le_def rollback_to_def)

text \<open>The four ways a transaction ends: it never starts, it is undone after an error, it commits, or
  the commit gets no answer, in which case it may have happened.\<close>

lemma execTx_cases:
  assumes "run_state (execTx E fn) w = (r, w')"
  obtains (unstarted) "r = Inl ConnError" "w' = w\<lparr>tick := Suc (tick w)\<rparr>" "db_fault E (tick w) \<noteq> Through"
  | (failed) e w2 where "db_fault E (tick w) = Through"
      "run_state (fn (Tx (clock E (tick w)))) (w\<lparr>tick := Suc (tick w)\<rparr>) = (Inl e, w2)"
      "r = Inl e \<or> db_fault E (tick w2) \<noteq> Through \<and> (\<exists>m. r = Inl (Plain m))"
      "w' = w2\<lparr>tick := Suc (tick w2), db := rollback_to (db w) (db w2)\<rparr>"
  | (committed) x w2 where "db_fault E (tick w) = Through"
      "run_state (fn (Tx (clock E (tick w)))) (w\<lparr>tick := Suc (tick w)\<rparr>) = (Inr x, w2)"
      "r = Inr x \<or> r = Inl ConnError" "w' = w2\<lparr>tick := Suc (tick w2)\<rparr>"
  | (dropped) x w2 where "db_fault E (tick w) = Through"
      "run_state (fn (Tx (clock E (tick w)))) (w\<lparr>tick := Suc (tick w)\<rparr>) = (Inr x, w2)"
      "r = Inl ConnError" "w' = w2\<lparr>tick := Suc (tick w2), db := rollback_to (db w) (db w2)\<rparr>"
proof (cases "db_fault E (tick w) = Through")
  case False
  with assms unstarted show thesis by (auto simp: execTx_def Let_def)
next
  case True
  obtain x w2 where fn: "run_state (fn (Tx (clock E (tick w)))) (w\<lparr>tick := Suc (tick w)\<rparr>) = (x, w2)"
    by fastforce
  show thesis
  proof (cases x)
    case (Inl e)
    with True fn assms show thesis
      by (intro failed [OF True]) (auto simp: execTx_def Let_def split: if_splits)
  next
    case (Inr y)
    with True fn assms show thesis
      by (cases "db_fault E (tick w2)")
        (auto simp: execTx_def Let_def intro: committed [OF True] dropped [OF True])
  qed
qed

lemma keeps_execTx:
  assumes "\<And>q d0. keeps (since d0) (fn q)"
  shows "keeps (since d0) (execTx E fn)"
proof (rule keepsI)
  fix w r w'
  assume run: "run_state (execTx E fn) w = (r, w')" and w: "since d0 w"
  let ?w1 = "w\<lparr>tick := Suc (tick w)\<rparr>"
  have w1: "since (db w) ?w1" using w by (simp add: since_def world_ok_def)
  have fn: "since (db w) w2" if "run_state (fn q) ?w1 = (x, w2)" for x w2 q
    using keepsD [OF assms that w1] .
  have undone: "since d0 (w2\<lparr>tick := n, db := rollback_to (db w) (db w2)\<rparr>)" if "since (db w) w2" for w2 n
    using that w by (auto simp: since_def world_ok_def intro: schema_rollback seqs_le_trans)
  have kept: "since d0 (w2\<lparr>tick := n\<rparr>)" if "since (db w) w2" for w2 n
    using that w by (auto simp: since_def world_ok_def intro: seqs_le_trans)
  from run show "since d0 w'"
  proof (cases rule: execTx_cases)
    case unstarted
    with w show ?thesis by (simp add: since_def world_ok_def)
  qed (use fn undone kept in blast)+
qed

lemma keeps_addMoney [frame_intros]: "keeps (since d0) (addMoney E q i1 a1 i2 a2)"
  unfolding addMoney_def by (intro frame_intros)

lemma keeps_TransferTx [frame_intros]: "keeps (since d0) (TransferTx E arg)"
  unfolding TransferTx_def transfer_body_def by (intro keeps_execTx frame_intros)

lemma keeps_CreateUserTx [frame_intros]:
  "(\<And>u d0. keeps (since d0) (after u)) \<Longrightarrow> keeps (since d0) (CreateUserTx E arg after)"
  unfolding CreateUserTx_def by (intro keeps_execTx frame_intros)

lemma keeps_VerifyEmailTx [frame_intros]: "keeps (since d0) (VerifyEmailTx E arg)"
  unfolding VerifyEmailTx_def by (intro keeps_execTx frame_intros)

subsection \<open>The store touches neither the queue nor the mail\<close>

definition outside :: "task list \<Rightarrow> mail list \<Rightarrow> world \<Rightarrow> bool" where
  "outside ts ms w \<longleftrightarrow> queue w = ts \<and> outbox w = ms"

lemma outside_update [simp]: "outside ts ms (w\<lparr>tick := n\<rparr>) = outside ts ms w"
  "outside ts ms (w\<lparr>db := d\<rparr>) = outside ts ms w"
  by (simp_all add: outside_def)

lemma outside_ask [frame_intros]: "keeps (outside ts ms) (ask f)" "keeps (outside ts ms) (Now E)"
  by (auto intro!: keepsI simp: Now_def)

lemma outside_run_query [frame_intros]: "keeps (outside ts ms) (run_query E q st)"
  by (rule keepsI) (auto elim!: run_query_cases simp: outside_def)

lemma outside_queries [frame_intros]:
  "keeps (outside ts ms) (q_CreateAccount E q a1)" "keeps (outside ts ms) (q_GetAccount E q a2)"
  "keeps (outside ts ms) (q_ListAccounts E q a4)" "keeps (outside ts ms) (q_AddAccountBalance E q a6)"
  "keeps (outside ts ms) (q_CreateEntry E q a8)" "keeps (outside ts ms) (q_CreateTransfer E q a11)"
  "keeps (outside ts ms) (q_CreateUser E q a14)" "keeps (outside ts ms) (q_GetUser E q a15)"
  "keeps (outside ts ms) (q_UpdateUser E q a16)" "keeps (outside ts ms) (q_CreateSession E q a17)"
  "keeps (outside ts ms) (q_GetSession E q a18)" "keeps (outside ts ms) (q_CreateVerifyEmail E q a19)"
  "keeps (outside ts ms) (q_UpdateVerifyEmail E q a20)"
  by (simp_all add: query_defs outside_run_query)

lemma outside_execTx:
  assumes "\<And>q. keeps (outside ts ms) (fn q)"
  shows "keeps (outside ts ms) (execTx E fn)"
proof (rule keepsI)
  fix w r w'
  assume run: "run_state (execTx E fn) w = (r, w')" and w: "outside ts ms w"
  have fn: "outside ts ms w2" if "run_state (fn q) (w\<lparr>tick := Suc (tick w)\<rparr>) = (x, w2)" for q x w2
    using keepsD [OF assms that] w by simp
  from run show "outside ts ms w'"
    by (cases rule: execTx_cases) (use w fn in \<open>auto simp: outside_def\<close>)
qed

lemma outside_TransferTx [frame_intros]: "keeps (outside ts ms) (TransferTx E arg)"
  unfolding TransferTx_def transfer_body_def addMoney_def by (intro outside_execTx frame_intros)

lemma outside_VerifyEmailTx [frame_intros]: "keeps (outside ts ms) (VerifyEmailTx E arg)"
  unfolding VerifyEmailTx_def by (intro outside_execTx frame_intros)

subsection \<open>What the servers rely on\<close>

text \<open>The operations of the store that the servers and the task processor call, with the promise that
  each keeps the data valid.\<close>

locale bank_store =
  fixes S :: store
  assumes keeps_CreateUser: "keeps (since d0) (CreateUser S cu)"
    and keeps_GetUser: "keeps (since d0) (GetUser S u)"
    and keeps_UpdateUser: "keeps (since d0) (UpdateUser S uu)"
    and keeps_CreateSession: "keeps (since d0) (CreateSession S cs)"
    and keeps_GetSession: "keeps (since d0) (GetSession S si)"
    and keeps_CreateAccount: "keeps (since d0) (CreateAccount S ca)"
    and keeps_GetAccount: "keeps (since d0) (GetAccount S i)"
    and keeps_ListAccounts: "keeps (since d0) (ListAccounts S la)"
    and keeps_CreateVerifyEmail: "keeps (since d0) (CreateVerifyEmail S cv)"
    and keeps_st_TransferTx: "keeps (since d0) (st_TransferTx S tp)"
    and keeps_st_VerifyEmailTx: "keeps (since d0) (st_VerifyEmailTx S vp)"
    and keeps_st_CreateUserTx:
      "(\<And>u d1. keeps (since d1) (after u)) \<Longrightarrow> keeps (since d0) (st_CreateUserTx S cu after)"
begin

lemmas store_frames = keeps_CreateUser keeps_GetUser keeps_UpdateUser keeps_CreateSession keeps_GetSession
  keeps_CreateAccount keeps_GetAccount keeps_ListAccounts keeps_CreateVerifyEmail keeps_st_TransferTx
  keeps_st_VerifyEmailTx keeps_st_CreateUserTx

end

interpretation sql_store: bank_store "SQLStore E"
  by unfold_locales (simp_all add: SQLStore_def frame_intros)

end
