(* ===== verification/Transfers.thy ===== *)
theory Transfers
  imports StoreFrames Samples
begin

section \<open>What a transfer does (db/sqlc/tx\_transfer.go)\<close>

text \<open>
  The effect of \<open>TransferTx\<close> on the rows as a relation: one transfer, two entries, two balances. A run
  of the transaction has this effect or none, whatever fails on the way; the sum of all balances and,
  for every account, the difference of its balance and its entries are invariants.
\<close>

subsection \<open>The specification\<close>

definition amount_to :: "transfer_tx_params \<Rightarrow> int64 \<Rightarrow> int" where
  "amount_to arg i =
     (if i = tp_ToAccountID arg then sint (tp_Amount arg) else 0)
   - (if i = tp_FromAccountID arg then sint (tp_Amount arg) else 0)"

definition credit :: "transfer_tx_params \<Rightarrow> account \<Rightarrow> account" where
  "credit arg a = a\<lparr>a_Balance := word_of_int (sint (a_Balance a) + amount_to arg (a_ID a))\<rparr>"

definition same_rows :: "database \<Rightarrow> database \<Rightarrow> bool" where
  "same_rows d d' \<longleftrightarrow> accounts d' = accounts d \<and> entries d' = entries d \<and> transfers d' = transfers d \<and>
     users d' = users d \<and> sessions d' = sessions d \<and> verify_emails d' = verify_emails d"

definition transferred :: "transfer_tx_params \<Rightarrow> database \<Rightarrow> database \<Rightarrow> bool" where
  "transferred arg d d' \<longleftrightarrow>
     (\<exists>t fe te.
        transfers d' = transfers d @ [t] \<and> entries d' = entries d @ [fe, te] \<and>
        tr_FromAccountID t = tp_FromAccountID arg \<and> tr_ToAccountID t = tp_ToAccountID arg \<and>
        tr_Amount t = tp_Amount arg \<and>
        e_AccountID fe = tp_FromAccountID arg \<and> sint (e_Amount fe) = - sint (tp_Amount arg) \<and>
        e_AccountID te = tp_ToAccountID arg \<and> e_Amount te = tp_Amount arg) \<and>
     tp_FromAccountID arg \<in> account_ids d \<and> tp_ToAccountID arg \<in> account_ids d \<and>
     accounts d' = map (credit arg) (accounts d) \<and>
     (\<forall>a \<in> set (accounts d). in_int64 (sint (a_Balance a) + amount_to arg (a_ID a))) \<and>
     users d' = users d \<and> sessions d' = sessions d \<and> verify_emails d' = verify_emails d"

definition total_balance :: "database \<Rightarrow> int" where
  "total_balance d = (\<Sum>a\<leftarrow>accounts d. sint (a_Balance a))"

definition entry_sum :: "database \<Rightarrow> int64 \<Rightarrow> int" where
  "entry_sum d i = (\<Sum>e\<leftarrow>filter (\<lambda>e. e_AccountID e = i) (entries d). sint (e_Amount e))"

text \<open>The part of an account's balance that its entries do not explain: the opening balance.\<close>

definition opening_balances :: "database \<Rightarrow> (int64 \<times> int) list" where
  "opening_balances d = map (\<lambda>a. (a_ID a, sint (a_Balance a) - entry_sum d (a_ID a))) (accounts d)"

lemma same_rows_refl [simp]: "same_rows d d"
  by (simp add: same_rows_def)

lemma same_rows_rollback [simp]: "same_rows d (rollback_to d d')"
  by (simp add: same_rows_def rollback_to_def)

lemma credit_simps [simp]: "a_ID (credit arg a) = a_ID a" "a_Owner (credit arg a) = a_Owner a"
  "a_Currency (credit arg a) = a_Currency a" "a_CreatedAt (credit arg a) = a_CreatedAt a"
  by (simp_all add: credit_def)

lemma sint_credit:
  "in_int64 (sint (a_Balance a) + amount_to arg (a_ID a)) \<Longrightarrow>
     sint (a_Balance (credit arg a)) = sint (a_Balance a) + amount_to arg (a_ID a)"
  using sint_of_in_int64 [of "sint (a_Balance a) + amount_to arg (a_ID a)"] by (simp add: credit_def)

subsection \<open>What follows from the specification\<close>

lemma sum_at_key:
  assumes "distinct (map key rows)" and "k \<in> key ` set rows"
  shows "(\<Sum>r\<leftarrow>rows. if key r = k then x else (0::int)) = x"
  using assms
proof (induction rows)
  case (Cons r rows)
  show ?case
  proof (cases "key r = k")
    case True
    then have "\<forall>y \<in> set rows. key y \<noteq> k" using Cons.prems(1) by (auto simp: image_iff)
    then have "map (\<lambda>r. if key r = k then x else 0) rows = map (\<lambda>_. 0) rows" by simp
    then have "(\<Sum>r\<leftarrow>rows. if key r = k then x else 0) = (\<Sum>r\<leftarrow>rows. 0)" by (rule arg_cong)
    with True show ?thesis by simp
  next
    case False
    with Cons show ?thesis by auto
  qed
qed simp

lemma transferred_total:
  assumes ok: "schema_ok d" and tr: "transferred arg d d'"
  shows "total_balance d' = total_balance d"
proof -
  let ?x = "sint (tp_Amount arg)"
  have "distinct (map a_ID (accounts d))" using ok by (auto simp: schema_ok_def dest: serial_distinct)
  with tr have ends: "(\<Sum>a\<leftarrow>accounts d. if a_ID a = tp_ToAccountID arg then ?x else 0) = ?x"
    "(\<Sum>a\<leftarrow>accounts d. if a_ID a = tp_FromAccountID arg then ?x else 0) = ?x"
    by (simp_all add: transferred_def account_ids_def sum_at_key)
  have "total_balance d' = (\<Sum>a\<leftarrow>accounts d. sint (a_Balance (credit arg a)))"
    using tr by (simp add: total_balance_def transferred_def comp_def)
  also have "\<dots> = (\<Sum>a\<leftarrow>accounts d. sint (a_Balance a) + amount_to arg (a_ID a))"
    using tr by (intro arg_cong [where f = sum_list] map_cong refl sint_credit) (simp add: transferred_def)
  also have "\<dots> = total_balance d + (\<Sum>a\<leftarrow>accounts d. amount_to arg (a_ID a))"
    by (simp add: total_balance_def sum_list_addf)
  also have "(\<Sum>a\<leftarrow>accounts d. amount_to arg (a_ID a)) = ?x - ?x"
    using ends by (simp add: amount_to_def sum_list_subtractf)
  finally show ?thesis by simp
qed

lemma transferred_entry_sum:
  assumes "transferred arg d d'"
  shows "entry_sum d' i = entry_sum d i + amount_to arg i"
proof -
  from assms obtain t fe te where "entries d' = entries d @ [fe, te]" "e_AccountID fe = tp_FromAccountID arg"
    "sint (e_Amount fe) = - sint (tp_Amount arg)" "e_AccountID te = tp_ToAccountID arg"
    "e_Amount te = tp_Amount arg"
    by (auto simp: transferred_def)
  then show ?thesis by (simp add: entry_sum_def amount_to_def)
qed

lemma transferred_opening:
  assumes "transferred arg d d'"
  shows "opening_balances d' = opening_balances d"
proof -
  have "accounts d' = map (credit arg) (accounts d)" using assms by (simp add: transferred_def)
  moreover have "sint (a_Balance (credit arg a)) = sint (a_Balance a) + amount_to arg (a_ID a)"
    if "a \<in> set (accounts d)" for a
    using assms that by (simp add: transferred_def sint_credit)
  ultimately show ?thesis by (simp add: opening_balances_def transferred_entry_sum [OF assms])
qed

lemma same_rows_ledger: "same_rows d d' \<Longrightarrow> total_balance d' = total_balance d \<and> opening_balances d' = opening_balances d"
  by (simp add: same_rows_def total_balance_def opening_balances_def entry_sum_def)

subsection \<open>The statements of the transaction\<close>

lemma CreateTransfer_InrD:
  "sql_CreateTransfer arg now d = (Inr t, d') \<Longrightarrow>
     ct_FromAccountID arg \<in> account_ids d \<and> ct_ToAccountID arg \<in> account_ids d \<and>
     tr_FromAccountID t = ct_FromAccountID arg \<and> tr_ToAccountID t = ct_ToAccountID arg \<and>
     tr_Amount t = ct_Amount arg \<and>
     d' = d\<lparr>seq_transfers := Suc (seq_transfers d), transfers := transfers d @ [t]\<rparr>"
  by (auto simp: sql_CreateTransfer_def Let_def split: if_splits)

lemma CreateEntry_InrD:
  "sql_CreateEntry arg now d = (Inr e, d') \<Longrightarrow>
     e_AccountID e = ce_AccountID arg \<and> e_Amount e = ce_Amount arg \<and>
     d' = d\<lparr>seq_entries := Suc (seq_entries d), entries := entries d @ [e]\<rparr>"
  by (auto simp: sql_CreateEntry_def Let_def split: if_splits)

definition shift_balance :: "int64 \<Rightarrow> int64 \<Rightarrow> account \<Rightarrow> account" where
  "shift_balance i x a = (if a_ID a = i then a\<lparr>a_Balance := a_Balance a + x\<rparr> else a)"

definition shift_fits :: "int64 \<Rightarrow> int64 \<Rightarrow> account list \<Rightarrow> bool" where
  "shift_fits i x rows \<longleftrightarrow> (\<forall>a \<in> set rows. a_ID a = i \<longrightarrow> in_int64 (sint (a_Balance a) + sint x))"

lemma a_ID_shift [simp]: "a_ID (shift_balance i x a) = a_ID a"
  by (simp add: shift_balance_def)

lemma write_row_shift: "write_row a_ID i (\<lambda>a. a\<lparr>a_Balance := a_Balance a + x\<rparr>) rows = map (shift_balance i x) rows"
  by (simp add: write_row_def shift_balance_def)

lemma AddAccountBalance_InrD:
  assumes "distinct (map a_ID (accounts d))" and "sql_AddAccountBalance arg now d = (Inr a', d')"
  shows "shift_fits (ab_ID arg) (ab_Amount arg) (accounts d) \<and> ab_ID arg \<in> account_ids d \<and>
     d' = d\<lparr>accounts := map (shift_balance (ab_ID arg) (ab_Amount arg)) (accounts d)\<rparr> \<and>
     a' \<in> set (accounts d') \<and> a_ID a' = ab_ID arg"
proof -
  from assms(2) obtain a where a: "read_row a_ID (ab_ID arg) (accounts d) = Inr a"
    and fits: "in_int64 (sint (a_Balance a) + sint (ab_Amount arg))"
    and eqs: "a' = a\<lparr>a_Balance := a_Balance a + ab_Amount arg\<rparr>"
      "d' = d\<lparr>accounts := map (shift_balance (ab_ID arg) (ab_Amount arg)) (accounts d)\<rparr>"
    by (auto simp: sql_AddAccountBalance_def write_row_shift split: sum.splits if_splits)
  have in_rows: "a \<in> set (accounts d)" "a_ID a = ab_ID arg"
    using a by (simp_all add: read_row_Inr [OF assms(1)])
  have "b = a" if "b \<in> set (accounts d)" "a_ID b = ab_ID arg" for b
    using distinct_key_eq [OF assms(1) that(1) in_rows(1)] in_rows(2) that(2) by simp
  with fits have "shift_fits (ab_ID arg) (ab_Amount arg) (accounts d)" by (auto simp: shift_fits_def)
  moreover have "a' = shift_balance (ab_ID arg) (ab_Amount arg) a"
    by (simp add: eqs shift_balance_def in_rows)
  moreover have "ab_ID arg \<in> account_ids d"
    using in_rows unfolding account_ids_def by (metis imageI)
  ultimately show ?thesis using in_rows by (simp add: eqs)
qed

text \<open>Two shifts by opposite amounts, in either order, are the credit of the transfer.\<close>

lemma credit_as_shifts:
  assumes "sint (- tp_Amount arg) = - sint (tp_Amount arg)"
    and i: "i1 = tp_FromAccountID arg \<and> x1 = - tp_Amount arg \<and> i2 = tp_ToAccountID arg \<and> x2 = tp_Amount arg
      \<or> i1 = tp_ToAccountID arg \<and> x1 = tp_Amount arg \<and> i2 = tp_FromAccountID arg \<and> x2 = - tp_Amount arg"
  shows "shift_balance i2 x2 (shift_balance i1 x1 a) = credit arg a"
    and "shift_fits i1 x1 rows \<Longrightarrow> shift_fits i2 x2 (map (shift_balance i1 x1) rows) \<Longrightarrow> a \<in> set rows \<Longrightarrow>
           in_int64 (sint (a_Balance a) + amount_to arg (a_ID a))"
  using i by (auto simp: shift_balance_def credit_def amount_to_def shift_fits_def assms(1))

subsection \<open>Runs of the transaction\<close>

lemma addMoney_InrD:
  assumes run: "run_state (addMoney E q i1 x1 i2 x2) w = (Inr (a1, a2), w')"
    and ids: "distinct (map a_ID (accounts (db w)))"
  shows "shift_fits i1 x1 (accounts (db w)) \<and>
         shift_fits i2 x2 (map (shift_balance i1 x1) (accounts (db w))) \<and>
         i1 \<in> account_ids (db w) \<and> i2 \<in> account_ids (db w) \<and>
         db w' = (db w)\<lparr>accounts := map (shift_balance i2 x2 \<circ> shift_balance i1 x1) (accounts (db w))\<rparr> \<and>
         a2 \<in> set (accounts (db w')) \<and> a_ID a2 = i2 \<and> a_ID a1 = i1 \<and> (i1 \<noteq> i2 \<longrightarrow> a1 \<in> set (accounts (db w')))"
proof -
  let ?as1 = "map (shift_balance i1 x1) (accounts (db w))"
  from run obtain w1
    where 1: "run_state (q_AddAccountBalance E q \<lparr>ab_Amount = x1, ab_ID = i1\<rparr>) w = (Inr a1, w1)"
    and 2: "run_state (q_AddAccountBalance E q \<lparr>ab_Amount = x2, ab_ID = i2\<rparr>) w1 = (Inr a2, w')"
    unfolding addMoney_def by (auto elim!: bindE_InrE)
  obtain now d1 where s1: "sql_AddAccountBalance \<lparr>ab_Amount = x1, ab_ID = i1\<rparr> now (db w) = (Inr a1, d1)"
    and w1: "w1 = w\<lparr>tick := Suc (tick w), db := d1\<rparr>"
    using 1 unfolding q_AddAccountBalance_def by (rule run_query_InrE)
  obtain now' d2 where s2: "sql_AddAccountBalance \<lparr>ab_Amount = x2, ab_ID = i2\<rparr> now' (db w1) = (Inr a2, d2)"
    and w': "w' = w1\<lparr>tick := Suc (tick w1), db := d2\<rparr>"
    using 2 unfolding q_AddAccountBalance_def by (rule run_query_InrE)
  note f1 = AddAccountBalance_InrD [OF ids s1, simplified]
  then have d1: "d1 = (db w)\<lparr>accounts := ?as1\<rparr>" by simp
  have "distinct (map a_ID (accounts (db w1)))" using ids by (simp add: w1 d1 comp_def)
  note f2 = AddAccountBalance_InrD [OF this s2, simplified]
  have db': "db w' = d2" "db w1 = d1" by (simp_all add: w' w1)
  have d2: "d2 = (db w)\<lparr>accounts := map (shift_balance i2 x2) ?as1\<rparr>" using f2 by (simp add: db' d1)
  have "a1 \<in> set (accounts d2)" if "i1 \<noteq> i2"
  proof -
    from f1 d1 have "a1 \<in> set ?as1" "a_ID a1 = i1" by auto
    moreover have "shift_balance i2 x2 a1 = a1" using that \<open>a_ID a1 = i1\<close> by (simp add: shift_balance_def)
    ultimately have "a1 \<in> set (map (shift_balance i2 x2) ?as1)" by (metis imageI list.set_map)
    then show ?thesis by (simp add: d2)
  qed
  with f1 f2 db' d1 d2 show ?thesis by (simp add: account_ids_def image_image comp_def)
qed

text \<open>The last step of the transaction: the two updates, the lower account number first.\<close>

definition ordered_updates ::
  "env \<Rightarrow> dbtx \<Rightarrow> transfer_tx_params \<Rightarrow> (account \<times> account) result io" where
  "ordered_updates E q arg =
     (if sint (tp_FromAccountID arg) < sint (tp_ToAccountID arg)
      then bindE (addMoney E q (tp_FromAccountID arg) (- tp_Amount arg) (tp_ToAccountID arg) (tp_Amount arg))
             (\<lambda>(fromAccount, toAccount). State_Monad.return (Inr (fromAccount, toAccount)))
      else bindE (addMoney E q (tp_ToAccountID arg) (tp_Amount arg) (tp_FromAccountID arg) (- tp_Amount arg))
             (\<lambda>(toAccount, fromAccount). State_Monad.return (Inr (fromAccount, toAccount))))"

lemma ordered_updates_InrE:
  assumes "run_state (ordered_updates E q arg) w = (Inr (fa, ta), w')"
  obtains i1 x1 i2 x2 a1 a2 where "run_state (addMoney E q i1 x1 i2 x2) w = (Inr (a1, a2), w')"
    and "i1 = tp_FromAccountID arg \<and> x1 = - tp_Amount arg \<and> i2 = tp_ToAccountID arg \<and> x2 = tp_Amount arg \<and>
        i1 \<noteq> i2 \<and> fa = a1 \<and> ta = a2
      \<or> i1 = tp_ToAccountID arg \<and> x1 = tp_Amount arg \<and> i2 = tp_FromAccountID arg \<and> x2 = - tp_Amount arg \<and>
        fa = a2 \<and> ta = a1"
proof (cases "sint (tp_FromAccountID arg) < sint (tp_ToAccountID arg)")
  case True
  with assms have
    "run_state (addMoney E q (tp_FromAccountID arg) (- tp_Amount arg) (tp_ToAccountID arg) (tp_Amount arg)) w
       = (Inr (fa, ta), w')"
    by (auto simp: ordered_updates_def elim!: bindE_InrE)
  then show thesis by (rule that) (use True in auto)
next
  case False
  with assms have
    "run_state (addMoney E q (tp_ToAccountID arg) (tp_Amount arg) (tp_FromAccountID arg) (- tp_Amount arg)) w
       = (Inr (ta, fa), w')"
    by (auto simp: ordered_updates_def elim!: bindE_InrE)
  then show thesis by (rule that) auto
qed

definition accounts_shown :: "transfer_tx_params \<Rightarrow> transfer_tx_result \<Rightarrow> database \<Rightarrow> bool" where
  "accounts_shown arg res d \<longleftrightarrow>
     a_ID (tx_FromAccount res) = tp_FromAccountID arg \<and> a_ID (tx_ToAccount res) = tp_ToAccountID arg \<and>
     tx_FromAccount res \<in> set (accounts d) \<and>
     (tp_FromAccountID arg \<noteq> tp_ToAccountID arg \<longrightarrow> tx_ToAccount res \<in> set (accounts d))"

lemma transfer_body_InrD:
  assumes run: "run_state (transfer_body E arg q) w = (Inr res, w')"
    and ids: "distinct (map a_ID (accounts (db w)))"
    and neg: "sint (- tp_Amount arg) = - sint (tp_Amount arg)"
  shows "transferred arg (db w) (db w') \<and> accounts_shown arg res (db w') \<and>
         last (transfers (db w')) = tx_Transfer res \<and>
         entries (db w') = entries (db w) @ [tx_FromEntry res, tx_ToEntry res] \<and>
         seq_transfers (db w') = Suc (seq_transfers (db w)) \<and> seq_entries (db w') = Suc (Suc (seq_entries (db w)))"
proof -
  let ?ct = "\<lparr>ct_FromAccountID = tp_FromAccountID arg, ct_ToAccountID = tp_ToAccountID arg, ct_Amount = tp_Amount arg\<rparr>"
  let ?fe = "\<lparr>ce_AccountID = tp_FromAccountID arg, ce_Amount = - tp_Amount arg\<rparr>"
  let ?te = "\<lparr>ce_AccountID = tp_ToAccountID arg, ce_Amount = tp_Amount arg\<rparr>"
  from run obtain w1 w2 w3
    where 1: "run_state (q_CreateTransfer E q ?ct) w = (Inr (tx_Transfer res), w1)"
    and 2: "run_state (q_CreateEntry E q ?fe) w1 = (Inr (tx_FromEntry res), w2)"
    and 3: "run_state (q_CreateEntry E q ?te) w2 = (Inr (tx_ToEntry res), w3)"
    and 4: "run_state (ordered_updates E q arg) w3 = (Inr (tx_FromAccount res, tx_ToAccount res), w')"
    unfolding transfer_body_def ordered_updates_def [symmetric]
    by (auto elim!: bindE_InrE split: prod.splits)
  obtain i1 x1 i2 x2 a1 a2 where 5: "run_state (addMoney E q i1 x1 i2 x2) w3 = (Inr (a1, a2), w')"
    and i: "i1 = tp_FromAccountID arg \<and> x1 = - tp_Amount arg \<and> i2 = tp_ToAccountID arg \<and> x2 = tp_Amount arg \<and>
        i1 \<noteq> i2 \<and> tx_FromAccount res = a1 \<and> tx_ToAccount res = a2
      \<or> i1 = tp_ToAccountID arg \<and> x1 = tp_Amount arg \<and> i2 = tp_FromAccountID arg \<and> x2 = - tp_Amount arg \<and>
        tx_FromAccount res = a2 \<and> tx_ToAccount res = a1"
    using 4 by (rule ordered_updates_InrE)
  obtain now1 d1 where s1: "sql_CreateTransfer ?ct now1 (db w) = (Inr (tx_Transfer res), d1)" and w1: "db w1 = d1"
    using 1 unfolding q_CreateTransfer_def by (rule run_query_InrE) simp
  obtain now2 d2 where s2: "sql_CreateEntry ?fe now2 d1 = (Inr (tx_FromEntry res), d2)" and w2: "db w2 = d2"
    using 2 unfolding q_CreateEntry_def w1 [symmetric] by (rule run_query_InrE) simp
  obtain now3 d3 where s3: "sql_CreateEntry ?te now3 d2 = (Inr (tx_ToEntry res), d3)" and w3: "db w3 = d3"
    using 3 unfolding q_CreateEntry_def w2 [symmetric] by (rule run_query_InrE) simp
  note t = CreateTransfer_InrD [OF s1, simplified]
  note e1 = CreateEntry_InrD [OF s2, simplified]
  note e2 = CreateEntry_InrD [OF s3, simplified]
  have d3: "accounts d3 = accounts (db w)" "account_ids d3 = account_ids (db w)" "users d3 = users (db w)"
    "sessions d3 = sessions (db w)" "verify_emails d3 = verify_emails (db w)"
    "transfers d3 = transfers (db w) @ [tx_Transfer res]"
    "entries d3 = entries (db w) @ [tx_FromEntry res, tx_ToEntry res]"
    "seq_transfers d3 = Suc (seq_transfers (db w))" "seq_entries d3 = Suc (Suc (seq_entries (db w)))"
    using t e1 e2 by (auto simp: account_ids_def)
  have "distinct (map a_ID (accounts (db w3)))" using ids by (simp add: w3 d3)
  note m = addMoney_InrD [OF 5 this, unfolded w3 d3]
  have shift: "shift_balance i2 x2 \<circ> shift_balance i1 x1 = credit arg"
    using i by (auto simp: fun_eq_iff intro!: credit_as_shifts(1) [OF neg])
  have "in_int64 (sint (a_Balance a) + amount_to arg (a_ID a))" if "a \<in> set (accounts (db w))" for a
    using i m that by (intro credit_as_shifts(2) [OF neg, of i1 x1 i2 x2 "accounts (db w)"]) auto
  with t e1 e2 m d3 have "transferred arg (db w) (db w')" by (simp add: transferred_def shift neg)
  moreover have "accounts_shown arg res (db w')" using i m by (auto simp: accounts_shown_def)
  ultimately show ?thesis using m d3 by simp
qed

end
