(* ===== verification/TransferProps.thy ===== *)
theory TransferProps
  imports Transfers
begin

section \<open>Correctness of TransferTx\<close>

text \<open>
  Atomicity under every fault, conservation of money and of the ledger over every sequence of
  transfers, and the exact outcome of a transfer when nothing fails to get through.
\<close>

subsection \<open>All or nothing\<close>

lemma transfer_run:
  assumes ok: "schema_ok (db w)" and neg: "sint (- tp_Amount arg) = - sint (tp_Amount arg)"
    and run: "run_state (TransferTx E arg) w = (r, w')"
  shows "same_rows (db w) (db w') \<and> (\<exists>e. r = Inl e)
       \<or> transferred arg (db w) (db w') \<and>
           (r = Inl ConnError \<or> (\<exists>res. r = Inr res \<and> accounts_shown arg res (db w') \<and>
              last (transfers (db w')) = tx_Transfer res \<and>
              entries (db w') = entries (db w) @ [tx_FromEntry res, tx_ToEntry res]))"
proof -
  have ids: "distinct (map a_ID (accounts (db (w\<lparr>tick := Suc (tick w)\<rparr>))))"
    using ok by (auto simp: schema_ok_def dest: serial_distinct)
  have body: "transferred arg (db w) (db w2) \<and> accounts_shown arg x (db w2) \<and>
       last (transfers (db w2)) = tx_Transfer x \<and> entries (db w2) = entries (db w) @ [tx_FromEntry x, tx_ToEntry x]"
    if "run_state (transfer_body E arg q) (w\<lparr>tick := Suc (tick w)\<rparr>) = (Inr x, w2)" for q x w2
    using transfer_body_InrD [OF that ids neg] by simp
  from run [unfolded TransferTx_def] show ?thesis
    by (cases rule: execTx_cases) (use body in \<open>auto\<close>)
qed

text \<open>C3: A transfer is atomic whatever fails on the way (a statement, the rollback, the commit or its
  acknowledgement): either the call reports an error and every row is as before, or exactly one
  transfer, its two entries and the two balances have changed; a success is only reported in the
  second case, and shows the committed rows. Nothing is enqueued and no mail is sent.\<close>

theorem transfer_atomic:
  assumes "world_ok w" and "0 < sint (tp_Amount arg)" and "run_state (TransferTx E arg) w = (r, w')"
  shows "world_ok w' \<and> queue w' = queue w \<and> outbox w' = outbox w \<and>
     (same_rows (db w) (db w') \<and> (\<exists>e. r = Inl e)
      \<or> transferred arg (db w) (db w') \<and>
          (r = Inl ConnError \<or> (\<exists>res. r = Inr res \<and> accounts_shown arg res (db w') \<and>
             last (transfers (db w')) = tx_Transfer res \<and>
             entries (db w') = entries (db w) @ [tx_FromEntry res, tx_ToEntry res])))"
proof -
  have "world_ok w'"
    using keepsD [OF keeps_since_world_ok [OF keeps_TransferTx] assms(3,1)] .
  moreover have "outside (queue w) (outbox w) w'"
    by (rule keepsD [OF outside_TransferTx assms(3)]) (simp add: outside_def)
  moreover have "sint (- tp_Amount arg) = - sint (tp_Amount arg)"
    using assms(2) by (simp add: sint_neg_pos)
  ultimately show ?thesis
    using transfer_run [OF _ _ assms(3)] assms(1) by (simp add: world_ok_def outside_def)
qed

text \<open>Thirty from the first account to the second, once with a calm outside and once with the answer to
  the last update lost.\<close>

definition sample_transfer :: transfer_tx_params where
  "sample_transfer = \<lparr>tp_FromAccountID = 1, tp_ToAccountID = 2, tp_Amount = 30\<rparr>"

definition broken_env :: env where
  "broken_env = sample_env\<lparr>db_fault := (\<lambda>k. if k = 5 then Unacked else Through)\<rparr>"

abbreviation "calm_run \<equiv> run_state (TransferTx sample_env sample_transfer) sample_world"
abbreviation "broken_run \<equiv> run_state (TransferTx broken_env sample_transfer) sample_world"

lemma sample_transfer_pos: "0 < sint (tp_Amount sample_transfer)"
  by (simp add: sample_transfer_def)

theorem transfer_atomic_witness:
  "transferred sample_transfer sample_db (db (snd calm_run)) \<and> same_rows sample_db (db (snd broken_run))"
proof -
  have calm: "\<not> isl (fst calm_run)" and broken: "length (transfers (db (snd broken_run))) = 0"
    and start: "transfers (db sample_world) = []" "db sample_world = sample_db"
    by code_simp+
  have "transferred sample_transfer sample_db (db (snd calm_run))"
    using transfer_atomic [OF sample_world_ok sample_transfer_pos prod.collapse [symmetric], of sample_env] calm start(2)
    by auto
  moreover have "\<not> transferred sample_transfer sample_db (db (snd broken_run))"
    using broken by (auto simp: transferred_def)
  then have "same_rows sample_db (db (snd broken_run))"
    using transfer_atomic [OF sample_world_ok sample_transfer_pos prod.collapse [symmetric], of broken_env] start(2)
    by simp
  ultimately show ?thesis ..
qed

subsection \<open>Sequences of transfers\<close>

fun transfers_in_turn :: "env \<Rightarrow> transfer_tx_params list \<Rightarrow> world \<Rightarrow> world" where
  "transfers_in_turn E [] w = w"
| "transfers_in_turn E (arg # args) w = transfers_in_turn E args (snd (run_state (TransferTx E arg) w))"

lemma transfer_ledger:
  assumes "world_ok w" and "0 < sint (tp_Amount arg)" and "run_state (TransferTx E arg) w = (r, w')"
  shows "world_ok w' \<and> total_balance (db w') = total_balance (db w) \<and>
         opening_balances (db w') = opening_balances (db w)"
proof -
  have "sint (- tp_Amount arg) = - sint (tp_Amount arg)" using assms(2) by (simp add: sint_neg_pos)
  with transfer_run [OF _ this assms(3)] assms(1)
  have "same_rows (db w) (db w') \<or> transferred arg (db w) (db w')" by (auto simp: world_ok_def)
  moreover have "world_ok w'"
    using keepsD [OF keeps_since_world_ok [OF keeps_TransferTx] assms(3,1)] .
  ultimately show ?thesis
    using assms(1) same_rows_ledger transferred_total transferred_opening by (auto simp: world_ok_def)
qed

text \<open>Money is conserved and the ledger explains every balance: over any sequence of transfers of
  positive amounts, whatever fails, the sum of all balances stays the same, and so does, for every
  account, the difference of its balance and the sum of its entries.\<close>

theorem transfers_keep_ledger:
  assumes "world_ok w" and "\<forall>arg \<in> set args. 0 < sint (tp_Amount arg)"
  shows "total_balance (db (transfers_in_turn E args w)) = total_balance (db w) \<and>
         opening_balances (db (transfers_in_turn E args w)) = opening_balances (db w)"
  using assms
proof (induction args arbitrary: w)
  case (Cons arg args)
  have "0 < sint (tp_Amount arg)" using Cons.prems by simp
  from transfer_ledger [OF Cons.prems(1) this prod.collapse [symmetric]] Cons show ?case by simp
qed simp

theorem transfers_keep_ledger_witness:
  "total_balance (db (transfers_in_turn broken_env [sample_transfer, sample_transfer] sample_world)) = 150 \<and>
   map snd (opening_balances (db (transfers_in_turn broken_env [sample_transfer, sample_transfer] sample_world)))
     = [100, 50]"
proof -
  have "\<forall>arg \<in> set [sample_transfer, sample_transfer]. 0 < sint (tp_Amount arg)"
    by (simp add: sample_transfer_def)
  note run = transfers_keep_ledger [OF sample_world_ok this, of broken_env]
  have "total_balance (db sample_world) = 150" "map snd (opening_balances (db sample_world)) = [100, 50]"
    by code_simp+
  then show ?thesis using run by (simp del: transfers_in_turn.simps)
qed

subsection \<open>The outcome with a calm outside\<close>

definition calm_db :: "env \<Rightarrow> bool" where
  "calm_db E \<longleftrightarrow> (\<forall>k. db_fault E k = Through)"

text \<open>The balances stay in range: for a transfer to oneself the account is credited first.\<close>

definition transfer_fits :: "transfer_tx_params \<Rightarrow> database \<Rightarrow> bool" where
  "transfer_fits arg d \<longleftrightarrow> (\<forall>a \<in> set (accounts d).
     in_int64 (sint (a_Balance a) + amount_to arg (a_ID a)) \<and>
     (a_ID a = tp_FromAccountID arg \<and> tp_FromAccountID arg = tp_ToAccountID arg \<longrightarrow>
        in_int64 (sint (a_Balance a) + sint (tp_Amount arg))))"

lemma calm_query:
  "calm_db E \<Longrightarrow> st (case q of Pool \<Rightarrow> clock E (tick w) | Tx t \<Rightarrow> t) (db w) = (x, d) \<Longrightarrow>
     run_state (run_query E q st) w = (x, w\<lparr>tick := Suc (tick w), db := d\<rparr>)"
  by (rule run_query_through) (simp_all add: calm_db_def)

lemma calm_execTx:
  assumes "calm_db E" and "run_state (fn (Tx (clock E (tick w)))) (w\<lparr>tick := Suc (tick w)\<rparr>) = (r, w2)"
  shows "run_state (execTx E fn) w =
    (r, case r of Inl e \<Rightarrow> w2\<lparr>tick := Suc (tick w2), db := rollback_to (db w) (db w2)\<rparr>
        | Inr x \<Rightarrow> w2\<lparr>tick := Suc (tick w2)\<rparr>)"
  using assms by (auto simp: execTx_def calm_db_def Let_def split: sum.splits)

lemma serial_unused:
  "serial key rows n \<Longrightarrow> int (Suc n) < 2 ^ 63 \<Longrightarrow> \<not> list_ex (\<lambda>r. key r = serial_id (Suc n)) rows"
  unfolding list_ex_iff using serial_fresh [of key rows n] by blast

lemma CreateTransfer_calm:
  assumes "serial tr_ID (transfers d) (seq_transfers d)" and n: "int (Suc (seq_transfers d)) < 2 ^ 63"
  shows "if ct_FromAccountID arg \<in> account_ids d \<and> ct_ToAccountID arg \<in> account_ids d
         then \<exists>t. sql_CreateTransfer arg now d =
                (Inr t, d\<lparr>seq_transfers := Suc (seq_transfers d), transfers := transfers d @ [t]\<rparr>)
         else \<exists>d'. sql_CreateTransfer arg now d = (Inl (PgError ForeignKeyViolation), d')"
  using n serial_unused [OF assms] by (simp add: sql_CreateTransfer_def Let_def)

lemma CreateEntry_calm:
  assumes "serial e_ID (entries d) (seq_entries d)" and n: "int (Suc (seq_entries d)) < 2 ^ 63"
    and "ce_AccountID arg \<in> account_ids d"
  shows "\<exists>e. e_ID e = serial_id (Suc (seq_entries d)) \<and> sql_CreateEntry arg now d =
                (Inr e, d\<lparr>seq_entries := Suc (seq_entries d), entries := entries d @ [e]\<rparr>)"
  using n assms(3) serial_unused [OF assms(1,2)] by (simp add: sql_CreateEntry_def Let_def)

lemma q_CreateEntry_calm:
  assumes calm: "calm_db E" and "serial e_ID (entries (db w)) (seq_entries (db w))"
    and "int (Suc (seq_entries (db w))) < 2 ^ 63" and "ce_AccountID arg \<in> account_ids (db w)"
  obtains e where "e_ID e = serial_id (Suc (seq_entries (db w)))"
    and "run_state (q_CreateEntry E q arg) w = (Inr e, w\<lparr>tick := Suc (tick w),
           db := (db w)\<lparr>seq_entries := Suc (seq_entries (db w)), entries := entries (db w) @ [e]\<rparr>\<rparr>)"
  using CreateEntry_calm [OF assms(2-4)] calm_query [OF calm, where st = "sql_CreateEntry arg" and q = q and w = w]
  unfolding q_CreateEntry_def by blast

lemma account_ids_row:
  assumes "i \<in> account_ids d"
  obtains a where "a \<in> set (accounts d)" "a_ID a = i"
proof -
  from assms have "\<exists>a \<in> set (accounts d). i = a_ID a" by (simp add: account_ids_def image_iff)
  then show thesis using that by metis
qed

lemma AddAccountBalance_calm:
  assumes ids: "distinct (map a_ID (accounts d))" and "ab_ID arg \<in> account_ids d"
  shows "if shift_fits (ab_ID arg) (ab_Amount arg) (accounts d)
         then \<exists>a. sql_AddAccountBalance arg now d =
                (Inr a, d\<lparr>accounts := map (shift_balance (ab_ID arg) (ab_Amount arg)) (accounts d)\<rparr>)
         else sql_AddAccountBalance arg now d = (Inl NumericOutOfRange, d)"
proof -
  from assms(2) obtain a where a: "a \<in> set (accounts d)" "a_ID a = ab_ID arg"
    by (rule account_ids_row)
  then have r: "read_row a_ID (ab_ID arg) (accounts d) = Inr a" by (simp add: read_row_Inr [OF ids])
  have "shift_fits (ab_ID arg) (ab_Amount arg) (accounts d) \<longleftrightarrow> in_int64 (sint (a_Balance a) + sint (ab_Amount arg))"
    (is "?L \<longleftrightarrow> ?R")
  proof
    show "?L \<Longrightarrow> ?R" using a by (simp add: shift_fits_def)
    show "?R \<Longrightarrow> ?L" unfolding shift_fits_def using distinct_key_eq [OF ids _ a(1)] a(2) by metis
  qed
  with r show ?thesis by (simp add: sql_AddAccountBalance_def write_row_shift)
qed

lemma addMoney_calm:
  assumes calm: "calm_db E" and ids: "distinct (map a_ID (accounts (db w)))"
    and i: "i1 \<in> account_ids (db w)" "i2 \<in> account_ids (db w)"
  shows "if shift_fits i1 x1 (accounts (db w)) \<and> shift_fits i2 x2 (map (shift_balance i1 x1) (accounts (db w)))
         then \<exists>p w'. run_state (addMoney E q i1 x1 i2 x2) w = (Inr p, w')
         else \<exists>w'. run_state (addMoney E q i1 x1 i2 x2) w = (Inl NumericOutOfRange, w')"
proof -
  let ?now = "\<lambda>w. case q of Pool \<Rightarrow> clock E (tick w) | Tx t \<Rightarrow> t"
  let ?p1 = "\<lparr>ab_Amount = x1, ab_ID = i1\<rparr>" and ?p2 = "\<lparr>ab_Amount = x2, ab_ID = i2\<rparr>"
  note s1 = AddAccountBalance_calm [OF ids, of ?p1 "?now w", simplified, OF i(1)]
  show ?thesis
  proof (cases "shift_fits i1 x1 (accounts (db w))")
    case False
    with s1 have "sql_AddAccountBalance ?p1 (?now w) (db w) = (Inl NumericOutOfRange, db w)" by simp
    from calm_query [OF calm, where st = "sql_AddAccountBalance ?p1" and q = q and w = w, OF this] False show ?thesis by (simp add: addMoney_def q_AddAccountBalance_def)
  next
    case True
    let ?d1 = "(db w)\<lparr>accounts := map (shift_balance i1 x1) (accounts (db w))\<rparr>"
    let ?w1 = "w\<lparr>tick := Suc (tick w), db := ?d1\<rparr>"
    from True s1 obtain a1 where "sql_AddAccountBalance ?p1 (?now w) (db w) = (Inr a1, ?d1)" by auto
    then have r1: "run_state (q_AddAccountBalance E q ?p1) w = (Inr a1, ?w1)"
      using calm_query [OF calm] unfolding q_AddAccountBalance_def by blast
    have ids1: "distinct (map a_ID (accounts ?d1))" using ids by (simp add: comp_def)
    have i2: "ab_ID ?p2 \<in> account_ids ?d1" using i(2) by (simp add: account_ids_def image_image)
    note s2 = AddAccountBalance_calm [OF ids1 i2, of "?now ?w1"]
    show ?thesis
    proof (cases "shift_fits i2 x2 (accounts ?d1)")
      case False
      with s2 have "sql_AddAccountBalance ?p2 (?now ?w1) ?d1 = (Inl NumericOutOfRange, ?d1)" by simp
      then have "run_state (q_AddAccountBalance E q ?p2) ?w1 = (Inl NumericOutOfRange, ?w1\<lparr>tick := Suc (tick ?w1), db := ?d1\<rparr>)"
        using calm_query [OF calm, where st = "sql_AddAccountBalance ?p2" and q = q and w = ?w1] unfolding q_AddAccountBalance_def by simp
      with False True r1 show ?thesis by (simp add: addMoney_def)
    next
      case fits: True
      with s2 obtain a2 d2 where "sql_AddAccountBalance ?p2 (?now ?w1) ?d1 = (Inr a2, d2)" by auto
      then have "run_state (q_AddAccountBalance E q ?p2) ?w1 = (Inr a2, ?w1\<lparr>tick := Suc (tick ?w1), db := d2\<rparr>)"
        using calm_query [OF calm, where st = "sql_AddAccountBalance ?p2" and q = q and w = ?w1] unfolding q_AddAccountBalance_def by simp
      with fits True r1 show ?thesis by (simp add: addMoney_def)
    qed
  qed
qed

lemma shift_fits_twice:
  "shift_fits i1 x1 rows \<and> shift_fits i2 x2 (map (shift_balance i1 x1) rows) \<longleftrightarrow>
     (\<forall>a \<in> set rows. (a_ID a = i1 \<longrightarrow> in_int64 (sint (a_Balance a) + sint x1)) \<and>
        (a_ID a = i2 \<longrightarrow> in_int64 (sint (a_Balance (shift_balance i1 x1 a)) + sint x2)))"
  by (simp only: shift_fits_def set_map ball_simps a_ID_shift ball_conj_distrib)

lemma fits_in_order:
  assumes neg: "sint (- tp_Amount arg) = - sint (tp_Amount arg)"
    and i: "i1 = tp_FromAccountID arg \<and> x1 = - tp_Amount arg \<and> i2 = tp_ToAccountID arg \<and> x2 = tp_Amount arg \<and> i1 \<noteq> i2
      \<or> i1 = tp_ToAccountID arg \<and> x1 = tp_Amount arg \<and> i2 = tp_FromAccountID arg \<and> x2 = - tp_Amount arg"
  shows "shift_fits i1 x1 (accounts d) \<and> shift_fits i2 x2 (map (shift_balance i1 x1) (accounts d)) \<longleftrightarrow>
         transfer_fits arg d"
  unfolding shift_fits_twice transfer_fits_def
proof (rule ball_cong [OF refl])
  fix a :: account
  let ?b = "sint (a_Balance a)"
  have self: "sint (a_Balance a + tp_Amount arg) - sint (tp_Amount arg) = ?b"
    if "in_int64 (?b + sint (tp_Amount arg))"
    using sint_add_in_int64 [OF that] by simp
  show "((a_ID a = i1 \<longrightarrow> in_int64 (?b + sint x1)) \<and>
      (a_ID a = i2 \<longrightarrow> in_int64 (sint (a_Balance (shift_balance i1 x1 a)) + sint x2))) \<longleftrightarrow>
    (in_int64 (?b + amount_to arg (a_ID a)) \<and>
      (a_ID a = tp_FromAccountID arg \<and> tp_FromAccountID arg = tp_ToAccountID arg \<longrightarrow>
        in_int64 (?b + sint (tp_Amount arg))))"
  proof (cases "a_ID a = tp_FromAccountID arg"; cases "a_ID a = tp_ToAccountID arg")
    assume "a_ID a = tp_FromAccountID arg" "a_ID a = tp_ToAccountID arg"
    with i show ?thesis by (elim disjE conjE) (auto simp: shift_balance_def amount_to_def neg self)
  qed (use i in \<open>elim disjE conjE; simp add: shift_balance_def amount_to_def neg\<close>)+
qed

lemma ordered_updates_calm:
  assumes calm: "calm_db E" and ids: "distinct (map a_ID (accounts (db w)))"
    and i: "tp_FromAccountID arg \<in> account_ids (db w)" "tp_ToAccountID arg \<in> account_ids (db w)"
    and neg: "sint (- tp_Amount arg) = - sint (tp_Amount arg)"
  shows "if transfer_fits arg (db w)
         then \<exists>p w'. run_state (ordered_updates E q arg) w = (Inr p, w')
         else \<exists>w'. run_state (ordered_updates E q arg) w = (Inl NumericOutOfRange, w')"
proof (cases "sint (tp_FromAccountID arg) < sint (tp_ToAccountID arg)")
  case True
  then have "tp_FromAccountID arg \<noteq> tp_ToAccountID arg" by auto
  then have fits: "shift_fits (tp_FromAccountID arg) (- tp_Amount arg) (accounts (db w)) \<and>
      shift_fits (tp_ToAccountID arg) (tp_Amount arg)
        (map (shift_balance (tp_FromAccountID arg) (- tp_Amount arg)) (accounts (db w))) \<longleftrightarrow> transfer_fits arg (db w)"
    by (intro fits_in_order [OF neg]) simp
  from addMoney_calm [OF calm ids i, of "- tp_Amount arg" "tp_Amount arg" q, unfolded fits] True
  show ?thesis by (auto simp: ordered_updates_def split: if_splits)
next
  case False
  have fits: "shift_fits (tp_ToAccountID arg) (tp_Amount arg) (accounts (db w)) \<and>
      shift_fits (tp_FromAccountID arg) (- tp_Amount arg)
        (map (shift_balance (tp_ToAccountID arg) (tp_Amount arg)) (accounts (db w))) \<longleftrightarrow> transfer_fits arg (db w)"
    by (intro fits_in_order [OF neg]) simp
  from addMoney_calm [OF calm ids i(2,1), of "tp_Amount arg" "- tp_Amount arg" q, unfolded fits] False
  show ?thesis by (auto simp: ordered_updates_def split: if_splits)
qed

text \<open>The three rows of a transfer between known accounts are inserted, and the accounts are as before.\<close>

lemma transfer_inserts_calm:
  assumes ok: "world_ok w" and calm: "calm_db E"
    and seqs: "int (Suc (seq_transfers (db w))) < 2 ^ 63" "int (Suc (Suc (seq_entries (db w)))) < 2 ^ 63"
    and known: "tp_FromAccountID arg \<in> account_ids (db w)" "tp_ToAccountID arg \<in> account_ids (db w)"
  obtains t fe te w1 w2 w3 where
    "run_state (q_CreateTransfer E (Tx t0) \<lparr>ct_FromAccountID = tp_FromAccountID arg, ct_ToAccountID = tp_ToAccountID arg,
       ct_Amount = tp_Amount arg\<rparr>) (w\<lparr>tick := Suc (tick w)\<rparr>) = (Inr t, w1)"
    "run_state (q_CreateEntry E (Tx t0) \<lparr>ce_AccountID = tp_FromAccountID arg, ce_Amount = - tp_Amount arg\<rparr>) w1 = (Inr fe, w2)"
    "run_state (q_CreateEntry E (Tx t0) \<lparr>ce_AccountID = tp_ToAccountID arg, ce_Amount = tp_Amount arg\<rparr>) w2 = (Inr te, w3)"
    "accounts (db w3) = accounts (db w)"
proof -
  let ?w = "w\<lparr>tick := Suc (tick w)\<rparr>" and ?q = "Tx t0"
  let ?ct = "\<lparr>ct_FromAccountID = tp_FromAccountID arg, ct_ToAccountID = tp_ToAccountID arg, ct_Amount = tp_Amount arg\<rparr>"
  let ?fe = "\<lparr>ce_AccountID = tp_FromAccountID arg, ce_Amount = - tp_Amount arg\<rparr>"
  let ?te = "\<lparr>ce_AccountID = tp_ToAccountID arg, ce_Amount = tp_Amount arg\<rparr>"
  have ser: "serial tr_ID (transfers (db w)) (seq_transfers (db w))" "serial e_ID (entries (db w)) (seq_entries (db w))"
    using ok by (auto simp: world_ok_def schema_ok_def)
  define d1 where "d1 t = (db w)\<lparr>seq_transfers := Suc (seq_transfers (db w)), transfers := transfers (db w) @ [t]\<rparr>" for t
  from known CreateTransfer_calm [OF ser(1) seqs(1), of ?ct t0, simplified]
  obtain t where "sql_CreateTransfer ?ct t0 (db w) = (Inr t, d1 t)" by (auto simp: d1_def)
  then have r1: "run_state (q_CreateTransfer E ?q ?ct) ?w = (Inr t, ?w\<lparr>tick := Suc (tick ?w), db := d1 t\<rparr>)"
    using calm_query [OF calm, where st = "sql_CreateTransfer ?ct" and q = ?q and w = ?w]
    unfolding q_CreateTransfer_def by simp
  let ?w1 = "?w\<lparr>tick := Suc (tick ?w), db := d1 t\<rparr>"
  have e1: "serial e_ID (entries (db ?w1)) (seq_entries (db ?w1))" "int (Suc (seq_entries (db ?w1))) < 2 ^ 63"
    "ce_AccountID ?fe \<in> account_ids (db ?w1)"
    using ser(2) seqs(2) known by (simp_all add: d1_def account_ids_def)
  define d2 where "d2 e = (db ?w1)\<lparr>seq_entries := Suc (seq_entries (db ?w1)), entries := entries (db ?w1) @ [e]\<rparr>" for e
  obtain fe where fe: "e_ID fe = serial_id (Suc (seq_entries (db ?w1)))"
    and r2: "run_state (q_CreateEntry E ?q ?fe) ?w1 = (Inr fe, ?w1\<lparr>tick := Suc (tick ?w1), db := d2 fe\<rparr>)"
    unfolding d2_def by (rule q_CreateEntry_calm [OF calm e1])
  let ?w2 = "?w1\<lparr>tick := Suc (tick ?w1), db := d2 fe\<rparr>"
  have e2: "serial e_ID (entries (db ?w2)) (seq_entries (db ?w2))" "int (Suc (seq_entries (db ?w2))) < 2 ^ 63"
    "ce_AccountID ?te \<in> account_ids (db ?w2)"
    using serial_insert [OF e1(1,2) fe] seqs(2) known by (simp_all add: d1_def d2_def account_ids_def)
  from q_CreateEntry_calm [OF calm e2] obtain te where
    "run_state (q_CreateEntry E ?q ?te) ?w2 = (Inr te, ?w2\<lparr>tick := Suc (tick ?w2),
       db := (db ?w2)\<lparr>seq_entries := Suc (seq_entries (db ?w2)), entries := entries (db ?w2) @ [te]\<rparr>\<rparr>)" by metis
  from that [OF r1 r2 this] show thesis by (simp add: d1_def d2_def)
qed

lemma transfer_body_calm:
  assumes ok: "world_ok w" and calm: "calm_db E" and neg: "sint (- tp_Amount arg) = - sint (tp_Amount arg)"
    and seqs: "int (Suc (seq_transfers (db w))) < 2 ^ 63" "int (Suc (Suc (seq_entries (db w)))) < 2 ^ 63"
  shows "\<exists>x w2. run_state (transfer_body E arg (Tx t0)) (w\<lparr>tick := Suc (tick w)\<rparr>) = (x, w2) \<and>
      (if (tp_FromAccountID arg \<in> account_ids (db w) \<and> tp_ToAccountID arg \<in> account_ids (db w)) \<and> transfer_fits arg (db w)
       then \<exists>res. x = Inr res
       else x = Inl (if tp_FromAccountID arg \<in> account_ids (db w) \<and> tp_ToAccountID arg \<in> account_ids (db w)
                     then NumericOutOfRange else PgError ForeignKeyViolation))"
proof (cases "tp_FromAccountID arg \<in> account_ids (db w) \<and> tp_ToAccountID arg \<in> account_ids (db w)")
  case False
  let ?ct = "\<lparr>ct_FromAccountID = tp_FromAccountID arg, ct_ToAccountID = tp_ToAccountID arg, ct_Amount = tp_Amount arg\<rparr>"
  have "serial tr_ID (transfers (db w)) (seq_transfers (db w))" using ok by (simp add: world_ok_def schema_ok_def)
  from False CreateTransfer_calm [OF this seqs(1), of ?ct t0, simplified]
  obtain d1 where "sql_CreateTransfer ?ct t0 (db w) = (Inl (PgError ForeignKeyViolation), d1)" by auto
  then have "run_state (q_CreateTransfer E (Tx t0) ?ct) (w\<lparr>tick := Suc (tick w)\<rparr>) =
      (Inl (PgError ForeignKeyViolation), w\<lparr>tick := Suc (Suc (tick w)), db := d1\<rparr>)"
    using calm_query [OF calm, where st = "sql_CreateTransfer ?ct" and q = "Tx t0" and w = "w\<lparr>tick := Suc (tick w)\<rparr>"]
    unfolding q_CreateTransfer_def by simp
  with False show ?thesis by (auto simp: transfer_body_def)
next
  case True
  with transfer_inserts_calm [OF ok calm seqs, of arg t0] obtain t fe te w1 w2 w3 where
    r1: "run_state (q_CreateTransfer E (Tx t0) \<lparr>ct_FromAccountID = tp_FromAccountID arg, ct_ToAccountID = tp_ToAccountID arg,
       ct_Amount = tp_Amount arg\<rparr>) (w\<lparr>tick := Suc (tick w)\<rparr>) = (Inr t, w1)"
    and r2: "run_state (q_CreateEntry E (Tx t0) \<lparr>ce_AccountID = tp_FromAccountID arg, ce_Amount = - tp_Amount arg\<rparr>) w1 = (Inr fe, w2)"
    and r3: "run_state (q_CreateEntry E (Tx t0) \<lparr>ce_AccountID = tp_ToAccountID arg, ce_Amount = tp_Amount arg\<rparr>) w2 = (Inr te, w3)"
    and accs: "accounts (db w3) = accounts (db w)" by metis
  have ids: "distinct (map a_ID (accounts (db w)))" using ok by (auto simp: world_ok_def schema_ok_def dest: serial_distinct)
  have same: "account_ids (db w3) = account_ids (db w)" "transfer_fits arg (db w3) = transfer_fits arg (db w)"
    by (simp_all add: accs account_ids_def transfer_fits_def)
  have "run_state (transfer_body E arg (Tx t0)) (w\<lparr>tick := Suc (tick w)\<rparr>) =
    (case run_state (ordered_updates E (Tx t0) arg) w3 of
       (Inl e, u) \<Rightarrow> (Inl e, u)
     | (Inr (fa, ta), u) \<Rightarrow> (Inr \<lparr>tx_Transfer = t, tx_FromAccount = fa, tx_ToAccount = ta,
         tx_FromEntry = fe, tx_ToEntry = te\<rparr>, u))"
    unfolding transfer_body_def ordered_updates_def [symmetric]
    using r1 r2 r3 by (simp add: run_bindE split: prod.splits sum.splits)
  moreover have "if transfer_fits arg (db w) then \<exists>p u. run_state (ordered_updates E (Tx t0) arg) w3 = (Inr p, u)
     else \<exists>u. run_state (ordered_updates E (Tx t0) arg) w3 = (Inl NumericOutOfRange, u)"
    using ordered_updates_calm [OF calm, of w3 arg "Tx t0"] ids True neg unfolding accs same by blast
  ultimately show ?thesis using True by (auto split: if_splits prod.splits)
qed

lemma transfer_calm:
  assumes ok: "world_ok w" and calm: "calm_db E" and pos: "0 < sint (tp_Amount arg)"
    and seqs: "int (Suc (seq_transfers (db w))) < 2 ^ 63" "int (Suc (Suc (seq_entries (db w)))) < 2 ^ 63"
    and known: "known \<longleftrightarrow> tp_FromAccountID arg \<in> account_ids (db w) \<and> tp_ToAccountID arg \<in> account_ids (db w)"
    and run: "run_state (TransferTx E arg) w = (r, w')"
  shows "if known \<and> transfer_fits arg (db w)
         then transferred arg (db w) (db w') \<and> (\<exists>res. r = Inr res \<and> accounts_shown arg res (db w'))
         else same_rows (db w) (db w') \<and>
              r = Inl (if known then NumericOutOfRange else PgError ForeignKeyViolation)"
proof -
  let ?w1 = "w\<lparr>tick := Suc (tick w)\<rparr>" and ?q = "Tx (clock E (tick w))"
  have neg: "sint (- tp_Amount arg) = - sint (tp_Amount arg)" using pos by (simp add: sint_neg_pos)
  have body: "\<exists>x w2. run_state (transfer_body E arg ?q) ?w1 = (x, w2) \<and>
      (if known \<and> transfer_fits arg (db w) then \<exists>res. x = Inr res
       else x = Inl (if known then NumericOutOfRange else PgError ForeignKeyViolation))"
    using transfer_body_calm [OF ok calm neg seqs] unfolding known by blast
  then obtain x w2 where x: "run_state (transfer_body E arg ?q) ?w1 = (x, w2)"
    "if known \<and> transfer_fits arg (db w) then \<exists>res. x = Inr res
     else x = Inl (if known then NumericOutOfRange else PgError ForeignKeyViolation)" by blast
  have r: "r = x" "\<not> isl x \<or> same_rows (db w) (db w')"
    using run calm_execTx [OF calm, where fn = "transfer_body E arg" and w = w, OF x(1)] by (auto simp: TransferTx_def split: sum.splits)
  from ok have "schema_ok (db w)" by (simp add: world_ok_def)
  from transfer_run [OF this neg run] r x(2) show ?thesis by (auto split: if_splits)
qed

text \<open>C21: When nothing fails to get through, the outcome of a transfer is decided by the data alone: an
  unknown account is a foreign key violation, a balance that would leave the range of \<open>bigint\<close> is the
  error 22003, and both leave every row as it was; every other transfer succeeds and shows the
  committed accounts. The balance of the sender is not looked at.\<close>

theorem transfer_outcome:
  assumes ok: "world_ok w" and calm: "calm_db E" and pos: "0 < sint (tp_Amount arg)"
    and seqs: "int (Suc (seq_transfers (db w))) < 2 ^ 63" "int (Suc (Suc (seq_entries (db w)))) < 2 ^ 63"
    and known: "known \<longleftrightarrow> tp_FromAccountID arg \<in> account_ids (db w) \<and> tp_ToAccountID arg \<in> account_ids (db w)"
    and run: "run_state (TransferTx E arg) w = (r, w')"
  shows "if known \<and> transfer_fits arg (db w)
         then transferred arg (db w) (db w') \<and> (\<exists>res. r = Inr res \<and> accounts_shown arg res (db w'))
         else same_rows (db w) (db w') \<and>
              r = Inl (if known then NumericOutOfRange else PgError ForeignKeyViolation)"
  by (rule transfer_calm [OF assms])

definition unknown_transfer :: transfer_tx_params where
  "unknown_transfer = \<lparr>tp_FromAccountID = 1, tp_ToAccountID = 9, tp_Amount = 30\<rparr>"

text \<open>The accounts hold 100 and 50: a transfer of 130 succeeds and leaves the sender at \<open>- 30\<close>.\<close>

definition overdraft :: transfer_tx_params where
  "overdraft = \<lparr>tp_FromAccountID = 1, tp_ToAccountID = 2, tp_Amount = 130\<rparr>"

theorem transfer_outcome_witness:
  "fst (run_state (TransferTx sample_env unknown_transfer) sample_world) = Inl (PgError ForeignKeyViolation) \<and>
   \<not> isl (fst (run_state (TransferTx sample_env overdraft) sample_world)) \<and>
   map (\<lambda>a. sint (a_Balance a)) (accounts (db (snd (run_state (TransferTx sample_env overdraft) sample_world))))
     = [- 30, 180]"
proof -
  have calm: "calm_db sample_env" by (simp add: calm_db_def sample_env_def)
  have h: "0 < sint (tp_Amount unknown_transfer)" "0 < sint (tp_Amount overdraft)"
    "int (Suc (seq_transfers (db sample_world))) < 2 ^ 63" "int (Suc (Suc (seq_entries (db sample_world)))) < 2 ^ 63"
    and ids: "tp_ToAccountID unknown_transfer \<notin> account_ids (db sample_world)"
      "tp_FromAccountID overdraft \<in> account_ids (db sample_world) \<and> tp_ToAccountID overdraft \<in> account_ids (db sample_world)"
    and fits: "transfer_fits overdraft (db sample_world)"
    and after: "map (\<lambda>a. sint (a_Balance (credit overdraft a))) (accounts (db sample_world)) = [- 30, 180]"
    by code_simp+
  from transfer_outcome [OF sample_world_ok calm h(1,3,4) refl prod.collapse [symmetric]] ids(1)
  have "fst (run_state (TransferTx sample_env unknown_transfer) sample_world) = Inl (PgError ForeignKeyViolation)"
    by simp
  moreover from transfer_outcome [OF sample_world_ok calm h(2,3,4) refl prod.collapse [symmetric]] ids(2) fits
  have "transferred overdraft (db sample_world) (db (snd (run_state (TransferTx sample_env overdraft) sample_world)))"
    "\<not> isl (fst (run_state (TransferTx sample_env overdraft) sample_world))"
    by auto
  then have "accounts (db (snd (run_state (TransferTx sample_env overdraft) sample_world)))
      = map (credit overdraft) (accounts (db sample_world))"
    by (simp add: transferred_def)
  ultimately show ?thesis
    using after \<open>\<not> isl (fst (run_state (TransferTx sample_env overdraft) sample_world))\<close> by (simp add: comp_def)
qed

end
