(* ===== verification/RestApi.thy ===== *)
theory RestApi
  imports StoreFrames Token
begin

section \<open>The HTTP API (api/)\<close>

text \<open>
  The gin server: requests with the tags of their fields, the handlers with every error branch, the
  authorization middleware and the table of routes. Decoding a request and the built-in tags are
  gin's (\<open>validate_tag\<close>, \<open>binding_error\<close> of \<open>env\<close>); the tag \<open>currency\<close> is the code's own.
\<close>

subsection \<open>Binding (validator.go, server.go)\<close>

fun validCurrency :: "field_value \<Rightarrow> bool" where
  "validCurrency (FStr currency) = IsSupportedCurrency currency"
| "validCurrency (FInt _) = False"

text \<open>\<^verbatim>\<open>v.RegisterValidation("currency", validCurrency)\<close>.\<close>

definition tag_holds :: "env \<Rightarrow> gostring \<Rightarrow> field_value \<Rightarrow> bool" where
  "tag_holds E tag v = (if tag = ''currency'' then validCurrency v else validate_tag E tag v)"

text \<open>\<^verbatim>\<open>ctx.ShouldBind...(&req)\<close>: \<open>None\<close> is a request that does not decode; a decoded one must meet every
  tag of every field.\<close>

definition ShouldBind ::
  "env \<Rightarrow> ('r \<Rightarrow> (gostring list \<times> field_value) list) \<Rightarrow> 'r option \<Rightarrow> 'r result" where
  "ShouldBind E tags req =
     (case req of
        None \<Rightarrow> Inl (binding_error E)
      | Some r \<Rightarrow>
          if list_all (\<lambda>(ts, v). list_all (\<lambda>t. tag_holds E t v) ts) (tags r)
          then Inr r else Inl (binding_error E))"

text \<open>What the documentation of the validator says of the built-in tags in use.\<close>

definition binding_ok :: "env \<Rightarrow> bool" where
  "binding_ok E \<longleftrightarrow>
     (\<forall>s. validate_tag E ''required'' (FStr s) \<longleftrightarrow> s \<noteq> []) \<and>
     (\<forall>i. validate_tag E ''required'' (FInt i) \<longleftrightarrow> i \<noteq> 0) \<and>
     (\<forall>i. validate_tag E ''min=1'' (FInt i) \<longleftrightarrow> 1 \<le> i) \<and>
     (\<forall>i. validate_tag E ''min=5'' (FInt i) \<longleftrightarrow> 5 \<le> i) \<and>
     (\<forall>i. validate_tag E ''max=10'' (FInt i) \<longleftrightarrow> i \<le> 10) \<and>
     (\<forall>i. validate_tag E ''gt=0'' (FInt i) \<longleftrightarrow> 0 < i) \<and>
     (\<forall>s. validate_tag E ''alphanum'' (FStr s) \<longrightarrow>
        list_all (\<lambda>c. lower_or_digit c \<or> letter c) s)"

subsection \<open>Requests and responses\<close>

record createAccountRequest =
  car_Currency :: gostring

definition createAccountRequest_tags :: "createAccountRequest \<Rightarrow> (gostring list \<times> field_value) list" where
  "createAccountRequest_tags r = [([''required'', ''currency''], FStr (car_Currency r))]"

record getAccountRequest =
  gar_ID :: int64

definition getAccountRequest_tags :: "getAccountRequest \<Rightarrow> (gostring list \<times> field_value) list" where
  "getAccountRequest_tags r = [([''required'', ''min=1''], FInt (sint (gar_ID r)))]"

record listAccountRequest =
  lar_PageID :: int32
  lar_PageSize :: int32

definition listAccountRequest_tags :: "listAccountRequest \<Rightarrow> (gostring list \<times> field_value) list" where
  "listAccountRequest_tags r =
     [([''required'', ''min=1''], FInt (sint (lar_PageID r))),
      ([''required'', ''min=5'', ''max=10''], FInt (sint (lar_PageSize r)))]"

record transferRequest =
  trr_FromAccountID :: int64
  trr_ToAccountID :: int64
  trr_Amount :: int64
  trr_Currency :: gostring

definition transferRequest_tags :: "transferRequest \<Rightarrow> (gostring list \<times> field_value) list" where
  "transferRequest_tags r =
     [([''required'', ''min=1''], FInt (sint (trr_FromAccountID r))),
      ([''required'', ''min=1''], FInt (sint (trr_ToAccountID r))),
      ([''required'', ''gt=0''], FInt (sint (trr_Amount r))),
      ([''required'', ''currency''], FStr (trr_Currency r))]"

record createUserRequest =
  cur_Username :: gostring
  cur_Password :: gostring
  cur_FullName :: gostring
  cur_Email :: gostring

definition createUserRequest_tags :: "createUserRequest \<Rightarrow> (gostring list \<times> field_value) list" where
  "createUserRequest_tags r =
     [([''required'', ''alphanum''], FStr (cur_Username r)),
      ([''required'', ''min=6''], FStr (cur_Password r)),
      ([''required''], FStr (cur_FullName r)),
      ([''required'', ''email''], FStr (cur_Email r))]"

record loginUserRequest =
  lur_Username :: gostring
  lur_Password :: gostring

definition loginUserRequest_tags :: "loginUserRequest \<Rightarrow> (gostring list \<times> field_value) list" where
  "loginUserRequest_tags r =
     [([''required'', ''alphanum''], FStr (lur_Username r)),
      ([''required'', ''min=6''], FStr (lur_Password r))]"

record renewAccessTokenRequest =
  rar_RefreshToken :: gostring

definition renewAccessTokenRequest_tags :: "renewAccessTokenRequest \<Rightarrow> (gostring list \<times> field_value) list" where
  "renewAccessTokenRequest_tags r = [([''required''], FStr (rar_RefreshToken r))]"

record userResponse =
  ur_Username :: gostring
  ur_FullName :: gostring
  ur_Email :: gostring
  ur_PasswordChangedAt :: time
  ur_CreatedAt :: time

definition newUserResponse :: "user \<Rightarrow> userResponse" where
  "newUserResponse user =
     \<lparr>ur_Username = u_Username user, ur_FullName = u_FullName user, ur_Email = u_Email user,
      ur_PasswordChangedAt = u_PasswordChangedAt user, ur_CreatedAt = u_CreatedAt user\<rparr>"

record loginUserResponse =
  lr_SessionID :: uuid
  lr_AccessToken :: gostring
  lr_AccessTokenExpiresAt :: time
  lr_RefreshToken :: gostring
  lr_RefreshTokenExpiresAt :: time
  lr_User :: userResponse

record renewAccessTokenResponse =
  rr_AccessToken :: gostring
  rr_AccessTokenExpiresAt :: time

datatype rest_body =
    ErrorBody gostring
  | UserBody userResponse
  | LoginBody loginUserResponse
  | RenewBody renewAccessTokenResponse
  | AccountBody account
  | AccountsBody "account list"
  | TransferBody transfer_tx_result

record rest_response =
  rs_status :: int
  rs_body :: rest_body

definition errorResponse :: "env \<Rightarrow> int \<Rightarrow> go_error \<Rightarrow> rest_response io" where
  "errorResponse E code err =
     State_Monad.return \<lparr>rs_status = code, rs_body = ErrorBody (error_text (driver_text E) err)\<rparr>"

definition JSON_OK :: "rest_body \<Rightarrow> rest_response io" where
  "JSON_OK b = State_Monad.return \<lparr>rs_status = 200, rs_body = b\<rparr>"

text \<open>What the handlers read of the HTTP request besides the bound fields.\<close>

record rest_context =
  cx_authorization :: gostring
  cx_user_agent :: gostring
  cx_client_ip :: gostring

record rest_server =
  rsv_config :: Config
  rsv_store :: store
  rsv_tokenMaker :: maker

definition NewRestServer :: "env \<Rightarrow> Config \<Rightarrow> store \<Rightarrow> rest_server result" where
  "NewRestServer E config S =
     (case NewPasetoMaker E (TokenSymmetricKey config) of
        Inl err \<Rightarrow> Inl (Wrap ''cannot create token maker: '' err)
      | Inr tokenMaker \<Rightarrow> Inr \<lparr>rsv_config = config, rsv_store = S, rsv_tokenMaker = tokenMaker\<rparr>)"

subsection \<open>user.go\<close>

definition createUser ::
  "env \<Rightarrow> rest_server \<Rightarrow> createUserRequest option \<Rightarrow> rest_response io" where
  "createUser E server body =
     (case ShouldBind E createUserRequest_tags body of
        Inl err \<Rightarrow> errorResponse E 400 err
      | Inr req \<Rightarrow>
          caseE (HashPassword E (cur_Password req)) (errorResponse E 500) (\<lambda>hashedPassword.
          caseE
            (CreateUser (rsv_store server)
               \<lparr>cu_Username = cur_Username req, cu_HashedPassword = hashedPassword,
                cu_FullName = cur_FullName req, cu_Email = cur_Email req\<rparr>)
            (\<lambda>err. if ErrorCode err = UniqueViolation then errorResponse E 403 err else errorResponse E 500 err)
            (\<lambda>user. JSON_OK (UserBody (newUserResponse user)))))"

definition loginUser ::
  "env \<Rightarrow> rest_server \<Rightarrow> rest_context \<Rightarrow> loginUserRequest option \<Rightarrow> rest_response io" where
  "loginUser E server ctx body =
     (case ShouldBind E loginUserRequest_tags body of
        Inl err \<Rightarrow> errorResponse E 400 err
      | Inr req \<Rightarrow>
          caseE (GetUser (rsv_store server) (lur_Username req))
            (\<lambda>err. if is_not_found err then errorResponse E 404 err else errorResponse E 500 err) (\<lambda>user.
          case CheckPassword E (lur_Password req) (u_HashedPassword user) of
            Some err \<Rightarrow> errorResponse E 401 err
          | None \<Rightarrow>
          caseE
            (CreateToken (rsv_tokenMaker server) (u_Username user) (u_Role user)
               (AccessTokenDuration (rsv_config server)) TokenTypeAccessToken)
            (errorResponse E 500) (\<lambda>(accessToken, accessPayload).
          caseE
            (CreateToken (rsv_tokenMaker server) (u_Username user) (u_Role user)
               (RefreshTokenDuration (rsv_config server)) TokenTypeRefreshToken)
            (errorResponse E 500) (\<lambda>(refreshToken, refreshPayload).
          caseE
            (CreateSession (rsv_store server)
               \<lparr>cs_ID = p_ID refreshPayload, cs_Username = u_Username user, cs_RefreshToken = refreshToken,
                cs_UserAgent = cx_user_agent ctx, cs_ClientIp = cx_client_ip ctx, cs_IsBlocked = False,
                cs_ExpiresAt = p_ExpiredAt refreshPayload\<rparr>)
            (errorResponse E 500) (\<lambda>session.
          JSON_OK (LoginBody
            \<lparr>lr_SessionID = s_ID session, lr_AccessToken = accessToken,
             lr_AccessTokenExpiresAt = p_ExpiredAt accessPayload, lr_RefreshToken = refreshToken,
             lr_RefreshTokenExpiresAt = p_ExpiredAt refreshPayload, lr_User = newUserResponse user\<rparr>))))))"

subsection \<open>token.go\<close>

definition renewAccessToken ::
  "env \<Rightarrow> rest_server \<Rightarrow> renewAccessTokenRequest option \<Rightarrow> rest_response io" where
  "renewAccessToken E server body =
     (case ShouldBind E renewAccessTokenRequest_tags body of
        Inl err \<Rightarrow> errorResponse E 400 err
      | Inr req \<Rightarrow>
          caseE (VerifyToken (rsv_tokenMaker server) (rar_RefreshToken req) TokenTypeRefreshToken)
            (errorResponse E 401) (\<lambda>refreshPayload.
          caseE (GetSession (rsv_store server) (p_ID refreshPayload))
            (\<lambda>err. if is_not_found err then errorResponse E 404 err else errorResponse E 500 err) (\<lambda>session.
          if s_IsBlocked session then errorResponse E 401 (Plain ''blocked session'')
          else if s_Username session \<noteq> p_Username refreshPayload
          then errorResponse E 401 (Plain ''incorrect session user'')
          else if s_RefreshToken session \<noteq> rar_RefreshToken req
          then errorResponse E 401 (Plain ''mismatched session token'')
          else do {
            now \<leftarrow> Now E;
            if s_ExpiresAt session < now then errorResponse E 401 (Plain ''expired session'')
            else
              caseE
                (CreateToken (rsv_tokenMaker server) (p_Username refreshPayload) (p_Role refreshPayload)
                   (AccessTokenDuration (rsv_config server)) TokenTypeAccessToken)
                (errorResponse E 500) (\<lambda>(accessToken, accessPayload).
              JSON_OK (RenewBody
                \<lparr>rr_AccessToken = accessToken, rr_AccessTokenExpiresAt = p_ExpiredAt accessPayload\<rparr>))
          })))"

subsection \<open>account.go\<close>

text \<open>The handlers of the authorized group get the payload the middleware has put in the context.\<close>

definition createAccount ::
  "env \<Rightarrow> rest_server \<Rightarrow> payload \<Rightarrow> createAccountRequest option \<Rightarrow> rest_response io" where
  "createAccount E server authPayload body =
     (case ShouldBind E createAccountRequest_tags body of
        Inl err \<Rightarrow> errorResponse E 400 err
      | Inr req \<Rightarrow>
          caseE
            (CreateAccount (rsv_store server)
               \<lparr>ca_Owner = p_Username authPayload, ca_Balance = 0, ca_Currency = car_Currency req\<rparr>)
            (\<lambda>err. if ErrorCode err = ForeignKeyViolation \<or> ErrorCode err = UniqueViolation
                   then errorResponse E 403 err else errorResponse E 500 err)
            (\<lambda>account. JSON_OK (AccountBody account)))"

definition getAccount ::
  "env \<Rightarrow> rest_server \<Rightarrow> payload \<Rightarrow> getAccountRequest option \<Rightarrow> rest_response io" where
  "getAccount E server authPayload uri =
     (case ShouldBind E getAccountRequest_tags uri of
        Inl err \<Rightarrow> errorResponse E 400 err
      | Inr req \<Rightarrow>
          caseE (GetAccount (rsv_store server) (gar_ID req))
            (\<lambda>err. if is_not_found err then errorResponse E 404 err else errorResponse E 500 err) (\<lambda>account.
          if a_Owner account \<noteq> p_Username authPayload
          then errorResponse E 401 (Plain ''account doesn't belong to the authenticated user'')
          else JSON_OK (AccountBody account)))"

definition listAccounts ::
  "env \<Rightarrow> rest_server \<Rightarrow> payload \<Rightarrow> listAccountRequest option \<Rightarrow> rest_response io" where
  "listAccounts E server authPayload query =
     (case ShouldBind E listAccountRequest_tags query of
        Inl err \<Rightarrow> errorResponse E 400 err
      | Inr req \<Rightarrow>
          caseE
            (ListAccounts (rsv_store server)
               \<lparr>la_Owner = p_Username authPayload, la_Limit = lar_PageSize req,
                la_Offset = (lar_PageID req - 1) * lar_PageSize req\<rparr>)
            (errorResponse E 500) (\<lambda>accounts. JSON_OK (AccountsBody accounts)))"

subsection \<open>transfer.go\<close>

definition validAccount ::
  "env \<Rightarrow> rest_server \<Rightarrow> int64 \<Rightarrow> gostring \<Rightarrow> (rest_response + account) io" where
  "validAccount E server accountID currency =
     caseE (GetAccount (rsv_store server) accountID)
       (\<lambda>err. do {
          rsp \<leftarrow> (if is_not_found err then errorResponse E 404 err else errorResponse E 500 err);
          State_Monad.return (Inl rsp)
        })
       (\<lambda>account.
          if a_Currency account \<noteq> currency
          then do {
            rsp \<leftarrow> errorResponse E 400 (Plain (''account ['' @ decimal (sint (a_ID account)) @
                     ''] currency mismatch: '' @ a_Currency account @ '' vs '' @ currency));
            State_Monad.return (Inl rsp)
          }
          else State_Monad.return (Inr account))"

definition createTransfer ::
  "env \<Rightarrow> rest_server \<Rightarrow> payload \<Rightarrow> transferRequest option \<Rightarrow> rest_response io" where
  "createTransfer E server authPayload body =
     (case ShouldBind E transferRequest_tags body of
        Inl err \<Rightarrow> errorResponse E 400 err
      | Inr req \<Rightarrow>
          caseE (validAccount E server (trr_FromAccountID req) (trr_Currency req)) State_Monad.return (\<lambda>fromAccount.
          if a_Owner fromAccount \<noteq> p_Username authPayload
          then errorResponse E 401 (Plain ''from account doesn't belong to the authenticated user'')
          else
            caseE (validAccount E server (trr_ToAccountID req) (trr_Currency req)) State_Monad.return (\<lambda>toAccount.
            caseE
              (st_TransferTx (rsv_store server)
                 \<lparr>tp_FromAccountID = trr_FromAccountID req, tp_ToAccountID = trr_ToAccountID req,
                  tp_Amount = trr_Amount req\<rparr>)
              (errorResponse E 500) (\<lambda>result. JSON_OK (TransferBody result)))))"

subsection \<open>middleware.go\<close>

definition authorizationTypeBearer :: gostring where "authorizationTypeBearer = ''bearer''"

definition authMiddleware ::
  "env \<Rightarrow> maker \<Rightarrow> rest_context \<Rightarrow> (payload \<Rightarrow> rest_response io) \<Rightarrow> rest_response io" where
  "authMiddleware E tokenMaker ctx next_handler =
     (let authorizationHeader = cx_authorization ctx in
      if length authorizationHeader = 0
      then errorResponse E 401 (Plain ''authorization header is not provided'')
      else
        (let fields = Fields authorizationHeader in
         if length fields < 2 then errorResponse E 401 (Plain ''invalid authorization header format'')
         else
           (let authorizationType = ToLower (fields ! 0) in
            if authorizationType \<noteq> authorizationTypeBearer
            then errorResponse E 401 (Plain (''unsupported authorization type '' @ authorizationType))
            else
              caseE (VerifyToken tokenMaker (fields ! 1) TokenTypeAccessToken)
                (errorResponse E 401) next_handler)))"

subsection \<open>Routes (server.go)\<close>

datatype endpoint = EpCreateUser | EpLoginUser | EpRenewAccessToken
  | EpCreateAccount | EpGetAccount | EpListAccounts | EpCreateTransfer

record rest_route =
  rt_method :: gostring
  rt_path :: gostring
  rt_authorized :: bool
  rt_endpoint :: endpoint

definition rest_routes :: "rest_route list" where
  "rest_routes =
     [\<lparr>rt_method = ''POST'', rt_path = ''/users'', rt_authorized = False, rt_endpoint = EpCreateUser\<rparr>,
      \<lparr>rt_method = ''POST'', rt_path = ''/users/login'', rt_authorized = False, rt_endpoint = EpLoginUser\<rparr>,
      \<lparr>rt_method = ''POST'', rt_path = ''/tokens/renew_access'', rt_authorized = False, rt_endpoint = EpRenewAccessToken\<rparr>,
      \<lparr>rt_method = ''POST'', rt_path = ''/accounts'', rt_authorized = True, rt_endpoint = EpCreateAccount\<rparr>,
      \<lparr>rt_method = ''GET'', rt_path = ''/accounts/:id'', rt_authorized = True, rt_endpoint = EpGetAccount\<rparr>,
      \<lparr>rt_method = ''GET'', rt_path = ''/accounts'', rt_authorized = True, rt_endpoint = EpListAccounts\<rparr>,
      \<lparr>rt_method = ''POST'', rt_path = ''/transfers'', rt_authorized = True, rt_endpoint = EpCreateTransfer\<rparr>]"

text \<open>A request that matched a route, with what binding its body, path or query decodes.\<close>

datatype rest_call =
    CallCreateUser "createUserRequest option"
  | CallLoginUser "loginUserRequest option"
  | CallRenewAccessToken "renewAccessTokenRequest option"
  | CallCreateAccount "createAccountRequest option"
  | CallGetAccount "getAccountRequest option"
  | CallListAccounts "listAccountRequest option"
  | CallCreateTransfer "transferRequest option"

fun call_endpoint :: "rest_call \<Rightarrow> endpoint" where
  "call_endpoint (CallCreateUser _) = EpCreateUser"
| "call_endpoint (CallLoginUser _) = EpLoginUser"
| "call_endpoint (CallRenewAccessToken _) = EpRenewAccessToken"
| "call_endpoint (CallCreateAccount _) = EpCreateAccount"
| "call_endpoint (CallGetAccount _) = EpGetAccount"
| "call_endpoint (CallListAccounts _) = EpListAccounts"
| "call_endpoint (CallCreateTransfer _) = EpCreateTransfer"

definition is_authorized_route :: "endpoint \<Rightarrow> bool" where
  "is_authorized_route ep \<longleftrightarrow> list_ex (\<lambda>r. rt_endpoint r = ep \<and> rt_authorized r) rest_routes"

text \<open>The handler of a call; \<open>None\<close> is the panic of \<open>MustGet\<close> where no middleware has run.\<close>

fun run_rest_handler ::
  "env \<Rightarrow> rest_server \<Rightarrow> rest_context \<Rightarrow> rest_call \<Rightarrow> payload option \<Rightarrow> rest_response io option" where
  "run_rest_handler E server ctx (CallCreateUser b) _ = Some (createUser E server b)"
| "run_rest_handler E server ctx (CallLoginUser b) _ = Some (loginUser E server ctx b)"
| "run_rest_handler E server ctx (CallRenewAccessToken b) _ = Some (renewAccessToken E server b)"
| "run_rest_handler E server ctx (CallCreateAccount b) p = map_option (\<lambda>p. createAccount E server p b) p"
| "run_rest_handler E server ctx (CallGetAccount b) p = map_option (\<lambda>p. getAccount E server p b) p"
| "run_rest_handler E server ctx (CallListAccounts b) p = map_option (\<lambda>p. listAccounts E server p b) p"
| "run_rest_handler E server ctx (CallCreateTransfer b) p = map_option (\<lambda>p. createTransfer E server p b) p"

text \<open>gin's default engine answers a panic with 500 and no body of the code's.\<close>

definition panic_response :: "rest_response io" where
  "panic_response = State_Monad.return \<lparr>rs_status = 500, rs_body = ErrorBody []\<rparr>"

definition serve_rest :: "env \<Rightarrow> rest_server \<Rightarrow> rest_context \<Rightarrow> rest_call \<Rightarrow> rest_response io" where
  "serve_rest E server ctx call =
     (if is_authorized_route (call_endpoint call)
      then authMiddleware E (rsv_tokenMaker server) ctx
             (\<lambda>p. case run_rest_handler E server ctx call (Some p) of None \<Rightarrow> panic_response | Some h \<Rightarrow> h)
      else (case run_rest_handler E server ctx call None of None \<Rightarrow> panic_response | Some h \<Rightarrow> h))"

end
