(* ===== verification/RestFrames.thy ===== *)
theory RestFrames
  imports RestApi
begin

section \<open>Every HTTP request keeps the data valid\<close>

text \<open>
  The frame rules of the HTTP handlers: the locale of a REST backend says what the handlers rely on, proves
  of every request that it keeps whatever relation the operations of the store keep, and is interpreted by the
  deployed server.
\<close>

lemma keeps_errorResponse [frame_intros]: "keeps P (errorResponse E code err)"
  by (simp add: errorResponse_def keeps_return)

lemma keeps_JSON_OK [frame_intros]: "keeps P (JSON_OK b)"
  by (simp add: JSON_OK_def keeps_return)

lemma keeps_panic [frame_intros]: "keeps P panic_response"
  by (simp add: panic_response_def keeps_return)

lemma since_only_tick: "only_tick w w' \<Longrightarrow> since d0 w \<Longrightarrow> since d0 w'"
  by (simp add: since_def only_tick_def world_ok_def)

text \<open>A relation that only the number of questions asked does not disturb.\<close>

definition tick_closed :: "(world \<Rightarrow> bool) \<Rightarrow> bool" where
  "tick_closed P \<longleftrightarrow> (\<forall>w w'. only_tick w w' \<longrightarrow> P w \<longrightarrow> P w')"

lemma keeps_tick_closed [frame_intros]:
  assumes "tick_closed P"
  shows "keeps P (ask f)" and "keeps P (Now E)" and "keeps P (HashPassword E pw)" and "keeps P (RandomString E n)"
proof -
  have P: "\<And>w w'. only_tick w w' \<Longrightarrow> P w \<Longrightarrow> P w'" using assms by (simp add: tick_closed_def)
  show "keeps P (ask f)" by (rule keeps_only_tick [OF _ P]) auto
  show "keeps P (Now E)" by (rule keeps_only_tick [OF _ P]) auto
  show "keeps P (HashPassword E pw)" by (rule keeps_only_tick [OF _ P]) (auto simp: HashPassword_def)
  have "only_tick w w'" if "run_state (random_chars E k) w = (cs, w')" for k w cs w'
    using random_chars_run [OF that] by simp
  then show "keeps P (RandomString E n)" by (intro keeps_only_tick [OF _ P]) (auto simp: RandomString_def)
qed

lemma tick_closed_since [simp]: "tick_closed (since d0)"
  by (auto simp: tick_closed_def intro: since_only_tick)

lemma tick_closed_outside [simp]: "tick_closed (outside ts ms)"
  by (simp add: tick_closed_def outside_def only_tick_def)

text \<open>The server of the HTTP API with its store and its token maker.\<close>

locale rest_backend = bank_store "rsv_store server" + token_maker E "rsv_tokenMaker server" sound
  for server :: rest_server and E :: env and sound :: bool
begin

lemma token_frames:
  "tick_closed P \<Longrightarrow> keeps P (CreateToken (rsv_tokenMaker server) u r d t)"
  "tick_closed P \<Longrightarrow> keeps P (VerifyToken (rsv_tokenMaker server) tok t)"
  by (simp_all add: tick_closed_def keeps_create keeps_verify)

lemmas handler_frames = frame_intros store_frames token_frames

text \<open>A relation that the operations of the store keep is kept by every request.\<close>

lemma keeps_createUser:
  assumes P: "tick_closed P"
    and S: "\<And>req h. ShouldBind E createUserRequest_tags b = Inr req \<Longrightarrow> keeps P (CreateUser (rsv_store server)
      \<lparr>cu_Username = cur_Username req, cu_HashedPassword = h, cu_FullName = cur_FullName req, cu_Email = cur_Email req\<rparr>)"
  shows "keeps P (createUser E server b)"
proof (cases "ShouldBind E createUserRequest_tags b")
  case (Inr req)
  show ?thesis unfolding createUser_def Inr sum.case by (intro frame_intros P S [OF Inr])
qed (simp add: createUser_def keeps_errorResponse)

lemma keeps_handlers:
  assumes P: "tick_closed P"
    and S: "\<And>u. keeps P (GetUser (rsv_store server) u)"
      "\<And>cs. keeps P (CreateSession (rsv_store server) cs)" "\<And>si. keeps P (GetSession (rsv_store server) si)"
      "\<And>ca. keeps P (CreateAccount (rsv_store server) ca)" "\<And>i. keeps P (GetAccount (rsv_store server) i)"
      "\<And>la. keeps P (ListAccounts (rsv_store server) la)" "\<And>tp. keeps P (st_TransferTx (rsv_store server) tp)"
  shows "keeps P (loginUser E server ctx b2)" "keeps P (renewAccessToken E server b3)"
    "keeps P (createAccount E server p b4)" "keeps P (getAccount E server p b5)" "keeps P (listAccounts E server p b6)"
    "keeps P (createTransfer E server p b7)"
  unfolding loginUser_def renewAccessToken_def createAccount_def getAccount_def listAccounts_def
    createTransfer_def validAccount_def
  by (intro frame_intros token_frames P S)+

lemma keeps_serve_call:
  assumes P: "tick_closed P" and C: "\<And>b. call = CallCreateUser b \<Longrightarrow> keeps P (createUser E server b)"
    and S: "\<And>u. keeps P (GetUser (rsv_store server) u)"
      "\<And>cs. keeps P (CreateSession (rsv_store server) cs)" "\<And>si. keeps P (GetSession (rsv_store server) si)"
      "\<And>ca. keeps P (CreateAccount (rsv_store server) ca)" "\<And>i. keeps P (GetAccount (rsv_store server) i)"
      "\<And>la. keeps P (ListAccounts (rsv_store server) la)" "\<And>tp. keeps P (st_TransferTx (rsv_store server) tp)"
  shows "keeps P (serve_rest E server ctx call)"
proof -
  have h: "keeps P h" if "run_rest_handler E server ctx call p = Some h" for p h
    using that by (cases call) (auto simp: keeps_handlers [OF P S] C)
  have c: "keeps P (case run_rest_handler E server ctx call p of None \<Rightarrow> panic_response | Some h \<Rightarrow> h)" for p
    by (cases "run_rest_handler E server ctx call p") (auto simp: h keeps_panic)
  show ?thesis unfolding serve_rest_def authMiddleware_def Let_def
    by (rule c | rule frame_intros token_frames P)+
qed

lemma keeps_serve:
  assumes P: "tick_closed P"
    and S: "\<And>cu. keeps P (CreateUser (rsv_store server) cu)" "\<And>u. keeps P (GetUser (rsv_store server) u)"
      "\<And>cs. keeps P (CreateSession (rsv_store server) cs)" "\<And>si. keeps P (GetSession (rsv_store server) si)"
      "\<And>ca. keeps P (CreateAccount (rsv_store server) ca)" "\<And>i. keeps P (GetAccount (rsv_store server) i)"
      "\<And>la. keeps P (ListAccounts (rsv_store server) la)" "\<And>tp. keeps P (st_TransferTx (rsv_store server) tp)"
  shows "keeps P (serve_rest E server ctx call)"
  by (intro keeps_serve_call keeps_createUser P S)

lemma keeps_serve_rest: "keeps (since d0) (serve_rest E server ctx call)"
  by (rule keeps_serve) (simp_all add: store_frames)

end

definition deployed_rest :: "env \<Rightarrow> Config \<Rightarrow> rest_server" where
  "deployed_rest E config =
     \<lparr>rsv_config = config, rsv_store = SQLStore E, rsv_tokenMaker = PasetoMaker E (TokenSymmetricKey config)\<rparr>"

lemma deployed_rest_simps [simp]: "rsv_config (deployed_rest E config) = config"
  "rsv_store (deployed_rest E config) = SQLStore E"
  "rsv_tokenMaker (deployed_rest E config) = PasetoMaker E (TokenSymmetricKey config)"
  by (simp_all add: deployed_rest_def)

text \<open>What \<open>main\<close> deploys is what \<open>NewServer\<close> returns on the SQL store.\<close>

lemma NewRestServer_deployed:
  "NewRestServer E config (SQLStore E) =
     (if length (TokenSymmetricKey config) = 32 then Inr (deployed_rest E config)
      else Inl (Wrap ''cannot create token maker: '' (Plain ''invalid key size: must be exactly 32 characters'')))"
  by (simp add: NewRestServer_def NewPasetoMaker_def deployed_rest_def KeySize_def)

interpretation rest: rest_backend "deployed_rest E config" E "paseto_ok E" for E config
  by (intro rest_backend.intro) (simp_all add: sql_store.bank_store_axioms paseto.token_maker_axioms)

end
