(* ===== verification/Ledger.thy ===== *)
theory Ledger
  imports TransferProps RestFrames
begin

section \<open>Who moves money\<close>

text \<open>
  Of all the operations of the store only \<open>CreateAccount\<close> and \<open>TransferTx\<close> touch accounts, entries or
  transfers. The locale \<open>ledger_store\<close> states this of a store; with it, the effect of any HTTP request
  on the ledger is one of three, and the last needs the token of the account's owner.
\<close>

definition ledger_is :: "database \<Rightarrow> world \<Rightarrow> bool" where
  "ledger_is d w \<longleftrightarrow> accounts (db w) = accounts d \<and> entries (db w) = entries d \<and> transfers (db w) = transfers d"

lemma ledger_is_refl [simp]: "ledger_is (db w) w"
  by (simp add: ledger_is_def)

lemma ledger_is_update [simp]: "ledger_is d (w\<lparr>tick := n\<rparr>) = ledger_is d w"
  "ledger_is d (w\<lparr>queue := q\<rparr>) = ledger_is d w" "ledger_is d (w\<lparr>outbox := m\<rparr>) = ledger_is d w"
  by (simp_all add: ledger_is_def)

lemma tick_closed_ledger [simp]: "tick_closed (ledger_is d)"
  by (simp add: tick_closed_def ledger_is_def only_tick_def)

definition account_opened :: "gostring \<Rightarrow> gostring \<Rightarrow> database \<Rightarrow> database \<Rightarrow> bool" where
  "account_opened who cur d d' \<longleftrightarrow> (\<exists>a. accounts d' = accounts d @ [a] \<and> a_Owner a = who \<and> a_Currency a = cur \<and>
     a_Balance a = 0 \<and> a_ID a \<notin> account_ids d) \<and> entries d' = entries d \<and> transfers d' = transfers d"

definition owner_is :: "gostring \<Rightarrow> int64 \<Rightarrow> database \<Rightarrow> bool" where
  "owner_is who i d \<longleftrightarrow> (\<exists>a \<in> set (accounts d). a_ID a = i \<and> a_Owner a = who)"

definition same_currency :: "int64 \<Rightarrow> int64 \<Rightarrow> database \<Rightarrow> bool" where
  "same_currency i j d \<longleftrightarrow>
     (\<exists>a \<in> set (accounts d). \<exists>b \<in> set (accounts d). a_ID a = i \<and> a_ID b = j \<and> a_Currency a = a_Currency b)"

text \<open>The three things that can happen to the ledger.\<close>

definition ledger_effect :: "gostring option \<Rightarrow> database \<Rightarrow> database \<Rightarrow> bool" where
  "ledger_effect user d d' \<longleftrightarrow>
     accounts d' = accounts d \<and> entries d' = entries d \<and> transfers d' = transfers d
   \<or> (\<exists>who. user = Some who \<and>
        ((\<exists>cur. IsSupportedCurrency cur \<and> account_opened who cur d d') \<or>
         (\<exists>arg. transferred arg d d' \<and> 0 < sint (tp_Amount arg) \<and> owner_is who (tp_FromAccountID arg) d \<and>
            same_currency (tp_FromAccountID arg) (tp_ToAccountID arg) d)))"

lemma ledger_effect_same: "ledger_is d w \<Longrightarrow> ledger_effect user d (db w)"
  by (simp add: ledger_effect_def ledger_is_def)

subsection \<open>The statements that leave the ledger alone\<close>

definition off_ledger :: "'a stmt \<Rightarrow> bool" where
  "off_ledger st \<longleftrightarrow> (\<forall>now d. accounts (snd (st now d)) = accounts d \<and> entries (snd (st now d)) = entries d \<and>
     transfers (snd (st now d)) = transfers d)"

lemma off_ledger_stmts:
  "off_ledger (sql_GetAccount i)" "off_ledger (sql_ListAccounts la)" "off_ledger (sql_GetUser u)"
  "off_ledger (sql_GetSession s)" "off_ledger (sql_CreateUser cu)" "off_ledger (sql_UpdateUser uu)"
  "off_ledger (sql_CreateSession cs)" "off_ledger (sql_CreateVerifyEmail cv)" "off_ledger (sql_UpdateVerifyEmail uv)"
  by (simp_all add: off_ledger_def sql_GetAccount_def sql_ListAccounts_def sql_GetUser_def sql_GetSession_def
      sql_CreateUser_def sql_UpdateUser_def sql_CreateSession_def sql_CreateVerifyEmail_def
      sql_UpdateVerifyEmail_def Let_def split: sum.splits option.splits)

lemma ledger_run_query:
  assumes "off_ledger st"
  shows "keeps (ledger_is d) (run_query E q st)"
proof (rule keepsI)
  fix w r w'
  assume "run_state (run_query E q st) w = (r, w')" and w: "ledger_is d w"
  then obtain now x d1 where "st now (db w) = (x, d1)"
    and "w' = w\<lparr>tick := Suc (tick w), db := d1\<rparr> \<or> w' = w\<lparr>tick := Suc (tick w)\<rparr>"
    by (metis run_query_cases)
  moreover have "accounts (snd (st now (db w))) = accounts (db w) \<and> entries (snd (st now (db w))) = entries (db w) \<and>
      transfers (snd (st now (db w))) = transfers (db w)"
    using assms by (simp add: off_ledger_def)
  ultimately show "ledger_is d w'" using w by (auto simp: ledger_is_def)
qed

lemma ledger_queries [frame_intros]:
  "keeps (ledger_is d) (q_GetAccount E q i)" "keeps (ledger_is d) (q_ListAccounts E q la)"
  "keeps (ledger_is d) (q_GetUser E q u)" "keeps (ledger_is d) (q_GetSession E q s)"
  "keeps (ledger_is d) (q_CreateUser E q cu)" "keeps (ledger_is d) (q_UpdateUser E q uu)"
  "keeps (ledger_is d) (q_CreateSession E q cs)" "keeps (ledger_is d) (q_CreateVerifyEmail E q cv)"
  "keeps (ledger_is d) (q_UpdateVerifyEmail E q uv)"
  by (simp_all add: query_defs ledger_run_query off_ledger_stmts)

lemma ledger_execTx:
  assumes "\<And>q. keeps (ledger_is d) (fn q)"
  shows "keeps (ledger_is d) (execTx E fn)"
proof (rule keepsI)
  fix w r w'
  assume run: "run_state (execTx E fn) w = (r, w')" and w: "ledger_is d w"
  have fn: "ledger_is d w2" if "run_state (fn q) (w\<lparr>tick := Suc (tick w)\<rparr>) = (x, w2)" for q x w2
    using keepsD [OF assms that] w by simp
  from run show "ledger_is d w'"
    by (cases rule: execTx_cases) (use w fn in \<open>auto simp: ledger_is_def rollback_to_def\<close>)
qed

lemma ledger_txs [frame_intros]:
  "(\<And>u. keeps (ledger_is d) (after u)) \<Longrightarrow> keeps (ledger_is d) (CreateUserTx E cu after)"
  "keeps (ledger_is d) (VerifyEmailTx E vp)"
  unfolding CreateUserTx_def VerifyEmailTx_def by (intro ledger_execTx frame_intros; assumption?)+

lemma CreateAccount_ledger:
  assumes "world_ok w" and "run_state (q_CreateAccount E q arg) w = (r, w')" and "ca_Balance arg = 0"
  shows "ledger_is (db w) w' \<or> account_opened (ca_Owner arg) (ca_Currency arg) (db w) (db w')"
proof -
  from assms(2) obtain now x d where st: "sql_CreateAccount arg now (db w) = (x, d)"
    and w': "db w' = d \<or> db w' = db w"
    unfolding q_CreateAccount_def by (rule run_query_cases) auto
  have "accounts d = accounts (db w) \<and> entries d = entries (db w) \<and> transfers d = transfers (db w) \<or>
      account_opened (ca_Owner arg) (ca_Currency arg) (db w) d"
    using st assms(3)
    by (auto simp: sql_CreateAccount_def Let_def account_opened_def list_ex_iff account_ids_def split: if_splits) blast
  with w' show ?thesis by (auto simp: ledger_is_def)
qed

subsection \<open>Reads\<close>

definition db_is :: "database \<Rightarrow> world \<Rightarrow> bool" where
  "db_is d w \<longleftrightarrow> db w = d"

lemma tick_closed_db [simp]: "tick_closed (db_is d)"
  by (simp add: tick_closed_def db_is_def only_tick_def)

lemma keeps_db_eq:
  assumes "\<And>d. keeps (db_is d) m" and "run_state m w = (r, w')"
  shows "db w' = db w"
  using keepsD [OF assms, of "db w"] by (simp add: db_is_def)

lemma keeps_db_ledger:
  assumes "\<And>d. keeps (db_is d) m"
  shows "keeps (ledger_is d0) m"
  by (rule keepsI) (simp add: ledger_is_def keeps_db_eq [OF assms])

lemma db_run_query:
  assumes "\<And>now d. snd (st now d) = d"
  shows "keeps (db_is d0) (run_query E q st)"
proof (rule keepsI)
  fix w r w'
  assume run: "run_state (run_query E q st) w = (r, w')" and w: "db_is d0 w"
  from run obtain now x d where st: "st now (db w) = (x, d)" and w': "db w' = d \<or> db w' = db w"
    by (rule run_query_cases) auto
  from st assms [of now "db w"] have "d = db w" by simp
  with w w' show "db_is d0 w'" by (auto simp: db_is_def)
qed

lemma db_reads [frame_intros]:
  "keeps (db_is d) (q_GetAccount E q i)" "keeps (db_is d) (q_ListAccounts E q la)"
  "keeps (db_is d) (q_GetUser E q u)" "keeps (db_is d) (q_GetSession E q s)"
  unfolding query_defs
  by (rule db_run_query, simp add: sql_GetAccount_def sql_ListAccounts_def sql_GetUser_def sql_GetSession_def)+

subsection \<open>The contract of a store with a ledger\<close>

locale ledger_store = bank_store S for S :: store +
  assumes reads: "keeps (db_is d) (GetAccount S i)" "keeps (db_is d) (ListAccounts S la)"
      "keeps (db_is d) (GetUser S u)" "keeps (db_is d) (GetSession S si)"
    and ledger_writes: "keeps (ledger_is d) (CreateUser S cu)" "keeps (ledger_is d) (UpdateUser S uu)"
      "keeps (ledger_is d) (CreateSession S cs)" "keeps (ledger_is d) (CreateVerifyEmail S cv)"
      "keeps (ledger_is d) (st_VerifyEmailTx S vp)"
    and ledger_st_CreateUserTx: "(\<And>u. keeps (ledger_is d) (after u)) \<Longrightarrow> keeps (ledger_is d) (st_CreateUserTx S cu after)"
    and CreateAccount_effect: "world_ok w \<Longrightarrow> ca_Balance ca = 0 \<Longrightarrow> run_state (CreateAccount S ca) w = (ra, w') \<Longrightarrow>
      ledger_is (db w) w' \<or> account_opened (ca_Owner ca) (ca_Currency ca) (db w) (db w')"
    and TransferTx_effect: "world_ok w \<Longrightarrow> 0 < sint (tp_Amount tp) \<Longrightarrow> run_state (st_TransferTx S tp) w = (rt, w') \<Longrightarrow>
      ledger_is (db w) w' \<or> transferred tp (db w) (db w')"
    and GetAccount_row: "world_ok w \<Longrightarrow> run_state (GetAccount S i) w = (Inr a, w') \<Longrightarrow>
      a \<in> set (accounts (db w)) \<and> a_ID a = i"
begin

lemmas ledger_reads = reads [THEN keeps_db_ledger]

end

interpretation sql_ledger: ledger_store "SQLStore E"
proof
  fix w w' and i and a :: account and tp rt
  show "world_ok w \<Longrightarrow> 0 < sint (tp_Amount tp) \<Longrightarrow> run_state (st_TransferTx (SQLStore E) tp) w = (rt, w') \<Longrightarrow>
      ledger_is (db w) w' \<or> transferred tp (db w) (db w')"
    using transfer_run [of w tp E rt w'] sint_neg_pos [of "tp_Amount tp"]
    by (auto simp: SQLStore_def world_ok_def ledger_is_def same_rows_def)
  show "world_ok w \<Longrightarrow> run_state (GetAccount (SQLStore E) i) w = (Inr a, w') \<Longrightarrow>
      a \<in> set (accounts (db w)) \<and> a_ID a = i"
    by (auto simp: SQLStore_def q_GetAccount_def sql_GetAccount_def elim!: run_query_InrE dest: read_row_Inr_in)
qed (simp_all add: SQLStore_def frame_intros CreateAccount_ledger)

subsection \<open>The HTTP API on the ledger\<close>

text \<open>Whom a request authenticates: the user of the access token in its authorization header.\<close>

definition authenticated_as :: "maker \<Rightarrow> rest_context \<Rightarrow> world \<Rightarrow> gostring option" where
  "authenticated_as M ctx w =
     (let fields = Fields (cx_authorization ctx) in
      if length fields < 2 \<or> ToLower (fields ! 0) \<noteq> authorizationTypeBearer then None
      else (case fst (run_state (VerifyToken M (fields ! 1) TokenTypeAccessToken) w) of
              Inl _ \<Rightarrow> None
            | Inr p \<Rightarrow> Some (p_Username p)))"

lemma run_errorResponse [simp]:
  "run_state (errorResponse E code err) w = (\<lparr>rs_status = code, rs_body = ErrorBody (error_text (driver_text E) err)\<rparr>, w)"
  by (simp add: errorResponse_def)

lemma run_JSON_OK [simp]: "run_state (JSON_OK b) w = (\<lparr>rs_status = 200, rs_body = b\<rparr>, w)"
  by (simp add: JSON_OK_def)

lemma ShouldBind_InrD: "ShouldBind E tags body = Inr r \<Longrightarrow>
    body = Some r \<and> list_all (\<lambda>(ts, v). list_all (\<lambda>t. tag_holds E t v) ts) (tags r)"
  by (auto simp: ShouldBind_def split: option.splits if_splits)

lemma transfer_bound:
  "binding_ok E \<Longrightarrow> ShouldBind E transferRequest_tags body = Inr r \<Longrightarrow>
     1 \<le> sint (trr_FromAccountID r) \<and> 1 \<le> sint (trr_ToAccountID r) \<and> 0 < sint (trr_Amount r) \<and>
     IsSupportedCurrency (trr_Currency r)"
  by (auto dest!: ShouldBind_InrD simp: transferRequest_tags_def tag_holds_def binding_ok_def)

locale rest_ledger = rest_backend server E sound + ledger_store "rsv_store server"
  for server :: rest_server and E :: env and sound :: bool
begin

lemmas ledger_frames = frame_intros ledger_reads ledger_writes token_frames tick_closed_ledger

lemma quiet_handlers:
  "keeps (ledger_is d) (createUser E server b1)" "keeps (ledger_is d) (loginUser E server ctx b2)"
  "keeps (ledger_is d) (renewAccessToken E server b3)" "keeps (ledger_is d) (getAccount E server p b4)"
  "keeps (ledger_is d) (listAccounts E server p b5)"
  unfolding createUser_def loginUser_def renewAccessToken_def getAccount_def listAccounts_def
  by (intro ledger_frames)+

lemmas quiet_runs = quiet_handlers [THEN keepsD, OF _ ledger_is_refl]

lemma createAccount_effect:
  assumes ok: "world_ok w" and run: "run_state (createAccount E server p b) w = (rsp, w')"
  shows "ledger_effect (Some (p_Username p)) (db w) (db w')"
proof (cases "ShouldBind E createAccountRequest_tags b")
  case (Inl err)
  with run show ?thesis by (simp add: createAccount_def ledger_effect_def)
next
  case (Inr req)
  let ?ca = "\<lparr>ca_Owner = p_Username p, ca_Balance = 0, ca_Currency = car_Currency req\<rparr>"
  obtain r w1 where c: "run_state (CreateAccount (rsv_store server) ?ca) w = (r, w1)" by fastforce
  have "w' = w1" using run Inr c by (auto simp: createAccount_def run_caseE split: sum.splits if_splits)
  moreover have "IsSupportedCurrency (car_Currency req)"
    using ShouldBind_InrD [OF Inr] by (simp add: createAccountRequest_tags_def tag_holds_def)
  ultimately show ?thesis using CreateAccount_effect [OF ok _ c] by (auto simp: ledger_effect_def ledger_is_def)
qed

lemma validAccount_InrD:
  assumes "world_ok w" and "run_state (validAccount E server i cur) w = (Inr a, w')"
  shows "a \<in> set (accounts (db w)) \<and> a_ID a = i \<and> a_Currency a = cur"
  using assms(2) GetAccount_row [OF assms(1)]
  by (auto simp: validAccount_def run_caseE split: prod.splits sum.splits if_splits)

lemma db_validAccount: "keeps (db_is d) (validAccount E server i cur)"
  unfolding validAccount_def by (intro frame_intros reads keeps_errorResponse)

lemma since_validAccount: "keeps (since d) (validAccount E server i cur)"
  unfolding validAccount_def by (intro handler_frames keeps_errorResponse)

lemma createTransfer_effect:
  assumes ok: "world_ok w" and bind: "binding_ok E"
    and run: "run_state (createTransfer E server p b) w = (rsp, w')"
  shows "ledger_is (db w) w' \<or>
     (\<exists>req. ShouldBind E transferRequest_tags b = Inr req \<and>
        transferred \<lparr>tp_FromAccountID = trr_FromAccountID req, tp_ToAccountID = trr_ToAccountID req,
          tp_Amount = trr_Amount req\<rparr> (db w) (db w') \<and>
        owner_is (p_Username p) (trr_FromAccountID req) (db w) \<and>
        same_currency (trr_FromAccountID req) (trr_ToAccountID req) (db w))"
proof (cases "ShouldBind E transferRequest_tags b")
  case (Inl err)
  with run show ?thesis by (simp add: createTransfer_def)
next
  case (Inr req)
  let ?tp = "\<lparr>tp_FromAccountID = trr_FromAccountID req, tp_ToAccountID = trr_ToAccountID req, tp_Amount = trr_Amount req\<rparr>"
  let ?va = "\<lambda>i. validAccount E server i (trr_Currency req)"
  obtain r1 w1 where 1: "run_state (?va (trr_FromAccountID req)) w = (r1, w1)" by fastforce
  obtain r2 w2 where 2: "run_state (?va (trr_ToAccountID req)) w1 = (r2, w2)" by fastforce
  obtain r3 w3 where 3: "run_state (st_TransferTx (rsv_store server) ?tp) w2 = (r3, w3)" by fastforce
  have l1: "db w1 = db w" by (rule keeps_db_eq [OF db_validAccount 1])
  have l2: "db w2 = db w" using keeps_db_eq [OF db_validAccount 2] l1 by simp
  have ok2: "world_ok w2"
    using keepsD [OF keeps_since_world_ok [OF since_validAccount] 1 ok]
      keepsD [OF keeps_since_world_ok [OF since_validAccount] 2] by blast
  from run Inr 1 2 3 consider "w' = w1" | "w' = w2"
    | a b where "r1 = Inr a" "a_Owner a = p_Username p" "r2 = Inr b" "w' = w3"
    by (auto simp: createTransfer_def run_caseE split: sum.splits if_splits)
  then show ?thesis
  proof cases
    case (3 a b)
    have ok1: "world_ok w1" by (rule keepsD [OF keeps_since_world_ok [OF since_validAccount] 1 ok])
    have "same_currency (trr_FromAccountID req) (trr_ToAccountID req) (db w)"
      using validAccount_InrD [OF ok 1 [unfolded 3(1)]] validAccount_InrD [OF ok1 2 [unfolded 3(3)]] l1
      unfolding same_currency_def by metis
    moreover have "owner_is (p_Username p) (trr_FromAccountID req) (db w)"
      using validAccount_InrD [OF ok 1 [unfolded 3(1)]] 3(2) by (auto simp: owner_is_def)
    moreover have "0 < sint (tp_Amount ?tp)" using transfer_bound [OF bind Inr] by simp
    from TransferTx_effect [OF ok2 this \<open>run_state (st_TransferTx _ _) w2 = _\<close>] 3(4) l2
    have "ledger_is (db w) w' \<or> transferred ?tp (db w) (db w')" by simp
    ultimately show ?thesis using Inr by blast
  qed (use l1 l2 in \<open>simp_all add: ledger_is_def\<close>)
qed

lemma handler_effect:
  assumes ok: "world_ok w" and bind: "binding_ok E"
    and h: "run_rest_handler E server ctx call (Some p) = Some h" and run: "run_state h w = (rsp, w')"
  shows "ledger_effect (Some (p_Username p)) (db w) (db w')"
proof (cases call)
  case (CallCreateAccount b)
  with h run show ?thesis using createAccount_effect [OF ok] by auto
next
  case (CallCreateTransfer b)
  with h run have "run_state (createTransfer E server p b) w = (rsp, w')" by simp
  from createTransfer_effect [OF ok bind this] show ?thesis
    using transfer_bound [OF bind] by (fastforce simp: ledger_effect_def ledger_is_def)
qed (use h run in \<open>auto intro!: ledger_effect_same dest: quiet_runs\<close>)

lemma serve_rest_effect:
  assumes ok: "world_ok w" and bind: "binding_ok E" and run: "run_state (serve_rest E server ctx call) w = (rsp, w')"
  shows "ledger_effect (authenticated_as (rsv_tokenMaker server) ctx w) (db w) (db w')"
proof (cases "is_authorized_route (call_endpoint call)")
  case False
  with run show ?thesis
    by (cases call) (auto simp: serve_rest_def is_authorized_route_def rest_routes_def intro!: ledger_effect_same
        dest: quiet_runs)
next
  case True
  let ?fs = "Fields (cx_authorization ctx)"
  obtain r w1 where v: "run_state (VerifyToken (rsv_tokenMaker server) (?fs ! 1) TokenTypeAccessToken) w = (r, w1)"
    by fastforce
  have w1: "only_tick w w1" by (rule verify_only_tick [OF v])
  show ?thesis
  proof (cases "length ?fs < 2 \<or> ToLower (?fs ! 0) \<noteq> authorizationTypeBearer \<or> isl r")
    case True
    with run v w1 \<open>is_authorized_route _\<close> show ?thesis
      by (auto simp: serve_rest_def authMiddleware_def Let_def isl_def run_caseE ledger_effect_def only_tick_def
          split: if_splits)
  next
    case False
    then obtain p where p: "r = Inr p" by (cases r) auto
    obtain h where h: "run_rest_handler E server ctx call (Some p) = Some h" by (cases call) auto
    have "run_state h w1 = (rsp, w')"
      using run v p h False \<open>is_authorized_route _\<close>
      by (auto simp: serve_rest_def authMiddleware_def Let_def run_caseE split: if_splits)
    moreover have "world_ok w1" by (rule world_ok_only_tick [OF w1 ok])
    ultimately have "ledger_effect (Some (p_Username p)) (db w1) (db w')" using handler_effect [OF _ bind h] by blast
    with w1 p v False show ?thesis by (simp add: authenticated_as_def Let_def only_tick_def)
  qed
qed

end

interpretation rest_money: rest_ledger "deployed_rest E config" E "paseto_ok E" for E config
  by (intro rest_ledger.intro) (simp_all add: rest.rest_backend_axioms sql_ledger.ledger_store_axioms)

lemma loss_is_the_owners:
  assumes ok: "schema_ok d" and eff: "ledger_effect user d d'"
    and a: "a \<in> set (accounts d)" and a': "a' \<in> set (accounts d')" and i: "a_ID a' = a_ID a"
    and loss: "sint (a_Balance a') < sint (a_Balance a)"
  shows "user = Some (a_Owner a)"
proof -
  have ids: "distinct (map a_ID (accounts d))" using ok by (auto simp: schema_ok_def dest: serial_distinct)
  have "a' \<notin> set (accounts d)" using distinct_key_eq [OF ids _ a i] loss by auto
  with eff a' i a obtain who arg where user: "user = Some who" and tr: "transferred arg d d'"
    and pos: "0 < sint (tp_Amount arg)" and own: "owner_is who (tp_FromAccountID arg) d"
    by (auto simp: ledger_effect_def account_opened_def account_ids_def)
  from tr a' obtain b where b: "b \<in> set (accounts d)" "a' = credit arg b" by (auto simp: transferred_def)
  have "b = a" using distinct_key_eq [OF ids b(1) a] b(2) i by simp
  with b tr have "sint (a_Balance a') = sint (a_Balance a) + amount_to arg (a_ID a)"
    by (simp add: transferred_def sint_credit)
  with loss pos have "a_ID a = tp_FromAccountID arg" by (auto simp: amount_to_def split: if_splits)
  with own user show ?thesis using distinct_key_eq [OF ids _ a] by (auto simp: owner_is_def)
qed

end
