(* ===== verification/GapiFrames.thy ===== *)
theory GapiFrames
  imports Gapi Ledger
begin

section \<open>Every gRPC call and every task keeps the data valid and leaves the ledger alone\<close>

text \<open>
  The frame rules of the gRPC API and of the worker: the locale \<open>grpc_backend\<close> says what the handlers rely
  on (a store, a token maker, a distributor), and proves of every call that it keeps the constraints of
  the database and the ledger; its interpretation is the deployed server.
\<close>

text \<open>A relation that the queue, the mail and the count of questions do not disturb: one on the database.\<close>

definition on_db :: "(world \<Rightarrow> bool) \<Rightarrow> bool" where
  "on_db P \<longleftrightarrow> (\<forall>w w'. db w' = db w \<longrightarrow> P w \<longrightarrow> P w')"

lemma on_db_tick: "on_db P \<Longrightarrow> tick_closed P"
  by (simp add: on_db_def tick_closed_def only_tick_def)

lemma on_db_intros [simp]: "on_db (since d0)" "on_db (ledger_is d)" "on_db (db_is d)" "on_db world_ok"
  by (auto simp: on_db_def since_def world_ok_def ledger_is_def db_is_def)

lemma keeps_same_db:
  assumes "on_db P" and "\<And>w r w'. run_state m w = (r, w') \<Longrightarrow> db w' = db w"
  shows "keeps P m"
  by (rule keepsI) (use assms in \<open>auto simp: on_db_def\<close>)

lemma keeps_enqueue: "on_db P \<Longrightarrow> keeps P (enqueue E t)"
  by (erule keeps_same_db) (auto simp: enqueue_def Let_def split: fault.splits)

lemma keeps_distribute: "on_db P \<Longrightarrow> keeps P (DistributeTaskSendVerifyEmail E payload opts)"
  unfolding DistributeTaskSendVerifyEmail_def by (intro frame_intros keeps_enqueue)

lemma keeps_SendEmail: "on_db P \<Longrightarrow> keeps P (SendEmail E sender s c t cc bcc fs)"
  unfolding SendEmail_def
  by (intro frame_intros, erule keeps_same_db) (auto simp: smtp_send_def Let_def split: fault.splits)

locale grpc_backend = ledger_store "gsv_store server" + token_maker E "gsv_tokenMaker server" sound
  for server :: grpc_server and E :: env and sound :: bool +
  assumes distributor_db: "on_db P \<Longrightarrow> keeps P (gsv_taskDistributor server task opts)"
begin

lemma grpc_token_frames:
  "on_db P \<Longrightarrow> keeps P (CreateToken (gsv_tokenMaker server) u r d t)"
  "on_db P \<Longrightarrow> keeps P (VerifyToken (gsv_tokenMaker server) tok t)"
  "on_db P \<Longrightarrow> keeps P (Now E)" "on_db P \<Longrightarrow> keeps P (HashPassword E pw)"
  by (rule keeps_create, simp add: on_db_def only_tick_def) (rule keeps_verify, simp add: on_db_def only_tick_def,
      simp_all add: keeps_tick_closed on_db_tick)

lemma keeps_authorizeUser: "on_db P \<Longrightarrow> keeps P (authorizeUser E server ctx roles)"
  unfolding authorizeUser_def Let_def
  by (intro frame_intros grpc_token_frames)

text \<open>The handlers, for a relation the operations of the store keep.\<close>

lemma keeps_rpc_CreateUser:
  assumes P: "on_db P"
    and S: "\<And>cu after. (\<And>u Q. on_db Q \<Longrightarrow> keeps Q (after u)) \<Longrightarrow>
         keeps P (st_CreateUserTx (gsv_store server) cu after)"
  shows "keeps P (rpc_CreateUser E server r)"
  unfolding rpc_CreateUser_def Let_def
  by (intro frame_intros grpc_token_frames on_db_tick [OF P] S distributor_db; assumption)

text \<open>The two that write users, where only what was validated has to be kept.\<close>

lemma keeps_valid_CreateUser:
  assumes P: "on_db P"
    and S: "\<And>h after. validateCreateUserRequest E r = [] \<Longrightarrow> (\<And>u Q. on_db Q \<Longrightarrow> keeps Q (after u)) \<Longrightarrow>
      keeps P (st_CreateUserTx (gsv_store server)
        \<lparr>cu_Username = gcu_Username r, cu_HashedPassword = h, cu_FullName = gcu_FullName r, cu_Email = gcu_Email r\<rparr> after)"
  shows "keeps P (rpc_CreateUser E server r)"
  unfolding rpc_CreateUser_def Let_def
  by (intro frame_intros grpc_token_frames on_db_tick [OF P] S distributor_db; assumption?; simp)

lemma keeps_valid_UpdateUser:
  assumes P: "on_db P"
    and S: "\<And>h t. validateUpdateUserRequest E r = [] \<Longrightarrow> keeps P (UpdateUser (gsv_store server) (update_arg r h t))"
  shows "keeps P (rpc_UpdateUser E server ctx r)"
  unfolding rpc_UpdateUser_def update_stored_user_def Let_def
  by (intro frame_intros grpc_token_frames on_db_tick [OF P] keeps_authorizeUser P S; simp)

lemma keeps_rpc_LoginUser:
  assumes P: "on_db P"
    and S: "\<And>u. keeps P (GetUser (gsv_store server) u)" "\<And>cs. keeps P (CreateSession (gsv_store server) cs)"
  shows "keeps P (rpc_LoginUser E server ctx r)"
  unfolding rpc_LoginUser_def Let_def by (intro frame_intros grpc_token_frames P S)

lemma keeps_rpc_VerifyEmail:
  "(\<And>vp. keeps P (st_VerifyEmailTx (gsv_store server) vp)) \<Longrightarrow> keeps P (rpc_VerifyEmail E server r)"
  unfolding rpc_VerifyEmail_def Let_def by (intro frame_intros)

lemma keeps_rpc_UpdateUser:
  assumes P: "on_db P" and S: "\<And>uu. keeps P (UpdateUser (gsv_store server) uu)"
  shows "keeps P (rpc_UpdateUser E server ctx r)"
  unfolding rpc_UpdateUser_def update_stored_user_def Let_def
  by (intro frame_intros grpc_token_frames on_db_tick [OF P] keeps_authorizeUser P S)

lemma keeps_serve_grpc:
  "on_db P \<Longrightarrow> keeps P (grpc_handler E server ctx call) \<Longrightarrow> keeps P (serve_grpc E server ctx call)"
  unfolding serve_grpc_def GrpcLogger_def by (intro frame_intros grpc_token_frames)

lemma keeps_grpc_handler:
  assumes P: "on_db P"
    and S: "\<And>u. keeps P (GetUser (gsv_store server) u)" "\<And>uu. keeps P (UpdateUser (gsv_store server) uu)"
      "\<And>cs. keeps P (CreateSession (gsv_store server) cs)" "\<And>vp. keeps P (st_VerifyEmailTx (gsv_store server) vp)"
      "\<And>cu after. (\<And>u Q. on_db Q \<Longrightarrow> keeps Q (after u)) \<Longrightarrow> keeps P (st_CreateUserTx (gsv_store server) cu after)"
  shows "keeps P (grpc_handler E server ctx call)" and "keeps P (serve_grpc E server ctx call)"
proof -
  show h: "keeps P (grpc_handler E server ctx call)"
    by (cases call) (simp_all add: map_response_def keeps_caseE keeps_return keeps_rpc_CreateUser [OF P S(5)]
        keeps_rpc_LoginUser [OF P S(1,3)] keeps_rpc_UpdateUser [OF P S(2)] keeps_rpc_VerifyEmail [OF S(4)])
  then show "keeps P (serve_grpc E server ctx call)" by (rule keeps_serve_grpc [OF P])
qed

lemma keeps_grpc_calls: "keeps (since d0) (grpc_handler E server ctx call)" "keeps (since d0) (serve_grpc E server ctx call)"
  by (rule keeps_grpc_handler; auto intro!: store_frames)+

lemma ledger_grpc_calls: "keeps (ledger_is d) (grpc_handler E server ctx call)" "keeps (ledger_is d) (serve_grpc E server ctx call)"
  by (rule keeps_grpc_handler; auto intro!: ledger_reads ledger_writes ledger_st_CreateUserTx)+

lemma keeps_process:
  assumes "\<And>P s c t cc bcc fs. on_db P \<Longrightarrow> keeps P (mailer s c t cc bcc fs)"
  shows "keeps (since d0) (ProcessTaskSendVerifyEmail E (gsv_store server) mailer t)"
    and "keeps (ledger_is d) (ProcessTaskSendVerifyEmail E (gsv_store server) mailer t)"
  unfolding ProcessTaskSendVerifyEmail_def
  by (intro frame_intros store_frames assms on_db_intros tick_closed_since,
      intro frame_intros ledger_reads ledger_writes assms on_db_intros tick_closed_ledger)

end

definition deployed_grpc :: "env \<Rightarrow> Config \<Rightarrow> grpc_server" where
  "deployed_grpc E config =
     \<lparr>gsv_config = config, gsv_store = SQLStore E, gsv_tokenMaker = PasetoMaker E (TokenSymmetricKey config),
      gsv_taskDistributor = DistributeTaskSendVerifyEmail E\<rparr>"

lemma deployed_grpc_simps [simp]: "gsv_config (deployed_grpc E config) = config"
  "gsv_store (deployed_grpc E config) = SQLStore E"
  "gsv_tokenMaker (deployed_grpc E config) = PasetoMaker E (TokenSymmetricKey config)"
  "gsv_taskDistributor (deployed_grpc E config) = DistributeTaskSendVerifyEmail E"
  by (simp_all add: deployed_grpc_def)

interpretation grpc: grpc_backend "deployed_grpc E config" E "paseto_ok E" for E config
  by (intro grpc_backend.intro grpc_backend_axioms.intro)
    (simp_all add: sql_ledger.ledger_store_axioms paseto.token_maker_axioms keeps_distribute)

end
