(* ===== verification/Users.thy ===== *)
theory Users
  imports GapiFrames
begin

section \<open>How user rows change\<close>

text \<open>
  Between two states of the database every user keeps the name and the role, the profile (password,
  name, address, time of the last password change) changes only for names that \<open>A\<close> allows, and users
  that are new are depositors. The relation is transitive, so it is kept as an invariant relative to a
  start \<open>d0\<close>.
\<close>

subsection \<open>Properties of the users' rows\<close>

text \<open>A property of the database that depends on the rows of the users only is kept by every query that leaves
  them alone; for the others it has to be kept by the statement.\<close>

definition about_users :: "(database \<Rightarrow> bool) \<Rightarrow> bool" where
  "about_users Q \<longleftrightarrow> (\<forall>d d'. users d' = users d \<longrightarrow> Q d \<longrightarrow> Q d')"

definition preserves :: "(database \<Rightarrow> bool) \<Rightarrow> 'a stmt \<Rightarrow> bool" where
  "preserves Q st \<longleftrightarrow> (\<forall>now d. Q d \<longrightarrow> Q (snd (st now d)))"

lemma preserves_same: "about_users Q \<Longrightarrow> (\<And>now d. users (snd (st now d)) = users d) \<Longrightarrow> preserves Q st"
  by (auto simp: preserves_def about_users_def)

lemma on_db_holds [simp]: "on_db (\<lambda>w. Q (db w))"
  by (simp add: on_db_def)

lemma holds_run_query:
  assumes "preserves Q st"
  shows "keeps (\<lambda>w. Q (db w)) (run_query E q st)"
proof (rule keepsI)
  fix w r w'
  assume run: "run_state (run_query E q st) w = (r, w')" and w: "Q (db w)"
  from run obtain now x d where st: "st now (db w) = (x, d)" and w': "db w' = d \<or> db w' = db w"
    by (rule run_query_cases) auto
  with assms w have "Q d" unfolding preserves_def by (metis snd_conv)
  with w w' show "Q (db w')" by auto
qed

lemma holds_execTx:
  assumes Q: "about_users Q" and "\<And>q. keeps (\<lambda>w. Q (db w)) (fn q)"
  shows "keeps (\<lambda>w. Q (db w)) (execTx E fn)"
proof (rule keepsI)
  fix w r w'
  assume run: "run_state (execTx E fn) w = (r, w')" and w: "Q (db w)"
  have fn: "Q (db w2)" if "run_state (fn q) (w\<lparr>tick := Suc (tick w)\<rparr>) = (x, w2)" for q x w2
    using keepsD [OF assms(2) that] w by simp
  have undo: "Q (rollback_to (db w) d)" for d
    using Q w by (auto simp: about_users_def rollback_to_def)
  from run show "Q (db w')"
    by (cases rule: execTx_cases) (use w fn undo in auto)
qed

lemma holds_queries:
  assumes "about_users Q"
  shows "keeps (\<lambda>w. Q (db w)) (q_CreateAccount E q ca)" "keeps (\<lambda>w. Q (db w)) (q_GetAccount E q i)"
    "keeps (\<lambda>w. Q (db w)) (q_ListAccounts E q la)" "keeps (\<lambda>w. Q (db w)) (q_GetUser E q u)"
    "keeps (\<lambda>w. Q (db w)) (q_GetSession E q si)" "keeps (\<lambda>w. Q (db w)) (q_CreateSession E q cs)"
    "keeps (\<lambda>w. Q (db w)) (q_CreateVerifyEmail E q cv)" "keeps (\<lambda>w. Q (db w)) (q_UpdateVerifyEmail E q uv)"
    "keeps (\<lambda>w. Q (db w)) (q_CreateTransfer E q ct)" "keeps (\<lambda>w. Q (db w)) (q_CreateEntry E q ce)"
    "keeps (\<lambda>w. Q (db w)) (q_AddAccountBalance E q ab)"
  unfolding query_defs
  by (intro holds_run_query preserves_same [OF assms],
      simp add: sql_CreateAccount_def sql_GetAccount_def sql_ListAccounts_def sql_GetUser_def sql_GetSession_def
        sql_CreateSession_def sql_CreateVerifyEmail_def sql_UpdateVerifyEmail_def sql_CreateTransfer_def
        sql_CreateEntry_def sql_AddAccountBalance_def Let_def split: sum.splits option.splits)+

subsection \<open>How rows evolve\<close>

definition profile :: "user \<Rightarrow> string \<times> string \<times> string \<times> time" where
  "profile u = (u_HashedPassword u, u_FullName u, u_Email u, u_PasswordChangedAt u)"

definition users_evolve :: "(gostring \<Rightarrow> bool) \<Rightarrow> database \<Rightarrow> database \<Rightarrow> bool" where
  "users_evolve A d d' \<longleftrightarrow>
     (\<forall>u \<in> set (users d). \<exists>u' \<in> set (users d').
        u_Username u' = u_Username u \<and> u_Role u' = u_Role u \<and> (profile u' = profile u \<or> A (u_Username u))) \<and>
     (\<forall>u' \<in> set (users d'). u_Role u' = DepositorRole \<or>
        (\<exists>u \<in> set (users d). u_Username u' = u_Username u \<and> u_Role u' = u_Role u))"

lemma users_evolve_same: "users d' = users d \<Longrightarrow> users_evolve A d d'"
  by (auto simp: users_evolve_def)

lemma users_evolve_refl [simp]: "users_evolve A d d"
  by (rule users_evolve_same) simp

lemma users_evolve_trans:
  assumes 1: "users_evolve A a b" and 2: "users_evolve A b c"
  shows "users_evolve A a c"
  unfolding users_evolve_def
proof (intro conjI ballI)
  fix u assume "u \<in> set (users a)"
  then obtain v where v: "v \<in> set (users b)" "u_Username v = u_Username u" "u_Role v = u_Role u"
      "profile v = profile u \<or> A (u_Username u)"
    using 1 by (auto simp: users_evolve_def)
  then obtain x where "x \<in> set (users c)" "u_Username x = u_Username v" "u_Role x = u_Role v"
      "profile x = profile v \<or> A (u_Username v)"
    using 2 by (auto simp: users_evolve_def)
  with v show "\<exists>x \<in> set (users c). u_Username x = u_Username u \<and> u_Role x = u_Role u \<and>
      (profile x = profile u \<or> A (u_Username u))" by metis
next
  fix x assume "x \<in> set (users c)"
  with 2 have "u_Role x = DepositorRole \<or> (\<exists>v \<in> set (users b). u_Username x = u_Username v \<and> u_Role x = u_Role v)"
    by (auto simp: users_evolve_def)
  then show "u_Role x = DepositorRole \<or> (\<exists>u \<in> set (users a). u_Username x = u_Username u \<and> u_Role x = u_Role u)"
    using 1 unfolding users_evolve_def by metis
qed

definition evolved :: "(gostring \<Rightarrow> bool) \<Rightarrow> database \<Rightarrow> world \<Rightarrow> bool" where
  "evolved A d0 w \<longleftrightarrow> users_evolve A d0 (db w)"

lemma on_db_evolved [simp]: "on_db (evolved A d0)"
  by (simp add: on_db_def evolved_def)

lemma tick_closed_evolved [simp]: "tick_closed (evolved A d0)"
  by (simp add: on_db_tick)

definition evolving :: "(gostring \<Rightarrow> bool) \<Rightarrow> 'a stmt \<Rightarrow> bool" where
  "evolving A st \<longleftrightarrow> (\<forall>now d. users_evolve A d (snd (st now d)))"

lemma evolving_same: "(\<And>now d. users (snd (st now d)) = users d) \<Longrightarrow> evolving A st"
  by (simp add: evolving_def users_evolve_same)

lemma evolving_CreateUser: "evolving A (sql_CreateUser arg)"
  by (auto simp: evolving_def sql_CreateUser_def Let_def users_evolve_def DepositorRole_def)

lemma users_evolve_map:
  assumes "\<And>u. u_Username (f u) = u_Username u \<and> u_Role (f u) = u_Role u \<and>
    (profile (f u) = profile u \<or> A (u_Username u))"
  shows "users_evolve A d (d\<lparr>users := map f (users d)\<rparr>)"
  using assms by (auto simp: users_evolve_def intro!: bexI)

lemma evolving_UpdateUser:
  assumes "A (uu_Username arg) \<or>
    uu_HashedPassword arg = None \<and> uu_PasswordChangedAt arg = None \<and> uu_FullName arg = None \<and> uu_Email arg = None"
  shows "evolving A (sql_UpdateUser arg)"
proof -
  have "u_Role (set_user arg u) = u_Role u" for u by (simp add: set_user_def)
  moreover have "profile (set_user arg u) = profile u \<or> A (uu_Username arg)" for u
    using assms by (auto simp: profile_def set_user_def coalesce_def)
  ultimately have "users_evolve A d (d\<lparr>users := write_row u_Username (uu_Username arg) (set_user arg) (users d)\<rparr>)" for d
    unfolding write_row_def by (intro users_evolve_map) auto
  then show ?thesis by (auto simp: evolving_def sql_UpdateUser_def split: sum.splits)
qed

lemma about_users_evolve: "about_users (users_evolve A d0)"
  by (simp add: about_users_def users_evolve_def)

lemma evolved_holds: "evolved A d0 = (\<lambda>w. users_evolve A d0 (db w))"
  by (simp add: evolved_def fun_eq_iff)

lemma evolved_run_query:
  assumes "evolving A st"
  shows "keeps (evolved A d0) (run_query E q st)"
  unfolding evolved_holds
  by (rule holds_run_query) (use assms users_evolve_trans in \<open>auto simp: preserves_def evolving_def\<close>)

lemmas evolved_execTx = holds_execTx [OF about_users_evolve, folded evolved_holds]
lemmas evolved_queries = holds_queries [OF about_users_evolve, folded evolved_holds]

lemma evolved_CreateUser: "keeps (evolved A d0) (q_CreateUser E q cu)"
  unfolding query_defs by (intro evolved_run_query evolving_CreateUser)

lemma evolved_UpdateUser:
  "A (uu_Username arg) \<or>
     uu_HashedPassword arg = None \<and> uu_PasswordChangedAt arg = None \<and> uu_FullName arg = None \<and> uu_Email arg = None \<Longrightarrow>
   keeps (evolved A d0) (q_UpdateUser E q arg)"
  unfolding query_defs by (intro evolved_run_query evolving_UpdateUser)

lemma evolved_txs:
  "(\<And>u Q. on_db Q \<Longrightarrow> keeps Q (after u)) \<Longrightarrow> keeps (evolved A d0) (CreateUserTx E cu after)"
  "keeps (evolved A d0) (VerifyEmailTx E vp)" "keeps (evolved A d0) (TransferTx E tp)"
  unfolding CreateUserTx_def VerifyEmailTx_def TransferTx_def transfer_body_def addMoney_def
  by (intro evolved_execTx frame_intros evolved_queries evolved_CreateUser evolved_UpdateUser; simp)+

end
