(* ===== verification/RestProps.thy ===== *)
theory RestProps
  imports Ledger
begin

section \<open>Correctness of the HTTP API\<close>

text \<open>
  Who can lose money to a request, what a request without a token gets, and the outcome of the two requests
  with the most branches, transfers and listings.
\<close>

text \<open>A deployment for the witnesses: a key of 32 bytes, access tokens for 50 nanoseconds, refresh tokens
  for 200 (the clock of the sample goes by nanoseconds), and alice's access token in the header.\<close>

definition sample_config :: Config where
  "sample_config =
     \<lparr>Environment = ''test'', AllowedOrigins = [], DBSource = [], MigrationURL = [], RedisAddress = [],
      HTTPServerAddress = [], GRPCServerAddress = [], TokenSymmetricKey = ''0123456789abcdef0123456789abcdef'',
      AccessTokenDuration = 50, RefreshTokenDuration = 200,
      EmailSenderName = ''Bank'', EmailSenderAddress = ''no-reply@bank.org'', EmailSenderPassword = ''pw''\<rparr>"

abbreviation "sample_maker \<equiv> PasetoMaker sample_env (TokenSymmetricKey sample_config)"
abbreviation "sample_rest \<equiv> deployed_rest sample_env sample_config"

definition token_of :: "gostring \<Rightarrow> token_type \<Rightarrow> gostring" where
  "token_of who t =
     (case fst (run_state (CreateToken sample_maker who DepositorRole (50) t) sample_world) of
        Inl _ \<Rightarrow> [] | Inr (tok, _) \<Rightarrow> tok)"

definition ctx_of :: "gostring \<Rightarrow> rest_context" where
  "ctx_of who = \<lparr>cx_authorization = ''Bearer '' @ token_of who TokenTypeAccessToken,
                 cx_user_agent = ''test'', cx_client_ip = ''127.0.0.1''\<rparr>"

definition transfer_call :: "int64 \<Rightarrow> int64 \<Rightarrow> int64 \<Rightarrow> rest_call" where
  "transfer_call i j x = CallCreateTransfer (Some
     \<lparr>trr_FromAccountID = i, trr_ToAccountID = j, trr_Amount = x, trr_Currency = USD\<rparr>)"

lemma sample_tag_no [simp]: "sample_tag ''min=1'' (FInt i) = (1 \<le> i)" "sample_tag ''min=5'' (FInt i) = (5 \<le> i)"
  "sample_tag ''max=10'' (FInt i) = (i \<le> 10)" "sample_tag ''gt=0'' (FInt i) = (0 < i)"
  "sample_tag ''required'' (FInt i) = (i \<noteq> 0)" "sample_tag ''required'' (FStr s) = (s \<noteq> [])"
  by simp_all

lemma binding_ok_sample: "binding_ok sample_env"
  by (auto simp: binding_ok_def sample_env_def list_all_iff lower_or_digit_def letter_def Let_def
      simp del: sample_tag.simps(2))

subsection \<open>Who may move money, and who may call what\<close>

lemma effect_total: "schema_ok d \<Longrightarrow> ledger_effect user d d' \<Longrightarrow> total_balance d' = total_balance d"
  by (auto simp: ledger_effect_def account_opened_def transferred_total) (simp_all add: total_balance_def)

text \<open>C4: Only the owner of an account can take money from it: one HTTP request, whatever it is and
  whatever fails, leaves the ledger alone, or opens an account of balance zero for the user its access
  token names, or makes one transfer of a positive amount from an account of that user; so a balance
  that got smaller is the balance of an account of that user, and all balances add up to what they did before.\<close>

theorem only_owner_withdraws:
  assumes ok: "world_ok w" and bind: "binding_ok E"
    and run: "run_state (serve_rest E (deployed_rest E config) ctx call) w = (rsp, w')"
    and user: "user = authenticated_as (PasetoMaker E (TokenSymmetricKey config)) ctx w"
  shows "ledger_effect user (db w) (db w') \<and>
     (\<forall>a \<in> set (accounts (db w)). \<forall>a' \<in> set (accounts (db w')).
        a_ID a' = a_ID a \<and> sint (a_Balance a') < sint (a_Balance a) \<longrightarrow> user = Some (a_Owner a)) \<and>
     total_balance (db w') = total_balance (db w)"
proof -
  have "ledger_effect user (db w) (db w')"
    using rest_money.serve_rest_effect [OF ok bind run] by (simp add: user)
  moreover have "schema_ok (db w)" using ok by (simp add: world_ok_def)
  ultimately show ?thesis using loss_is_the_owners effect_total by metis
qed

definition alice_pays_bob :: "rest_response \<times> world" where
  "alice_pays_bob =
     run_state (serve_rest sample_env sample_rest (ctx_of ''alice'') (transfer_call 1 2 30)) sample_world"

theorem only_owner_withdraws_witness:
  "sint (a_Balance (hd (accounts (db (snd alice_pays_bob))))) = 70 \<and>
   authenticated_as sample_maker (ctx_of ''alice'') sample_world = Some ''alice''"
proof -
  let ?a = "hd (accounts (db sample_world))" and ?a' = "hd (accounts (db (snd alice_pays_bob)))"
  have facts: "a_ID ?a' = a_ID ?a" "sint (a_Balance ?a') = 70" "sint (a_Balance ?a) = 100" "a_Owner ?a = ''alice''"
    "accounts (db sample_world) \<noteq> []" "accounts (db (snd alice_pays_bob)) \<noteq> []"
    by code_simp+
  have "run_state (serve_rest sample_env sample_rest (ctx_of ''alice'') (transfer_call 1 2 30)) sample_world =
      (fst alice_pays_bob, snd alice_pays_bob)"
    by (simp add: alice_pays_bob_def)
  note only_owner_withdraws [OF sample_world_ok binding_ok_sample this refl, THEN conjunct2, THEN conjunct1, THEN bspec, THEN bspec,
      of ?a ?a']
  with facts show ?thesis by simp
qed

text \<open>C23: A route of the authorized group answers a request without a valid access token in a bearer
  header with 401, and touches nothing.\<close>

theorem protected_routes_need_token:
  assumes "is_authorized_route (call_endpoint call)"
    and none: "authenticated_as (PasetoMaker E (TokenSymmetricKey config)) ctx w = None"
    and run: "run_state (serve_rest E (deployed_rest E config) ctx call) w = (rsp, w')"
  shows "rs_status rsp = 401 \<and> only_tick w w'"
proof -
  let ?fs = "Fields (cx_authorization ctx)"
  obtain r w1 where v: "run_state (VerifyToken (PasetoMaker E (TokenSymmetricKey config)) (?fs ! 1) TokenTypeAccessToken) w
      = (r, w1)" by fastforce
  have "only_tick w w1" by (rule paseto.verify_only_tick [OF v])
  with v none run assms(1) show ?thesis
    by (auto simp: serve_rest_def authMiddleware_def authenticated_as_def Let_def run_caseE split: if_splits sum.splits)
qed

text \<open>A refresh token is not good enough.\<close>

definition refresh_ctx :: rest_context where
  "refresh_ctx = (ctx_of ''alice'')\<lparr>cx_authorization := ''Bearer '' @ token_of ''alice'' TokenTypeRefreshToken\<rparr>"

theorem protected_routes_need_token_witness:
  "rs_status (fst (run_state (serve_rest sample_env sample_rest refresh_ctx (transfer_call 1 2 30)) sample_world)) = 401"
proof -
  have "is_authorized_route (call_endpoint (transfer_call 1 2 30))"
    "authenticated_as sample_maker refresh_ctx sample_world = None"
    by code_simp+
  from protected_routes_need_token [OF this prod.collapse [symmetric]] show ?thesis by simp
qed

subsection \<open>POST /transfers\<close>

text \<open>The decision table: what the handler answers to a request that binds, by the data it finds.\<close>

definition transfer_params :: "transferRequest \<Rightarrow> transfer_tx_params" where
  "transfer_params req = \<lparr>tp_FromAccountID = trr_FromAccountID req, tp_ToAccountID = trr_ToAccountID req,
     tp_Amount = trr_Amount req\<rparr>"

definition transfer_status :: "gostring \<Rightarrow> transferRequest \<Rightarrow> database \<Rightarrow> int" where
  "transfer_status user req d =
     (case read_row a_ID (trr_FromAccountID req) (accounts d) of
        Inl _ \<Rightarrow> 404
      | Inr from \<Rightarrow>
          if a_Currency from \<noteq> trr_Currency req then 400
          else if a_Owner from \<noteq> user then 401
          else (case read_row a_ID (trr_ToAccountID req) (accounts d) of
              Inl _ \<Rightarrow> 404
            | Inr to \<Rightarrow>
                if a_Currency to \<noteq> trr_Currency req then 400
                else if transfer_fits (transfer_params req) d then 200 else 500))"

lemma calm_GetAccount:
  "calm_db E \<Longrightarrow> run_state (GetAccount (SQLStore E) i) w = (read_row a_ID i (accounts (db w)), w\<lparr>tick := Suc (tick w)\<rparr>)"
  using calm_query [where E = E and st = "sql_GetAccount i" and q = Pool and w = w]
  by (simp add: SQLStore_def q_GetAccount_def sql_GetAccount_def)

lemma calm_validAccount:
  assumes "calm_db E"
  shows "run_state (validAccount E (deployed_rest E config) i cur) w =
    (case read_row a_ID i (accounts (db w)) of
       Inl e \<Rightarrow> (Inl \<lparr>rs_status = 404, rs_body = ErrorBody (error_text (driver_text E) e)\<rparr>, w\<lparr>tick := Suc (tick w)\<rparr>)
     | Inr a \<Rightarrow>
         if a_Currency a \<noteq> cur
         then (Inl \<lparr>rs_status = 400, rs_body = ErrorBody (''account ['' @ decimal (sint (a_ID a)) @
                 ''] currency mismatch: '' @ a_Currency a @ '' vs '' @ cur)\<rparr>, w\<lparr>tick := Suc (tick w)\<rparr>)
         else (Inr a, w\<lparr>tick := Suc (tick w)\<rparr>))"
proof (cases "read_row a_ID i (accounts (db w))")
  case (Inl e)
  then have "e = NoRows" by (simp add: read_row_Inl)
  with Inl calm_GetAccount [OF assms, of i w] show ?thesis by (simp add: validAccount_def)
next
  case (Inr a)
  with calm_GetAccount [OF assms, of i w] show ?thesis by (simp add: validAccount_def)
qed

lemma read_row_known: "read_row a_ID i (accounts d) = Inr a \<Longrightarrow> i \<in> account_ids d"
  by (auto simp: account_ids_def dest: read_row_Inr_in)

lemma same_rows_tick [simp]: "same_rows (db w) (db (w\<lparr>tick := n\<rparr>))"
  by simp

lemma world_ok_tick [simp]: "world_ok (w\<lparr>tick := n\<rparr>) = world_ok w"
  by (simp add: world_ok_def)

text \<open>Either a check refuses the request, and nothing is written, or the transaction decides.\<close>

lemma createTransfer_refused:
  assumes calm: "calm_db E" and req: "ShouldBind E transferRequest_tags body = Inr req"
    and run: "run_state (createTransfer E (deployed_rest E config) p body) w = (rsp, w')"
    and no: "transfer_status (p_Username p) req (db w) \<notin> {200, 500}"
  shows "rs_status rsp = transfer_status (p_Username p) req (db w)" and "db w' = db w"
  using run no
  by (cases "read_row a_ID (trr_FromAccountID req) (accounts (db w))";
      cases "read_row a_ID (trr_ToAccountID req) (accounts (db w))";
      auto simp: createTransfer_def req calm_validAccount [OF calm] run_caseE transfer_status_def split: if_splits)+

lemma createTransfer_passed:
  assumes calm: "calm_db E" and req: "ShouldBind E transferRequest_tags body = Inr req"
    and yes: "transfer_status (p_Username p) req (db w) \<in> {200, 500}"
  shows "run_state (createTransfer E (deployed_rest E config) p body) w =
      (case run_state (TransferTx E (transfer_params req)) (w\<lparr>tick := Suc (Suc (tick w))\<rparr>) of
         (Inl e, w') \<Rightarrow> (\<lparr>rs_status = 500, rs_body = ErrorBody (error_text (driver_text E) e)\<rparr>, w')
       | (Inr res, w') \<Rightarrow> (\<lparr>rs_status = 200, rs_body = TransferBody res\<rparr>, w'))"
    and "trr_FromAccountID req \<in> account_ids (db w)" "trr_ToAccountID req \<in> account_ids (db w)"
    and "transfer_status (p_Username p) req (db w) = (if transfer_fits (transfer_params req) (db w) then 200 else 500)"
proof -
  obtain a b where rows: "read_row a_ID (trr_FromAccountID req) (accounts (db w)) = Inr a"
      "read_row a_ID (trr_ToAccountID req) (accounts (db w)) = Inr b"
    and fit: "a_Currency a = trr_Currency req" "a_Owner a = p_Username p" "a_Currency b = trr_Currency req"
    using yes by (auto simp: transfer_status_def split: sum.splits if_splits)
  then show "run_state (createTransfer E (deployed_rest E config) p body) w =
      (case run_state (TransferTx E (transfer_params req)) (w\<lparr>tick := Suc (Suc (tick w))\<rparr>) of
         (Inl e, w') \<Rightarrow> (\<lparr>rs_status = 500, rs_body = ErrorBody (error_text (driver_text E) e)\<rparr>, w')
       | (Inr res, w') \<Rightarrow> (\<lparr>rs_status = 200, rs_body = TransferBody res\<rparr>, w'))"
    by (simp add: createTransfer_def req calm_validAccount [OF calm] run_caseE SQLStore_def transfer_params_def
        split: prod.splits sum.splits)
  show "trr_FromAccountID req \<in> account_ids (db w)" "trr_ToAccountID req \<in> account_ids (db w)"
    using rows by (simp_all add: read_row_known)
  show "transfer_status (p_Username p) req (db w) = (if transfer_fits (transfer_params req) (db w) then 200 else 500)"
    using rows fit by (simp add: transfer_status_def)
qed

text \<open>C22: When every call to the database gets through and its numbers are not exhausted, the answer to a transfer
  request that binds follows the decision table: 404 for an unknown account, 400 for another currency, 401 for a
  sender of somebody else, 500 when a balance would overflow and 200 otherwise; exactly a 200 has moved the
  money, and every other answer leaves all rows as they were. No balance is asked to cover the amount. (When
  the answer to the commit is lost, a 500 can follow a transfer that was made.)\<close>

theorem transfer_request_outcome:
  assumes ok: "world_ok w" and calm: "calm_db E" and bind: "binding_ok E"
    and seqs: "int (Suc (seq_transfers (db w))) < 2 ^ 63" "int (Suc (Suc (seq_entries (db w)))) < 2 ^ 63"
    and req: "ShouldBind E transferRequest_tags body = Inr req"
    and run: "run_state (createTransfer E (deployed_rest E config) p body) w = (rsp, w')"
  shows "rs_status rsp = transfer_status (p_Username p) req (db w) \<and>
     (if rs_status rsp = 200 then transferred (transfer_params req) (db w) (db w')
      else same_rows (db w) (db w'))"
proof (cases "transfer_status (p_Username p) req (db w) \<in> {200, 500}")
  case False
  with createTransfer_refused [OF calm req run this] show ?thesis by simp
next
  case True
  let ?w2 = "w\<lparr>tick := Suc (Suc (tick w))\<rparr>"
  obtain r3 w3 where 3: "run_state (TransferTx E (transfer_params req)) ?w2 = (r3, w3)" by fastforce
  have pos: "0 < sint (tp_Amount (transfer_params req))" using transfer_bound [OF bind req] by (simp add: transfer_params_def)
  have w2: "world_ok ?w2" "int (Suc (seq_transfers (db ?w2))) < 2 ^ 63" "int (Suc (Suc (seq_entries (db ?w2)))) < 2 ^ 63"
    using ok seqs by simp_all
  note passed = createTransfer_passed [OF calm req True]
  have known: "True \<longleftrightarrow> tp_FromAccountID (transfer_params req) \<in> account_ids (db ?w2) \<and>
      tp_ToAccountID (transfer_params req) \<in> account_ids (db ?w2)"
    using passed(2,3) by (simp add: transfer_params_def)
  from transfer_calm [OF w2(1) calm pos w2(2,3) known 3]
  have tx: "if transfer_fits (transfer_params req) (db w)
      then transferred (transfer_params req) (db w) (db w3) \<and> (\<exists>res. r3 = Inr res)
      else same_rows (db w) (db w3) \<and> r3 = Inl NumericOutOfRange"
    by (auto split: if_splits)
  from run passed(1,4) 3 tx show ?thesis by (auto split: if_splits sum.splits)
qed

definition payload_of :: "gostring \<Rightarrow> token_type \<Rightarrow> payload" where
  "payload_of who t = \<lparr>p_ID = 0, p_Type = t, p_Username = who, p_Role = DepositorRole, p_IssuedAt = 1, p_ExpiredAt = 52\<rparr>"

definition transfer_req :: "int64 \<Rightarrow> int64 \<Rightarrow> int64 \<Rightarrow> transferRequest" where
  "transfer_req i j x = \<lparr>trr_FromAccountID = i, trr_ToAccountID = j, trr_Amount = x, trr_Currency = USD\<rparr>"

text \<open>alice sends 130 of her 100, then bob's money, then to an account that is not there.\<close>

theorem transfer_request_outcome_witness:
  "map (\<lambda>req. rs_status (fst (run_state (createTransfer sample_env sample_rest
       (payload_of ''alice'' TokenTypeAccessToken) (Some req)) sample_world)))
     [transfer_req 1 2 130, transfer_req 2 1 10, transfer_req 1 9 10] = [200, 401, 404]"
proof -
  have calm: "calm_db sample_env" by (simp add: calm_db_def sample_env_def)
  have seqs: "int (Suc (seq_transfers (db sample_world))) < 2 ^ 63"
    "int (Suc (Suc (seq_entries (db sample_world)))) < 2 ^ 63" by code_simp+
  have bound: "ShouldBind sample_env transferRequest_tags (Some (transfer_req 1 2 130)) = Inr (transfer_req 1 2 130)"
    "ShouldBind sample_env transferRequest_tags (Some (transfer_req 2 1 10)) = Inr (transfer_req 2 1 10)"
    "ShouldBind sample_env transferRequest_tags (Some (transfer_req 1 9 10)) = Inr (transfer_req 1 9 10)"
    by code_simp+
  have table: "transfer_status ''alice'' (transfer_req 1 2 130) (db sample_world) = 200"
    "transfer_status ''alice'' (transfer_req 2 1 10) (db sample_world) = 401"
    "transfer_status ''alice'' (transfer_req 1 9 10) (db sample_world) = 404"
    by code_simp+
  have outcome: "rs_status (fst (run_state (createTransfer sample_env sample_rest
        (payload_of ''alice'' TokenTypeAccessToken) (Some req)) sample_world)) = transfer_status ''alice'' req (db sample_world)"
    if "ShouldBind sample_env transferRequest_tags (Some req) = Inr req" for req
    using transfer_request_outcome [OF sample_world_ok calm binding_ok_sample seqs that prod.collapse [symmetric]]
    by (simp add: payload_of_def)
  show ?thesis using bound [THEN outcome] table by simp
qed

subsection \<open>GET /accounts\<close>

lemma list_bound:
  "binding_ok E \<Longrightarrow> ShouldBind E listAccountRequest_tags q = Inr r \<Longrightarrow>
     1 \<le> sint (lar_PageID r) \<and> 5 \<le> sint (lar_PageSize r) \<and> sint (lar_PageSize r) \<le> 10"
  by (auto dest!: ShouldBind_InrD simp: listAccountRequest_tags_def tag_holds_def binding_ok_def)

lemma calm_ListAccounts:
  "calm_db E \<Longrightarrow> run_state (ListAccounts (SQLStore E) arg) w =
     (page a_ID (la_Limit arg) (la_Offset arg) (filter (\<lambda>a. a_Owner a = la_Owner arg) (accounts (db w))),
      w\<lparr>tick := Suc (tick w)\<rparr>)"
  using calm_query [where E = E and st = "sql_ListAccounts arg" and q = Pool and w = w]
  by (simp add: SQLStore_def q_ListAccounts_def sql_ListAccounts_def)

definition own_accounts :: "gostring \<Rightarrow> database \<Rightarrow> account list" where
  "own_accounts who d = sort_key (\<lambda>a. sint (a_ID a)) (filter (\<lambda>a. a_Owner a = who) (accounts d))"

text \<open>The offset as the code computes it, in 32 bits.\<close>

definition page_offset :: "listAccountRequest \<Rightarrow> int" where
  "page_offset r = sint ((lar_PageID r - 1) * lar_PageSize r)"

lemma page_offset_exact:
  assumes "1 \<le> sint (lar_PageID r)" "5 \<le> sint (lar_PageSize r)" "(sint (lar_PageID r) - 1) * sint (lar_PageSize r) < 2 ^ 31"
  shows "page_offset r = (sint (lar_PageID r) - 1) * sint (lar_PageSize r)"
proof -
  have "0 \<le> (sint (lar_PageID r) - 1) * sint (lar_PageSize r)" using assms(1,2) by simp
  moreover have "(lar_PageID r - 1) * lar_PageSize r = word_of_int ((sint (lar_PageID r) - 1) * sint (lar_PageSize r))"
    by simp
  ultimately show ?thesis
    using assms(3) unfolding page_offset_def
    by (simp only: sint_sbintrunc') (simp add: signed_take_bit_int_eq_self)
qed

text \<open>C24: When nothing fails to get through, a list request that binds is answered with the accounts of
  the token's user in the order of their numbers, from the offset the code computes on, at most the page
  size; that offset is \<open>(PageID - 1) * PageSize\<close> as long as the product is below \<open>2 ^ 31\<close>. Above, the
  product wraps in 32 bits: a negative one is answered with 500.\<close>

theorem list_accounts_page:
  assumes calm: "calm_db E" and bind: "binding_ok E"
    and req: "ShouldBind E listAccountRequest_tags query = Inr req"
    and run: "run_state (listAccounts E (deployed_rest E config) p query) w = (rsp, w')"
  shows "only_tick w w' \<and>
     (if page_offset req < 0
      then rsp = \<lparr>rs_status = 500, rs_body = ErrorBody (driver_text E InvalidOffset)\<rparr>
      else rsp = \<lparr>rs_status = 200, rs_body = AccountsBody
             (take (nat (sint (lar_PageSize req))) (drop (nat (page_offset req)) (own_accounts (p_Username p) (db w))))\<rparr>) \<and>
     ((sint (lar_PageID req) - 1) * sint (lar_PageSize req) < 2 ^ 31 \<longrightarrow>
        page_offset req = (sint (lar_PageID req) - 1) * sint (lar_PageSize req))"
proof -
  note b = list_bound [OF bind req]
  have off: "sint ((lar_PageID req - 1) * lar_PageSize req) = page_offset req" by (simp add: page_offset_def)
  have "(sint (lar_PageID req) - 1) * sint (lar_PageSize req) < 2 ^ 31 \<longrightarrow>
        page_offset req = (sint (lar_PageID req) - 1) * sint (lar_PageSize req)"
    using page_offset_exact b by blast
  moreover have "(rsp, w') =
     (if page_offset req < 0 then (\<lparr>rs_status = 500, rs_body = ErrorBody (driver_text E InvalidOffset)\<rparr>, w\<lparr>tick := Suc (tick w)\<rparr>)
      else (\<lparr>rs_status = 200, rs_body = AccountsBody (take (nat (sint (lar_PageSize req)))
              (drop (nat (page_offset req)) (own_accounts (p_Username p) (db w))))\<rparr>, w\<lparr>tick := Suc (tick w)\<rparr>))"
    using run b by (cases "page_offset req < 0") (simp_all add: listAccounts_def req run_caseE
        calm_ListAccounts [OF calm] page_def off own_accounts_def InvalidOffset_def)
  ultimately show ?thesis by (auto split: if_splits)
qed

text \<open>Page 2 is past the end; page 429496730 of size 10 has the offset \<open>- 6\<close>; page 536870913 of size 8
  has the offset 0 and repeats page 1.\<close>

definition list_req :: "int32 \<Rightarrow> int32 \<Rightarrow> listAccountRequest" where
  "list_req i n = \<lparr>lar_PageID = i, lar_PageSize = n\<rparr>"

theorem list_accounts_page_witness:
  "map (\<lambda>req. let rsp = fst (run_state (listAccounts sample_env sample_rest
       (payload_of ''alice'' TokenTypeAccessToken) (Some req)) sample_world) in
       (rs_status rsp, case rs_body rsp of AccountsBody as \<Rightarrow> length as | _ \<Rightarrow> 99))
     [list_req 1 5, list_req 2 5, list_req 429496730 10, list_req 536870913 8]
   = [(200, 1), (200, 0), (500, 99), (200, 1)]"
  (is "map ?out ?reqs = _")
proof -
  have calm: "calm_db sample_env" by (simp add: calm_db_def sample_env_def)
  have bound: "list_all (\<lambda>r. ShouldBind sample_env listAccountRequest_tags (Some r) = Inr r) ?reqs"
    by code_simp
  have table: "map (\<lambda>r. if page_offset r < 0 then (500 :: int, 99)
        else (200, length (take (nat (sint (lar_PageSize r))) (drop (nat (page_offset r))
          (own_accounts ''alice'' (db sample_world)))))) ?reqs = [(200, 1), (200, 0), (500, 99), (200, 1)]"
    by code_simp
  have page: "?out r = (if page_offset r < 0 then (500 :: int, 99)
        else (200, length (take (nat (sint (lar_PageSize r))) (drop (nat (page_offset r))
          (own_accounts ''alice'' (db sample_world))))))"
    if "ShouldBind sample_env listAccountRequest_tags (Some r) = Inr r" for r
    using list_accounts_page [OF calm binding_ok_sample that prod.collapse [symmetric],
        of sample_world sample_config "payload_of ''alice'' TokenTypeAccessToken"]
    by (simp add: payload_of_def Let_def split: if_splits)
  have "map ?out ?reqs = map (\<lambda>r. if page_offset r < 0 then (500 :: int, 99)
        else (200, length (take (nat (sint (lar_PageSize r))) (drop (nat (page_offset r))
          (own_accounts ''alice'' (db sample_world)))))) ?reqs"
    by (rule map_cong [OF refl], rule page, erule bound [unfolded list_all_iff, THEN bspec])
  then show ?thesis unfolding table .
qed

end
