(* ===== verification/SessionProps.thy ===== *)
theory SessionProps
  imports RestProps
begin

section \<open>Tokens and sessions\<close>

text \<open>
  The contract of the two token makers over the life of a token, what renewing an access token needs, and a
  login followed by a renewal. The witnesses run on the sample world.
\<close>

subsection \<open>The life of a token\<close>

text \<open>C26: A PASETO token of \<open>CreateToken\<close> says what it was made of and lives from its issue for its duration:
  checked within that time it is accepted with the payload it was made from, checked after it is refused
  as expired, and as a token of another type it is never accepted (for ASCII user names and roles, and a
  library that decrypts what it encrypted).\<close>

theorem paseto_token_lifecycle:
  assumes "paseto_ok E" "ascii u" "ascii r"
    and "run_state (CreateToken (PasetoMaker E key) u r d t) w = (Inr (tok, p), w1)"
  shows "p_Type p = t \<and> p_Username p = u \<and> p_Role p = r \<and>
     p_ExpiredAt p = Add (clock E (Suc (Suc (tick w)))) d \<and>
     (alive E w2 p \<longrightarrow> fst (run_state (VerifyToken (PasetoMaker E key) tok t) w2) = Inr p) \<and>
     (dead E w2 p \<longrightarrow> fst (run_state (VerifyToken (PasetoMaker E key) tok t) w2) = Inl ErrExpiredToken) \<and>
     (t' \<noteq> t \<longrightarrow> isl (fst (run_state (VerifyToken (PasetoMaker E key) tok t') w2)))"
  by (rule paseto.lifecycle [OF assms])

definition alice_access :: "(gostring \<times> payload) result \<times> world" where
  "alice_access = run_state (CreateToken sample_maker ''alice'' DepositorRole 50 TokenTypeAccessToken) sample_world"

theorem paseto_token_lifecycle_witness:
  "(\<exists>tok p w1. alice_access = (Inr (tok, p), w1) \<and>
     fst (run_state (VerifyToken sample_maker tok TokenTypeAccessToken) w1) = Inr p \<and>
     fst (run_state (VerifyToken sample_maker tok TokenTypeAccessToken) (w1\<lparr>tick := 60\<rparr>)) = Inl ErrExpiredToken \<and>
     isl (fst (run_state (VerifyToken sample_maker tok TokenTypeRefreshToken) w1)))"
proof -
  have "\<not> isl (fst alice_access)" by code_simp
  then obtain tok p w1 where a: "alice_access = (Inr (tok, p), w1)"
    by (rule not_isl_pairE) auto
  have "case fst alice_access of Inl _ \<Rightarrow> False | Inr (tok, p) \<Rightarrow>
      alive sample_env (snd alice_access) p \<and> dead sample_env ((snd alice_access)\<lparr>tick := 60\<rparr>) p"
    by code_simp
  then have "alive sample_env w1 p" "dead sample_env (w1\<lparr>tick := 60\<rparr>) p" by (simp_all add: a)
  moreover have "ascii ''alice''" "ascii DepositorRole" by code_simp+
  note life = paseto_token_lifecycle [OF paseto_ok_sample this, of _ 50 TokenTypeAccessToken sample_world tok p w1]
  ultimately show ?thesis
    using a life [of "TokenSymmetricKey sample_config" w1 TokenTypeRefreshToken]
      life [of "TokenSymmetricKey sample_config" "w1\<lparr>tick := 60\<rparr>"]
    by (simp add: alice_access_def)
qed

text \<open>C27: The JWT maker keeps the same contract (the token says what it was made of, is accepted while it is alive,
  refused as expired when it is dead, and never accepted as another type), with one difference at the boundary: at the very
  instant of its expiration a JWT is refused as expired, where a PASETO token is still accepted.\<close>

theorem jwt_token_lifecycle:
  assumes "jwt_ok E" "ascii u" "ascii r"
    and c: "run_state (CreateToken (JWTMaker E key) u r d t) w = (Inr (tok, p), w1)"
  shows "p_Type p = t \<and> p_Username p = u \<and> p_Role p = r \<and>
     p_ExpiredAt p = Add (clock E (Suc (Suc (tick w)))) d \<and>
     (alive E w2 p \<longrightarrow> fst (run_state (VerifyToken (JWTMaker E key) tok t) w2) = Inr p) \<and>
     (dead E w2 p \<longrightarrow> fst (run_state (VerifyToken (JWTMaker E key) tok t) w2) = Inl ErrExpiredToken) \<and>
     (t' \<noteq> t \<longrightarrow> isl (fst (run_state (VerifyToken (JWTMaker E key) tok t') w2))) \<and>
     (p_ExpiredAt p \<le> clock E (tick w2) \<longrightarrow>
        fst (run_state (VerifyToken (JWTMaker E key) tok t) w2) = Inl ErrExpiredToken) \<and>
     (paseto_decrypt E key ptok = Some p \<and> p_Type p = t \<and> clock E (tick w2) = p_ExpiredAt p \<longrightarrow>
        fst (run_state (VerifyToken (PasetoMaker E key) ptok t) w2) = Inr p)"
proof -
  have "run_state (jwt_CreateToken E key u r d t) w = (Inr (tok, p), w1)" using c by (simp add: JWTMaker_def)
  note parse = jwt_parse_created [OF assms(1-3) this]
  have "p_ExpiredAt p \<le> clock E (tick w2) \<longrightarrow>
        fst (run_state (VerifyToken (JWTMaker E key) tok t) w2) = Inl ErrExpiredToken"
    by (simp add: JWTMaker_def jwt_VerifyToken_def parse)
  moreover have "paseto_decrypt E key ptok = Some p \<and> p_Type p = t \<and> clock E (tick w2) = p_ExpiredAt p \<longrightarrow>
        fst (run_state (VerifyToken (PasetoMaker E key) ptok t) w2) = Inr p"
    by (simp add: token_runs)
  ultimately show ?thesis using jwt.lifecycle [OF assms, of w2 t'] by blast
qed

theorem jwt_token_lifecycle_witness:
  "\<exists>tok p w1. run_state (CreateToken (JWTMaker sample_env ''key'') ''alice'' DepositorRole 50 TokenTypeAccessToken)
       sample_world = (Inr (tok, p), w1) \<and> p_Username p = ''alice'' \<and> p_Role p = DepositorRole \<and>
     fst (run_state (VerifyToken (JWTMaker sample_env ''key'') tok TokenTypeAccessToken) (w1\<lparr>tick := 52\<rparr>)) = Inl ErrExpiredToken \<and>
     fst (run_state (VerifyToken (PasetoMaker sample_env ''key'') (''v2.local.'' @ enc_str ''key'' @ enc_payload p) TokenTypeAccessToken)
       (w1\<lparr>tick := 52\<rparr>)) = Inr p"
proof -
  let ?c = "run_state (CreateToken (JWTMaker sample_env ''key'') ''alice'' DepositorRole 50 TokenTypeAccessToken) sample_world"
  have "\<not> isl (fst ?c)" by code_simp
  then obtain tok p w1 where c: "?c = (Inr (tok, p), w1)" by (rule not_isl_pairE) auto
  have "ascii ''alice''" "ascii DepositorRole" by code_simp+
  note life = jwt_token_lifecycle [OF jwt_ok_sample this c, of "w1\<lparr>tick := 52\<rparr>" undefined
      "''v2.local.'' @ enc_str ''key'' @ enc_payload p"]
  have p: "p_ExpiredAt p = 52" "p_Type p = TokenTypeAccessToken"
    using jwt.create_payload [OF c] by (simp_all add: sample_env_def sample_world_def Add_def)
  have "paseto_decrypt sample_env ''key'' (''v2.local.'' @ enc_str ''key'' @ enc_payload p) = Some p"
    using strip_prefix_append [of "''v2.local.'' @ enc_str ''key''" "enc_payload p"] by (simp add: sample_env_def)
  moreover have "clock sample_env 52 = 52" by (simp add: sample_env_def)
  ultimately show ?thesis using life c p by auto
qed

subsection \<open>Renewing an access token\<close>

lemma GetSession_InrD:
  "run_state (GetSession (SQLStore E) i) w = (Inr s, w') \<Longrightarrow> s \<in> set (sessions (db w)) \<and> s_ID s = i"
  by (auto simp: SQLStore_def q_GetSession_def sql_GetSession_def elim!: run_query_InrE dest: read_row_Inr_in)

lemma quiet_reads:
  "keeps (db_is d) (renewAccessToken E (deployed_rest E config) b)"
  unfolding renewAccessToken_def
  by (intro frame_intros sql_ledger.reads rest.token_frames tick_closed_db keeps_errorResponse keeps_JSON_OK
      | simp add: sql_ledger.reads)+

lemma paseto_verified:
  "run_state (VerifyToken (PasetoMaker E key) tok t) w = (Inr p, w') \<Longrightarrow> w' = w\<lparr>tick := Suc (tick w)\<rparr>"
  by (auto simp: token_runs split: option.splits if_splits)

lemma GetSession_reads:
  "run_state (GetSession (SQLStore E) i) w = (r, w') \<Longrightarrow> w' = w\<lparr>tick := Suc (tick w)\<rparr>"
  by (auto simp: SQLStore_def q_GetSession_def sql_GetSession_def elim!: run_query_cases)

definition live_session :: "session \<Rightarrow> payload \<Rightarrow> gostring \<Rightarrow> time \<Rightarrow> bool" where
  "live_session s p tok now \<longleftrightarrow> s_ID s = p_ID p \<and> \<not> s_IsBlocked s \<and> s_Username s = p_Username p \<and>
     s_RefreshToken s = tok \<and> now \<le> s_ExpiresAt s"

text \<open>C11: An access token is renewed for a live session only: an answer 200 means that the refresh token
  verifies as one, that the session of its number is stored, not blocked, of the same user, with this
  very token and not expired, and that the new token is one for the user and the role in the refresh
  token. Whatever the answer, no row changes.\<close>

theorem renew_needs_live_session:
  assumes run: "run_state (renewAccessToken E (deployed_rest E config) (Some req)) w = (rsp, w')"
  shows "db w' = db w \<and>
    (rs_status rsp = 200 \<longrightarrow>
       (\<exists>p tok q.
          fst (run_state (VerifyToken (PasetoMaker E (TokenSymmetricKey config)) (rar_RefreshToken req) TokenTypeRefreshToken) w) = Inr p \<and>
          p_Type p = TokenTypeRefreshToken \<and>
          (\<exists>s \<in> set (sessions (db w)). live_session s p (rar_RefreshToken req) (clock E (tick w + 2))) \<and>
          run_state (CreateToken (PasetoMaker E (TokenSymmetricKey config)) (p_Username p) (p_Role p)
             (AccessTokenDuration config) TokenTypeAccessToken) (w\<lparr>tick := tick w + 3\<rparr>) = (Inr (tok, q), w') \<and>
          rs_body rsp = RenewBody \<lparr>rr_AccessToken = tok, rr_AccessTokenExpiresAt = p_ExpiredAt q\<rparr>))"
proof (intro conjI impI)
  show "db w' = db w" by (rule keeps_db_eq [OF quiet_reads run])
  assume 200: "rs_status rsp = 200"
  let ?M = "PasetoMaker E (TokenSymmetricKey config)"
  obtain r1 w1 where 1: "run_state (VerifyToken ?M (rar_RefreshToken req) TokenTypeRefreshToken) w = (r1, w1)" by fastforce
  from run 1 200 obtain p where r1: "r1 = Inr p"
    by (cases r1) (auto simp: renewAccessToken_def ShouldBind_def run_caseE split: if_splits)
  have w1: "w1 = w\<lparr>tick := Suc (tick w)\<rparr>" by (rule paseto_verified [OF 1 [unfolded r1]])
  obtain r2 w2 where 2: "run_state (GetSession (SQLStore E) (p_ID p)) w1 = (r2, w2)" by fastforce
  have w2: "w2 = w\<lparr>tick := tick w + 2\<rparr>" using GetSession_reads [OF 2] by (simp add: w1)
  from run 1 r1 2 200 obtain s where r2: "r2 = Inr s"
    by (cases r2) (auto simp: renewAccessToken_def ShouldBind_def run_caseE split: if_splits)
  have s: "s \<in> set (sessions (db w))" "s_ID s = p_ID p" using GetSession_InrD [OF 2 [unfolded r2]] by (simp_all add: w1)
  from run 1 2 200 s(2) have live: "live_session s p (rar_RefreshToken req) (clock E (tick w + 2))"
    by (auto simp: live_session_def renewAccessToken_def ShouldBind_def run_caseE r1 r2 w2 split: if_splits)
  with run 1 2 200
  obtain tok q where "run_state (CreateToken ?M (p_Username p) (p_Role p) (AccessTokenDuration config) TokenTypeAccessToken)
        (w\<lparr>tick := tick w + 3\<rparr>) = (Inr (tok, q), w')"
      "rs_body rsp = RenewBody \<lparr>rr_AccessToken = tok, rr_AccessTokenExpiresAt = p_ExpiredAt q\<rparr>"
    by (auto simp: live_session_def renewAccessToken_def ShouldBind_def run_caseE r1 r2 w2 eval_nat_numeral
        split: if_splits sum.splits prod.splits)
  with s(1) live paseto.verify_type [OF 1 [unfolded r1]] 1 r1
  show "\<exists>p tok q.
          fst (run_state (VerifyToken ?M (rar_RefreshToken req) TokenTypeRefreshToken) w) = Inr p \<and>
          p_Type p = TokenTypeRefreshToken \<and>
          (\<exists>s \<in> set (sessions (db w)). live_session s p (rar_RefreshToken req) (clock E (tick w + 2))) \<and>
          run_state (CreateToken ?M (p_Username p) (p_Role p)
             (AccessTokenDuration config) TokenTypeAccessToken) (w\<lparr>tick := tick w + 3\<rparr>) = (Inr (tok, q), w') \<and>
          rs_body rsp = RenewBody \<lparr>rr_AccessToken = tok, rr_AccessTokenExpiresAt = p_ExpiredAt q\<rparr>"
    by auto
qed

text \<open>alice renews with the refresh token of a session of hers.\<close>

definition refresh_payload :: payload where
  "refresh_payload = payload_of ''alice'' TokenTypeRefreshToken"

definition refresh_token :: gostring where
  "refresh_token = ''v2.local.'' @ enc_str (TokenSymmetricKey sample_config) @ enc_payload refresh_payload"

definition renewing_world :: world where
  "renewing_world = sample_world\<lparr>db := sample_db\<lparr>sessions :=
     [\<lparr>s_ID = 0, s_Username = ''alice'', s_RefreshToken = refresh_token, s_UserAgent = [], s_ClientIp = [],
       s_IsBlocked = False, s_ExpiresAt = 52, s_CreatedAt = 0\<rparr>]\<rparr>\<rparr>"

theorem renew_needs_live_session_witness:
  "rs_status (fst (run_state (renewAccessToken sample_env sample_rest (Some \<lparr>rar_RefreshToken = refresh_token\<rparr>)) renewing_world)) = 200 \<and>
   (\<exists>p s. s \<in> set (sessions (db renewing_world)) \<and> live_session s p refresh_token (clock sample_env (tick renewing_world + 2)))"
proof -
  have "rs_status (fst (run_state (renewAccessToken sample_env sample_rest (Some \<lparr>rar_RefreshToken = refresh_token\<rparr>))
      renewing_world)) = 200"
    by code_simp
  with renew_needs_live_session [OF prod.collapse [symmetric]] show ?thesis by fastforce
qed

subsection \<open>From login to renewal\<close>

lemma loginUser_200E:
  assumes "run_state (loginUser E (deployed_rest E config) ctx (Some req)) w = (rsp, w')" and "rs_status rsp = 200"
  obtains u at ap rt rp s w1 w2 w3 lr where
    "run_state (GetUser (SQLStore E) (lur_Username req)) w = (Inr u, w1)"
    "CheckPassword E (lur_Password req) (u_HashedPassword u) = None"
    "run_state (CreateToken (PasetoMaker E (TokenSymmetricKey config)) (u_Username u) (u_Role u)
       (AccessTokenDuration config) TokenTypeAccessToken) w1 = (Inr (at, ap), w2)"
    "run_state (CreateToken (PasetoMaker E (TokenSymmetricKey config)) (u_Username u) (u_Role u)
       (RefreshTokenDuration config) TokenTypeRefreshToken) w2 = (Inr (rt, rp), w3)"
    "run_state (CreateSession (SQLStore E) \<lparr>cs_ID = p_ID rp, cs_Username = u_Username u, cs_RefreshToken = rt,
       cs_UserAgent = cx_user_agent ctx, cs_ClientIp = cx_client_ip ctx, cs_IsBlocked = False,
       cs_ExpiresAt = p_ExpiredAt rp\<rparr>) w3 = (Inr s, w')"
    "rs_body rsp = LoginBody lr"
    "lr = \<lparr>lr_SessionID = s_ID s, lr_AccessToken = at, lr_AccessTokenExpiresAt = p_ExpiredAt ap,
       lr_RefreshToken = rt, lr_RefreshTokenExpiresAt = p_ExpiredAt rp, lr_User = newUserResponse u\<rparr>"
  using assms
  by (auto simp: loginUser_def ShouldBind_def run_caseE split: if_splits sum.splits prod.splits option.splits)

lemma paseto_create_tick:
  "run_state (CreateToken (PasetoMaker E key) u r d t) w = (Inr (tok, p), w') \<Longrightarrow> w' = w\<lparr>tick := tick w + 4\<rparr>"
  by (auto simp: token_runs eval_nat_numeral split: option.splits sum.splits)

text \<open>Random bytes are there and encryption succeeds.\<close>

definition tokens_available :: "env \<Rightarrow> bool" where
  "tokens_available E \<longleftrightarrow> (\<forall>n. random_uuid E n \<noteq> None) \<and> (\<forall>n key p. \<not> isl (paseto_encrypt E n key p))"

lemma tokens_available_create:
  assumes "tokens_available E"
  obtains tok p w' where "run_state (CreateToken (PasetoMaker E key) u r d t) w = (Inr (tok, p), w')"
proof -
  have "random_uuid E (tick w) \<noteq> None" using assms unfolding tokens_available_def by blast
  then obtain i where i: "random_uuid E (tick w) = Some i" by auto
  let ?p = "\<lparr>p_ID = i, p_Type = t, p_Username = u, p_Role = r, p_IssuedAt = clock E (Suc (tick w)),
    p_ExpiredAt = Add (clock E (Suc (Suc (tick w)))) d\<rparr>"
  obtain tok where "paseto_encrypt E (Suc (Suc (Suc (tick w)))) key ?p = Inr tok"
    using assms unfolding tokens_available_def by (metis isl_def obj_sumE)
  then show thesis by (intro that) (simp add: token_runs i)
qed

lemma CreateSession_InrD:
  assumes "world_ok w" and "run_state (CreateSession (SQLStore E) arg) w = (Inr s, w')"
  shows "tick w' = Suc (tick w) \<and> read_row s_ID (s_ID s) (sessions (db w')) = Inr s \<and>
     s_ID s = cs_ID arg \<and> s_Username s = cs_Username arg \<and> s_RefreshToken s = cs_RefreshToken arg \<and>
     s_IsBlocked s = cs_IsBlocked arg \<and> s_ExpiresAt s = cs_ExpiresAt arg"
proof -
  from assms(2) obtain now d where st: "sql_CreateSession arg now (db w) = (Inr s, d)"
    and w': "w' = w\<lparr>tick := Suc (tick w), db := d\<rparr>"
    by (auto simp: SQLStore_def q_CreateSession_def elim: run_query_InrE)
  have "schema_ok (db w)" using assms(1) by (simp add: world_ok_def)
  from sessions.get_inserted [OF this st, of now] have "read_row s_ID (s_ID s) (sessions d) = Inr s"
    by (simp add: sql_GetSession_def)
  with st w' show ?thesis by (auto simp: sql_CreateSession_def Let_def split: if_splits)
qed

lemma calm_GetSession:
  "calm_db E \<Longrightarrow> run_state (GetSession (SQLStore E) i) w = (read_row s_ID i (sessions (db w)), w\<lparr>tick := Suc (tick w)\<rparr>)"
  using calm_query [where E = E and st = "sql_GetSession i" and q = Pool and w = w]
  by (simp add: SQLStore_def q_GetSession_def sql_GetSession_def)

text \<open>What a renewal answers when the refresh token verifies, by the session it finds.\<close>

lemma renew_verified:
  assumes calm: "calm_db E" and avail: "tokens_available E" and "rar_RefreshToken req \<noteq> []"
    and req: "ShouldBind E renewAccessTokenRequest_tags (Some req) = Inr req"
    and v: "fst (run_state (VerifyToken (PasetoMaker E (TokenSymmetricKey config)) (rar_RefreshToken req) TokenTypeRefreshToken) w) = Inr p"
    and s: "read_row s_ID (p_ID p) (sessions (db w)) = Inr s"
  shows "rs_status (fst (run_state (renewAccessToken E (deployed_rest E config) (Some req)) w)) =
     (if live_session s p (rar_RefreshToken req) (clock E (tick w + 2)) then 200 else 401)"
proof -
  let ?M = "PasetoMaker E (TokenSymmetricKey config)"
  have 1: "run_state (VerifyToken ?M (rar_RefreshToken req) TokenTypeRefreshToken) w = (Inr p, w\<lparr>tick := Suc (tick w)\<rparr>)"
    using v paseto_verified [OF prod.collapse [symmetric, of "run_state (VerifyToken ?M (rar_RefreshToken req) TokenTypeRefreshToken) w", unfolded v]]
    by (metis prod.collapse)
  have 2: "run_state (GetSession (SQLStore E) (p_ID p)) (w\<lparr>tick := Suc (tick w)\<rparr>) = (Inr s, w\<lparr>tick := Suc (Suc (tick w))\<rparr>)"
    using calm_GetSession [OF calm, of "p_ID p" "w\<lparr>tick := Suc (tick w)\<rparr>"] s by simp
  obtain tok q w' where 3: "run_state (CreateToken ?M (p_Username p) (p_Role p) (AccessTokenDuration config) TokenTypeAccessToken)
        (w\<lparr>tick := Suc (Suc (Suc (tick w)))\<rparr>) = (Inr (tok, q), w')"
    by (rule tokens_available_create [OF avail])
  have "s_ID s = p_ID p" using read_row_Inr_in [OF s] by simp
  then show ?thesis using 1 2 3 by (simp add: renewAccessToken_def req live_session_def)
qed

text \<open>What a login leaves behind: a session for the refresh token it returned, and tokens of their kinds.\<close>

lemma login_session:
  assumes ok: "world_ok w" and sound: "paseto_ok E" and mono: "mono (clock E)"
    and plain: "\<forall>u \<in> set (users (db w)). ascii (u_Username u) \<and> ascii (u_Role u)"
    and login: "run_state (loginUser E (deployed_rest E config) ctx (Some req)) w = (rsp, w')"
    and good: "rs_status rsp = 200" "rs_body rsp = LoginBody lr"
  obtains s rp where "lr_SessionID lr = s_ID s" "s_ID s = p_ID rp" "lr_RefreshTokenExpiresAt lr = p_ExpiredAt rp"
    and "read_row s_ID (p_ID rp) (sessions (db w')) = Inr s"
    and "\<And>t. t < p_ExpiredAt rp \<Longrightarrow> live_session s rp (lr_RefreshToken lr) t"
    and "\<And>x. tick w' \<le> tick x \<Longrightarrow> clock E (tick x + 2) < p_ExpiredAt rp \<Longrightarrow>
      fst (run_state (VerifyToken (PasetoMaker E (TokenSymmetricKey config)) (lr_RefreshToken lr) TokenTypeRefreshToken) x) = Inr rp"
    and "\<And>x. isl (fst (run_state (VerifyToken (PasetoMaker E (TokenSymmetricKey config)) (lr_AccessToken lr) TokenTypeRefreshToken) x))"
proof -
  let ?M = "PasetoMaker E (TokenSymmetricKey config)"
  let ?cs = "\<lambda>u rt rp. \<lparr>cs_ID = p_ID rp, cs_Username = u_Username u, cs_RefreshToken = rt,
       cs_UserAgent = cx_user_agent ctx, cs_ClientIp = cx_client_ip ctx, cs_IsBlocked = False,
       cs_ExpiresAt = p_ExpiredAt rp\<rparr>"
  from login good(1) obtain u at ap rt rp s w1 w2 w3 lr' where
    u: "run_state (GetUser (SQLStore E) (lur_Username req)) w = (Inr u, w1)"
    and a: "run_state (CreateToken ?M (u_Username u) (u_Role u) (AccessTokenDuration config) TokenTypeAccessToken) w1
        = (Inr (at, ap), w2)"
    and r: "run_state (CreateToken ?M (u_Username u) (u_Role u) (RefreshTokenDuration config) TokenTypeRefreshToken) w2
        = (Inr (rt, rp), w3)"
    and cs: "run_state (CreateSession (SQLStore E) (?cs u rt rp)) w3 = (Inr s, w')"
    and "rs_body rsp = LoginBody lr'"
    and "lr' = \<lparr>lr_SessionID = s_ID s, lr_AccessToken = at, lr_AccessTokenExpiresAt = p_ExpiredAt ap,
       lr_RefreshToken = rt, lr_RefreshTokenExpiresAt = p_ExpiredAt rp, lr_User = newUserResponse u\<rparr>"
    by (rule loginUser_200E)
  with good(2) have lr: "lr = \<lparr>lr_SessionID = s_ID s, lr_AccessToken = at, lr_AccessTokenExpiresAt = p_ExpiredAt ap,
       lr_RefreshToken = rt, lr_RefreshTokenExpiresAt = p_ExpiredAt rp, lr_User = newUserResponse u\<rparr>"
    by simp
  have u_row: "u \<in> set (users (db w))"
    using u by (auto simp: SQLStore_def q_GetUser_def sql_GetUser_def elim!: run_query_InrE dest: read_row_Inr_in)
  then have asc: "ascii (u_Username u)" "ascii (u_Role u)" using plain by simp_all
  have db1: "db w1 = db w" by (rule keeps_db_eq [OF sql_ledger.reads(3) u])
  have ticks: "w2 = w1\<lparr>tick := tick w1 + 4\<rparr>" "w3 = w2\<lparr>tick := tick w2 + 4\<rparr>"
    by (rule paseto_create_tick [OF a], rule paseto_create_tick [OF r])
  then have "world_ok w3" using ok db1 by (simp add: world_ok_def)
  note s = CreateSession_InrD [OF this cs, simplified]
  have w': "tick w' = Suc (tick w3)" using s by simp
  note rlife = paseto.lifecycle [OF sound asc r]
  note alife = paseto.lifecycle [OF sound asc a]
  have issued: "p_IssuedAt rp \<le> clock E n" if "tick w' \<le> n" for n
    using paseto.create_payload [OF r] that ticks w' by (auto intro!: monoD [OF mono])
  have verify: "fst (run_state (VerifyToken ?M rt TokenTypeRefreshToken) x) = Inr rp"
    if "tick w' \<le> tick x" "clock E (tick x + 2) < p_ExpiredAt rp" for x
  proof -
    have "clock E (tick x) \<le> clock E (tick x + 2)" "clock E (Suc (tick x)) \<le> clock E (tick x + 2)"
      by (auto intro!: monoD [OF mono])
    then have "alive E x rp" using that issued by (auto simp: alive_def)
    then show ?thesis using rlife by blast
  qed
  have sid: "s_ID s = p_ID rp" using s by simp
  show thesis
  proof (rule that)
    show "read_row s_ID (p_ID rp) (sessions (db w')) = Inr s" using s unfolding sid by simp
    show "live_session s rp (lr_RefreshToken lr) t" if "t < p_ExpiredAt rp" for t
      using s rlife that by (simp add: live_session_def lr)
    show "isl (fst (run_state (VerifyToken ?M (lr_AccessToken lr) TokenTypeRefreshToken) x))" for x
      using alife by (simp add: lr)
  qed (use verify sid in \<open>simp_all add: lr\<close>)
qed

text \<open>C13: A login opens a session that renews: after an answer 200, as long as the clock has not reached
  the expiration of the refresh token and the sessions are kept, the refresh token it returned renews the
  access token, while the access token it returned does not; and once the session is blocked, the
  refresh token is refused.\<close>

theorem login_then_renew:
  assumes ok: "world_ok w" and calm: "calm_db E" and sound: "paseto_ok E" and avail: "tokens_available E"
    and bind: "binding_ok E" and mono: "mono (clock E)"
    and plain: "\<forall>u \<in> set (users (db w)). ascii (u_Username u) \<and> ascii (u_Role u)"
    and login: "run_state (loginUser E (deployed_rest E config) ctx (Some req)) w = (rsp, w')"
    and good: "rs_status rsp = 200" "rs_body rsp = LoginBody lr" and some: "lr_RefreshToken lr \<noteq> []"
    and later: "tick w' \<le> tick v" "sessions (db v) = sessions (db w')"
      "clock E (tick v + 2) < lr_RefreshTokenExpiresAt lr"
    and blocked: "tick w' \<le> tick b"
      "sessions (db b) = write_row s_ID (lr_SessionID lr) (\<lambda>s. s\<lparr>s_IsBlocked := True\<rparr>) (sessions (db w'))"
      "clock E (tick b + 2) < lr_RefreshTokenExpiresAt lr"
  shows "rs_status (fst (run_state (renewAccessToken E (deployed_rest E config)
             (Some \<lparr>rar_RefreshToken = lr_RefreshToken lr\<rparr>)) v)) = 200 \<and>
         rs_status (fst (run_state (renewAccessToken E (deployed_rest E config)
             (Some \<lparr>rar_RefreshToken = lr_AccessToken lr\<rparr>)) v)) \<in> {400, 401} \<and>
         rs_status (fst (run_state (renewAccessToken E (deployed_rest E config)
             (Some \<lparr>rar_RefreshToken = lr_RefreshToken lr\<rparr>)) b)) = 401"
proof -
  let ?M = "PasetoMaker E (TokenSymmetricKey config)"
  let ?renew = "\<lambda>tok x. rs_status (fst (run_state (renewAccessToken E (deployed_rest E config) (Some \<lparr>rar_RefreshToken = tok\<rparr>)) x))"
  obtain s rp where sid: "lr_SessionID lr = s_ID s" "s_ID s = p_ID rp" and expires: "lr_RefreshTokenExpiresAt lr = p_ExpiredAt rp"
    and row: "read_row s_ID (p_ID rp) (sessions (db w')) = Inr s"
    and live: "\<And>t. t < p_ExpiredAt rp \<Longrightarrow> live_session s rp (lr_RefreshToken lr) t"
    and verify: "\<And>x. tick w' \<le> tick x \<Longrightarrow> clock E (tick x + 2) < p_ExpiredAt rp \<Longrightarrow>
      fst (run_state (VerifyToken ?M (lr_RefreshToken lr) TokenTypeRefreshToken) x) = Inr rp"
    and access: "\<And>x. isl (fst (run_state (VerifyToken ?M (lr_AccessToken lr) TokenTypeRefreshToken) x))"
    by (rule login_session [OF ok sound mono plain login good], rule that)
  have bound: "ShouldBind E renewAccessTokenRequest_tags (Some \<lparr>rar_RefreshToken = lr_RefreshToken lr\<rparr>) =
      Inr \<lparr>rar_RefreshToken = lr_RefreshToken lr\<rparr>"
    using bind some by (simp add: ShouldBind_def renewAccessTokenRequest_tags_def tag_holds_def binding_ok_def)
  have renew: "?renew (lr_RefreshToken lr) x = (if live_session s' rp (lr_RefreshToken lr) (clock E (tick x + 2)) then 200 else 401)"
    if "tick w' \<le> tick x" "clock E (tick x + 2) < p_ExpiredAt rp" "read_row s_ID (p_ID rp) (sessions (db x)) = Inr s'" for x s'
    using renew_verified [OF calm avail _ bound _ that(3)] verify [OF that(1,2)] some by simp
  have "?renew (lr_RefreshToken lr) v = 200"
    using renew [of v s] later row live by (simp add: expires)
  moreover have "read_row s_ID (p_ID rp) (sessions (db b)) = Inr (s\<lparr>s_IsBlocked := True\<rparr>)"
    using row by (simp add: blocked(2) sid read_write_same)
  then have "?renew (lr_RefreshToken lr) b = 401"
    using renew [of b "s\<lparr>s_IsBlocked := True\<rparr>"] blocked(1,3) by (simp add: expires live_session_def)
  moreover have "?renew (lr_AccessToken lr) v \<in> {400, 401}"
    using access [of v] by (auto simp: renewAccessToken_def ShouldBind_def run_caseE isl_def split: prod.splits sum.splits)
  ultimately show ?thesis by simp
qed

definition alice_login :: "rest_response \<times> world" where
  "alice_login = run_state (loginUser sample_env sample_rest
     \<lparr>cx_authorization = [], cx_user_agent = ''test'', cx_client_ip = ''127.0.0.1''\<rparr>
     (Some \<lparr>lur_Username = ''alice'', lur_Password = ''secret1''\<rparr>)) sample_world"

fun login_body :: "rest_body \<Rightarrow> loginUserResponse option" where
  "login_body (LoginBody lr) = Some lr"
| "login_body _ = None"

lemma login_body_Some: "login_body b = Some lr \<longleftrightarrow> b = LoginBody lr"
  by (cases b) auto

definition block_session :: "uuid \<Rightarrow> world \<Rightarrow> world" where
  "block_session i w = w\<lparr>db := (db w)\<lparr>sessions := write_row s_ID i (\<lambda>s. s\<lparr>s_IsBlocked := True\<rparr>) (sessions (db w))\<rparr>\<rparr>"

lemma tokens_available_sample: "tokens_available sample_env"
  by (simp add: tokens_available_def sample_env_def)

lemma mono_sample_clock: "mono (clock sample_env)"
  by (simp add: mono_def sample_env_def)

theorem login_then_renew_witness:
  "\<exists>lr. rs_body (fst alice_login) = LoginBody lr \<and>
     rs_status (fst (run_state (renewAccessToken sample_env sample_rest
        (Some \<lparr>rar_RefreshToken = lr_RefreshToken lr\<rparr>)) (snd alice_login))) = 200 \<and>
     rs_status (fst (run_state (renewAccessToken sample_env sample_rest
        (Some \<lparr>rar_RefreshToken = lr_RefreshToken lr\<rparr>)) (block_session (lr_SessionID lr) (snd alice_login)))) = 401"
proof -
  let ?w' = "snd alice_login"
  have facts: "rs_status (fst alice_login) = 200"
    "(case login_body (rs_body (fst alice_login)) of None \<Rightarrow> False
      | Some lr \<Rightarrow> lr_RefreshToken lr \<noteq> [] \<and> clock sample_env (tick ?w' + 2) < lr_RefreshTokenExpiresAt lr)"
    "list_all (\<lambda>u. ascii (u_Username u) \<and> ascii (u_Role u)) (users (db sample_world))"
    by code_simp+
  then obtain lr where lr: "rs_body (fst alice_login) = LoginBody lr" "lr_RefreshToken lr \<noteq> []"
      "clock sample_env (tick ?w' + 2) < lr_RefreshTokenExpiresAt lr"
    by (auto simp: login_body_Some split: option.splits)
  have calm: "calm_db sample_env" by (simp add: calm_db_def sample_env_def)
  have plain: "\<forall>u \<in> set (users (db sample_world)). ascii (u_Username u) \<and> ascii (u_Role u)"
    using facts(3) by (simp only: list_all_iff)
  have "tick (block_session (lr_SessionID lr) ?w') = tick ?w'"
    "sessions (db (block_session (lr_SessionID lr) ?w')) =
       write_row s_ID (lr_SessionID lr) (\<lambda>s. s\<lparr>s_IsBlocked := True\<rparr>) (sessions (db ?w'))"
    by (simp_all add: block_session_def)
  note b = this
  have "run_state (loginUser sample_env sample_rest
     \<lparr>cx_authorization = [], cx_user_agent = ''test'', cx_client_ip = ''127.0.0.1''\<rparr>
     (Some \<lparr>lur_Username = ''alice'', lur_Password = ''secret1''\<rparr>)) sample_world = (fst alice_login, ?w')"
    by (simp add: alice_login_def)
  from login_then_renew [OF sample_world_ok calm paseto_ok_sample tokens_available_sample binding_ok_sample
      mono_sample_clock plain this facts(1) lr(1,2) order_refl refl lr(3) _ b(2)] lr b(1)
  show ?thesis by (intro exI [of _ lr]) simp
qed

end
