(* ===== verification/GapiProps.thy ===== *)
theory GapiProps
  imports Users SessionProps
begin

section \<open>Correctness of the gRPC API\<close>

text \<open>
  Who may change a profile, over every call of the service and every fault.
\<close>

subsection \<open>Who may change a profile\<close>

text \<open>What a token in the request says: the second word of the first authorization header after the scheme
  \<^verbatim>\<open>bearer\<close>, decrypted with the server's key, being an access token that has not expired.\<close>

definition bearer_payload :: "env \<Rightarrow> Config \<Rightarrow> grpc_context \<Rightarrow> time \<Rightarrow> payload option" where
  "bearer_payload E config ctx now =
     (case gx_metadata ctx of
        None \<Rightarrow> None
      | Some md \<Rightarrow>
          (case concat (map Fields (take 1 (md ''authorization''))) of
             scheme # tok # rest \<Rightarrow>
               (case paseto_decrypt E (TokenSymmetricKey config) tok of
                  None \<Rightarrow> None
                | Some p \<Rightarrow>
                    if ToLower scheme = ''bearer'' \<and> p_Type p = TokenTypeAccessToken \<and> now \<le> p_ExpiredAt p
                    then Some p else None)
           | _ \<Rightarrow> None))"

text \<open>Whose profile a call may change: that of the user it names, if the token is this user's or a banker's. The
  token is looked at after the interceptor has read the clock.\<close>

definition may_update :: "env \<Rightarrow> Config \<Rightarrow> grpc_context \<Rightarrow> grpc_call \<Rightarrow> world \<Rightarrow> gostring \<Rightarrow> bool" where
  "may_update E config ctx call w name \<longleftrightarrow>
     (case call of
        RpcUpdateUser req \<Rightarrow> guu_Username req = name \<and>
          (case bearer_payload E config ctx (clock E (Suc (tick w))) of
             None \<Rightarrow> False
           | Some p \<Rightarrow> p_Role p = BankerRole \<or> p_Role p = DepositorRole \<and> p_Username p = name)
      | _ \<Rightarrow> False)"

lemma authorizeUser_bearer:
  assumes "run_state (authorizeUser E (deployed_grpc E config) ctx [BankerRole, DepositorRole]) w = (Inr p, w')"
  shows "bearer_payload E config ctx (clock E (tick w)) = Some p \<and> (p_Role p = BankerRole \<or> p_Role p = DepositorRole)"
proof -
  from assms obtain md h hs where md: "gx_metadata ctx = Some md" "md ''authorization'' = h # hs"
    by (auto simp: authorizeUser_def split: option.splits list.splits)
  with assms have "\<not> length (Fields h) < 2" by (auto simp: authorizeUser_def Let_def split: if_splits)
  then obtain scheme tok rest where fields: "Fields h = scheme # tok # rest"
    by (cases "Fields h"; cases "tl (Fields h)") auto
  show ?thesis using assms
    by (auto simp: authorizeUser_def Let_def md fields run_caseE token_runs bearer_payload_def authorizationBearer_def
        split: if_splits option.splits sum.splits)
qed

lemma update_evolves:
  assumes run: "run_state (rpc_UpdateUser E (deployed_grpc E config) ctx req) (w\<lparr>tick := Suc (tick w)\<rparr>) = (r, w')"
    and A: "A = may_update E config ctx (RpcUpdateUser req) w"
  shows "users_evolve A (db w) (db w')"
proof -
  let ?w = "w\<lparr>tick := Suc (tick w)\<rparr>"
  let ?auth = "authorizeUser E (deployed_grpc E config) ctx [BankerRole, DepositorRole]"
  obtain a w1 where auth: "run_state ?auth ?w = (a, w1)" by fastforce
  have db1: "db w1 = db w" using keeps_db_eq [OF grpc.keeps_authorizeUser auth] by simp
  show ?thesis
  proof (cases a)
    case (Inl err)
    with auth run db1 show ?thesis by (auto simp: rpc_UpdateUser_def)
  next
    case (Inr p)
    show ?thesis
    proof (cases "p_Role p \<noteq> BankerRole \<and> p_Username p \<noteq> guu_Username req")
      case True
      with auth Inr run db1 show ?thesis by (auto simp: rpc_UpdateUser_def Let_def split: if_splits)
    next
      case False
      then have "A (guu_Username req)" using authorizeUser_bearer [OF auth [unfolded Inr]] by (auto simp: A may_update_def)
      then have upd: "keeps (evolved A (db w)) (update_stored_user E (deployed_grpc E config) (update_arg req h t))" for h t
        unfolding update_stored_user_def
        by (intro frame_intros) (simp add: SQLStore_def evolved_UpdateUser update_arg_def)
      have "evolved A (db w) w1" by (simp add: evolved_def db1)
      have "evolved A (db w) w'"
        by (rule keepsD_caseE [where P = "evolved A (db w)", OF run [unfolded rpc_UpdateUser_def] auth [unfolded Inr] _
              \<open>evolved A (db w) w1\<close>])
          (unfold Let_def, intro frame_intros upd tick_closed_evolved)
      then show ?thesis by (simp add: evolved_def)
    qed
  qed
qed

text \<open>C9: Whatever a gRPC call is and whatever fails, every user keeps name and role, new users are
  depositors, and a profile (password, name, e-mail address) changes only by \<open>UpdateUser\<close> for that very
  user, with an unexpired access token, encrypted under the server's key and sent as a bearer, that names the user
  as a depositor or anybody as a banker.\<close>

theorem profile_changes_authorized:
  "users_evolve (may_update E config ctx call w) (db w)
     (db (snd (run_state (serve_grpc E (deployed_grpc E config) ctx call) w)))"
proof -
  let ?A = "may_update E config ctx call w"
  let ?w = "w\<lparr>tick := Suc (tick w)\<rparr>"
  obtain r w' where h: "run_state (grpc_handler E (deployed_grpc E config) ctx call) ?w = (r, w')" by fastforce
  then have "db (snd (run_state (serve_grpc E (deployed_grpc E config) ctx call) w)) = db w'"
    by (simp add: serve_grpc_def GrpcLogger_def)
  moreover have "users_evolve ?A (db w) (db w')"
  proof (cases call)
    case (RpcUpdateUser req)
    with h obtain r1 where "run_state (rpc_UpdateUser E (deployed_grpc E config) ctx req) ?w = (r1, w')"
      by (auto simp: map_response_def run_caseE split: prod.splits sum.splits)
    from update_evolves [OF this] RpcUpdateUser show ?thesis by simp
  next
    case (RpcCreateUser req)
    have "keeps (evolved ?A (db w)) (rpc_CreateUser E (deployed_grpc E config) req)"
      by (rule grpc.keeps_rpc_CreateUser) (simp_all add: SQLStore_def evolved_txs)
    then have "keeps (evolved ?A (db w)) (grpc_handler E (deployed_grpc E config) ctx call)"
      by (simp add: RpcCreateUser map_response_def keeps_caseE keeps_return)
    from keepsD [OF this h] show ?thesis by (simp add: evolved_def)
  next
    case (RpcLoginUser req)
    have "keeps (evolved ?A (db w)) (rpc_LoginUser E (deployed_grpc E config) ctx req)"
      by (rule grpc.keeps_rpc_LoginUser) (simp_all add: SQLStore_def evolved_queries)
    then have "keeps (evolved ?A (db w)) (grpc_handler E (deployed_grpc E config) ctx call)"
      by (simp add: RpcLoginUser map_response_def keeps_caseE keeps_return)
    from keepsD [OF this h] show ?thesis by (simp add: evolved_def)
  next
    case (RpcVerifyEmail req)
    have "keeps (evolved ?A (db w)) (rpc_VerifyEmail E (deployed_grpc E config) req)"
      by (rule grpc.keeps_rpc_VerifyEmail) (simp add: SQLStore_def evolved_txs)
    then have "keeps (evolved ?A (db w)) (grpc_handler E (deployed_grpc E config) ctx call)"
      by (simp add: RpcVerifyEmail map_response_def keeps_caseE keeps_return)
    from keepsD [OF this h] show ?thesis by (simp add: evolved_def)
  qed
  ultimately show ?thesis by simp
qed

text \<open>With alice's token bob's profile cannot be changed, and alice's can; with her refresh token not even that.\<close>

definition gctx_of :: "gostring \<Rightarrow> grpc_context" where
  "gctx_of who = \<lparr>gx_metadata = Some (\<lambda>k. if k = ''authorization'' then [''Bearer '' @ token_of who TokenTypeAccessToken] else []),
                  gx_peer = None\<rparr>"

definition alice_renames :: "gostring \<Rightarrow> grpc_call" where
  "alice_renames who = RpcUpdateUser \<lparr>guu_Username = who, guu_FullName = Some ''somebody'', guu_Email = None, guu_Password = None\<rparr>"

definition alice_refreshes :: grpc_context where
  "alice_refreshes =
     \<lparr>gx_metadata = Some (\<lambda>k. if k = ''authorization'' then [''Bearer '' @ token_of ''alice'' TokenTypeRefreshToken] else []),
      gx_peer = None\<rparr>"

theorem profile_changes_authorized_witness:
  "(\<exists>u \<in> set (users (db (snd (run_state (serve_grpc sample_env (deployed_grpc sample_env sample_config)
       (gctx_of ''alice'') (alice_renames ''bob'')) sample_world)))). u_Username u = ''bob'' \<and> u_FullName u = ''bob'') \<and>
   (\<exists>u \<in> set (users (db (snd (run_state (serve_grpc sample_env (deployed_grpc sample_env sample_config)
       alice_refreshes (alice_renames ''alice'')) sample_world)))). u_Username u = ''alice'' \<and> u_FullName u = ''alice'') \<and>
   may_update sample_env sample_config (gctx_of ''alice'') (alice_renames ''alice'') sample_world ''alice''"
proof -
  have no: "\<not> may_update sample_env sample_config (gctx_of ''alice'') (alice_renames ''bob'') sample_world ''bob''"
    "\<not> may_update sample_env sample_config alice_refreshes (alice_renames ''alice'') sample_world ''alice''"
    and yes: "may_update sample_env sample_config (gctx_of ''alice'') (alice_renames ''alice'') sample_world ''alice''"
    by code_simp+
  have rows: "sample_user ''alice'' ''alice@bank.org'' ''secret1'' \<in> set (users (db sample_world))"
    "sample_user ''bob'' ''bob@bank.org'' ''secret2'' \<in> set (users (db sample_world))" by code_simp+
  note evolve = profile_changes_authorized [where E = sample_env and config = sample_config and w = sample_world,
      unfolded users_evolve_def, THEN conjunct1, THEN bspec]
  from evolve [OF rows(2), of "gctx_of ''alice''" "alice_renames ''bob''"] evolve [OF rows(1), of alice_refreshes "alice_renames ''alice''"]
    no yes show ?thesis by (auto simp: sample_user_def profile_def)
qed

end
