(* ===== verification/SignupProps.thy ===== *)
theory SignupProps
  imports GapiProps
begin

section \<open>Signing up, signing in and verifying an e-mail address\<close>

text \<open>
  The gRPC methods on a database that answers: which fields are refused, the outcome of a registration and
  of an update of a profile on every branch, and a registration followed by a login.
\<close>

subsection \<open>Runs with a database that answers\<close>

lemma run_query_calm:
  "calm_db E \<Longrightarrow> run_state (run_query E q st) w =
     (fst (st (case q of Pool \<Rightarrow> clock E (tick w) | Tx t \<Rightarrow> t) (db w)),
      w\<lparr>tick := Suc (tick w), db := snd (st (case q of Pool \<Rightarrow> clock E (tick w) | Tx t \<Rightarrow> t) (db w))\<rparr>)"
  by (simp add: run_query_def calm_db_def split_beta Let_def)

lemma execTx_calm:
  assumes "calm_db E"
  shows "run_state (execTx E fn) w =
     (case run_state (fn (Tx (clock E (tick w)))) (w\<lparr>tick := Suc (tick w)\<rparr>) of
        (Inl e, w2) \<Rightarrow> (Inl e, w2\<lparr>tick := Suc (tick w2), db := rollback_to (db w) (db w2)\<rparr>)
      | (Inr x, w2) \<Rightarrow> (Inr x, w2\<lparr>tick := Suc (tick w2)\<rparr>))"
  using assms by (auto simp: execTx_def calm_db_def Let_def split: prod.splits sum.splits)

lemma run_HashPassword:
  "run_state (HashPassword E pw) w =
     (case bcrypt_generate E (tick w) pw of
        Inl e \<Rightarrow> Inl (Wrap ''failed to hash password: '' e) | Inr h \<Rightarrow> Inr h, w\<lparr>tick := Suc (tick w)\<rparr>)"
  by (simp add: HashPassword_def)

lemma run_enqueue:
  "run_state (enqueue E t) w =
     (case queue_fault E (tick w) of Through \<Rightarrow> Inr () | _ \<Rightarrow> Inl ConnError,
      w\<lparr>tick := Suc (tick w), queue := (if queue_fault E (tick w) = Lost then queue w else queue w @ [t])\<rparr>)"
  by (simp add: enqueue_def Let_def split: fault.splits)

subsection \<open>Validation\<close>

text \<open>What the fields of a request must be, and the names of those that are not.\<close>

definition username_ok :: "gostring \<Rightarrow> bool" where
  "username_ok s \<longleftrightarrow> 3 \<le> length s \<and> length s \<le> 100 \<and> list_all (\<lambda>c. lower_or_digit c \<or> c = CHR ''_'') s"

definition password_ok :: "gostring \<Rightarrow> bool" where
  "password_ok s \<longleftrightarrow> 6 \<le> length s \<and> length s \<le> 100"

definition full_name_ok :: "gostring \<Rightarrow> bool" where
  "full_name_ok s \<longleftrightarrow> 3 \<le> length s \<and> length s \<le> 100 \<and>
     list_all (\<lambda>c. letter c \<or> (of_char c :: nat) \<in> {9, 10, 12, 13, 32}) s"

definition email_ok :: "env \<Rightarrow> gostring \<Rightarrow> bool" where
  "email_ok E s \<longleftrightarrow> 3 \<le> length s \<and> length s \<le> 200 \<and> parse_address E s"

definition bad_fields :: "(gostring \<times> bool) list \<Rightarrow> gostring list" where
  "bad_fields checks = map fst (filter (\<lambda>(f, ok). \<not> ok) checks)"

lemma violation_field: "map fv_Field (violation E f r) = (if r = None then [] else [f])"
  "violation E f r = [] \<longleftrightarrow> r = None"
  by (simp_all add: violation_def fieldViolation_def split: option.splits)

lemma validators_ok:
  "ValidateUsername s = None \<longleftrightarrow> username_ok s" "ValidatePassword s = None \<longleftrightarrow> password_ok s"
  "ValidateFullName s = None \<longleftrightarrow> full_name_ok s" "ValidateEmail E s = None \<longleftrightarrow> email_ok E s"
  "ValidateSecretCode s = None \<longleftrightarrow> 32 \<le> length s \<and> length s \<le> 128"
  by (simp_all add: username_ok_def password_ok_def full_name_ok_def email_ok_def ValidateUsername_None
      ValidatePassword_def ValidateFullName_None ValidateEmail_None ValidateSecretCode_def)

lemma violated_fields:
  "map fv_Field (validateCreateUserRequest E cu) = bad_fields
     [(''username'', username_ok (gcu_Username cu)), (''password'', password_ok (gcu_Password cu)),
      (''full_name'', full_name_ok (gcu_FullName cu)), (''email'', email_ok E (gcu_Email cu))]"
  "map fv_Field (validateLoginUserRequest E lu) = bad_fields
     [(''username'', username_ok (glu_Username lu)), (''password'', password_ok (glu_Password lu))]"
  "map fv_Field (validateUpdateUserRequest E uu) = bad_fields
     [(''username'', username_ok (guu_Username uu)), (''password'', pred_option password_ok (guu_Password uu)),
      (''full_name'', pred_option full_name_ok (guu_FullName uu)), (''email'', pred_option (email_ok E) (guu_Email uu))]"
  "map fv_Field (validateVerifyEmailRequest E ve) = bad_fields
     [(''email_id'', 0 < sint (gve_EmailId ve)),
      (''secret_code'', 32 \<le> length (gve_SecretCode ve) \<and> length (gve_SecretCode ve) \<le> 128)]"
  by (auto simp: validateCreateUserRequest_def validateLoginUserRequest_def validateUpdateUserRequest_def
      validateVerifyEmailRequest_def violation_field validators_ok bad_fields_def opt_string_def split: option.splits)

fun field_checks :: "env \<Rightarrow> grpc_call \<Rightarrow> (gostring \<times> bool) list" where
  "field_checks E (RpcCreateUser cu) =
     [(''username'', username_ok (gcu_Username cu)), (''password'', password_ok (gcu_Password cu)),
      (''full_name'', full_name_ok (gcu_FullName cu)), (''email'', email_ok E (gcu_Email cu))]"
| "field_checks E (RpcLoginUser lu) =
     [(''username'', username_ok (glu_Username lu)), (''password'', password_ok (glu_Password lu))]"
| "field_checks E (RpcUpdateUser uu) =
     [(''username'', username_ok (guu_Username uu)), (''password'', pred_option password_ok (guu_Password uu)),
      (''full_name'', pred_option full_name_ok (guu_FullName uu)), (''email'', pred_option (email_ok E) (guu_Email uu))]"
| "field_checks E (RpcVerifyEmail ve) =
     [(''email_id'', 0 < sint (gve_EmailId ve)),
      (''secret_code'', 32 \<le> length (gve_SecretCode ve) \<and> length (gve_SecretCode ve) \<le> 128)]"

text \<open>Whether a call gets as far as its fields: an update needs a token first.\<close>

fun passes_auth :: "env \<Rightarrow> grpc_server \<Rightarrow> grpc_context \<Rightarrow> grpc_call \<Rightarrow> world \<Rightarrow> bool" where
  "passes_auth E server ctx (RpcUpdateUser uu) w =
     (\<not> isl (fst (run_state (authorizeUser E server ctx [BankerRole, DepositorRole]) w)))"
| "passes_auth E server ctx _ w = True"

lemma violated_Nil:
  "map fv_Field vs = bad_fields checks \<Longrightarrow> vs = [] \<longleftrightarrow> bad_fields checks = []"
  by (cases vs) auto

lemma authorizeUser_only_tick:
  assumes "run_state (authorizeUser E (deployed_grpc E config) ctx roles) w = (r, w')"
  shows "only_tick w w'"
  using assms
  by (auto simp: authorizeUser_def Let_def run_caseE split: option.splits list.splits if_splits prod.splits sum.splits
      dest: paseto.verify_only_tick)

lemma Errorf_code [simp]: "gr_code (Errorf c m) = c" "gr_code (unauthenticatedError E err) = Unauthenticated"
  by (simp_all add: Errorf_def unauthenticatedError_def)

lemma no_other_invalid:
  "validateCreateUserRequest E cu = [] \<Longrightarrow> run_state (rpc_CreateUser E server cu) w = (Inl st, w') \<Longrightarrow> gr_code st \<noteq> InvalidArgument"
  "validateLoginUserRequest E lu = [] \<Longrightarrow> run_state (rpc_LoginUser E server ctx lu) w = (Inl st, w') \<Longrightarrow> gr_code st \<noteq> InvalidArgument"
  "validateVerifyEmailRequest E ve = [] \<Longrightarrow> run_state (rpc_VerifyEmail E server ve) w = (Inl st, w') \<Longrightarrow> gr_code st \<noteq> InvalidArgument"
  "validateUpdateUserRequest E uu = [] \<Longrightarrow> run_state (rpc_UpdateUser E server ctx uu) w = (Inl st, w') \<Longrightarrow> gr_code st \<noteq> InvalidArgument"
  by (auto simp: rpc_CreateUser_def rpc_LoginUser_def rpc_VerifyEmail_def rpc_UpdateUser_def update_stored_user_def
      Let_def run_caseE split: prod.splits sum.splits if_splits option.splits)

lemma run_map_response:
  "run_state (map_response f m) w = (case run_state m w of (Inl e, w') \<Rightarrow> (Inl e, w') | (Inr x, w') \<Rightarrow> (Inr (f x), w'))"
  by (auto simp: map_response_def run_caseE split: prod.splits sum.splits)

text \<open>C20: A request with invalid fields is refused before anything happens: each of the four methods answers
  INVALID_ARGUMENT with one violation for each invalid field, in order, and nothing changes (UpdateUser
  after its authorization); a request whose fields are valid is not answered so.\<close>

theorem invalid_fields_refused:
  "let bad = bad_fields (field_checks E call); out = run_state (grpc_handler E (deployed_grpc E config) ctx call) w in
   if bad \<noteq> [] \<and> passes_auth E (deployed_grpc E config) ctx call w
   then (\<exists>vs. fst out = Inl (invalidArgumentError vs) \<and> map fv_Field vs = bad) \<and> only_tick w (snd out)
   else (case fst out of Inl st \<Rightarrow> gr_code st \<noteq> InvalidArgument | Inr _ \<Rightarrow> True)"
proof (cases call)
  case (RpcCreateUser cu)
  with violated_fields(1) [of E cu] violated_Nil [OF violated_fields(1) [of E cu]] show ?thesis
    by (auto simp: Let_def run_map_response split: sum.splits prod.splits dest: no_other_invalid)
      (auto simp: rpc_CreateUser_def Let_def)
next
  case (RpcLoginUser lu)
  with violated_fields(2) [of E lu] violated_Nil [OF violated_fields(2) [of E lu]] show ?thesis
    by (auto simp: Let_def run_map_response split: sum.splits prod.splits dest: no_other_invalid)
      (auto simp: rpc_LoginUser_def Let_def)
next
  case (RpcVerifyEmail ve)
  with violated_fields(4) [of E ve] violated_Nil [OF violated_fields(4) [of E ve]] show ?thesis
    by (auto simp: Let_def run_map_response split: sum.splits prod.splits dest: no_other_invalid)
      (auto simp: rpc_VerifyEmail_def Let_def)
next
  case (RpcUpdateUser uu)
  obtain a w1 where auth: "run_state (authorizeUser E (deployed_grpc E config) ctx [BankerRole, DepositorRole]) w = (a, w1)"
    by fastforce
  note tick = authorizeUser_only_tick [OF auth]
  note fields = violated_fields(3) [of E uu] violated_Nil [OF violated_fields(3) [of E uu]]
  show ?thesis
  proof (cases a)
    case (Inl e)
    with RpcUpdateUser auth show ?thesis
      by (auto simp: run_map_response rpc_UpdateUser_def)
  next
    case (Inr p)
    show ?thesis
    proof (cases "bad_fields (field_checks E call) = []")
      case True
      with RpcUpdateUser fields auth Inr show ?thesis
        by (auto simp: Let_def run_map_response split: sum.splits prod.splits dest: no_other_invalid)
    next
      case False
      with RpcUpdateUser fields auth Inr tick show ?thesis
        by (auto simp: Let_def run_map_response rpc_UpdateUser_def)
    qed
  qed
qed

subsection \<open>CreateUser\<close>

definition taken :: "database \<Rightarrow> gostring \<Rightarrow> gostring \<Rightarrow> bool" where
  "taken d name mail_address \<longleftrightarrow> (\<exists>u \<in> set (users d). u_Username u = name \<or> u_Email u = mail_address)"

definition new_user :: "CreateUserRequest \<Rightarrow> gostring \<Rightarrow> time \<Rightarrow> user" where
  "new_user req hash now =
     \<lparr>u_Username = gcu_Username req, u_HashedPassword = hash, u_FullName = gcu_FullName req, u_Email = gcu_Email req,
      u_PasswordChangedAt = zero_time, u_CreatedAt = now, u_IsEmailVerified = False, u_Role = DepositorRole\<rparr>"

definition signup_task :: "gostring \<Rightarrow> task" where
  "signup_task name = \<lparr>tk_Type = TaskSendVerifyEmail, tk_Payload = Some \<lparr>sv_Username = name\<rparr>, tk_Options = verify_email_options\<rparr>"

lemma rollback_rows [simp]:
  "accounts (rollback_to d0 d) = accounts d0" "entries (rollback_to d0 d) = entries d0"
  "transfers (rollback_to d0 d) = transfers d0" "users (rollback_to d0 d) = users d0"
  "sessions (rollback_to d0 d) = sessions d0" "verify_emails (rollback_to d0 d) = verify_emails d0"
  by (simp_all add: rollback_to_def)

lemma CreateUserTx_calm:
  assumes calm: "calm_db E"
  shows "run_state (CreateUserTx E cu (\<lambda>u. DistributeTaskSendVerifyEmail E \<lparr>sv_Username = u_Username u\<rparr> verify_email_options)) w =
     (if taken (db w) (cu_Username cu) (cu_Email cu)
      then (Inl (PgError UniqueViolation), w\<lparr>tick := tick w + 3, db := rollback_to (db w) (db w)\<rparr>)
      else let u = fst (sql_CreateUser cu (clock E (tick w)) (db w)); d = snd (sql_CreateUser cu (clock E (tick w)) (db w)) in
        case queue_fault E (tick w + 2) of
          Through \<Rightarrow> (u, w\<lparr>tick := tick w + 4, db := d, queue := queue w @ [signup_task (cu_Username cu)]\<rparr>)
        | Lost \<Rightarrow> (Inl (Wrap ''failed to enqueue task: '' ConnError), w\<lparr>tick := tick w + 4, db := rollback_to (db w) d\<rparr>)
        | Unacked \<Rightarrow> (Inl (Wrap ''failed to enqueue task: '' ConnError),
            w\<lparr>tick := tick w + 4, db := rollback_to (db w) d, queue := queue w @ [signup_task (cu_Username cu)]\<rparr>))"
  by (auto simp: CreateUserTx_def execTx_calm [OF calm] run_bindE q_CreateUser_def run_query_calm [OF calm] sql_CreateUser_def
      taken_def list_ex_iff Let_def DistributeTaskSendVerifyEmail_def run_caseE run_enqueue signup_task_def
      eval_nat_numeral split: fault.splits)

lemma create_user_run:
  assumes calm: "calm_db E" and valid: "bad_fields (field_checks E (RpcCreateUser req)) = []"
    and hash: "bcrypt_generate E (tick w) (gcu_Password req) = Inr h"
    and run: "run_state (rpc_CreateUser E (deployed_grpc E config) req) w = (r, w')"
  shows "if taken (db w) (gcu_Username req) (gcu_Email req)
     then r = Inl (Errorf AlreadyExists (driver_text E (PgError UniqueViolation))) \<and>
          same_rows (db w) (db w') \<and> queue w' = queue w
     else (case queue_fault E (tick w + 3) of
        Through \<Rightarrow>
          (let u = new_user req h (clock E (tick w + 1)) in
           r = Inr (convertUser u) \<and> same_rows ((db w)\<lparr>users := users (db w) @ [u]\<rparr>) (db w') \<and>
           queue w' = queue w @ [signup_task (gcu_Username req)])
      | Lost \<Rightarrow> map_sum gr_code id r = Inl Internal \<and> same_rows (db w) (db w') \<and> queue w' = queue w
      | Unacked \<Rightarrow> map_sum gr_code id r = Inl Internal \<and> same_rows (db w) (db w') \<and>
          queue w' = queue w @ [signup_task (gcu_Username req)])"
proof -
  have "validateCreateUserRequest E req = []" using valid violated_Nil [OF violated_fields(1) [of E req]] by simp
  define cu where "cu = \<lparr>cu_Username = gcu_Username req, cu_HashedPassword = h, cu_FullName = gcu_FullName req,
      cu_Email = gcu_Email req\<rparr>"
  define w1 where "w1 = w\<lparr>tick := Suc (tick w)\<rparr>"
  obtain r1 w2 where tx: "run_state (CreateUserTx E cu
      (\<lambda>u. DistributeTaskSendVerifyEmail E \<lparr>sv_Username = u_Username u\<rparr> verify_email_options)) w1 = (r1, w2)" by fastforce
  have "run_state (HashPassword E (gcu_Password req)) w = (Inr h, w1)" by (simp add: run_HashPassword hash w1_def)
  with run \<open>validateCreateUserRequest E req = []\<close> tx
  have r: "r = (case r1 of Inr u \<Rightarrow> Inr (convertUser u) | Inl err \<Rightarrow> Inl (if ErrorCode err = UniqueViolation
      then Errorf AlreadyExists (error_text (driver_text E) err)
      else Errorf Internal (''failed to create user: '' @ error_text (driver_text E) err)))" and w': "w' = w2"
    by (auto simp: rpc_CreateUser_def SQLStore_def cu_def [symmetric] run_caseE split: sum.splits if_splits)
  have "(r1, w2) = (if taken (db w) (gcu_Username req) (gcu_Email req)
      then (Inl (PgError UniqueViolation), w1\<lparr>tick := tick w1 + 3, db := rollback_to (db w) (db w)\<rparr>)
      else let u = new_user req h (clock E (tick w + 1)); d = (db w)\<lparr>users := users (db w) @ [u]\<rparr> in
        case queue_fault E (tick w + 3) of
          Through \<Rightarrow> (Inr u, w1\<lparr>tick := tick w1 + 4, db := d, queue := queue w @ [signup_task (gcu_Username req)]\<rparr>)
        | Lost \<Rightarrow> (Inl (Wrap ''failed to enqueue task: '' ConnError), w1\<lparr>tick := tick w1 + 4, db := rollback_to (db w) d\<rparr>)
        | Unacked \<Rightarrow> (Inl (Wrap ''failed to enqueue task: '' ConnError),
            w1\<lparr>tick := tick w1 + 4, db := rollback_to (db w) d, queue := queue w @ [signup_task (gcu_Username req)]\<rparr>))"
    unfolding tx [symmetric] CreateUserTx_calm [OF calm]
    by (auto simp: cu_def w1_def taken_def list_ex_iff sql_CreateUser_def new_user_def DepositorRole_def Let_def eval_nat_numeral
        split: fault.splits)
  then show ?thesis
    by (auto simp: r w' w1_def same_rows_def Let_def codes_differ [symmetric] split: fault.splits if_splits)
qed

text \<open>C17: With a database that answers, valid fields and a hash, CreateUser does one of two things. If the name
  or the address is taken it answers ALREADY_EXISTS and stores and enqueues nothing. Otherwise the
  answer depends on the queue: when the task gets through, the one row that is new is the user with the
  given fields, not verified and a depositor, and the task for the mail is enqueued with its options;
  when it does not, the answer is INTERNAL and the user is rolled back. The task is enqueued before the
  commit, so a task whose acknowledgement is lost stays in the queue for a user that does not exist.\<close>

theorem create_user_outcome:
  assumes calm: "calm_db E" and valid: "bad_fields (field_checks E (RpcCreateUser req)) = []"
    and hash: "bcrypt_generate E (tick w) (gcu_Password req) = Inr h"
    and run: "run_state (rpc_CreateUser E (deployed_grpc E config) req) w = (r, w')"
  shows "if taken (db w) (gcu_Username req) (gcu_Email req)
     then r = Inl (Errorf AlreadyExists (driver_text E (PgError UniqueViolation))) \<and>
          same_rows (db w) (db w') \<and> queue w' = queue w
     else (case queue_fault E (tick w + 3) of
        Through \<Rightarrow>
          (let u = new_user req h (clock E (tick w + 1)) in
           r = Inr (convertUser u) \<and> same_rows ((db w)\<lparr>users := users (db w) @ [u]\<rparr>) (db w') \<and>
           queue w' = queue w @ [signup_task (gcu_Username req)])
      | Lost \<Rightarrow> map_sum gr_code id r = Inl Internal \<and> same_rows (db w) (db w') \<and> queue w' = queue w
      | Unacked \<Rightarrow> map_sum gr_code id r = Inl Internal \<and> same_rows (db w) (db w') \<and>
          queue w' = queue w @ [signup_task (gcu_Username req)])"
  by (rule create_user_run [OF assms])

definition carol :: CreateUserRequest where
  "carol = \<lparr>gcu_Username = ''carol'', gcu_FullName = ''Carol C'', gcu_Email = ''c@bank.org'', gcu_Password = ''secret3''\<rparr>"

abbreviation "sample_grpc \<equiv> deployed_grpc sample_env sample_config"

text \<open>carol signs up twice; then a third time with a queue that does not answer.\<close>

definition unacked_env :: env where
  "unacked_env = sample_env\<lparr>queue_fault := \<lambda>_. Unacked\<rparr>"

theorem create_user_outcome_witness:
  "length (users (db (snd (run_state (rpc_CreateUser sample_env sample_grpc carol) sample_world)))) = 3 \<and>
   (let w' = snd (run_state (rpc_CreateUser unacked_env (deployed_grpc unacked_env sample_config) carol) sample_world) in
    users (db w') = users sample_db \<and> queue w' = [signup_task ''carol''])"
proof -
  have calm: "calm_db sample_env" "calm_db unacked_env" by (simp_all add: calm_db_def sample_env_def unacked_env_def)
  have facts: "bad_fields (field_checks sample_env (RpcCreateUser carol)) = []"
    "bad_fields (field_checks unacked_env (RpcCreateUser carol)) = []"
    "\<not> taken sample_db ''carol'' ''c@bank.org''" "length (users sample_db) = 2"
    "gcu_Username carol = ''carol''" "gcu_Email carol = ''c@bank.org''" "gcu_Password carol = ''secret3''"
    by code_simp+
  have hash: "bcrypt_generate sample_env (tick sample_world) (gcu_Password carol) = Inr ''$2a$10$secret3''"
    "bcrypt_generate unacked_env (tick sample_world) (gcu_Password carol) = Inr ''$2a$10$secret3''"
    by code_simp+
  have q: "queue_fault sample_env n = Through" "queue_fault unacked_env n = Unacked" for n
    by (simp_all add: sample_env_def unacked_env_def)
  from create_user_outcome [OF calm(1) facts(1) hash(1) prod.collapse [symmetric], of sample_config]
    create_user_outcome [OF calm(2) facts(2) hash(2) prod.collapse [symmetric], of sample_config] facts q
  show ?thesis by (simp add: sample_world_def same_rows_def Let_def)
qed

subsection \<open>From signing up to signing in\<close>

lemma calm_GetUser:
  "calm_db E \<Longrightarrow> run_state (GetUser (SQLStore E) name) w = (read_row u_Username name (users (db w)), w\<lparr>tick := Suc (tick w)\<rparr>)"
  by (simp add: SQLStore_def q_GetUser_def run_query_calm sql_GetUser_def)

lemma read_new_user:
  "\<not> taken d name mail_address \<Longrightarrow> users d' = users d @ [u] \<Longrightarrow> u_Username u = name \<Longrightarrow>
     read_row u_Username name (users d') = Inr u"
  using read_row_append_new [of "users d" u_Username name u] by (auto simp: taken_def)

lemma username_ok_ascii: "username_ok s \<Longrightarrow> ascii s"
  by (auto simp: username_ok_def ascii_def list_all_iff lower_or_digit_def Let_def)

lemma depositor_ascii: "ascii DepositorRole"
  by code_simp

lemma create_user_InrD:
  assumes calm: "calm_db E" and run: "run_state (rpc_CreateUser E (deployed_grpc E config) req) w = (Inr pu, w')"
  obtains h u where "bcrypt_generate E (tick w) (gcu_Password req) = Inr h" "u = new_user req h (clock E (tick w + 1))"
    "bad_fields (field_checks E (RpcCreateUser req)) = []" "pu = convertUser u"
    "same_rows ((db w)\<lparr>users := users (db w) @ [u]\<rparr>) (db w')"
    "read_row u_Username (gcu_Username req) (users (db w')) = Inr u"
proof -
  have valid: "validateCreateUserRequest E req = []"
    using run by (auto simp: rpc_CreateUser_def Let_def split: if_splits)
  then have fields: "bad_fields (field_checks E (RpcCreateUser req)) = []"
    using violated_Nil [OF violated_fields(1) [of E req]] by simp
  obtain h where h: "bcrypt_generate E (tick w) (gcu_Password req) = Inr h"
    using run valid by (cases "bcrypt_generate E (tick w) (gcu_Password req)")
      (auto simp: rpc_CreateUser_def run_caseE run_HashPassword)
  let ?u = "new_user req h (clock E (tick w + 1))"
  from create_user_run [OF calm fields h run]
  have new: "\<not> taken (db w) (gcu_Username req) (gcu_Email req)" "pu = convertUser ?u"
    "same_rows ((db w)\<lparr>users := users (db w) @ [?u]\<rparr>) (db w')"
    by (auto simp: Let_def split: if_splits fault.splits)
  have "u_Username ?u = gcu_Username req" by (simp add: new_user_def)
  with new(1,3) have "read_row u_Username (gcu_Username req) (users (db w')) = Inr ?u"
    by (intro read_new_user [where d = "db w"]) (auto simp: same_rows_def)
  with new show thesis by (intro that [OF h refl fields])
qed

text \<open>A session number that is not in use.\<close>

definition fresh_sessions :: "env \<Rightarrow> database \<Rightarrow> bool" where
  "fresh_sessions E d \<longleftrightarrow> (\<forall>n. case random_uuid E n of None \<Rightarrow> False | Some i \<Rightarrow> i \<notin> s_ID ` set (sessions d))"

definition login_req :: "gostring \<Rightarrow> gostring \<Rightarrow> LoginUserRequest" where
  "login_req name pw = \<lparr>glu_Username = name, glu_Password = pw\<rparr>"

lemma not_in_keys: "k \<notin> key ` set rows \<Longrightarrow> \<not> list_ex (\<lambda>r. key r = k) rows"
  by (induction rows) auto

lemma CreateSession_calm:
  assumes calm: "calm_db E" and "cs_ID arg \<notin> s_ID ` set (sessions (db w))" and "cs_Username arg \<in> usernames (db w)"
  shows "\<exists>s. run_state (CreateSession (SQLStore E) arg) w =
    (Inr s, w\<lparr>tick := Suc (tick w), db := (db w)\<lparr>sessions := sessions (db w) @ [s]\<rparr>\<rparr>)"
proof -
  have "\<not> list_ex (\<lambda>s. s_ID s = cs_ID arg) (sessions (db w))" by (rule not_in_keys [OF assms(2)])
  with assms(3) show ?thesis
    by (simp add: SQLStore_def q_CreateSession_def run_query_calm [OF calm] sql_CreateSession_def Let_def)
qed

lemma login_run:
  assumes calm: "calm_db E" and avail: "tokens_available E"
    and fields: "bad_fields (field_checks E (RpcLoginUser (login_req name pw))) = []"
    and user: "read_row u_Username name (users (db v)) = Inr u" and fresh: "fresh_sessions E (db v)"
    and pw: "CheckPassword E pw (u_HashedPassword u) = None"
  obtains tok p w1 w2 rsp v' where "run_state (rpc_LoginUser E (deployed_grpc E config) ctx (login_req name pw)) v = (Inr rsp, v')"
    "run_state (CreateToken (PasetoMaker E (TokenSymmetricKey config)) (u_Username u) (u_Role u)
       (AccessTokenDuration config) TokenTypeAccessToken) w1 = (Inr (tok, p), w2)" "tick w1 = Suc (tick v)"
    "glr_User rsp = convertUser u" "glr_AccessToken rsp = tok" "glr_AccessTokenExpiresAt rsp = p_ExpiredAt p"
    "tick v' = tick v + 10"
proof -
  let ?M = "PasetoMaker E (TokenSymmetricKey config)"
  let ?v1 = "v\<lparr>tick := Suc (tick v)\<rparr>"
  have valid: "validateLoginUserRequest E (login_req name pw) = []"
    using fields violated_Nil [OF violated_fields(2) [of E "login_req name pw"]] by simp
  obtain at ap w2 where a: "run_state (CreateToken ?M (u_Username u) (u_Role u) (AccessTokenDuration config) TokenTypeAccessToken) ?v1
      = (Inr (at, ap), w2)" by (rule tokens_available_create [OF avail])
  obtain rt rp w3 where r: "run_state (CreateToken ?M (u_Username u) (u_Role u) (RefreshTokenDuration config) TokenTypeRefreshToken) w2
      = (Inr (rt, rp), w3)" by (rule tokens_available_create [OF avail])
  have w2: "w2 = v\<lparr>tick := tick v + 5\<rparr>" using paseto_create_tick [OF a] by simp
  have w3: "w3 = v\<lparr>tick := tick v + 9\<rparr>" using paseto_create_tick [OF r] by (simp add: w2)
  have "random_uuid E (tick w2) = Some (p_ID rp)" using paseto.create_payload [OF r] by simp
  then have "p_ID rp \<notin> s_ID ` set (sessions (db v))" using fresh unfolding fresh_sessions_def by (metis option.simps(5))
  moreover have name: "u_Username u = name" "u_Username u \<in> usernames (db v)"
    using read_row_Inr_in [OF user] by (auto simp: usernames_def)
  moreover define cs where "cs = \<lparr>cs_ID = p_ID rp, cs_Username = u_Username u, cs_RefreshToken = rt,
      cs_UserAgent = md_UserAgent (extractMetadata ctx), cs_ClientIp = md_ClientIP (extractMetadata ctx),
      cs_IsBlocked = False, cs_ExpiresAt = p_ExpiredAt rp\<rparr>"
  ultimately have "cs_ID cs \<notin> s_ID ` set (sessions (db w3))" "cs_Username cs \<in> usernames (db w3)" by (simp_all add: w3)
  from CreateSession_calm [OF calm this] obtain s where s: "run_state (CreateSession (SQLStore E) cs) w3 =
      (Inr s, w3\<lparr>tick := Suc (tick w3), db := (db w3)\<lparr>sessions := sessions (db w3) @ [s]\<rparr>\<rparr>)" by blast
  let ?rsp = "\<lparr>glr_User = convertUser u, glr_SessionId = s_ID s, glr_AccessToken = at, glr_RefreshToken = rt,
      glr_AccessTokenExpiresAt = p_ExpiredAt ap, glr_RefreshTokenExpiresAt = p_ExpiredAt rp\<rparr>"
  have "run_state (rpc_LoginUser E (deployed_grpc E config) ctx (login_req name pw)) v =
      (Inr ?rsp, w3\<lparr>tick := Suc (tick w3), db := (db w3)\<lparr>sessions := sessions (db w3) @ [s]\<rparr>\<rparr>)"
    using valid by (simp add: rpc_LoginUser_def login_req_def calm_GetUser [OF calm] user pw a r s [unfolded cs_def] Let_def)
  then show thesis by (rule that [OF _ a]) (simp_all add: w3)
qed

text \<open>C14: Who has signed up can sign in: with the same name and password LoginUser returns the same user and
  an access token which, while it is alive, verifies as one of that user in the role of a depositor;
  with a password that bcrypt refuses it answers NOT_FOUND and opens no session.\<close>

theorem signup_then_login:
  assumes calm: "calm_db E" and "bcrypt_ok E" "paseto_ok E" "tokens_available E"
    and signup: "run_state (rpc_CreateUser E (deployed_grpc E config) req) w = (Inr pu, w1)"
    and later: "users (db v) = users (db w1)" "fresh_sessions E (db v)"
  shows "(\<exists>rsp v' p. run_state (rpc_LoginUser E (deployed_grpc E config) ctx
            (login_req (gcu_Username req) (gcu_Password req))) v = (Inr rsp, v') \<and> glr_User rsp = pu \<and>
          p_Username p = gcu_Username req \<and> p_Role p = DepositorRole \<and> p_ExpiredAt p = glr_AccessTokenExpiresAt rsp \<and>
          (\<forall>x. alive E x p \<longrightarrow> fst (run_state (VerifyToken (PasetoMaker E (TokenSymmetricKey config))
             (glr_AccessToken rsp) TokenTypeAccessToken) x) = Inr p)) \<and>
     (\<forall>pw u. password_ok pw \<and> read_row u_Username (gcu_Username req) (users (db v)) = Inr u \<and>
          CheckPassword E pw (u_HashedPassword u) \<noteq> None \<longrightarrow>
        run_state (rpc_LoginUser E (deployed_grpc E config) ctx (login_req (gcu_Username req) pw)) v =
          (Inl (Errorf NotFound ''incorrect password''), v\<lparr>tick := Suc (tick v)\<rparr>))"
proof -
  from create_user_InrD [OF calm signup] obtain h u where h: "bcrypt_generate E (tick w) (gcu_Password req) = Inr h"
    and u: "u = new_user req h (clock E (tick w + 1))" and fields: "bad_fields (field_checks E (RpcCreateUser req)) = []"
    and pu: "pu = convertUser u" and row: "read_row u_Username (gcu_Username req) (users (db w1)) = Inr u"
    by metis
  from row have row': "read_row u_Username (gcu_Username req) (users (db v)) = Inr u" by (simp add: later(1))
  have names: "username_ok (gcu_Username req)" "password_ok (gcu_Password req)"
    using fields by (auto simp: bad_fields_def split: if_splits)
  have check: "CheckPassword E (gcu_Password req) (u_HashedPassword u) = None"
    using assms(2) h by (auto simp: CheckPassword_def bcrypt_ok_def u new_user_def)
  have login_fields: "bad_fields (field_checks E (RpcLoginUser (login_req (gcu_Username req) (gcu_Password req)))) = []"
    using names by (simp add: login_req_def bad_fields_def)
  obtain tok p x1 x2 rsp v' where
      run: "run_state (rpc_LoginUser E (deployed_grpc E config) ctx (login_req (gcu_Username req) (gcu_Password req))) v = (Inr rsp, v')"
    and tok: "run_state (CreateToken (PasetoMaker E (TokenSymmetricKey config)) (u_Username u) (u_Role u)
       (AccessTokenDuration config) TokenTypeAccessToken) x1 = (Inr (tok, p), x2)"
    and rsp: "glr_User rsp = convertUser u" "glr_AccessToken rsp = tok" "glr_AccessTokenExpiresAt rsp = p_ExpiredAt p"
    by (rule login_run [OF calm assms(4) login_fields row' later(2) check])
  have plain: "ascii (u_Username u)" "ascii (u_Role u)"
    using username_ok_ascii [OF names(1)] depositor_ascii by (simp_all add: u new_user_def)
  have p: "p_Username p = gcu_Username req" "p_Role p = DepositorRole"
    using paseto.create_payload [OF tok] by (simp_all add: u new_user_def)
  have verify: "alive E x p \<Longrightarrow> fst (run_state (VerifyToken (PasetoMaker E (TokenSymmetricKey config)) tok TokenTypeAccessToken) x) = Inr p" for x
    by (rule paseto.verify_created [OF assms(3) plain tok])
  have wrong: "run_state (rpc_LoginUser E (deployed_grpc E config) ctx (login_req (gcu_Username req) pw)) v =
      (Inl (Errorf NotFound ''incorrect password''), v\<lparr>tick := Suc (tick v)\<rparr>)"
    if "password_ok pw" "CheckPassword E pw (u_HashedPassword u) \<noteq> None" for pw
  proof -
    have "validateLoginUserRequest E (login_req (gcu_Username req) pw) = []"
      using violated_Nil [OF violated_fields(2) [of E "login_req (gcu_Username req) pw"]] names(1) that(1)
      by (simp add: login_req_def bad_fields_def)
    with that(2) show ?thesis by (auto simp: rpc_LoginUser_def login_req_def calm_GetUser [OF calm] row')
  qed
  show ?thesis using run rsp p verify wrong row' pu by fastforce
qed

text \<open>A client that tells nothing of itself.\<close>

definition phone :: grpc_context where
  "phone = \<lparr>gx_metadata = None, gx_peer = None\<rparr>"

theorem signup_then_login_witness:
  "\<exists>pu w1 rsp v' w2. run_state (rpc_CreateUser sample_env sample_grpc carol) sample_world = (Inr pu, w1) \<and>
     run_state (rpc_LoginUser sample_env sample_grpc phone (login_req ''carol'' ''secret3'')) w1 = (Inr rsp, v') \<and>
     glr_User rsp = pu \<and>
     run_state (rpc_LoginUser sample_env sample_grpc phone (login_req ''carol'' ''Secret3'')) w1 =
       (Inl (Errorf NotFound ''incorrect password''), w2)"
proof -
  let ?c = "run_state (rpc_CreateUser sample_env sample_grpc carol) sample_world"
  have calm: "calm_db sample_env" by (simp add: calm_db_def sample_env_def)
  have facts: "\<not> isl (fst ?c)" "sessions (db (snd ?c)) = []"
    "read_row u_Username ''carol'' (users (db (snd ?c))) =
       Inr (new_user carol ''$2a$10$secret3'' (clock sample_env 1))"
    "password_ok ''Secret3''" "CheckPassword sample_env ''Secret3'' ''$2a$10$secret3'' \<noteq> None"
    "gcu_Username carol = ''carol''" "gcu_Password carol = ''secret3''"
    by code_simp+
  from facts(1) obtain pu w1 where c: "?c = (Inr pu, w1)" by (rule not_isl_pairE)
  have fresh: "fresh_sessions sample_env (db w1)" using facts(2) c by (simp add: fresh_sessions_def sample_env_def)
  have "u_HashedPassword (new_user carol ''$2a$10$secret3'' t) = ''$2a$10$secret3''" for t by (simp add: new_user_def)
  with signup_then_login [OF calm bcrypt_ok_sample paseto_ok_sample tokens_available_sample c refl fresh, of phone] facts(3-7) c
  show ?thesis by fastforce
qed

subsection \<open>Updating a profile\<close>

text \<open>What an update asks to change, on a row.\<close>

definition updated_user :: "UpdateUserRequest \<Rightarrow> gostring \<Rightarrow> time \<Rightarrow> user \<Rightarrow> user" where
  "updated_user req hash now u =
     (let u1 = (case guu_FullName req of None \<Rightarrow> u | Some s \<Rightarrow> u\<lparr>u_FullName := s\<rparr>);
          u2 = (case guu_Email req of None \<Rightarrow> u1 | Some s \<Rightarrow> u1\<lparr>u_Email := s\<rparr>)
      in (if guu_Password req = None then u2
          else u2\<lparr>u_HashedPassword := hash, u_PasswordChangedAt := now\<rparr>))"

definition email_taken :: "database \<Rightarrow> gostring \<Rightarrow> gostring \<Rightarrow> bool" where
  "email_taken d name mail_address \<longleftrightarrow> (\<exists>v \<in> set (users d). u_Username v \<noteq> name \<and> u_Email v = mail_address)"

lemma set_user_update_arg:
  "set_user (update_arg req (if guu_Password req = None then None else Some hash) (if guu_Password req = None then None else Some now)) u =
     updated_user req hash now u"
  by (auto simp: set_user_def update_arg_def pgtype_text_def opt_string_def coalesce_def updated_user_def Let_def
      split: option.splits)

lemma UpdateUser_calm:
  assumes calm: "calm_db E"
    and arg: "arg = update_arg req (if guu_Password req = None then None else Some hash) (if guu_Password req = None then None else Some now)"
  shows "run_state (UpdateUser (SQLStore E) arg) w =
     (case read_row u_Username (guu_Username req) (users (db w)) of
        Inl e \<Rightarrow> (Inl e, w\<lparr>tick := Suc (tick w)\<rparr>)
      | Inr u \<Rightarrow>
          if email_taken (db w) (guu_Username req) (u_Email (updated_user req hash now u))
          then (Inl (PgError UniqueViolation), w\<lparr>tick := Suc (tick w)\<rparr>)
          else (Inr (updated_user req hash now u), w\<lparr>tick := Suc (tick w), db := (db w)\<lparr>users :=
                 write_row u_Username (guu_Username req) (updated_user req hash now) (users (db w))\<rparr>\<rparr>))"
proof -
  have upd: "set_user arg = updated_user req hash now" by (rule ext) (simp add: arg set_user_update_arg)
  have name: "uu_Username arg = guu_Username req" by (simp add: arg update_arg_def)
  show ?thesis
    by (auto simp: SQLStore_def q_UpdateUser_def run_query_calm [OF calm] sql_UpdateUser_def upd name email_taken_def
        list_ex_iff split: sum.splits)
qed

lemma read_row_missing: "read_row key k rows = Inl e \<Longrightarrow> e = NoRows"
  by (auto simp: read_row_def split: option.splits)

text \<open>C18: With a database that answers, an authorized update with valid fields does one of two things. If it has a
  password that bcrypt cannot hash (one of more than 72 bytes is valid, but too long for bcrypt), it is INTERNAL and
  nothing changes. Otherwise it writes exactly the fields it names: the row gets the new name,
  address and password (with the time of its change) where the request has them, and keeps everything
  else, also the mark that the address is verified, whatever the new address is; an unknown user is
  NOT_FOUND, an address of another user is INTERNAL, and then nothing changes.\<close>

theorem update_user_outcome:
  assumes calm: "calm_db E"
    and auth: "run_state (authorizeUser E (deployed_grpc E config) ctx [BankerRole, DepositorRole]) w = (Inr p, w1)"
    and allowed: "p_Role p = BankerRole \<or> p_Username p = guu_Username req"
    and valid: "bad_fields (field_checks E (RpcUpdateUser req)) = []"
    and run: "run_state (rpc_UpdateUser E (deployed_grpc E config) ctx req) w = (r, w')"
  shows "case (case guu_Password req of None \<Rightarrow> Inr [] | Some pw \<Rightarrow> bcrypt_generate E (tick w1) pw) of
      Inl _ \<Rightarrow> map_sum gr_code id r = Inl Internal \<and> same_rows (db w) (db w')
    | Inr h \<Rightarrow>
        (case read_row u_Username (guu_Username req) (users (db w)) of
           Inl _ \<Rightarrow> r = Inl (Errorf NotFound ''user not found'') \<and> same_rows (db w) (db w')
         | Inr u \<Rightarrow>
             (let change = updated_user req h (clock E (tick w1 + 1)) in
              u_IsEmailVerified (change u) = u_IsEmailVerified u \<and> u_Role (change u) = u_Role u \<and>
              (if email_taken (db w) (guu_Username req) (u_Email (change u))
               then map_sum gr_code id r = Inl Internal \<and> same_rows (db w) (db w')
               else r = Inr (convertUser (change u)) \<and>
                    same_rows ((db w)\<lparr>users := write_row u_Username (guu_Username req) change (users (db w))\<rparr>) (db w'))))"
proof -
  have db1: "db w1 = db w" using authorizeUser_only_tick [OF auth] by (simp add: only_tick_def)
  have checked: "validateUpdateUserRequest E req = []" using valid violated_Nil [OF violated_fields(3) [of E req]] by simp
  show ?thesis
  proof (cases "case guu_Password req of None \<Rightarrow> Inr [] | Some pw \<Rightarrow> bcrypt_generate E (tick w1) pw")
    case (Inl e)
    then obtain pw where "guu_Password req = Some pw" "bcrypt_generate E (tick w1) pw = Inl e"
      by (cases "guu_Password req") auto
    with run auth allowed checked Inl db1 show ?thesis
      by (auto simp: rpc_UpdateUser_def run_caseE run_HashPassword opt_string_def split: if_splits)
  next
    case (Inr h)
    let ?now = "clock E (tick w1 + 1)"
    define w2 where "w2 = (if guu_Password req = None then w1 else w1\<lparr>tick := tick w1 + 2\<rparr>)"
    have db2: "db w2 = db w" using db1 by (simp add: w2_def)
    have "guu_Password req = None \<or> bcrypt_generate E (tick w1) (opt_string (guu_Password req)) = Inr h"
      using Inr by (auto simp: opt_string_def split: option.splits)
    with run auth allowed checked have
      "run_state (update_stored_user E (deployed_grpc E config) (update_arg req
         (if guu_Password req = None then None else Some h) (if guu_Password req = None then None else Some ?now))) w2 = (r, w')"
      by (auto simp: rpc_UpdateUser_def w2_def run_caseE run_HashPassword pgtype_text_def split: if_splits)
    moreover note UpdateUser_calm [OF calm refl, of req h ?now w2, unfolded db2]
    moreover have "u_IsEmailVerified (updated_user req h ?now u) = u_IsEmailVerified u"
      "u_Role (updated_user req h ?now u) = u_Role u" for u
      by (auto simp: updated_user_def Let_def split: option.splits)
    ultimately show ?thesis using Inr
      by (auto simp: update_stored_user_def run_caseE Let_def same_rows_def db2 split: sum.splits if_splits dest: read_row_missing)
  qed
qed

text \<open>alice, whose address is verified, changes it.\<close>

definition verified_world :: world where
  "verified_world = sample_world\<lparr>db := sample_db\<lparr>users := map (\<lambda>u. u\<lparr>u_IsEmailVerified := True\<rparr>) (users sample_db)\<rparr>\<rparr>"

definition new_address :: UpdateUserRequest where
  "new_address = \<lparr>guu_Username = ''alice'', guu_FullName = None, guu_Email = Some ''new@bank.org'', guu_Password = None\<rparr>"

theorem update_user_outcome_witness:
  "let w' = snd (run_state (rpc_UpdateUser sample_env sample_grpc (gctx_of ''alice'') new_address) verified_world) in
   read_row u_Username ''alice'' (users (db w')) =
     Inr ((sample_user ''alice'' ''new@bank.org'' ''secret1'')\<lparr>u_IsEmailVerified := True\<rparr>)"
proof -
  let ?auth = "run_state (authorizeUser sample_env sample_grpc (gctx_of ''alice'') [BankerRole, DepositorRole]) verified_world"
  have calm: "calm_db sample_env" by (simp add: calm_db_def sample_env_def)
  have auth: "\<not> isl (fst ?auth)" "p_Username (projr (fst ?auth)) = guu_Username new_address" by code_simp+
  then obtain p w1 where p: "?auth = (Inr p, w1)" "p_Username p = guu_Username new_address"
    by (cases ?auth; cases "fst ?auth") auto
  have "username_ok ''alice''" "email_ok sample_env ''new@bank.org''" by code_simp+
  then have valid: "bad_fields (field_checks sample_env (RpcUpdateUser new_address)) = []"
    by (simp add: bad_fields_def new_address_def)
  have rows: "read_row u_Username ''alice'' (users (db verified_world)) =
      Inr ((sample_user ''alice'' ''alice@bank.org'' ''secret1'')\<lparr>u_IsEmailVerified := True\<rparr>)"
    "\<not> email_taken (db verified_world) ''alice'' ''new@bank.org''"
    "read_row u_Username ''alice'' (write_row u_Username ''alice'' (updated_user new_address [] t) (users (db verified_world))) =
      Inr ((sample_user ''alice'' ''new@bank.org'' ''secret1'')\<lparr>u_IsEmailVerified := True\<rparr>)" for t
    by code_simp+
  have change: "u_Email (updated_user new_address [] t u) = ''new@bank.org''" for t u
    by (simp add: updated_user_def new_address_def)
  from update_user_outcome [OF calm p(1) disjI2 [OF p(2)] valid prod.collapse [symmetric]] rows change
  show ?thesis by (simp add: Let_def same_rows_def new_address_def)
qed

end
