(* ===== verification/AbstractBank.thy ===== *)
theory AbstractBank
  imports Util
begin

section \<open>The bank as its customers know it\<close>

text \<open>
  The specification the backend is compared with: accounts with an owner, a currency and a balance,
  which customers open and pay between. Nothing here knows of requests, rows or failures. That no
  money of any currency is made or lost is proved here once, for every sequence of operations.
\<close>

record holding =
  h_owner :: gostring
  h_currency :: gostring
  h_balance :: int

type_synonym bank = "int64 \<rightharpoonup> holding"

text \<open>What a customer does: open an account, or pay an amount from one account to another.\<close>

datatype bank_op = OpenAccount gostring gostring int64 | Pay gostring int64 int64 int

definition pay_to :: "int64 \<Rightarrow> int64 \<Rightarrow> int \<Rightarrow> int64 \<Rightarrow> holding \<Rightarrow> holding" where
  "pay_to i j x k h =
     h\<lparr>h_balance := h_balance h + (if k = j then x else 0) - (if k = i then x else 0)\<rparr>"

definition pay :: "int64 \<Rightarrow> int64 \<Rightarrow> int \<Rightarrow> bank \<Rightarrow> bank" where
  "pay i j x b = (\<lambda>k. map_option (pay_to i j x k) (b k))"

text \<open>Balances are \<open>bigint\<close>s; a customer pays from own accounts, in one currency, and there is no rule
  against a negative balance.\<close>

inductive bank_step :: "bank_op \<Rightarrow> bank \<Rightarrow> bank \<Rightarrow> bool" where
  open_account: "b i = None \<Longrightarrow> IsSupportedCurrency cur \<Longrightarrow>
     (\<And>k h. b k = Some h \<Longrightarrow> (h_owner h, h_currency h) \<noteq> (who, cur)) \<Longrightarrow>
     bank_step (OpenAccount who cur i) b (b(i \<mapsto> \<lparr>h_owner = who, h_currency = cur, h_balance = 0\<rparr>))"
| pay: "b i = Some h \<Longrightarrow> h_owner h = who \<Longrightarrow> b j = Some k \<Longrightarrow> h_currency h = h_currency k \<Longrightarrow> 0 < x \<Longrightarrow>
     (\<And>l h. pay i j x b l = Some h \<Longrightarrow> in_int64 (h_balance h)) \<Longrightarrow>
     bank_step (Pay who i j x) b (pay i j x b)"

inductive_cases bank_open_cases: "bank_step (OpenAccount who cur i) b b'"
inductive_cases bank_pay_cases: "bank_step (Pay who i j x) b b'"

inductive_simps bank_step_simps:
  "bank_step (OpenAccount who cur i) b b'"
  "bank_step (Pay who i j x) b b'"

text \<open>The bank after a sequence of operations, from no accounts on.\<close>

inductive bank_run :: "bank_op list \<Rightarrow> bank \<Rightarrow> bool" where
  bank_start: "bank_run [] Map.empty"
| bank_next: "bank_run ops b \<Longrightarrow> bank_step opn b b' \<Longrightarrow> bank_run (ops @ [opn]) b'"

text \<open>The amount a currency's accounts hold together.\<close>

definition of_currency :: "gostring \<Rightarrow> bank \<Rightarrow> int64 set" where
  "of_currency cur b = {i. \<exists>h. b i = Some h \<and> h_currency h = cur}"

definition holds :: "bank \<Rightarrow> int64 \<Rightarrow> int" where
  "holds b i = (case b i of None \<Rightarrow> 0 | Some h \<Rightarrow> h_balance h)"

definition currency_total :: "gostring \<Rightarrow> bank \<Rightarrow> int" where
  "currency_total cur b = (\<Sum>i \<in> of_currency cur b. holds b i)"

lemma pay_simps [simp]: "dom (pay i j x b) = dom b" "pay i j x b k = map_option (pay_to i j x k) (b k)"
  "h_owner (pay_to i j x k h) = h_owner h" "h_currency (pay_to i j x k h) = h_currency h"
  by (auto simp: pay_def pay_to_def)

lemma of_currency_pay [simp]: "of_currency cur (pay i j x b) = of_currency cur b"
  by (auto simp: of_currency_def)

lemma holds_pay: "i \<in> dom b \<Longrightarrow> j \<in> dom b \<Longrightarrow>
    holds (pay i j x b) k = holds b k + (if k = j then x else 0) - (if k = i then x else 0)"
  by (auto simp: holds_def pay_to_def split: option.splits)

lemma bank_step_total:
  assumes "bank_step opn b b'" and fin: "finite (dom b)"
  shows "currency_total cur b' = currency_total cur b"
  using assms(1)
proof cases
  case (open_account i c who)
  have "of_currency cur b' = (if c = cur then insert i (of_currency cur b) else of_currency cur b)"
    using open_account by (auto simp: of_currency_def)
  moreover have "i \<notin> of_currency cur b" using open_account by (auto simp: of_currency_def)
  moreover have "finite (of_currency cur b)"
    by (rule finite_subset [OF _ fin]) (auto simp: of_currency_def)
  moreover have "holds b' i = 0" using open_account by (simp add: holds_def)
  moreover have "(\<Sum>k \<in> of_currency cur b. holds b' k) = (\<Sum>k \<in> of_currency cur b. holds b k)"
    using open_account \<open>i \<notin> of_currency cur b\<close> by (intro sum.cong) (auto simp: holds_def)
  ultimately show ?thesis by (simp add: currency_total_def)
next
  case (pay i h who j k x)
  let ?S = "of_currency cur b"
  have S: "finite ?S" by (rule finite_subset [OF _ fin]) (auto simp: of_currency_def)
  have "i \<in> ?S \<longleftrightarrow> j \<in> ?S" using pay by (simp add: of_currency_def)
  then have ends: "(if j \<in> ?S then x else 0) - (if i \<in> ?S then x else 0) = 0" by simp
  have "currency_total cur b' =
      (\<Sum>l \<in> ?S. holds b l) + (\<Sum>l \<in> ?S. if l = j then x else 0) - (\<Sum>l \<in> ?S. if l = i then x else 0)"
  proof -
    have "currency_total cur b' = (\<Sum>l \<in> ?S. holds b l + (if l = j then x else 0) - (if l = i then x else 0))"
      unfolding currency_total_def pay(2) of_currency_pay
      by (rule sum.cong [OF refl], rule holds_pay) (use pay in auto)
    then show ?thesis by (simp add: sum.distrib sum_subtractf)
  qed
  with ends S show ?thesis by (simp add: currency_total_def)
qed

lemma bank_step_finite: "bank_step opn b b' \<Longrightarrow> finite (dom b) \<Longrightarrow> finite (dom b')"
  by (auto elim!: bank_step.cases)

text \<open>No money of any currency exists in the sum, and every account is in a supported currency.\<close>

definition bank_inv :: "bank \<Rightarrow> bool" where
  "bank_inv b \<longleftrightarrow> finite (dom b) \<and> (\<forall>cur. currency_total cur b = 0) \<and>
     (\<forall>i h. b i = Some h \<longrightarrow> IsSupportedCurrency (h_currency h) \<and> in_int64 (h_balance h)) \<and>
     (\<forall>i j h k. b i = Some h \<longrightarrow> b j = Some k \<longrightarrow>
        (h_owner h, h_currency h) = (h_owner k, h_currency k) \<longrightarrow> i = j)"

lemma bank_inv_empty: "bank_inv Map.empty"
  by (simp add: bank_inv_def currency_total_def of_currency_def)

lemma bank_step_inv:
  assumes step: "bank_step opn b b'" and inv: "bank_inv b"
  shows "bank_inv b'"
proof -
  have fin: "finite (dom b)" using inv by (simp add: bank_inv_def)
  note total = bank_step_total [OF step fin] and fin' = bank_step_finite [OF step fin]
  from step have "(\<forall>i h. b' i = Some h \<longrightarrow> IsSupportedCurrency (h_currency h) \<and> in_int64 (h_balance h)) \<and>
     (\<forall>i j h k. b' i = Some h \<longrightarrow> b' j = Some k \<longrightarrow>
        (h_owner h, h_currency h) = (h_owner k, h_currency k) \<longrightarrow> i = j)"
  proof cases
    case (open_account i c who)
    then show ?thesis using inv by (auto simp: bank_inv_def in_int64_def split: if_splits)
  next
    case (pay i h who j k x)
    then show ?thesis using inv unfolding bank_inv_def by (auto simp del: split_paired_All)
  qed
  with total fin' inv show ?thesis by (simp add: bank_inv_def)
qed

lemma bank_run_inv: "bank_run ops b \<Longrightarrow> bank_inv b"
  by (induction rule: bank_run.induct) (auto simp: bank_inv_empty bank_step_inv)

text \<open>An account changes hands never, loses money only by a payment of its owner.\<close>

lemma bank_step_owner:
  assumes "bank_step opn b b'" and "b i = Some h"
  shows "\<exists>h'. b' i = Some h' \<and> h_owner h' = h_owner h \<and> h_currency h' = h_currency h \<and>
     (h_balance h' < h_balance h \<longrightarrow> (\<exists>j x. opn = Pay (h_owner h) i j x \<and> h_balance h' = h_balance h - x))"
  using assms by cases (auto simp: pay_to_def)

end
