(* ===== verification/System.thy ===== *)
theory System
  imports AbstractBank Users
begin

section \<open>The whole backend as a transition system\<close>

text \<open>
  One process serves HTTP, gRPC and the gateway, and works off the task queue (\<^verbatim>\<open>main.go\<close>). A step of
  the system is a request to one of them, a task taken from the queue, or time passing; the outside
  (\<open>env\<close>) answers as it likes at every step. What holds in every state that is reached from the empty
  database is proved by rule induction; that the accounts follow the abstract bank is a simulation.
\<close>

subsection \<open>Steps\<close>

text \<open>\<^verbatim>\<open>runTaskProcessor\<close> gives the processor a \<^verbatim>\<open>GmailSender\<close> with the configured address.\<close>

definition deployed_mailer :: "env \<Rightarrow> Config \<Rightarrow> email_sender" where
  "deployed_mailer E config = SendEmail E
     \<lparr>gs_name = EmailSenderName config, gs_fromEmailAddress = EmailSenderAddress config,
      gs_fromEmailPassword = EmailSenderPassword config\<rparr>"

text \<open>asynq removes a task that succeeds; one that fails stays for another try, until it is given up.\<close>

inductive system_step :: "env \<Rightarrow> Config \<Rightarrow> world \<Rightarrow> world \<Rightarrow> bool" for E config where
  http: "run_state (serve_rest E (deployed_rest E config) ctx call) w = (rsp, w') \<Longrightarrow> system_step E config w w'"
| grpc: "run_state (serve_grpc E (deployed_grpc E config) gctx gcall) w = (grsp, w') \<Longrightarrow> system_step E config w w'"
| gateway: "run_state (grpc_handler E (deployed_grpc E config) gctx gcall) w = (grsp, w') \<Longrightarrow> system_step E config w w'"
| task_done: "t \<in> set (queue w) \<Longrightarrow>
    task_handler E (SQLStore E) (deployed_mailer E config) (tk_Type t) = Some h \<Longrightarrow>
    run_state (h t) w = (Inr (), w') \<Longrightarrow> system_step E config w (w'\<lparr>queue := remove1 t (queue w')\<rparr>)"
| task_failed: "t \<in> set (queue w) \<Longrightarrow>
    task_handler E (SQLStore E) (deployed_mailer E config) (tk_Type t) = Some h \<Longrightarrow>
    run_state (h t) w = (Inl err, w') \<Longrightarrow> system_step E config w w'"
| task_dropped: "t \<in> set (queue w) \<Longrightarrow> system_step E config w (w\<lparr>queue := remove1 t (queue w)\<rparr>)"
| wait: "tick w \<le> n \<Longrightarrow> system_step E config w (w\<lparr>tick := n\<rparr>)"

inductive reachable :: "env \<Rightarrow> Config \<Rightarrow> world \<Rightarrow> bool" for E config where
  start: "reachable E config \<lparr>db = empty_database, queue = [], outbox = [], tick = n\<rparr>"
| step: "reachable E config w \<Longrightarrow> system_step E config w w' \<Longrightarrow> reachable E config w'"

text \<open>A step is a HTTP request, or it keeps every relation on the database that gRPC calls and tasks keep.\<close>

lemma task_handler_Some:
  "task_handler E S mailer typ = Some h \<Longrightarrow> h = ProcessTaskSendVerifyEmail E S mailer"
  by (simp add: task_handler_def split: if_splits)

lemma system_step_cases:
  assumes "system_step E config w w'" and P: "on_db P" and w: "P w"
    and calls: "\<And>ctx call. keeps P (grpc_handler E (deployed_grpc E config) ctx call)"
      "\<And>ctx call. keeps P (serve_grpc E (deployed_grpc E config) ctx call)"
    and tasks: "\<And>t. keeps P (ProcessTaskSendVerifyEmail E (SQLStore E) (deployed_mailer E config) t)"
  obtains (rest) ctx call rsp where "run_state (serve_rest E (deployed_rest E config) ctx call) w = (rsp, w')"
    | (kept) "P w'"
  using assms(1)
proof cases
  case (grpc ctx call rsp)
  with calls(2) w kept show thesis by (blast dest: keepsD)
next
  case (gateway ctx call rsp)
  with calls(1) w kept show thesis by (blast dest: keepsD)
next
  case (task_done t h w1)
  then have "P w1" using task_handler_Some [OF task_done(3)] w tasks keepsD by metis
  with P task_done(1) kept show thesis by (simp add: on_db_def)
next
  case (task_failed t h err)
  then show thesis using task_handler_Some [OF task_failed(2)] w tasks kept keepsD by metis
qed (use P w rest kept in \<open>auto simp: on_db_def\<close>)

lemma mailer_on_db: "on_db P \<Longrightarrow> keeps P (deployed_mailer E config s c t cc bcc fs)"
  by (simp add: deployed_mailer_def keeps_SendEmail)

lemmas process_frames = grpc.keeps_process [where mailer = "deployed_mailer E config", OF mailer_on_db,
    unfolded deployed_grpc_simps] for E config

lemma system_step_ok:
  assumes "system_step E config w w'" and ok: "world_ok w"
  shows "world_ok w'"
  by (rule system_step_cases [OF assms(1) on_db_intros(4) ok])
    (rule keeps_since_world_ok grpc.keeps_grpc_calls process_frames | assumption
      | erule keepsD [OF keeps_since_world_ok [OF rest.keeps_serve_rest] _ ok])+

lemma reachable_ok: "reachable E config w \<Longrightarrow> world_ok w"
  by (induction rule: reachable.induct) (auto simp: world_ok_def schema_ok_empty dest: system_step_ok)

text \<open>Only a HTTP request touches the ledger.\<close>

lemma system_step_ledger:
  assumes "system_step E config w w'"
  shows "ledger_is (db w) w' \<or> (\<exists>ctx call rsp. run_state (serve_rest E (deployed_rest E config) ctx call) w = (rsp, w'))"
  by (rule system_step_cases [OF assms, where P = "ledger_is (db w)"])
    (simp_all add: grpc.ledger_grpc_calls process_frames, blast)

lemma system_step_effect:
  assumes "system_step E config w w'" and "world_ok w" and "binding_ok E"
  shows "\<exists>user. ledger_effect user (db w) (db w')"
  using system_step_ledger [OF assms(1)] rest_money.serve_rest_effect [OF assms(2,3)] ledger_effect_same by blast

end
