(* ===== verification/EmailProps.thy ===== *)
theory EmailProps
  imports SignupProps System
begin

section \<open>Verifying an e-mail address, from the task to the link\<close>

text \<open>
  What happens from the task that a registration leaves in the queue to a verified user: the mail with its
  link and the row stored for it, the outcome of \<open>VerifyEmail\<close> on every request, and both together. The
  lemmas give the runs of the worker and of \<open>VerifyEmailTx\<close> on a database that answers.
\<close>

subsection \<open>The mail\<close>

definition verify_row :: "nat \<Rightarrow> user \<Rightarrow> gostring \<Rightarrow> time \<Rightarrow> verify_email" where
  "verify_row n u code now =
     \<lparr>v_ID = serial_id n, v_Username = u_Username u, v_Email = u_Email u, v_SecretCode = code, v_IsUsed = False,
      v_CreatedAt = now, v_ExpiredAt = now + fifteen_minutes\<rparr>"

definition verify_mail :: "Config \<Rightarrow> user \<Rightarrow> verify_email \<Rightarrow> mail" where
  "verify_mail config u v =
     \<lparr>m_From = EmailSenderName config @ '' <'' @ EmailSenderAddress config @ ''>'', m_Subject = ''Welcome to Simple Bank'',
      m_HTML = verify_mail_content u v, m_To = [u_Email u], m_Cc = [], m_Bcc = [], m_Attachments = []\<rparr>"

lemma run_smtp:
  "run_state (smtp_send E m) w =
     (case mail_fault E (tick w) of Through \<Rightarrow> Inr () | _ \<Rightarrow> Inl ConnError,
      w\<lparr>tick := Suc (tick w), outbox := (if mail_fault E (tick w) = Lost then outbox w else outbox w @ [m])\<rparr>)"
  by (simp add: smtp_send_def Let_def split: fault.splits)

lemma run_deployed_mailer:
  "run_state (deployed_mailer E config ''Welcome to Simple Bank'' (verify_mail_content u v) [u_Email u] [] [] []) w =
     run_state (smtp_send E (verify_mail config u v)) w"
  by (simp add: deployed_mailer_def SendEmail_def verify_mail_def run_bindE)

lemma CreateVerifyEmail_calm:
  assumes calm: "calm_db E" and ok: "world_ok w" and seq: "int (Suc (seq_verify_emails (db w))) < 2 ^ 63"
    and u: "u \<in> set (users (db w))"
  shows "run_state (CreateVerifyEmail (SQLStore E) \<lparr>cv_Username = u_Username u, cv_Email = u_Email u, cv_SecretCode = code\<rparr>) w =
    (let v = verify_row (Suc (seq_verify_emails (db w))) u code (clock E (tick w)) in
     (Inr v, w\<lparr>tick := Suc (tick w), db := (db w)\<lparr>seq_verify_emails := Suc (seq_verify_emails (db w)),
        verify_emails := verify_emails (db w) @ [v]\<rparr>\<rparr>))"
proof -
  have "serial v_ID (verify_emails (db w)) (seq_verify_emails (db w))" using ok by (simp add: world_ok_def schema_ok_def)
  from serial_fresh [OF this seq]
  have "\<not> list_ex (\<lambda>v. v_ID v = serial_id (Suc (seq_verify_emails (db w)))) (verify_emails (db w))"
    by (auto simp: list_ex_iff)
  moreover have "u_Username u \<in> usernames (db w)" using u by (simp add: usernames_def)
  ultimately show ?thesis
    using seq by (simp add: SQLStore_def q_CreateVerifyEmail_def run_query_calm [OF calm] sql_CreateVerifyEmail_def
        verify_row_def Let_def)
qed

lemma process_run:
  assumes calm: "calm_db E" and ok: "world_ok w" and seq: "int (Suc (seq_verify_emails (db w))) < 2 ^ 63"
    and user: "read_row u_Username (sv_Username p) (users (db w)) = Inr u" and pay: "tk_Payload t = Some p"
    and run: "run_state (ProcessTaskSendVerifyEmail E (SQLStore E) (deployed_mailer E config) t) w = (r, w')"
  obtains code where "length code = 32" "set code \<subseteq> set alphabet"
    "let v = verify_row (Suc (seq_verify_emails (db w))) u code (clock E (tick w + 33)) in
     db w' = (db w)\<lparr>seq_verify_emails := Suc (seq_verify_emails (db w)), verify_emails := verify_emails (db w) @ [v]\<rparr> \<and>
     queue w' = queue w \<and>
     (case mail_fault E (tick w + 34) of
        Through \<Rightarrow> r = Inr () \<and> outbox w' = outbox w @ [verify_mail config u v]
      | Lost \<Rightarrow> isl r \<and> outbox w' = outbox w
      | Unacked \<Rightarrow> isl r \<and> outbox w' = outbox w @ [verify_mail config u v])"
proof -
  let ?w1 = "w\<lparr>tick := Suc (tick w)\<rparr>"
  obtain code w2 where c: "run_state (RandomString E 32) ?w1 = (code, w2)" by fastforce
  from random_chars_run [of E 32 ?w1 code w2] c
  have code: "length code = 32" "set code \<subseteq> set alphabet" and w2: "w2 = w\<lparr>tick := tick w + 33\<rparr>"
    by (simp_all add: RandomString_def)
  have w2ok: "world_ok w2" "int (Suc (seq_verify_emails (db w2))) < 2 ^ 63" "u \<in> set (users (db w2))"
    using ok seq read_row_Inr_in [OF user] by (simp_all add: w2 world_ok_def)
  note cv = CreateVerifyEmail_calm [OF calm w2ok, of code, unfolded Let_def]
  have "run_state (caseE (deployed_mailer E config ''Welcome to Simple Bank''
        (verify_mail_content u (verify_row (Suc (seq_verify_emails (db w2))) u code (clock E (tick w2)))) [u_Email u] [] [] [])
        (\<lambda>err. State_Monad.return (Inl (Wrap ''failed to send verify email: '' err))) (\<lambda>_. State_Monad.return (Inr ())))
      (w2\<lparr>tick := Suc (tick w2), db := (db w2)\<lparr>seq_verify_emails := Suc (seq_verify_emails (db w2)),
        verify_emails := verify_emails (db w2) @ [verify_row (Suc (seq_verify_emails (db w2))) u code (clock E (tick w2))]\<rparr>\<rparr>) = (r, w')"
    using run by (simp add: ProcessTaskSendVerifyEmail_def pay calm_GetUser [OF calm] user c cv)
  then show thesis
    by (intro that [OF code])
      (auto simp: run_caseE run_deployed_mailer run_smtp w2 Let_def eval_nat_numeral split: fault.splits)
qed


text \<open>bob's task.\<close>

definition bobs_mail :: "unit result \<times> world" where
  "bobs_mail = run_state (ProcessTaskSendVerifyEmail sample_env (SQLStore sample_env) (deployed_mailer sample_env sample_config)
     (signup_task ''bob'')) sample_world"


subsection \<open>The link\<close>

definition verified :: "user \<Rightarrow> user" where
  "verified u = u\<lparr>u_IsEmailVerified := True\<rparr>"

definition use_link :: "update_verify_email_params \<Rightarrow> time \<Rightarrow> verify_email \<Rightarrow> verify_email" where
  "use_link arg now v = (if link_valid arg now v then v\<lparr>v_IsUsed := True\<rparr> else v)"

definition link_arg :: "VerifyEmailRequest \<Rightarrow> update_verify_email_params" where
  "link_arg req = \<lparr>uv_ID = gve_EmailId req, uv_SecretCode = gve_SecretCode req\<rparr>"

lemma mark_verified:
  "set_user \<lparr>uu_HashedPassword = None, uu_PasswordChangedAt = None, uu_FullName = None, uu_Email = None,
     uu_IsEmailVerified = Some True, uu_Username = name\<rparr> = verified"
  by (rule ext) (simp add: set_user_def coalesce_def verified_def)

lemma link_params_eta: "\<lparr>uv_ID = uv_ID arg, uv_SecretCode = uv_SecretCode arg\<rparr> = arg"
  by (cases arg) simp

lemma VerifyEmailTx_calm:
  assumes calm: "calm_db E" and ok: "world_ok w"
  shows "run_state (VerifyEmailTx E \<lparr>vp_EmailId = uv_ID arg, vp_SecretCode = uv_SecretCode arg\<rparr>) w =
    (case find (link_valid arg (clock E (tick w))) (verify_emails (db w)) of
       None \<Rightarrow> (Inl NoRows, w\<lparr>tick := tick w + 3, db := rollback_to (db w) (db w)\<rparr>)
     | Some v \<Rightarrow>
         (Inr \<lparr>vr_User = verified (projr (read_row u_Username (v_Username v) (users (db w)))), vr_VerifyEmail = v\<lparr>v_IsUsed := True\<rparr>\<rparr>,
          w\<lparr>tick := tick w + 4, db := (db w)\<lparr>verify_emails := map (use_link arg (clock E (tick w))) (verify_emails (db w)),
             users := write_row u_Username (v_Username v) verified (users (db w))\<rparr>\<rparr>))"
proof (cases "find (link_valid arg (clock E (tick w))) (verify_emails (db w))")
  case None
  then show ?thesis
    by (simp add: VerifyEmailTx_def execTx_calm [OF calm] run_bindE q_UpdateVerifyEmail_def run_query_calm [OF calm]
        sql_UpdateVerifyEmail_def link_params_eta eval_nat_numeral)
next
  case (Some v)
  then have "v \<in> set (verify_emails (db w))" by (auto dest: find_SomeD)
  then have "v_Username v \<in> usernames (db w)" using ok by (auto simp: world_ok_def schema_ok_def)
  then obtain u where u: "read_row u_Username (v_Username v) (users (db w)) = Inr u"
    using ok by (auto simp: usernames_def world_ok_def schema_ok_def read_row_Inr)
  have email: "\<not> list_ex (\<lambda>x. u_Username x \<noteq> v_Username v \<and> u_Email x = u_Email (verified u)) (users (db w))"
  proof -
    have "distinct (map u_Email (users (db w)))" "u \<in> set (users (db w))" "u_Username u = v_Username v"
      using ok read_row_Inr_in [OF u] by (simp_all add: world_ok_def schema_ok_def)
    then show ?thesis using distinct_key_eq [of u_Email "users (db w)" _ u] by (auto simp: list_ex_iff verified_def)
  qed
  from Some u email show ?thesis
    by (simp add: VerifyEmailTx_def execTx_calm [OF calm] run_bindE q_UpdateVerifyEmail_def run_query_calm [OF calm]
        sql_UpdateVerifyEmail_def q_UpdateUser_def sql_UpdateUser_def mark_verified link_params_eta eval_nat_numeral use_link_def [abs_def])
qed


lemma find_unique:
  assumes "x \<in> set xs" "P x" "\<And>y. y \<in> set xs \<Longrightarrow> P y \<Longrightarrow> y = x"
  shows "find P xs = Some x"
proof (cases "find P xs")
  case None
  then show ?thesis using assms(1,2) by (auto simp: find_None_iff)
next
  case (Some y)
  then show ?thesis using assms(3) by (auto dest: find_SomeD)
qed

lemma find_link:
  assumes "world_ok w" "l \<in> set (verify_emails (db w))" "link_valid arg now l"
  shows "find (link_valid arg now) (verify_emails (db w)) = Some l"
proof (rule find_unique [of _ _ "link_valid arg now", OF assms(2,3)])
  have "distinct (map v_ID (verify_emails (db w)))" using assms(1) by (simp add: world_ok_def schema_ok_def serial_def)
  then show "\<And>y. y \<in> set (verify_emails (db w)) \<Longrightarrow> link_valid arg now y \<Longrightarrow> y = l"
    using distinct_key_eq [of v_ID "verify_emails (db w)" _ l] assms(2,3) by (auto simp: link_valid_def)
qed

lemma VerifyEmail_calm:
  assumes calm: "calm_db E" and ok: "world_ok w" and valid: "validateVerifyEmailRequest E req = []"
  shows "run_state (rpc_VerifyEmail E (deployed_grpc E config) req) w =
    (case find (link_valid (link_arg req) (clock E (tick w))) (verify_emails (db w)) of
       None \<Rightarrow> (Inl (Errorf Internal ''failed to verify email''), w\<lparr>tick := tick w + 3, db := rollback_to (db w) (db w)\<rparr>)
     | Some v \<Rightarrow>
         (Inr True, w\<lparr>tick := tick w + 4, db := (db w)\<lparr>
             verify_emails := map (use_link (link_arg req) (clock E (tick w))) (verify_emails (db w)),
             users := write_row u_Username (v_Username v) verified (users (db w))\<rparr>\<rparr>))"
  using VerifyEmailTx_calm [OF calm ok, of "link_arg req"] valid
  by (auto simp: rpc_VerifyEmail_def run_caseE SQLStore_def link_arg_def verified_def split: option.splits)

lemma rollback_same: "rollback_to d d = d"
  by (simp add: rollback_to_def)

lemma used_link_dead:
  assumes "distinct (map v_ID ls)" "find (link_valid arg now) ls = Some l"
  shows "find (link_valid arg t) (map (use_link arg now) ls) = None"
proof -
  from assms(2) have l: "l \<in> set ls" "link_valid arg now l" by (auto dest: find_SomeD)
  have "\<not> link_valid arg t (use_link arg now y)" if "y \<in> set ls" for y
    using distinct_key_eq [OF assms(1) that l(1)] l(2) by (auto simp: link_valid_def use_link_def)
  then show ?thesis by (auto simp: find_None_iff)
qed

lemma links_distinct: "world_ok w \<Longrightarrow> distinct (map v_ID (verify_emails (db w)))"
  by (simp add: world_ok_def schema_ok_def serial_def)

text \<open>C15: What VerifyEmail does with a well-formed request is decided by the stored links: if none has this id and
  code, unused and unexpired, it answers INTERNAL and no row changes; otherwise it answers true, exactly that
  link is marked as used, exactly its owner is marked as verified, and the request is never valid again.\<close>

theorem verify_email_outcome:
  assumes "calm_db E" and "world_ok w" and "validateVerifyEmailRequest E req = []"
    and "run_state (rpc_VerifyEmail E (deployed_grpc E config) req) w = (r, w')"
  shows "case find (link_valid (link_arg req) (clock E (tick w))) (verify_emails (db w)) of
     None \<Rightarrow> r = Inl (Errorf Internal ''failed to verify email'') \<and> db w' = db w
   | Some l \<Rightarrow> r = Inr True \<and>
       db w' = (db w)\<lparr>verify_emails := map (\<lambda>v. if v_ID v = gve_EmailId req then v\<lparr>v_IsUsed := True\<rparr> else v) (verify_emails (db w)),
         users := map (\<lambda>u. if u_Username u = v_Username l then u\<lparr>u_IsEmailVerified := True\<rparr> else u) (users (db w))\<rparr> \<and>
       (\<forall>t. find (link_valid (link_arg req) t) (verify_emails (db w')) = None)"
proof (cases "find (link_valid (link_arg req) (clock E (tick w))) (verify_emails (db w))")
  case None
  with VerifyEmail_calm [OF assms(1-3), of config] assms(4) show ?thesis by (auto simp: rollback_same)
next
  case (Some l)
  then have l: "l \<in> set (verify_emails (db w))" "link_valid (link_arg req) (clock E (tick w)) l" by (auto dest: find_SomeD)
  have "use_link (link_arg req) (clock E (tick w)) v = (if v_ID v = gve_EmailId req then v\<lparr>v_IsUsed := True\<rparr> else v)"
    if "v \<in> set (verify_emails (db w))" for v
    using distinct_key_eq [OF links_distinct [OF assms(2)] that l(1)] l(2)
    by (auto simp: use_link_def link_valid_def link_arg_def)
  then have "map (use_link (link_arg req) (clock E (tick w))) (verify_emails (db w)) =
      map (\<lambda>v. if v_ID v = gve_EmailId req then v\<lparr>v_IsUsed := True\<rparr> else v) (verify_emails (db w))" by simp
  with Some VerifyEmail_calm [OF assms(1-3), of config] assms(4) used_link_dead [OF links_distinct [OF assms(2)] Some]
  show ?thesis by (auto simp: write_row_def verified_def [abs_def])
qed

text \<open>A bank in which alice's link waits.\<close>

definition alices_link :: verify_email where
  "alices_link = verify_row 1 (sample_user ''alice'' ''alice@bank.org'' ''secret1'') ''abcdefghijklmnopqrstuvwxyzabcdef'' 0"

definition link_world :: world where
  "link_world = sample_world\<lparr>db := sample_db\<lparr>seq_verify_emails := 1, verify_emails := [alices_link]\<rparr>\<rparr>"

definition link_request :: VerifyEmailRequest where
  "link_request = \<lparr>gve_EmailId = 1, gve_SecretCode = ''abcdefghijklmnopqrstuvwxyzabcdef''\<rparr>"

lemma link_world_ok: "world_ok link_world"
proof -
  have "v_ID alices_link = 1" "v_Username alices_link \<in> usernames sample_db" by code_simp+
  with sample_world_ok show ?thesis
    by (simp add: world_ok_def link_world_def sample_world_def schema_ok_def serial_def serial_id_def usernames_def account_ids_def)
qed

theorem verify_email_outcome_witness:
  "\<exists>w'. run_state (rpc_VerifyEmail sample_env sample_grpc link_request) link_world = (Inr True, w') \<and>
     map u_IsEmailVerified (users (db w')) = True # map u_IsEmailVerified (tl (users sample_db)) \<and>
     map v_IsUsed (verify_emails (db w')) = [True]"
proof -
  obtain r w' where run: "run_state (rpc_VerifyEmail sample_env sample_grpc link_request) link_world = (r, w')" by fastforce
  have calm: "calm_db sample_env" by (simp add: calm_db_def sample_env_def)
  have facts: "validateVerifyEmailRequest sample_env link_request = []"
    "find (link_valid (link_arg link_request) (clock sample_env (tick link_world))) (verify_emails (db link_world)) = Some alices_link"
    by code_simp+
  have users: "map u_IsEmailVerified (map (\<lambda>u. if u_Username u = v_Username alices_link then u\<lparr>u_IsEmailVerified := True\<rparr> else u)
     (users (db link_world))) = True # map u_IsEmailVerified (tl (users sample_db))" by code_simp
  have used: "map v_IsUsed (map (\<lambda>v. if v_ID v = gve_EmailId link_request then v\<lparr>v_IsUsed := True\<rparr> else v)
     (verify_emails (db link_world))) = [True]" by code_simp
  from verify_email_outcome [OF calm link_world_ok facts(1) run] facts(2) users used run show ?thesis by auto
qed


subsection \<open>From the task to the verified user\<close>

definition link_request_of :: "verify_email \<Rightarrow> VerifyEmailRequest" where
  "link_request_of l = \<lparr>gve_EmailId = v_ID l, gve_SecretCode = v_SecretCode l\<rparr>"

lemma serial_id_pos: "0 < n \<Longrightarrow> int n < 2 ^ 63 \<Longrightarrow> 0 < sint (serial_id n)"
  by (simp add: sint_serial_id)

lemma link_request_valid:
  assumes "0 < sint (v_ID l)" "length (v_SecretCode l) = 32"
  shows "validateVerifyEmailRequest E (link_request_of l) = []"
proof -
  have "ValidateEmailId (v_ID l) = None" "ValidateSecretCode (v_SecretCode l) = None"
    using assms secret_code_valid by (simp_all only: ValidateEmailId_None)
  then show ?thesis by (simp add: validateVerifyEmailRequest_def link_request_of_def violation_def ValidateEmailId_def)
qed

lemma process_ok:
  assumes "calm_db E" "world_ok w" "int (Suc (seq_verify_emails (db w))) < 2 ^ 63"
    "read_row u_Username (sv_Username p) (users (db w)) = Inr u" "tk_Payload t = Some p"
    "run_state (ProcessTaskSendVerifyEmail E (SQLStore E) (deployed_mailer E config) t) w = (Inr (), w')"
  obtains code l where "length code = 32" "l = verify_row (Suc (seq_verify_emails (db w))) u code (clock E (tick w + 33))"
    "verify_emails (db w') = verify_emails (db w) @ [l]" "outbox w' = outbox w @ [verify_mail config u l]"
  by (rule process_run [OF assms]) (auto simp: Let_def split: fault.splits)

text \<open>C16: The link of the mail works, once: while it has not expired, VerifyEmail with the id and the code of the
  stored link answers true and marks the user of the task, whatever address the user has by then; every later
  attempt with the same link is answered with INTERNAL.\<close>

theorem verification_roundtrip:
  assumes calm: "calm_db E" and "world_ok w" and "int (Suc (seq_verify_emails (db w))) < 2 ^ 63"
    and "read_row u_Username (sv_Username p) (users (db w)) = Inr u" and "tk_Payload t = Some p"
    and "run_state (ProcessTaskSendVerifyEmail E (SQLStore E) (deployed_mailer E config) t) w = (Inr (), w')"
    and ok: "world_ok v" and later: "verify_emails (db v) = verify_emails (db w')"
      "read_row u_Username (sv_Username p) (users (db v)) = Inr u2"
      "clock E (tick v) < clock E (tick w + 33) + fifteen_minutes"
  shows "\<exists>l v'. verify_emails (db w') = verify_emails (db w) @ [l] \<and> outbox w' = outbox w @ [verify_mail config u l] \<and>
     run_state (rpc_VerifyEmail E (deployed_grpc E config) (link_request_of l)) v = (Inr True, v') \<and>
     read_row u_Username (sv_Username p) (users (db v')) = Inr (u2\<lparr>u_IsEmailVerified := True\<rparr>) \<and>
     (\<forall>x. world_ok x \<and> verify_emails (db x) = verify_emails (db v') \<longrightarrow>
        fst (run_state (rpc_VerifyEmail E (deployed_grpc E config) (link_request_of l)) x) =
          Inl (Errorf Internal ''failed to verify email''))"
proof -
  obtain code l where code: "length code = 32"
    and l: "l = verify_row (Suc (seq_verify_emails (db w))) u code (clock E (tick w + 33))"
    and links: "verify_emails (db w') = verify_emails (db w) @ [l]" and mail: "outbox w' = outbox w @ [verify_mail config u l]"
    by (rule process_ok [OF assms(1-6)])
  have valid: "validateVerifyEmailRequest E (link_request_of l) = []"
    by (rule link_request_valid) (use assms(3) code in \<open>simp_all add: l verify_row_def serial_id_pos\<close>)
  have user: "v_Username l = sv_Username p" using read_row_Inr_in [OF assms(4)] by (simp add: l verify_row_def)
  have "link_valid (link_arg (link_request_of l)) (clock E (tick v)) l"
    using later(3) by (simp add: link_valid_def link_arg_def link_request_of_def l verify_row_def)
  from find_link [OF ok _ this]
  have find: "find (link_valid (link_arg (link_request_of l)) (clock E (tick v))) (verify_emails (db v)) = Some l"
    by (simp add: later(1) links)
  let ?d = "(db v)\<lparr>verify_emails := map (use_link (link_arg (link_request_of l)) (clock E (tick v))) (verify_emails (db v)),
             users := write_row u_Username (sv_Username p) verified (users (db v))\<rparr>"
  have run: "run_state (rpc_VerifyEmail E (deployed_grpc E config) (link_request_of l)) v = (Inr True, v\<lparr>tick := tick v + 4, db := ?d\<rparr>)"
    using VerifyEmail_calm [OF calm ok valid, of config] find user by simp
  have "fst (run_state (rpc_VerifyEmail E (deployed_grpc E config) (link_request_of l)) x) =
          Inl (Errorf Internal ''failed to verify email'')" if "world_ok x" "verify_emails (db x) = verify_emails ?d" for x
    using VerifyEmail_calm [OF calm that(1) valid, of config] that(2) used_link_dead [OF links_distinct [OF ok] find] by simp
  moreover have "read_row u_Username (sv_Username p) (users ?d) = Inr (u2\<lparr>u_IsEmailVerified := True\<rparr>)"
    using later(2) by (simp add: read_write_same verified_def)
  ultimately show ?thesis using links mail run by fastforce
qed


lemma since_VerifyEmail: "keeps (since d0) (rpc_VerifyEmail E (deployed_grpc E config) req)"
  by (rule grpc.keeps_rpc_VerifyEmail) (simp add: sql_store.store_frames)

text \<open>bob's link, a little later.\<close>

definition bob_later :: world where
  "bob_later = (snd bobs_mail)\<lparr>tick := 100\<rparr>"

lemma bobs_mail_run:
  "run_state (ProcessTaskSendVerifyEmail sample_env (SQLStore sample_env) (deployed_mailer sample_env sample_config)
     (signup_task ''bob'')) sample_world = (Inr (), snd bobs_mail)"
  "users (db (snd bobs_mail)) = users (db sample_world)" "world_ok (snd bobs_mail)"
proof -
  have calm: "calm_db sample_env" by (simp add: calm_db_def sample_env_def)
  have facts: "int (Suc (seq_verify_emails (db sample_world))) < 2 ^ 63"
    "read_row u_Username (sv_Username \<lparr>sv_Username = ''bob''\<rparr>) (users (db sample_world)) =
      Inr (sample_user ''bob'' ''bob@bank.org'' ''secret2'')"
    "tk_Payload (signup_task ''bob'') = Some \<lparr>sv_Username = ''bob''\<rparr>"
    by code_simp+
  obtain r w' where run: "run_state (ProcessTaskSendVerifyEmail sample_env (SQLStore sample_env)
     (deployed_mailer sample_env sample_config) (signup_task ''bob'')) sample_world = (r, w')" by fastforce
  have w': "r = Inr ()" "users (db w') = users (db sample_world)"
    by (rule process_run [OF calm sample_world_ok facts run]; simp add: Let_def sample_env_def)+
  have "world_ok w'" by (rule keepsD [OF keeps_since_world_ok [OF process_frames(1)] run sample_world_ok])
  with run w' show "run_state (ProcessTaskSendVerifyEmail sample_env (SQLStore sample_env) (deployed_mailer sample_env sample_config)
     (signup_task ''bob'')) sample_world = (Inr (), snd bobs_mail)"
    "users (db (snd bobs_mail)) = users (db sample_world)" "world_ok (snd bobs_mail)"
    by (simp_all add: bobs_mail_def)
qed

theorem verification_roundtrip_witness:
  "\<exists>l v'. outbox (snd bobs_mail) = [verify_mail sample_config (sample_user ''bob'' ''bob@bank.org'' ''secret2'') l] \<and>
     run_state (rpc_VerifyEmail sample_env sample_grpc (link_request_of l)) bob_later = (Inr True, v') \<and>
     fst (run_state (rpc_VerifyEmail sample_env sample_grpc (link_request_of l)) v') = Inl (Errorf Internal ''failed to verify email'')"
proof -
  have calm: "calm_db sample_env" by (simp add: calm_db_def sample_env_def)
  let ?bob = "sample_user ''bob'' ''bob@bank.org'' ''secret2''"
  have facts: "int (Suc (seq_verify_emails (db sample_world))) < 2 ^ 63"
    "read_row u_Username (sv_Username \<lparr>sv_Username = ''bob''\<rparr>) (users (db sample_world)) = Inr ?bob"
    "tk_Payload (signup_task ''bob'') = Some \<lparr>sv_Username = ''bob''\<rparr>"
    "clock sample_env 100 < clock sample_env (tick sample_world + 33) + fifteen_minutes"
    by code_simp+
  have later: "world_ok bob_later" "verify_emails (db bob_later) = verify_emails (db (snd bobs_mail))"
    "users (db bob_later) = users (db sample_world)" "tick bob_later = 100"
    using bobs_mail_run by (simp_all add: bob_later_def world_ok_def)
  from verification_roundtrip [OF calm sample_world_ok facts(1-3) bobs_mail_run(1) later(1,2), of ?bob] facts(2,4) later(3,4)
  obtain l v' where l: "outbox (snd bobs_mail) = outbox sample_world @ [verify_mail sample_config ?bob l]"
    and run: "run_state (rpc_VerifyEmail sample_env sample_grpc (link_request_of l)) bob_later = (Inr True, v')"
    and again: "\<And>x. world_ok x \<Longrightarrow> verify_emails (db x) = verify_emails (db v') \<Longrightarrow>
        fst (run_state (rpc_VerifyEmail sample_env sample_grpc (link_request_of l)) x) = Inl (Errorf Internal ''failed to verify email'')"
    by auto
  have "world_ok v'" by (rule keepsD [OF keeps_since_world_ok [OF since_VerifyEmail] run later(1)])
  from again [OF this refl] l run show ?thesis by (auto simp: sample_world_def)
qed

end
