(* ===== verification/Gateway.thy ===== *)
theory Gateway
  imports Gapi Spa Build
begin

section \<open>The HTTP server in front of both APIs (main.go) and what the frontend is built into\<close>

text \<open>
  \<^verbatim>\<open>runGatewayServer\<close> puts three handlers behind one address: the Swagger files, the gateway to the
  gRPC methods and the Gin router. The gateway itself is grpc-gateway, a library: how it maps
  status codes and prints times is the parameter \<open>gateway\<close>; the messages' JSON follows the options
  set in \<^verbatim>\<open>main.go\<close> (field names of the proto files, fields with default values left out).
\<close>

subsection \<open>Dispatch (main.go)\<close>

text \<open>The handler a clean path is served by. \<open>http.ServeMux\<close> picks the longest registered prefix and
  redirects the root of a subtree without its slash.\<close>

datatype http_target = RedirectTo string | SwaggerFile string | GrpcMux | GinServer

definition http_mux :: "string \<Rightarrow> http_target" where
  "http_mux path =
     (if path = ''/swagger'' then RedirectTo ''/swagger/''
      else if has_prefix ''/swagger/'' path then SwaggerFile (drop (length ''/swagger/'') path)
      else if has_prefix ''/v1/'' path then GrpcMux
      else GinServer)"

text \<open>The bindings of the methods in \<^verbatim>\<open>service_simple_bank.proto\<close>.\<close>

datatype rpc_method = MethodCreateUser | MethodUpdateUser | MethodLoginUser | MethodVerifyEmail

definition gateway_routes :: "(string \<times> string \<times> rpc_method) list" where
  "gateway_routes =
     [(''POST'', ''/v1/create_user'', MethodCreateUser),
      (''PATCH'', ''/v1/update_user'', MethodUpdateUser),
      (''POST'', ''/v1/login_user'', MethodLoginUser),
      (''GET'', ''/v1/verify_email'', MethodVerifyEmail)]"

definition gateway_method :: "string \<Rightarrow> string \<Rightarrow> rpc_method option" where
  "gateway_method verb path =
     (if http_mux path = GrpcMux
      then map_option (\<lambda>(v, p, m). m) (find (\<lambda>(v, p, m). v = verb \<and> p = path) gateway_routes)
      else None)"

record cors_options =
  co_AllowedOrigins :: "string list"
  co_AllowedMethods :: "string list"
  co_AllowedHeaders :: "string list"
  co_AllowCredentials :: bool

definition deployed_cors :: "Config \<Rightarrow> cors_options" where
  "deployed_cors config =
     \<lparr>co_AllowedOrigins = AllowedOrigins config,
      co_AllowedMethods = [''HEAD'', ''OPTIONS'', ''GET'', ''POST'', ''PUT'', ''PATCH'', ''DELETE''],
      co_AllowedHeaders = [''Content-Type'', ''Authorization''], co_AllowCredentials = True\<rparr>"

text \<open>What rs/cors documents: a request is let through if origin, method and all headers are listed.\<close>

type_synonym cors = "cors_options \<Rightarrow> string \<Rightarrow> string \<Rightarrow> string list \<Rightarrow> bool"

definition cors_ok :: "cors \<Rightarrow> bool" where
  "cors_ok passes \<longleftrightarrow>
     (\<forall>opts orig verb hs. orig \<in> set (co_AllowedOrigins opts) \<and> verb \<in> set (co_AllowedMethods opts) \<and>
        set hs \<subseteq> set (co_AllowedHeaders opts) \<longrightarrow> passes opts orig verb hs)"

subsection \<open>The messages as JSON\<close>

record gateway =
  gw_status :: "grpc_code \<Rightarrow> int"
  gw_code :: "grpc_code \<Rightarrow> int"
  gw_details :: "field_violation list \<Rightarrow> js"
  gw_time :: "time \<Rightarrow> string"
  gw_uuid :: "uuid \<Rightarrow> string"

text \<open>The documented HTTP status of a code, for the two the frontend looks at.\<close>

definition gateway_ok :: "gateway \<Rightarrow> bool" where
  "gateway_ok G \<longleftrightarrow> (\<forall>c. (gw_status G c = 404 \<longleftrightarrow> c = NotFound) \<and> (gw_status G c = 409 \<longleftrightarrow> c = AlreadyExists))"

definition json_text :: "string \<Rightarrow> string \<Rightarrow> (string \<times> js) list" where
  "json_text k s = (if s = [] then [] else [(k, JStr s)])"

definition json_user :: "gateway \<Rightarrow> pb_user \<Rightarrow> js" where
  "json_user G u =
     JObj (json_text ''username'' (pu_Username u) @ json_text ''full_name'' (pu_FullName u) @
       json_text ''email'' (pu_Email u) @
       [(''password_changed_at'', JStr (gw_time G (pu_PasswordChangedAt u))), (''created_at'', JStr (gw_time G (pu_CreatedAt u)))])"

definition json_login :: "gateway \<Rightarrow> LoginUserResponse \<Rightarrow> js" where
  "json_login G r =
     JObj ([(''user'', json_user G (glr_User r))] @ json_text ''session_id'' (gw_uuid G (glr_SessionId r)) @
       json_text ''access_token'' (glr_AccessToken r) @ json_text ''refresh_token'' (glr_RefreshToken r) @
       [(''access_token_expires_at'', JStr (gw_time G (glr_AccessTokenExpiresAt r))),
        (''refresh_token_expires_at'', JStr (gw_time G (glr_RefreshTokenExpiresAt r)))])"

definition json_status :: "gateway \<Rightarrow> grpc_status \<Rightarrow> js" where
  "json_status G st =
     JObj ([(''code'', JNum (gw_code G (gr_code st)))] @ json_text ''message'' (gr_message st) @
       (if gr_violations st = [] then [] else [(''details'', gw_details G (gr_violations st))]))"

subsection \<open>The requests of the frontend\<close>

text \<open>Scheme, authority and path of an address, and the port at the end of an authority or a listen address.\<close>

definition url_parts :: "string \<Rightarrow> string \<times> string \<times> string" where
  "url_parts u =
     (let (scheme, rest) = split_at CHR '':'' u; r = drop (length ''//'') rest in
      (scheme, takeWhile (\<lambda>c. c \<noteq> CHR ''/'') r, dropWhile (\<lambda>c. c \<noteq> CHR ''/'') r))"

definition port_of :: "string \<Rightarrow> string" where
  "port_of s = rev (takeWhile (\<lambda>c. c \<noteq> CHR '':'') (rev s))"

text \<open>The method a request from a page of the origin \<open>orig\<close> is served by: it has to be addressed to the port the
  server listens on, be let through by CORS, and match a route of the gateway.\<close>

definition delivered :: "cors \<Rightarrow> Config \<Rightarrow> string \<Rightarrow> http_request \<Rightarrow> rpc_method option" where
  "delivered passes config orig q =
     (let (scheme, authority, path) = url_parts (hr_url q) in
      if scheme = ''http'' \<and> port_of authority = port_of (HTTPServerAddress config) \<and>
         passes (deployed_cors config) orig (hr_method q) (map fst (hr_headers q))
      then gateway_method (hr_method q) path else None)"

text \<open>The messages the gateway reads from the bodies: the fields by their names in the proto files, unknown ones
  discarded, missing ones empty.\<close>

definition body_text :: "js \<Rightarrow> string \<Rightarrow> string" where
  "body_text body k = (case js_member body k of JStr s \<Rightarrow> s | _ \<Rightarrow> [])"

definition sign_in_message :: "http_request \<Rightarrow> LoginUserRequest" where
  "sign_in_message q =
     \<lparr>glu_Username = body_text (hr_body q) ''username'', glu_Password = body_text (hr_body q) ''password''\<rparr>"

definition sign_up_message :: "http_request \<Rightarrow> CreateUserRequest" where
  "sign_up_message q =
     \<lparr>gcu_Username = body_text (hr_body q) ''username'', gcu_FullName = body_text (hr_body q) ''full_name'',
      gcu_Email = body_text (hr_body q) ''email'', gcu_Password = body_text (hr_body q) ''password''\<rparr>"

text \<open>How axios settles the frontend's request when the answer arrives.\<close>

definition axios_answer :: "gateway \<Rightarrow> ('a \<Rightarrow> js) \<Rightarrow> grpc_status + 'a \<Rightarrow> axios_outcome" where
  "axios_answer G f r =
     (case r of Inl st \<Rightarrow> Rejected (Some (gw_status G (gr_code st), json_status G st)) | Inr x \<Rightarrow> Resolved (f x))"

subsection \<open>The link of the mail\<close>

text \<open>A query as \<open>url.ParseQuery\<close> reads it, without its unescaping: the pairs between the ampersands,
  split at the first equals sign.\<close>

definition raw_query :: "string \<Rightarrow> (string \<times> string) list" where
  "raw_query q = map (split_at CHR ''='') (split_all CHR ''&'' q)"

text \<open>\<open>strconv.ParseInt\<close> on the digits of a number that is not negative.\<close>

definition parse_digits :: "string \<Rightarrow> nat option" where
  "parse_digits s =
     (if s \<noteq> [] \<and> list_all (\<lambda>c. 48 \<le> (of_char c :: nat) \<and> (of_char c :: nat) \<le> 57) s
      then Some (foldl (\<lambda>n c. 10 * n + (of_char c - 48)) 0 s) else None)"

text \<open>The request the gateway makes of the query, for an unescaping given as a parameter.\<close>

definition query_request :: "(string \<Rightarrow> string) \<Rightarrow> string \<Rightarrow> VerifyEmailRequest option" where
  "query_request unescape q =
     (let ps = map (\<lambda>(k, v). (unescape k, unescape v)) (raw_query q) in
      case (map_of ps ''email_id'', map_of ps ''secret_code'') of
        (Some i, Some code) \<Rightarrow>
          (case parse_digits i of
             Some n \<Rightarrow>
               if in_int64 (int n) then Some \<lparr>gve_EmailId = word_of_int (int n), gve_SecretCode = code\<rparr> else None
           | None \<Rightarrow> None)
      | _ \<Rightarrow> None)"

end
