(* ===== verification/FullStack.thy ===== *)
theory FullStack
  imports SpaProps EmailProps Gateway
begin

section \<open>The frontend and the backend together\<close>

text \<open>
  Where the two programs meet: the addresses and headers the frontend sends and who serves them, the link
  of the mail, the JSON of a login against the type the frontend declares for it, and what the user is
  told of every refusal of the backend.
\<close>

subsection \<open>Requests\<close>

text \<open>C35: What the frontend sends arrives: built without another base address than the default, with the server
  listening on port 8080 and the origin of the development server among the allowed ones, the two forms post to
  \<^verbatim>\<open>http://localhost:8080\<close>, CORS lets their requests through with the headers they carry, the gateway serves
  them by LoginUser and CreateUser, and the messages it reads from their bodies have exactly what was typed;
  with another base address the paths are the same; and the Swagger page finds its description.\<close>

theorem frontend_requests_arrive:
  assumes "cors_ok passes" and "dev_origin \<in> set (AllowedOrigins config)" and port: "port_of (HTTPServerAddress config) = ''8080''"
    and base: "vite_base \<in> {Undefined, Null, JStr ''http://localhost:8080''}"
  shows "(let q = login_request (API_BASE_URL vite_base) f in
      url_parts (hr_url q) = (''http'', ''localhost:8080'', ''/v1/login_user'') \<and>
      delivered passes config dev_origin q = Some MethodLoginUser \<and>
      sign_in_message q = \<lparr>glu_Username = lf_username f, glu_Password = lf_password f\<rparr>) \<and>
    (let q = register_request (API_BASE_URL vite_base) g in
      url_parts (hr_url q) = (''http'', ''localhost:8080'', ''/v1/create_user'') \<and>
      delivered passes config dev_origin q = Some MethodCreateUser \<and>
      sign_up_message q = \<lparr>gcu_Username = rf_username g, gcu_FullName = rf_fullName g, gcu_Email = rf_email g,
        gcu_Password = rf_password g\<rparr>) \<and>
    hr_url (login_request (API_BASE_URL (JStr other)) f) = other @ ''/v1/login_user'' \<and>
    hr_url (register_request (API_BASE_URL (JStr other)) g) = other @ ''/v1/create_user'' \<and>
    http_mux (relative_to ''/swagger/index.html'' (sw_url swagger_initializer)) = SwaggerFile ''simple_bank.swagger.json''"
proof -
  have api: "js_string (API_BASE_URL vite_base) = ''http://localhost:8080''" "js_string (API_BASE_URL (JStr other)) = other"
    using base by (auto simp: API_BASE_URL_def nullish_coalesce_def nullish_def)
  have parts: "url_parts ''http://localhost:8080/v1/login_user'' = (''http'', ''localhost:8080'', ''/v1/login_user'')"
    "url_parts ''http://localhost:8080/v1/create_user'' = (''http'', ''localhost:8080'', ''/v1/create_user'')"
    "port_of ''localhost:8080'' = ''8080''"
    and routes: "gateway_method ''POST'' ''/v1/login_user'' = Some MethodLoginUser"
    "gateway_method ''POST'' ''/v1/create_user'' = Some MethodCreateUser"
    "http_mux (relative_to ''/swagger/index.html'' (sw_url swagger_initializer)) = SwaggerFile ''simple_bank.swagger.json''"
    by code_simp+
  have "passes (deployed_cors config) dev_origin ''POST'' [''Content-Type'', ''Authorization'']"
    "passes (deployed_cors config) dev_origin ''POST'' [''Content-Type'']"
    using assms by (simp_all add: cors_ok_def deployed_cors_def)
  with parts routes show ?thesis
    by (simp add: Let_def delivered_def login_request_def register_request_def api port sign_in_message_def sign_up_message_def
        body_text_def)
qed

text \<open>The origins and the address of \<^verbatim>\<open>app.env.example\<close>, and rs/cors as a list of lists.\<close>

definition dev_config :: Config where
  "dev_config = sample_config\<lparr>AllowedOrigins := [''http://localhost:3000''], HTTPServerAddress := ''0.0.0.0:8080''\<rparr>"

definition listed :: cors where
  "listed opts orig verb hs \<longleftrightarrow>
     orig \<in> set (co_AllowedOrigins opts) \<and> verb \<in> set (co_AllowedMethods opts) \<and> set hs \<subseteq> set (co_AllowedHeaders opts)"

theorem frontend_requests_arrive_witness:
  "delivered listed dev_config dev_origin (login_request (API_BASE_URL Undefined) initial_login) = Some MethodLoginUser \<and>
   delivered listed dev_config dev_origin (register_request (API_BASE_URL Undefined) initial_register) = Some MethodCreateUser"
proof -
  have "cors_ok listed" by (simp add: cors_ok_def listed_def)
  moreover have "dev_origin \<in> set (AllowedOrigins dev_config)" "port_of (HTTPServerAddress dev_config) = ''8080''" by code_simp+
  ultimately show ?thesis
    using frontend_requests_arrive [of listed dev_config Undefined initial_login initial_register] by (simp add: Let_def)
qed

subsection \<open>The link of the mail\<close>

definition link_path :: string where
  "link_path = ''/v1/verify_email''"

definition link_query :: "verify_email \<Rightarrow> string" where
  "link_query v = ''email_id='' @ decimal (sint (v_ID v)) @ ''&secret_code='' @ v_SecretCode v"

lemma split_all_no: "c \<notin> set s \<Longrightarrow> split_all c s = [s]"
  by (induction s) auto

lemma split_all_at: "c \<notin> set s \<Longrightarrow> split_all c (s @ c # r) = s # split_all c r"
  by (induction s) auto

lemma split_at_no: "c \<notin> set s \<Longrightarrow> split_at c (s @ c # r) = (s, r)"
  by (induction s) auto

lemma digits_digit: "c \<in> set (digits n) \<Longrightarrow> 48 \<le> (of_char c :: nat) \<and> (of_char c :: nat) \<le> 57"
proof (induction n rule: digits.induct)
  case (1 n)
  then show ?case
    using of_char_digit [of n] of_char_digit [of "n mod 10"]
    by (subst (asm) (2) digits.simps) (auto split: if_splits)
qed

lemma digits_Cons: "digits n \<noteq> []"
  by (subst digits.simps) simp

lemma parse_digits_digits: "parse_digits (digits n) = Some n"
  using digits_digit digits_Cons foldl_digits [of n] by (auto simp: parse_digits_def list_all_iff)

text \<open>Characters that mean something in a query are neither digits nor letters.\<close>

lemma plain_chars:
  "set (digits n) \<inter> {CHR ''&'', CHR ''='', CHR ''%'', CHR ''+''} = {}"
  "set alphabet \<inter> {CHR ''&'', CHR ''='', CHR ''%'', CHR ''+''} = {}"
proof -
  show "set (digits n) \<inter> {CHR ''&'', CHR ''='', CHR ''%'', CHR ''+''} = {}"
    using digits_digit [of "CHR ''&''" n] digits_digit [of "CHR ''=''" n] digits_digit [of "CHR ''%''" n]
      digits_digit [of "CHR ''+''" n] by auto
qed (simp add: alphabet_def)

lemma raw_query_link:
  assumes "set code \<subseteq> set alphabet"
  shows "raw_query (''email_id='' @ digits n @ ''&secret_code='' @ code) = [(''email_id'', digits n), (''secret_code'', code)]"
proof -
  have "CHR ''&'' \<notin> set (''email_id='' @ digits n)" "CHR ''&'' \<notin> set (''secret_code='' @ code)"
    using plain_chars assms by auto
  from split_all_at [OF this(1), of "''secret_code='' @ code"] split_all_no [OF this(2)]
  have "split_all CHR ''&'' (''email_id='' @ digits n @ ''&secret_code='' @ code) = [''email_id='' @ digits n, ''secret_code='' @ code]"
    by simp
  then show ?thesis
    using split_at_no [of "CHR ''=''" "''email_id''" "digits n"] split_at_no [of "CHR ''=''" "''secret_code''" code]
    by (simp add: raw_query_def)
qed

text \<open>C34: The link in the mail says what was stored: its address is served by the method VerifyEmail, and the request the
  gateway reads from its query is the one for the id and the code of the stored link, for every id the
  database gives and every code the worker draws.\<close>

theorem link_names_the_row:
  assumes plain: "\<And>s. set s \<inter> {CHR ''%'', CHR ''+''} = {} \<Longrightarrow> unescape s = s"
    and "0 \<le> sint (v_ID v)" and code: "set (v_SecretCode v) \<subseteq> set alphabet"
  shows "verify_url v = ''http://localhost:8080'' @ link_path @ ''?'' @ link_query v \<and>
    gateway_method ''GET'' link_path = Some MethodVerifyEmail \<and>
    query_request unescape (link_query v) = Some (link_request_of v)"
proof -
  have dec: "decimal (sint (v_ID v)) = digits (nat (sint (v_ID v)))" using assms(2) by (simp add: decimal_def)
  have raw: "raw_query (link_query v) = [(''email_id'', digits (nat (sint (v_ID v)))), (''secret_code'', v_SecretCode v)]"
    unfolding link_query_def dec by (rule raw_query_link [OF code])
  have un: "unescape ''email_id'' = ''email_id''" "unescape ''secret_code'' = ''secret_code''"
    "unescape (digits n) = digits n" "unescape (v_SecretCode v) = v_SecretCode v" for n
    using plain_chars code by (auto intro!: plain)
  have "query_request unescape (link_query v) = Some (link_request_of v)"
    using assms(2) in_int64_sint [of "v_ID v"]
    by (simp add: query_request_def raw un parse_digits_digits link_request_of_def)
  moreover have "gateway_method ''GET'' link_path = Some MethodVerifyEmail" by code_simp
  ultimately show ?thesis by (simp add: verify_url_def link_path_def link_query_def)
qed

theorem link_names_the_row_witness:
  "query_request (\<lambda>s. s) ''email_id=1&secret_code=abcdefghijklmnopqrstuvwxyzabcdef'' = Some link_request"
proof -
  have v: "0 \<le> sint (v_ID alices_link)" "set (v_SecretCode alices_link) \<subseteq> set alphabet"
    "link_query alices_link = ''email_id=1&secret_code=abcdefghijklmnopqrstuvwxyzabcdef''"
    "link_request_of alices_link = link_request"
    by code_simp+
  from link_names_the_row [of "\<lambda>s. s", OF _ v(1,2)] v(3,4) show ?thesis by simp
qed

subsection \<open>The answer of a login\<close>

text \<open>A PASETO token begins with its version, so it is never empty.\<close>

definition tokens_nonempty :: "env \<Rightarrow> bool" where
  "tokens_nonempty E \<longleftrightarrow> (\<forall>n key p tok. paseto_encrypt E n key p = Inr tok \<longrightarrow> tok \<noteq> [])"

lemma created_nonempty:
  assumes "tokens_nonempty E"
    and "run_state (CreateToken (PasetoMaker E key) u r d t) w = (Inr (tok, p), w')"
  shows "tok \<noteq> []"
  using assms paseto_created [OF assms(2) [unfolded PasetoMaker_def, simplified]]
  by (auto simp: tokens_nonempty_def)

lemma login_tokens:
  assumes "tokens_nonempty E" and "run_state (rpc_LoginUser E (deployed_grpc E config) ctx req) w = (Inr rsp, w')"
  shows "glr_AccessToken rsp \<noteq> []" "glr_RefreshToken rsp \<noteq> []"
  using assms(2) created_nonempty [OF assms(1)]
  by (auto simp: rpc_LoginUser_def Let_def run_caseE split: if_splits option.splits sum.splits prod.splits)

lemma json_login_typed:
  assumes "pu_Username (glr_User r) \<noteq> []" "pu_FullName (glr_User r) \<noteq> []" "pu_Email (glr_User r) \<noteq> []"
    and "glr_AccessToken r \<noteq> []" "glr_RefreshToken r \<noteq> []"
  shows "is_LoginResponse (json_login G r)"
    and "js_member (js_member (json_login G r) ''user'') ''full_name'' = JStr (pu_FullName (glr_User r))"
  using assms
  by (simp_all add: is_LoginResponse_def is_User_def json_login_def json_user_def json_text_def)

lemma json_user_lacks:
  "js_member (js_member (json_login G r) ''user'') ''is_email_verified'' = Undefined"
  "js_member (js_member (json_login G r) ''user'') ''role'' = Undefined"
  by (simp_all add: json_login_def json_user_def json_text_def)

text \<open>The answer the gateway gives to the login of a user who has signed up is of the type the frontend declares for
  it, with the full name of the registration; but its user has neither \<open>is_email_verified\<close> nor \<open>role\<close>, so
  the profile card shows every user as not verified and nobody as a banker.\<close>

theorem login_answer_typed:
  assumes calm: "calm_db E" and "bcrypt_ok E" "tokens_available E" and full: "tokens_nonempty E"
    and signup: "run_state (rpc_CreateUser E (deployed_grpc E config) req) w = (Inr pu, w1)"
    and later: "users (db v) = users (db w1)" "fresh_sessions E (db v)"
  shows "\<exists>rsp v'. run_state (rpc_LoginUser E (deployed_grpc E config) ctx
        (login_req (gcu_Username req) (gcu_Password req))) v = (Inr rsp, v') \<and>
     is_LoginResponse (json_login G rsp) \<and>
     js_member (js_member (json_login G rsp) ''user'') ''full_name'' = JStr (gcu_FullName req) \<and>
     elements ''Chip'' (render_UserInfo ld (js_member (json_login G rsp) ''user'')) =
       [[Bind ''label'' Undefined, Bind ''icon'' (JStr ''pi pi-user''), Bind ''class'' (JStr ''role-chip-depositor'')],
        [Bind ''label'' (JStr ''Not Verified''), Bind ''icon'' (JStr ''pi pi-exclamation-triangle''),
         Bind ''class'' (JStr ''status-unverified'')]]"
proof -
  from create_user_InrD [OF calm signup] obtain h u where h: "bcrypt_generate E (tick w) (gcu_Password req) = Inr h"
    and u: "u = new_user req h (clock E (tick w + 1))" and fields: "bad_fields (field_checks E (RpcCreateUser req)) = []"
    and row: "read_row u_Username (gcu_Username req) (users (db w1)) = Inr u"
    by metis
  have ok: "username_ok (gcu_Username req)" "password_ok (gcu_Password req)" "full_name_ok (gcu_FullName req)" "email_ok E (gcu_Email req)"
    using fields by (auto simp: bad_fields_def split: if_splits)
  then have names: "gcu_Username req \<noteq> []" "gcu_FullName req \<noteq> []" "gcu_Email req \<noteq> []"
    by (auto simp: username_ok_def full_name_ok_def email_ok_def)
  have check: "CheckPassword E (gcu_Password req) (u_HashedPassword u) = None"
    using assms(2) h by (auto simp: CheckPassword_def bcrypt_ok_def u new_user_def)
  have login: "bad_fields (field_checks E (RpcLoginUser (login_req (gcu_Username req) (gcu_Password req)))) = []"
    using ok by (simp add: login_req_def bad_fields_def)
  from row have row': "read_row u_Username (gcu_Username req) (users (db v)) = Inr u" by (simp add: later(1))
  obtain rsp v' where run: "run_state (rpc_LoginUser E (deployed_grpc E config) ctx
      (login_req (gcu_Username req) (gcu_Password req))) v = (Inr rsp, v')" and rsp: "glr_User rsp = convertUser u"
    by (rule login_run [OF calm assms(3) login row' later(2) check])
  have fields: "pu_Username (glr_User rsp) \<noteq> []" "pu_FullName (glr_User rsp) \<noteq> []" "pu_Email (glr_User rsp) \<noteq> []"
    "pu_FullName (glr_User rsp) = gcu_FullName req"
    using names by (simp_all add: rsp convertUser_def u new_user_def)
  note typed = json_login_typed [OF fields(1-3) login_tokens [OF full run], of G]
  have chips: "elements ''Chip'' (render_UserInfo ld (js_member (json_login G rsp) ''user'')) =
       [[Bind ''label'' Undefined, Bind ''icon'' (JStr ''pi pi-user''), Bind ''class'' (JStr ''role-chip-depositor'')],
        [Bind ''label'' (JStr ''Not Verified''), Bind ''icon'' (JStr ''pi pi-exclamation-triangle''),
         Bind ''class'' (JStr ''status-unverified'')]]"
    by (simp add: chips_UserInfo role_is_banker_def json_user_lacks)
  from run typed chips fields(4) show ?thesis by auto
qed

text \<open>carol signs up and in.\<close>

definition sample_gateway :: gateway where
  "sample_gateway =
     \<lparr>gw_status = (\<lambda>c. if c = NotFound then 404 else if c = AlreadyExists then 409 else if c = InvalidArgument then 400 else 500),
      gw_code = (\<lambda>_. 0), gw_details = (\<lambda>_. Null), gw_time = (\<lambda>_. ''2024-01-01T00:00:00Z''), gw_uuid = (\<lambda>_. ''id'')\<rparr>"

theorem login_answer_typed_witness:
  "\<exists>rsp v'. run_state (rpc_LoginUser sample_env sample_grpc phone (login_req ''carol'' ''secret3''))
      (snd (run_state (rpc_CreateUser sample_env sample_grpc carol) sample_world)) = (Inr rsp, v') \<and>
     is_LoginResponse (json_login sample_gateway rsp)"
proof -
  let ?c = "run_state (rpc_CreateUser sample_env sample_grpc carol) sample_world"
  have calm: "calm_db sample_env" by (simp add: calm_db_def sample_env_def)
  have facts: "\<not> isl (fst ?c)" "sessions (db (snd ?c)) = []" "gcu_Username carol = ''carol''" "gcu_Password carol = ''secret3''"
    by code_simp+
  from facts(1) obtain pu w1 where c: "?c = (Inr pu, w1)" by (rule not_isl_pairE)
  have fresh: "fresh_sessions sample_env (db w1)" using facts(2) c by (simp add: fresh_sessions_def sample_env_def)
  have full: "tokens_nonempty sample_env" by (simp add: tokens_nonempty_def sample_env_def)
  from login_answer_typed [OF calm bcrypt_ok_sample tokens_available_sample full c refl fresh, of phone sample_gateway] facts(3,4) c
  show ?thesis by (simp only: snd_conv) blast
qed

subsection \<open>What the user is told\<close>

lemma login_errors:
  assumes "run_state (rpc_LoginUser E (deployed_grpc E config) ctx req) w = (Inl st, w')"
  shows "gr_code st = NotFound \<Longrightarrow> gr_message st = ''user not found'' \<or> gr_message st = ''incorrect password''"
  using assms
  by (auto simp: rpc_LoginUser_def Let_def run_caseE Errorf_def invalidArgumentError_def
      split: if_splits option.splits sum.splits prod.splits)

lemma create_errors:
  assumes "run_state (rpc_CreateUser E (deployed_grpc E config) req) w = (Inl st, w')"
  shows "gr_code st = AlreadyExists \<or> gr_code st = InvalidArgument \<and> gr_message st = ''invalid parameters'' \<or>
    gr_code st = Internal \<and> (has_prefix ''failed to hash password: '' (gr_message st) \<or>
      has_prefix ''failed to create user: '' (gr_message st))"
  using assms
  by (auto simp: rpc_CreateUser_def Let_def run_caseE Errorf_def invalidArgumentError_def has_prefix_def
      split: if_splits sum.splits prod.splits)

lemma status_message: "gr_message st \<noteq> [] \<Longrightarrow> js_member (json_status G st) ''message'' = JStr (gr_message st)"
  "\<not> nullish (json_status G st)"
  by (simp_all add: json_status_def json_text_def nullish_def)

lemma login_refused_toast:
  assumes "gateway_ok G" "gr_code st = NotFound \<longrightarrow> gr_message st \<noteq> []"
  shows "login_settled m (axios_answer G f (Inl st)) s =
    write_login m (\<lambda>f. f\<lparr>lf_loading := False\<rparr>) (login_failed_toast m
      (JStr (if gr_code st = NotFound then gr_message st else ''Invalid username or password'')) s)"
  using assms status_message [where st = st and G = G]
  by (auto simp: axios_answer_def login_settled_def login_catch_def gateway_ok_def js_get_def)

lemma register_refused_toast:
  assumes "gateway_ok G" "gr_code st \<noteq> AlreadyExists \<longrightarrow> gr_message st \<noteq> []"
  shows "register_settled n (axios_answer G f (Inl st)) s =
    write_register n (\<lambda>f. f\<lparr>rf_loading := False\<rparr>) (add_toast ''error'' ''Registration Failed''
      (JStr (if gr_code st = AlreadyExists then ''Username or email already exists'' else gr_message st)) 5000 s)"
  using assms status_message [where st = st and G = G]
  by (auto simp: axios_answer_def register_settled_def register_error_message_def gateway_ok_def js_opt_def)

lemma toast_frames:
  "sp_auth (write_login m f s) = sp_auth s" "sp_toasts (write_login m f s) = sp_toasts s"
  "sp_auth (write_register m g s) = sp_auth s" "sp_toasts (write_register m g s) = sp_toasts s"
  "sp_auth (add_toast a b c l s) = sp_auth s" "sp_auth (login_failed_toast m c s) = sp_auth s"
  "sp_toasts (add_toast a b c l s) = sp_toasts s @ [\<lparr>t_severity = a, t_summary = b, t_detail = c, t_life = l\<rparr>]"
  "sp_toasts (login_failed_toast m c s) =
     sp_toasts s @ [\<lparr>t_severity = ''error'', t_summary = ''Login Failed'', t_detail = c, t_life = 3000\<rparr>]"
  by (simp_all add: write_login_def write_register_def add_toast_def login_failed_toast_def)

text \<open>C33: What the user is told when the backend refuses: after a login only "user not found", "incorrect password" or
  the fixed message, the first two for NOT_FOUND only; after a registration that the name or the address is
  taken exactly for ALREADY_EXISTS, and otherwise the backend's message, which for invalid fields is
  "invalid parameters" and names none of them.\<close>

theorem errors_shown:
  assumes "gateway_ok G"
    and "run_state (rpc_LoginUser E (deployed_grpc E config) ctx req) w = (Inl st, w')"
    and "run_state (rpc_CreateUser E (deployed_grpc E config) reg) w = (Inl rst, w2)"
  shows "(let t = login_settled m (axios_answer G (json_login G) (Inl st)) s in
      sp_auth t = sp_auth s \<and> sp_toasts t = sp_toasts s @ [\<lparr>t_severity = ''error'', t_summary = ''Login Failed'',
        t_detail = JStr (if gr_code st = NotFound then gr_message st else ''Invalid username or password''), t_life = 3000\<rparr>] \<and>
      (gr_code st = NotFound \<longrightarrow> gr_message st = ''user not found'' \<or> gr_message st = ''incorrect password'')) \<and>
    (let t = register_settled n (axios_answer G (json_user G) (Inl rst)) s in
      sp_auth t = sp_auth s \<and> sp_toasts t = sp_toasts s @ [\<lparr>t_severity = ''error'', t_summary = ''Registration Failed'',
        t_detail = JStr (if gr_code rst = AlreadyExists then ''Username or email already exists'' else gr_message rst),
        t_life = 5000\<rparr>] \<and>
      (gr_code rst = InvalidArgument \<longrightarrow> gr_message rst = ''invalid parameters''))"
proof -
  have "gr_code st = NotFound \<longrightarrow> gr_message st \<noteq> []" using login_errors [OF assms(2)] by auto
  note login = login_refused_toast [OF assms(1) this]
  have "gr_code rst \<noteq> AlreadyExists \<longrightarrow> gr_message rst \<noteq> []"
    using create_errors [OF assms(3)] by (auto simp: has_prefix_def)
  note register = register_refused_toast [OF assms(1) this]
  have "gr_code rst = InvalidArgument \<longrightarrow> gr_message rst = ''invalid parameters''" using create_errors [OF assms(3)] by auto
  then show ?thesis by (simp only: Let_def login register toast_frames) (use login_errors [OF assms(2)] in simp)
qed

text \<open>Somebody unknown signs in, and alice's name is taken.\<close>

definition second_alice :: CreateUserRequest where
  "second_alice = \<lparr>gcu_Username = ''alice'', gcu_FullName = ''Another Alice'', gcu_Email = ''alice2@bank.org'', gcu_Password = ''secret9''\<rparr>"

theorem errors_shown_witness:
  "map t_detail (sp_toasts (login_settled 0 (axios_answer sample_gateway (json_login sample_gateway)
      (fst (run_state (rpc_LoginUser sample_env sample_grpc phone (login_req ''nobody'' ''secret3'')) sample_world))) (boot settled ''/''))) =
     [JStr ''user not found''] \<and>
   map t_detail (sp_toasts (register_settled 0 (axios_answer sample_gateway (json_user sample_gateway)
      (fst (run_state (rpc_CreateUser sample_env sample_grpc second_alice) sample_world))) (boot settled ''/register''))) =
     [JStr ''Username or email already exists'']"
proof -
  let ?l = "run_state (rpc_LoginUser sample_env sample_grpc phone (login_req ''nobody'' ''secret3'')) sample_world"
  let ?r = "run_state (rpc_CreateUser sample_env sample_grpc second_alice) sample_world"
  have facts: "fst ?l = Inl (Errorf NotFound ''user not found'')" "isl (fst ?r)" "gr_code (projl (fst ?r)) = AlreadyExists"
    "sp_toasts (boot settled ''/'') = []" "sp_toasts (boot settled ''/register'') = []"
    by code_simp+
  have gw: "gateway_ok sample_gateway" by (simp add: gateway_ok_def sample_gateway_def)
  obtain w1 where l: "?l = (Inl (Errorf NotFound ''user not found''), w1)" using facts(1) by (metis prod.collapse)
  obtain rst w2 where r: "?r = (Inl rst, w2)" "gr_code rst = AlreadyExists"
    using facts(2,3) by (cases ?r; cases "fst ?r") auto
  from errors_shown [OF gw l r(1), of 0 "boot settled ''/''" 0] errors_shown [OF gw l r(1), of 0 "boot settled ''/register''" 0]
    facts(4,5) l r
  show ?thesis by (simp add: Let_def Errorf_def)
qed

end
