(* ===== verification/Refinement.thy ===== *)
theory Refinement
  imports System
begin

section \<open>The backend implements the abstract bank\<close>

text \<open>
  The abstraction reads a bank off the accounts table. Every effect a step can have on the ledger is an
  operation of the abstract bank by the authenticated user, or none; so every reachable database shows
  a bank that customers can bring about, and the invariants proved of the abstract bank hold of it.
\<close>

definition holding_of :: "account \<Rightarrow> holding" where
  "holding_of a = \<lparr>h_owner = a_Owner a, h_currency = a_Currency a, h_balance = sint (a_Balance a)\<rparr>"

definition bank_of :: "database \<Rightarrow> bank" where
  "bank_of d = map_of (map (\<lambda>a. (a_ID a, holding_of a)) (accounts d))"

lemma holding_of_simps [simp]: "h_owner (holding_of a) = a_Owner a" "h_currency (holding_of a) = a_Currency a"
  "h_balance (holding_of a) = sint (a_Balance a)"
  by (simp_all add: holding_of_def)

lemma bank_of_same: "accounts d' = accounts d \<Longrightarrow> bank_of d' = bank_of d"
  by (simp add: bank_of_def)

lemma dom_bank_of: "dom (bank_of d) = account_ids d"
  by (simp add: bank_of_def dom_map_of_conv_image_fst image_image account_ids_def)

lemma ids_distinct: "schema_ok d \<Longrightarrow> distinct (map a_ID (accounts d))"
  by (auto simp: schema_ok_def dest: serial_distinct)

lemma bank_of_row:
  assumes "schema_ok d"
  shows "bank_of d i = Some h \<longleftrightarrow> (\<exists>a \<in> set (accounts d). a_ID a = i \<and> h = holding_of a)"
proof -
  have "distinct (map fst (map (\<lambda>a. (a_ID a, holding_of a)) (accounts d)))"
    using ids_distinct [OF assms] by (simp add: comp_def)
  then show ?thesis by (auto simp: bank_of_def image_iff)
qed

lemma bank_of_opened:
  assumes ok: "schema_ok d" "schema_ok d'" and op: "account_opened who cur d d'" and cur: "IsSupportedCurrency cur"
  shows "\<exists>i. bank_step (OpenAccount who cur i) (bank_of d) (bank_of d')"
proof -
  from op obtain a where a: "accounts d' = accounts d @ [a]" "a_Owner a = who" "a_Currency a = cur" "a_Balance a = 0"
    "a_ID a \<notin> account_ids d" by (auto simp: account_opened_def)
  have none: "bank_of d (a_ID a) = None" using a(5) dom_bank_of [of d] by blast
  have "bank_of d' = (bank_of d)(a_ID a \<mapsto> holding_of a)"
    using none by (auto simp: bank_of_def a(1) map_add_def split: option.splits)
  moreover have "(h_owner h, h_currency h) \<noteq> (who, cur)" if row: "bank_of d k = Some h" for k h
  proof -
    from row ok(1) obtain b where b: "b \<in> set (accounts d)" "h = holding_of b" by (auto simp: bank_of_row)
    have "distinct (map account_key (accounts d'))" using ok(2) by (simp add: schema_ok_def)
    then have "account_key b \<noteq> account_key a" using b(1) by (fastforce simp: a(1) intro: image_eqI dest: sym)
    with b(2) a(2,3) show ?thesis by (simp add: account_key_def)
  qed
  ultimately show ?thesis
    using bank_step.open_account [of "bank_of d" "a_ID a" cur who] none cur a(2-4)
    by (auto simp: holding_of_def)
qed

lemma holding_of_credit:
  assumes "in_int64 (sint (a_Balance a) + amount_to arg (a_ID a))"
  shows "holding_of (credit arg a) =
     pay_to (tp_FromAccountID arg) (tp_ToAccountID arg) (sint (tp_Amount arg)) (a_ID a) (holding_of a)"
  by (simp add: holding_of_def pay_to_def sint_credit [OF assms] amount_to_def)

lemma map_of_keyed: "map_of (map (\<lambda>(i, h). (i, g i h)) xs) k = map_option (g k) (map_of xs k)"
  by (induction xs) auto

lemma bank_of_transferred:
  assumes ok: "schema_ok d" and tr: "transferred arg d d'"
  shows "bank_of d' = pay (tp_FromAccountID arg) (tp_ToAccountID arg) (sint (tp_Amount arg)) (bank_of d)"
proof
  fix k
  let ?g = "pay_to (tp_FromAccountID arg) (tp_ToAccountID arg) (sint (tp_Amount arg))"
  have "map (\<lambda>a. (a_ID a, holding_of a)) (accounts d') = map (\<lambda>a. (a_ID a, ?g (a_ID a) (holding_of a))) (accounts d)"
    using tr by (auto simp: transferred_def holding_of_credit)
  then have "bank_of d' k = map_of (map (\<lambda>(i, h). (i, ?g i h)) (map (\<lambda>a. (a_ID a, holding_of a)) (accounts d))) k"
    by (simp add: bank_of_def comp_def)
  also have "\<dots> = map_option (?g k) (bank_of d k)"
    unfolding bank_of_def by (rule map_of_keyed)
  finally show "bank_of d' k = pay (tp_FromAccountID arg) (tp_ToAccountID arg) (sint (tp_Amount arg)) (bank_of d) k"
    by simp
qed

lemma bank_of_paid:
  assumes ok: "schema_ok d" "schema_ok d'" and tr: "transferred arg d d'" and pos: "0 < sint (tp_Amount arg)"
    and own: "owner_is who (tp_FromAccountID arg) d" and cur: "same_currency (tp_FromAccountID arg) (tp_ToAccountID arg) d"
  shows "bank_step (Pay who (tp_FromAccountID arg) (tp_ToAccountID arg) (sint (tp_Amount arg))) (bank_of d) (bank_of d')"
proof -
  from cur obtain a b where ab: "a \<in> set (accounts d)" "b \<in> set (accounts d)" "a_ID a = tp_FromAccountID arg"
    "a_ID b = tp_ToAccountID arg" "a_Currency a = a_Currency b" by (auto simp: same_currency_def)
  from own obtain c where c: "c \<in> set (accounts d)" "a_ID c = tp_FromAccountID arg" "a_Owner c = who"
    by (auto simp: owner_is_def)
  then have "c = a" using distinct_key_eq [OF ids_distinct [OF ok(1)] c(1) ab(1)] ab(3) by simp
  with c have "a_Owner a = who" by simp
  moreover have "in_int64 (h_balance h)" if "bank_of d' l = Some h" for l h
    using that ok(2) by (auto simp: bank_of_row in_int64_sint)
  ultimately show ?thesis
    unfolding bank_of_transferred [OF ok(1) tr]
    by (intro bank_step.pay [of _ _ "holding_of a" _ _ "holding_of b"]) (use ab pos ok(1) in \<open>auto simp: bank_of_row\<close>)
qed

lemma ledger_effect_refines:
  assumes ok: "schema_ok d" "schema_ok d'" and eff: "ledger_effect user d d'"
  shows "bank_of d' = bank_of d \<or> (\<exists>opn. bank_step opn (bank_of d) (bank_of d'))"
  using eff bank_of_opened [OF ok] bank_of_paid [OF ok] bank_of_same [of d' d]
  unfolding ledger_effect_def by metis

lemma reachable_bank:
  assumes bind: "binding_ok E" and "reachable E config w"
  shows "\<exists>ops. bank_run ops (bank_of (db w))"
  using assms(2)
proof (induction rule: reachable.induct)
  case (start n)
  then show ?case using bank_start by (auto simp: bank_of_def empty_database_def)
next
  case (step w w')
  then have "schema_ok (db w)" "schema_ok (db w')"
    using reachable_ok reachable.step unfolding world_ok_def by blast+
  with step show ?case
    using system_step_effect [OF step.hyps(2) reachable_ok [OF step.hyps(1)] bind] ledger_effect_refines bank_next
    by metis
qed

end
