(* ===== verification/SystemProps.thy ===== *)
theory SystemProps
  imports Refinement GapiProps
begin

section \<open>What holds of every reachable state of the backend\<close>

text \<open>
  Invariants of the transition system of \<open>System\<close>, by rule induction on reachability: the books, the
  refinement of the abstract bank, conservation of money per currency, and roles. The witnesses run two
  registrations, two openings and a payment from the empty database.
\<close>

subsection \<open>The books\<close>

text \<open>The two entries of a transfer, as account and amount.\<close>

definition transfer_entries :: "transfer \<Rightarrow> (int64 \<times> int) list" where
  "transfer_entries t = [(tr_FromAccountID t, - sint (tr_Amount t)), (tr_ToAccountID t, sint (tr_Amount t))]"

definition books_ok :: "database \<Rightarrow> bool" where
  "books_ok d \<longleftrightarrow>
     (\<forall>a \<in> set (accounts d). sint (a_Balance a) = entry_sum d (a_ID a) \<and> IsSupportedCurrency (a_Currency a)) \<and>
     map (\<lambda>e. (e_AccountID e, sint (e_Amount e))) (entries d) = concat (map transfer_entries (transfers d)) \<and>
     (\<forall>t \<in> set (transfers d). 0 < sint (tr_Amount t) \<and> same_currency (tr_FromAccountID t) (tr_ToAccountID t) d)"

lemma books_empty: "books_ok empty_database"
  by (simp add: books_ok_def empty_database_def)

lemma books_same:
  "books_ok d \<Longrightarrow> accounts d' = accounts d \<Longrightarrow> entries d' = entries d \<Longrightarrow> transfers d' = transfers d \<Longrightarrow> books_ok d'"
  by (simp add: books_ok_def entry_sum_def same_currency_def)

lemma entry_sum_fresh:
  assumes "schema_ok d" "i \<notin> account_ids d"
  shows "entry_sum d i = 0"
proof -
  have "filter (\<lambda>e. e_AccountID e = i) (entries d) = []"
    using assms by (auto simp: schema_ok_def filter_empty_conv)
  then show ?thesis by (simp add: entry_sum_def)
qed

lemma books_opened:
  assumes "schema_ok d" "books_ok d" "account_opened who cur d d'" "IsSupportedCurrency cur"
  shows "books_ok d'"
proof -
  from assms(3) obtain a where a: "accounts d' = accounts d @ [a]" "a_Currency a = cur" "a_Balance a = 0"
    "a_ID a \<notin> account_ids d" "entries d' = entries d" "transfers d' = transfers d"
    by (auto simp: account_opened_def)
  have "entry_sum d' i = entry_sum d i" for i by (simp add: entry_sum_def a(5))
  moreover have "same_currency i j d \<Longrightarrow> same_currency i j d'" for i j by (auto simp: same_currency_def a(1))
  ultimately show ?thesis
    using assms(2,4) a entry_sum_fresh [OF assms(1) a(4)] by (auto simp: books_ok_def)
qed

lemma books_transferred:
  assumes "books_ok d" and tr: "transferred arg d d'" and "0 < sint (tp_Amount arg)"
    and cur: "same_currency (tp_FromAccountID arg) (tp_ToAccountID arg) d"
  shows "books_ok d'"
proof -
  from tr obtain t fe te where t: "transfers d' = transfers d @ [t]" "entries d' = entries d @ [fe, te]"
    "tr_FromAccountID t = tp_FromAccountID arg" "tr_ToAccountID t = tp_ToAccountID arg" "tr_Amount t = tp_Amount arg"
    "e_AccountID fe = tp_FromAccountID arg" "sint (e_Amount fe) = - sint (tp_Amount arg)"
    "e_AccountID te = tp_ToAccountID arg" "e_Amount te = tp_Amount arg"
    by (auto simp: transferred_def)
  have acc: "accounts d' = map (credit arg) (accounts d)" using tr by (simp add: transferred_def)
  have "same_currency i j d \<Longrightarrow> same_currency i j d'" for i j
    by (auto simp: same_currency_def acc)
  moreover have "sint (a_Balance (credit arg a)) = entry_sum d' (a_ID a)" if "a \<in> set (accounts d)" for a
    using that assms(1) tr
    by (simp add: books_ok_def transferred_def sint_credit transferred_entry_sum [OF tr])
  ultimately show ?thesis
    using assms(1,3) cur t by (auto simp: books_ok_def acc transfer_entries_def)
qed

lemma books_effect:
  assumes "schema_ok d" "books_ok d" "ledger_effect user d d'"
  shows "books_ok d'"
  using assms(3) books_same [OF assms(2)] books_opened [OF assms(1,2)] books_transferred [OF assms(2)]
  unfolding ledger_effect_def by metis

lemma reachable_books:
  assumes bind: "binding_ok E" and "reachable E config w"
  shows "books_ok (db w)"
  using assms(2)
proof (induction rule: reachable.induct)
  case (step w w')
  have "world_ok w" by (rule reachable_ok [OF step.hyps(1)])
  with step.IH system_step_effect [OF step.hyps(2) this bind] books_effect show ?case
    unfolding world_ok_def by metis
qed (simp add: books_empty)

lemma reachable_total:
  assumes bind: "binding_ok E" and "reachable E config w"
  shows "total_balance (db w) = 0"
  using assms(2)
proof (induction rule: reachable.induct)
  case (step w w')
  have "world_ok w" by (rule reachable_ok [OF step.hyps(1)])
  with step.IH system_step_effect [OF step.hyps(2) this bind] effect_total show ?case
    unfolding world_ok_def by metis
qed (simp add: total_balance_def empty_database_def)

subsection \<open>A run from the empty database\<close>

definition serve_calls :: "env \<Rightarrow> Config \<Rightarrow> (rest_context \<times> rest_call) list \<Rightarrow> world \<Rightarrow> world" where
  "serve_calls E config calls w =
     fold (\<lambda>(ctx, call) w. snd (run_state (serve_rest E (deployed_rest E config) ctx call) w)) calls w"

lemma reachable_call:
  "reachable E config w \<Longrightarrow> reachable E config (snd (run_state (serve_rest E (deployed_rest E config) ctx call) w))"
  by (rule reachable.step, assumption, rule system_step.http [OF prod.collapse [symmetric]])

lemma reachable_calls: "reachable E config w \<Longrightarrow> reachable E config (serve_calls E config calls w)"
  by (induction calls arbitrary: w) (auto simp: serve_calls_def reachable_call split: prod.splits)

definition sign_up :: "gostring \<Rightarrow> rest_context \<times> rest_call" where
  "sign_up who = (ctx_of [], CallCreateUser (Some \<lparr>cur_Username = who, cur_Password = ''secret'', cur_FullName = who,
     cur_Email = who @ ''@bank.org''\<rparr>))"

definition open_usd :: "gostring \<Rightarrow> rest_context \<times> rest_call" where
  "open_usd who = (ctx_of who, CallCreateAccount (Some \<lparr>car_Currency = USD\<rparr>))"

definition fresh_world :: world where
  "fresh_world = \<lparr>db = empty_database, queue = [], outbox = [], tick = 1\<rparr>"

definition two_customers :: world where
  "two_customers = serve_calls sample_env sample_config
     [sign_up ''alice'', sign_up ''bob'', open_usd ''alice'', open_usd ''bob''] fresh_world"

definition after_payment :: world where
  "after_payment = snd (run_state (serve_rest sample_env sample_rest (ctx_of ''alice'') (transfer_call 1 2 30)) two_customers)"

lemma reachable_two_customers: "reachable sample_env sample_config two_customers"
  unfolding two_customers_def by (rule reachable_calls) (simp add: fresh_world_def reachable.start)

lemma reachable_after_payment: "reachable sample_env sample_config after_payment"
  unfolding after_payment_def by (rule reachable_call [OF reachable_two_customers])

subsection \<open>The properties\<close>

text \<open>C5: In every state the backend can reach from the empty database, whatever the requests, the tasks and
  the failures were: the rows meet the constraints of the schema; every balance is the sum of the
  account's entries; the entries are those of the transfers, two for each, in their order; every
  transfer is of a positive amount between accounts of one currency.\<close>

theorem books_balance:
  assumes "binding_ok E" and "reachable E config w"
  shows "world_ok w \<and> books_ok (db w)"
  using reachable_ok [OF assms(2)] reachable_books [OF assms] by blast

theorem books_balance_witness:
  "map (\<lambda>a. (sint (a_Balance a), entry_sum (db after_payment) (a_ID a))) (accounts (db after_payment)) =
     [(-30, -30), (30, 30)] \<and> books_ok (db after_payment)"
proof -
  have "map (\<lambda>a. (sint (a_Balance a), entry_sum (db after_payment) (a_ID a))) (accounts (db after_payment)) =
     [(-30, -30), (30, 30)]"
    by code_simp
  with books_balance [OF binding_ok_sample reachable_after_payment] show ?thesis by blast
qed

fun actor :: "bank_op \<Rightarrow> gostring" where
  "actor (OpenAccount who _ _) = who"
| "actor (Pay who _ _ _) = who"

lemma ledger_effect_actor:
  assumes ok: "schema_ok d" "schema_ok d'" and eff: "ledger_effect user d d'"
  shows "bank_of d' = bank_of d \<or> (\<exists>opn. bank_step opn (bank_of d) (bank_of d') \<and> user = Some (actor opn))"
  using eff bank_of_opened [OF ok] bank_of_paid [OF ok] bank_of_same [of d' d] actor.simps
  unfolding ledger_effect_def by metis

lemma step_actor:
  assumes bind: "binding_ok E" and reach: "reachable E config w" and step: "system_step E config w w'"
  shows "bank_of (db w') = bank_of (db w) \<or>
     (\<exists>ctx call rsp opn. run_state (serve_rest E (deployed_rest E config) ctx call) w = (rsp, w') \<and>
        bank_step opn (bank_of (db w)) (bank_of (db w')) \<and>
        authenticated_as (PasetoMaker E (TokenSymmetricKey config)) ctx w = Some (actor opn))"
proof -
  have ok: "world_ok w" by (rule reachable_ok [OF reach])
  moreover have "world_ok w'" by (rule reachable_ok [OF reachable.step [OF reach step]])
  ultimately have schema: "schema_ok (db w)" "schema_ok (db w')" by (simp_all add: world_ok_def)
  from system_step_ledger [OF step] show ?thesis
  proof (elim disjE exE)
    assume "ledger_is (db w) w'"
    then show ?thesis by (intro disjI1 bank_of_same) (simp add: ledger_is_def)
  next
    fix ctx call rsp
    assume run: "run_state (serve_rest E (deployed_rest E config) ctx call) w = (rsp, w')"
    from ledger_effect_actor [OF schema rest_money.serve_rest_effect [OF ok bind run]] run show ?thesis
      by (simp only: deployed_rest_simps) blast
  qed
qed

text \<open>C2: The backend refines the abstract bank: what a reachable database shows is a bank that customers have
  brought about from no accounts, and a step leaves it as it is or is a HTTP request that does one
  operation of the abstract bank in the name of the user its access token authenticates.\<close>

theorem backend_refines_bank:
  assumes "binding_ok E" and "reachable E config w" and "system_step E config w w'"
  shows "(\<exists>ops. bank_run ops (bank_of (db w))) \<and>
     (bank_of (db w') = bank_of (db w) \<or>
      (\<exists>ctx call rsp opn. run_state (serve_rest E (deployed_rest E config) ctx call) w = (rsp, w') \<and>
         bank_step opn (bank_of (db w)) (bank_of (db w')) \<and>
         authenticated_as (PasetoMaker E (TokenSymmetricKey config)) ctx w = Some (actor opn)))"
  using reachable_bank [OF assms(1,2)] step_actor [OF assms] by blast

theorem backend_refines_bank_witness:
  "bank_of (db after_payment) \<noteq> bank_of (db two_customers) \<and>
   (\<exists>opn. bank_step opn (bank_of (db two_customers)) (bank_of (db after_payment)))"
proof -
  have step: "system_step sample_env sample_config two_customers after_payment"
    unfolding after_payment_def by (rule system_step.http [OF prod.collapse [symmetric]])
  have "map_option h_balance (bank_of (db after_payment) 1) \<noteq> map_option h_balance (bank_of (db two_customers) 1)"
    by code_simp
  then have "bank_of (db after_payment) \<noteq> bank_of (db two_customers)" by metis
  with backend_refines_bank [OF binding_ok_sample reachable_two_customers step] show ?thesis by blast
qed

text \<open>C12: No money of any currency is made: in every reachable state the balances of the accounts of a
  currency add up to zero, all accounts are in a supported currency, and nobody has two accounts in one
  currency.\<close>

theorem no_money_is_made:
  assumes "binding_ok E" and "reachable E config w"
  shows "bank_inv (bank_of (db w)) \<and> total_balance (db w) = 0"
proof -
  have "\<exists>ops. bank_run ops (bank_of (db w))" by (rule reachable_bank [OF assms])
  with bank_run_inv reachable_total [OF assms] show ?thesis by blast
qed

theorem no_money_is_made_witness:
  "holds (bank_of (db after_payment)) 1 = -30 \<and> currency_total USD (bank_of (db after_payment)) = 0"
proof -
  have "holds (bank_of (db after_payment)) 1 = -30" by code_simp
  with no_money_is_made [OF binding_ok_sample reachable_after_payment] show ?thesis by (simp add: bank_inv_def)
qed

text \<open>How users change in a step.\<close>

lemma evolved_rest: "keeps (evolved A d0) (serve_rest E (deployed_rest E config) ctx call)"
  by (rule rest.keeps_serve) (simp_all add: SQLStore_def evolved_queries evolved_CreateUser evolved_txs)

abbreviation "anybody \<equiv> \<lambda>_ :: gostring. True"

lemma evolved_grpc:
  "keeps (evolved anybody d0) (grpc_handler E (deployed_grpc E config) ctx call)"
  "keeps (evolved anybody d0) (serve_grpc E (deployed_grpc E config) ctx call)"
  by (rule grpc.keeps_grpc_handler; simp add: SQLStore_def evolved_queries evolved_UpdateUser evolved_txs)+

lemma evolved_task: "keeps (evolved A d0) (ProcessTaskSendVerifyEmail E (SQLStore E) (deployed_mailer E config) t)"
  unfolding ProcessTaskSendVerifyEmail_def
  by (intro frame_intros mailer_on_db tick_closed_evolved on_db_evolved; simp add: SQLStore_def evolved_queries)

lemma system_step_users:
  assumes "system_step E config w w'"
  shows "users_evolve anybody (db w) (db w')"
proof -
  have w: "evolved anybody (db w) w" by (simp add: evolved_def)
  have "evolved anybody (db w) w'"
    by (rule system_step_cases [OF assms on_db_evolved w evolved_grpc evolved_task])
      (erule keepsD [OF evolved_rest _ w], assumption)
  then show ?thesis by (simp add: evolved_def)
qed

lemma reachable_users: "reachable E config w \<Longrightarrow> users_evolve anybody empty_database (db w)"
  by (induction rule: reachable.induct) (auto dest: system_step_users users_evolve_trans)

text \<open>C25: No call and no task makes a banker, drops a user or renames one: in every reachable state every user
  is a depositor, and every step keeps every user's name.\<close>

theorem everybody_is_depositor:
  assumes "reachable E config w" and "system_step E config w w'"
  shows "(\<forall>u \<in> set (users (db w')). u_Role u = DepositorRole) \<and> usernames (db w) \<subseteq> usernames (db w')"
proof -
  have "\<forall>u \<in> set (users (db w')). u_Role u = DepositorRole"
    using reachable_users [OF reachable.step [OF assms]] by (simp add: users_evolve_def empty_database_def)
  moreover have "usernames (db w) \<subseteq> usernames (db w')"
  proof
    fix x assume "x \<in> usernames (db w)"
    then obtain u where "u \<in> set (users (db w))" "x = u_Username u" by (auto simp: usernames_def)
    then obtain u' where "u' \<in> set (users (db w'))" "x = u_Username u'"
      using system_step_users [OF assms(2)] unfolding users_evolve_def by metis
    then show "x \<in> usernames (db w')" by (simp add: usernames_def)
  qed
  ultimately show ?thesis by blast
qed

theorem everybody_is_depositor_witness:
  "map u_Username (users (db after_payment)) = [''alice'', ''bob''] \<and> map u_Role (users (db after_payment)) = [DepositorRole, DepositorRole]"
proof -
  have step: "system_step sample_env sample_config two_customers after_payment"
    unfolding after_payment_def by (rule system_step.http [OF prod.collapse [symmetric]])
  have "map u_Username (users (db after_payment)) = [''alice'', ''bob'']" by code_simp
  with everybody_is_depositor [OF reachable_two_customers step] show ?thesis by (auto simp: map_eq_Cons_conv)
qed

end
