(* ===== verification/Profiles.thy ===== *)
theory Profiles
  imports SystemProps SignupProps
begin

section \<open>What the rows of users hold\<close>

text \<open>
  A property of user rows that registration and updates establish holds in every reachable state: here,
  that names and addresses are never empty and user names are plain. Both APIs write users, each with its own
  validation (gin's tags, the validators of \<open>val\<close>); the invariant is what both guarantee.
\<close>

definition users_all :: "(user \<Rightarrow> bool) \<Rightarrow> world \<Rightarrow> bool" where
  "users_all P w \<longleftrightarrow> (\<forall>u \<in> set (users (db w)). P u)"

lemma on_db_users_all [simp]: "on_db (users_all P)"
  by (simp add: on_db_def users_all_def)

lemma tick_closed_users_all [simp]: "tick_closed (users_all P)"
  by (simp add: on_db_tick)

lemma about_users_all: "about_users (\<lambda>d. \<forall>u \<in> set (users d). P u)"
  by (simp add: about_users_def)

lemma users_all_holds: "users_all P = (\<lambda>w. \<forall>u \<in> set (users (db w)). P u)"
  by (simp add: users_all_def fun_eq_iff)

lemmas users_all_execTx = holds_execTx [OF about_users_all, folded users_all_holds]
lemmas users_all_queries = holds_queries [OF about_users_all, folded users_all_holds]

lemma users_all_CreateUser:
  assumes "\<And>now. P \<lparr>u_Username = cu_Username arg, u_HashedPassword = cu_HashedPassword arg,
      u_FullName = cu_FullName arg, u_Email = cu_Email arg, u_PasswordChangedAt = zero_time,
      u_CreatedAt = now, u_IsEmailVerified = False, u_Role = ''depositor''\<rparr>"
  shows "keeps (users_all P) (q_CreateUser E q arg)"
  unfolding users_all_holds query_defs
  by (rule holds_run_query) (use assms in \<open>auto simp: preserves_def sql_CreateUser_def Let_def\<close>)

lemma users_all_UpdateUser:
  assumes "\<And>u. P u \<Longrightarrow> P (set_user arg u)"
  shows "keeps (users_all P) (q_UpdateUser E q arg)"
  unfolding users_all_holds query_defs
  by (rule holds_run_query) (use assms in \<open>auto simp: preserves_def sql_UpdateUser_def write_row_def split: sum.splits\<close>)

text \<open>What is stored of a person.\<close>

definition plain_name :: "gostring \<Rightarrow> bool" where
  "plain_name s \<longleftrightarrow> s \<noteq> [] \<and> list_all (\<lambda>c. lower_or_digit c \<or> letter c \<or> c = CHR ''_'') s"

definition named :: "user \<Rightarrow> bool" where
  "named u \<longleftrightarrow> plain_name (u_Username u) \<and> u_FullName u \<noteq> [] \<and> u_Email u \<noteq> []"

lemma named_set_user:
  "uu_FullName arg \<noteq> Some [] \<Longrightarrow> uu_Email arg \<noteq> Some [] \<Longrightarrow> named u \<Longrightarrow> named (set_user arg u)"
  by (auto simp: named_def set_user_def coalesce_def split: option.splits)

lemma named_CreateUser:
  assumes "plain_name (cu_Username arg)" "cu_FullName arg \<noteq> []" "cu_Email arg \<noteq> []"
  shows "keeps (users_all named) (q_CreateUser E q arg)"
  by (rule users_all_CreateUser) (simp add: named_def assms)

lemma named_UpdateUser:
  assumes "uu_FullName arg \<noteq> Some []" "uu_Email arg \<noteq> Some []"
  shows "keeps (users_all named) (q_UpdateUser E q arg)"
  by (rule users_all_UpdateUser) (simp add: named_set_user assms)

lemma named_txs:
  "plain_name (cu_Username cu) \<Longrightarrow> cu_FullName cu \<noteq> [] \<Longrightarrow> cu_Email cu \<noteq> [] \<Longrightarrow>
     (\<And>u Q. on_db Q \<Longrightarrow> keeps Q (after u)) \<Longrightarrow> keeps (users_all named) (CreateUserTx E cu after)"
  "keeps (users_all named) (VerifyEmailTx E vp)" "keeps (users_all named) (TransferTx E tp)"
  unfolding CreateUserTx_def VerifyEmailTx_def TransferTx_def transfer_body_def addMoney_def
  by (intro users_all_execTx frame_intros users_all_queries named_CreateUser named_UpdateUser; simp)+

subsection \<open>Both registrations\<close>

lemma bound_named:
  assumes "binding_ok E" and "ShouldBind E createUserRequest_tags b = Inr req"
  shows "plain_name (cur_Username req)" "cur_FullName req \<noteq> []" "cur_Email req \<noteq> []"
proof -
  have "list_all (\<lambda>(ts, v). list_all (\<lambda>t. tag_holds E t v) ts) (createUserRequest_tags req)"
    using assms(2) by (auto simp: ShouldBind_def split: option.splits if_splits)
  with assms(1) show "plain_name (cur_Username req)" "cur_FullName req \<noteq> []" "cur_Email req \<noteq> []"
    by (auto simp: createUserRequest_tags_def tag_holds_def binding_ok_def plain_name_def list_all_iff)
qed

lemma validated_named:
  assumes "validateCreateUserRequest E req = []"
  shows "plain_name (gcu_Username req)" "gcu_FullName req \<noteq> []" "gcu_Email req \<noteq> []"
  using assms violated_Nil [OF violated_fields(1) [of E req]]
  by (auto simp: bad_fields_def plain_name_def username_ok_def full_name_ok_def email_ok_def list_all_iff split: if_splits)

lemma validated_update:
  assumes "validateUpdateUserRequest E req = []"
  shows "uu_FullName (update_arg req h t) \<noteq> Some []" "uu_Email (update_arg req h t) \<noteq> Some []"
  using assms violated_Nil [OF violated_fields(3) [of E req]]
  by (auto simp: bad_fields_def update_arg_def pgtype_text_def opt_string_def full_name_ok_def email_ok_def
      split: if_splits option.splits)

lemma named_rest:
  assumes "binding_ok E"
  shows "keeps (users_all named) (serve_rest E (deployed_rest E config) ctx call)"
  by (intro rest.keeps_serve_call rest.keeps_createUser)
    (simp_all add: SQLStore_def users_all_queries named_txs named_CreateUser bound_named [OF assms])

lemma named_handler: "keeps (users_all named) (grpc_handler E (deployed_grpc E config) ctx call)"
proof (cases call)
  case (RpcCreateUser req)
  have "keeps (users_all named) (rpc_CreateUser E (deployed_grpc E config) req)"
    by (rule grpc.keeps_valid_CreateUser) (simp_all add: SQLStore_def named_txs validated_named)
  then show ?thesis by (simp add: RpcCreateUser map_response_def keeps_caseE keeps_return)
next
  case (RpcUpdateUser req)
  have "keeps (users_all named) (rpc_UpdateUser E (deployed_grpc E config) ctx req)"
    by (rule grpc.keeps_valid_UpdateUser) (simp_all add: SQLStore_def named_UpdateUser validated_update)
  then show ?thesis by (simp add: RpcUpdateUser map_response_def keeps_caseE keeps_return)
next
  case (RpcLoginUser req)
  have "keeps (users_all named) (rpc_LoginUser E (deployed_grpc E config) ctx req)"
    by (rule grpc.keeps_rpc_LoginUser) (simp_all add: SQLStore_def users_all_queries)
  then show ?thesis by (simp add: RpcLoginUser map_response_def keeps_caseE keeps_return)
next
  case (RpcVerifyEmail req)
  have "keeps (users_all named) (rpc_VerifyEmail E (deployed_grpc E config) req)"
    by (rule grpc.keeps_rpc_VerifyEmail) (simp add: SQLStore_def named_txs)
  then show ?thesis by (simp add: RpcVerifyEmail map_response_def keeps_caseE keeps_return)
qed

lemma named_task: "keeps (users_all named) (ProcessTaskSendVerifyEmail E (SQLStore E) (deployed_mailer E config) t)"
  unfolding ProcessTaskSendVerifyEmail_def
  by (intro frame_intros mailer_on_db tick_closed_users_all on_db_users_all; simp add: SQLStore_def users_all_queries)

lemma named_step:
  assumes "binding_ok E" and "system_step E config w w'" and w: "users_all named w"
  shows "users_all named w'"
  by (rule system_step_cases [OF assms(2) on_db_users_all w named_handler
        grpc.keeps_serve_grpc [OF on_db_users_all named_handler] named_task])
    (erule keepsD [OF named_rest [OF assms(1)] _ w], assumption)

lemma reachable_named:
  assumes "binding_ok E"
  shows "reachable E config w \<Longrightarrow> users_all named w"
  by (induction rule: reachable.induct) (auto simp: users_all_def empty_database_def dest: named_step [OF assms, unfolded users_all_def])

end
