(* ===== verification/Together.thy ===== *)
theory Together
  imports FullStack Profiles
begin

section \<open>Runs of the frontend against the backend\<close>

text \<open>
  The frontend's own theorems assume that a login is answered with data of the declared type. Here the
  answers come from the backend in states it can reach, which discharges the assumption, and the invariants
  of both programs meet: who is shown the dashboard is a customer of the bank.
\<close>

subsection \<open>What a login answers in any reachable state\<close>

lemma login_success:
  assumes run: "run_state (rpc_LoginUser E (deployed_grpc E config) ctx req) w = (Inr rsp, w')"
  obtains u p w1 w2 where "u \<in> set (users (db w))" "u_Username u = glu_Username req"
    "CheckPassword E (glu_Password req) (u_HashedPassword u) = None" "glr_User rsp = convertUser u"
    "run_state (CreateToken (PasetoMaker E (TokenSymmetricKey config)) (u_Username u) (u_Role u)
       (AccessTokenDuration config) TokenTypeAccessToken) w1 = (Inr (glr_AccessToken rsp, p), w2)"
proof -
  obtain u v where get: "run_state (GetUser (SQLStore E) (glu_Username req)) w = (Inr u, v)"
    using run by (auto simp: rpc_LoginUser_def Let_def run_caseE split: if_splits prod.splits sum.splits)
  then have "run_state (run_query E Pool (sql_GetUser (glu_Username req))) w = (Inr u, v)"
    by (simp add: SQLStore_def q_GetUser_def)
  then have u: "u \<in> set (users (db w))" "u_Username u = glu_Username req"
    using read_row_Inr_in [of u_Username "glu_Username req" "users (db w)" u]
    by (auto simp: sql_GetUser_def elim!: run_query_InrE)
  from run get have "CheckPassword E (glu_Password req) (u_HashedPassword u) = None \<and> glr_User rsp = convertUser u \<and>
    (\<exists>p w2. run_state (CreateToken (PasetoMaker E (TokenSymmetricKey config)) (u_Username u) (u_Role u)
       (AccessTokenDuration config) TokenTypeAccessToken) v = (Inr (glr_AccessToken rsp, p), w2))"
    by (auto simp: rpc_LoginUser_def Let_def run_caseE split: if_splits option.splits sum.splits prod.splits)
  with u show thesis using that by blast
qed

lemma plain_name_ascii: "plain_name s \<Longrightarrow> ascii s"
  by (auto simp: plain_name_def ascii_def list_all_iff lower_or_digit_def letter_def Let_def)

text \<open>Every user of a reachable state is complete and a depositor.\<close>

lemma reachable_user:
  assumes "binding_ok E" and "reachable E config w" and "u \<in> set (users (db w))"
  shows "named u" and "u_Role u = DepositorRole"
  using reachable_named [OF assms(1,2)] reachable_users [OF assms(2)] assms(3)
  by (auto simp: users_all_def users_evolve_def empty_database_def)

lemma login_typed:
  assumes "binding_ok E" and "tokens_nonempty E" and "reachable E config w"
    and run: "run_state (rpc_LoginUser E (deployed_grpc E config) ctx req) w = (Inr rsp, w')"
  shows "is_LoginResponse (json_login G rsp)"
proof -
  obtain u where u: "u \<in> set (users (db w))" and rsp: "glr_User rsp = convertUser u"
    using login_success [OF run] by metis
  have "pu_Username (glr_User rsp) \<noteq> []" "pu_FullName (glr_User rsp) \<noteq> []" "pu_Email (glr_User rsp) \<noteq> []"
    using reachable_user(1) [OF assms(1,3) u] by (simp_all add: rsp convertUser_def named_def plain_name_def)
  from json_login_typed(1) [OF this login_tokens [OF assms(2) run]] show ?thesis .
qed

text \<open>C32: In every state the backend can reach, whoever signs in and whatever else fails, the answer of a login that
  succeeds is of the type the frontend declares for it, with the user's stored full name: names, full names
  and addresses of stored users are never empty, whichever API registered or changed them. But the user of the answer
  has neither \<open>is_email_verified\<close> nor \<open>role\<close>, so the profile card shows every user as not verified and nobody
  as a banker.\<close>

theorem every_login_answer_typed:
  assumes "binding_ok E" and "tokens_nonempty E" and "reachable E config w"
    and run: "run_state (rpc_LoginUser E (deployed_grpc E config) ctx req) w = (Inr rsp, w')"
  shows "is_LoginResponse (json_login G rsp) \<and>
     (\<exists>u \<in> set (users (db w)). u_Username u = glu_Username req \<and> u_FullName u \<noteq> [] \<and>
        js_member (js_member (json_login G rsp) ''user'') ''full_name'' = JStr (u_FullName u)) \<and>
     elements ''Chip'' (render_UserInfo ld (js_member (json_login G rsp) ''user'')) =
       [[Bind ''label'' Undefined, Bind ''icon'' (JStr ''pi pi-user''), Bind ''class'' (JStr ''role-chip-depositor'')],
        [Bind ''label'' (JStr ''Not Verified''), Bind ''icon'' (JStr ''pi pi-exclamation-triangle''),
         Bind ''class'' (JStr ''status-unverified'')]]"
proof -
  obtain u where u: "u \<in> set (users (db w))" "u_Username u = glu_Username req" and rsp: "glr_User rsp = convertUser u"
    using login_success [OF run] by metis
  have named: "named u" by (rule reachable_user(1) [OF assms(1,3) u(1)])
  then have "js_member (js_member (json_login G rsp) ''user'') ''full_name'' = JStr (u_FullName u)"
    by (simp add: json_login_def json_user_def json_text_def rsp convertUser_def named_def plain_name_def)
  moreover have "u_FullName u \<noteq> []" using named by (simp add: named_def)
  moreover have "elements ''Chip'' (render_UserInfo ld (js_member (json_login G rsp) ''user'')) =
       [[Bind ''label'' Undefined, Bind ''icon'' (JStr ''pi pi-user''), Bind ''class'' (JStr ''role-chip-depositor'')],
        [Bind ''label'' (JStr ''Not Verified''), Bind ''icon'' (JStr ''pi pi-exclamation-triangle''),
         Bind ''class'' (JStr ''status-unverified'')]]"
    by (simp add: chips_UserInfo role_is_banker_def json_user_lacks)
  ultimately show ?thesis using login_typed [OF assms] u by blast
qed

text \<open>alice, registered over HTTP, signs in.\<close>

definition alices_login :: "(grpc_status + LoginUserResponse) \<times> world" where
  "alices_login = run_state (rpc_LoginUser sample_env sample_grpc phone (login_req ''alice'' ''secret'')) two_customers"

definition alices_answer :: js where
  "alices_answer = json_login sample_gateway (projr (fst alices_login))"

lemma alices_login_run:
  obtains rsp v' where "run_state (rpc_LoginUser sample_env sample_grpc phone (login_req ''alice'' ''secret'')) two_customers = (Inr rsp, v')"
    and "alices_answer = json_login sample_gateway rsp"
proof -
  have "\<not> isl (fst alices_login)" by code_simp
  then show thesis using that by (cases alices_login; cases "fst alices_login") (auto simp: alices_answer_def alices_login_def)
qed

lemma tokens_nonempty_sample: "tokens_nonempty sample_env"
  by (simp add: tokens_nonempty_def sample_env_def)

theorem every_login_answer_typed_witness:
  "is_LoginResponse alices_answer \<and> js_member (js_member alices_answer ''user'') ''full_name'' = JStr ''alice''"
proof -
  have "js_member (js_member alices_answer ''user'') ''full_name'' = JStr ''alice''" by code_simp
  moreover obtain rsp v' where
    "run_state (rpc_LoginUser sample_env sample_grpc phone (login_req ''alice'' ''secret'')) two_customers = (Inr rsp, v')"
    "alices_answer = json_login sample_gateway rsp" by (rule alices_login_run)
  ultimately show ?thesis
    using every_login_answer_typed [OF binding_ok_sample tokens_nonempty_sample reachable_two_customers] by metis
qed

subsection \<open>Runs whose answers are the bank's\<close>

text \<open>A login that is fulfilled is the gateway's answer to that very request, given in some reachable state;
  anything else may happen as it likes.\<close>

definition answered :: "env \<Rightarrow> Config \<Rightarrow> gateway \<Rightarrow> spa \<Rightarrow> event \<Rightarrow> bool" where
  "answered E config G s ev \<longleftrightarrow>
     (\<forall>i d m. ev = Settle i (Resolved d) \<and> i < length (sp_inflight s) \<and> fst (sp_inflight s ! i) = AwaitLogin m \<longrightarrow>
        (\<exists>v ctx rsp v'. reachable E config v \<and>
           run_state (rpc_LoginUser E (deployed_grpc E config) ctx (sign_in_message (snd (sp_inflight s ! i)))) v = (Inr rsp, v') \<and>
           d = json_login G rsp))"

fun answered_run ::
  "env \<Rightarrow> Config \<Rightarrow> gateway \<Rightarrow> (auth_state \<Rightarrow> string \<Rightarrow> string \<Rightarrow> string) \<Rightarrow> js \<Rightarrow> (js \<Rightarrow> string) \<Rightarrow> spa \<Rightarrow> event list \<Rightarrow> bool" where
  "answered_run E config G push base ld s [] = True"
| "answered_run E config G push base ld s (ev # evs) =
     (answered E config G s ev \<and> answered_run E config G push base ld (spa_step push base ld s ev) evs)"

lemma answered_typed:
  assumes "binding_ok E" and "tokens_nonempty E" and "answered E config G s ev"
  shows "typed_event s ev"
  using assms(3) login_typed [OF assms(1,2)]
  unfolding answered_def typed_event_def
  by (fastforce split: event.splits axios_outcome.splits awaiting.splits if_splits option.splits)

lemma answered_run_typed:
  "binding_ok E \<Longrightarrow> tokens_nonempty E \<Longrightarrow> answered_run E config G push base ld s evs \<Longrightarrow> typed_run push base ld s evs"
  by (induction evs arbitrary: s) (auto intro: answered_typed)

text \<open>The store holds nobody, or a customer who has given the password, with a token of the customer's.\<close>

definition is_customer :: "env \<Rightarrow> Config \<Rightarrow> gateway \<Rightarrow> js \<Rightarrow> js \<Rightarrow> bool" where
  "is_customer E config G user token \<longleftrightarrow>
     (\<exists>v u pw tok p. reachable E config v \<and> u \<in> set (users (db v)) \<and> named u \<and>
        CheckPassword E pw (u_HashedPassword u) = None \<and> user = json_user G (convertUser u) \<and> token = JStr tok \<and>
        paseto_decrypt E (TokenSymmetricKey config) tok = Some p \<and> p_Username p = u_Username u \<and>
        p_Role p = DepositorRole \<and> p_Type p = TokenTypeAccessToken)"

definition customer_inv :: "env \<Rightarrow> Config \<Rightarrow> gateway \<Rightarrow> spa \<Rightarrow> bool" where
  "customer_inv E config G s \<longleftrightarrow>
     (isAuthenticated (sp_auth s) \<longrightarrow>
        is_customer E config G (st_user (sp_auth s)) (st_accessToken (sp_auth s)))"

lemma login_customer:
  assumes "binding_ok E" and "tokens_nonempty E" and "paseto_ok E" and "reachable E config v"
    and run: "run_state (rpc_LoginUser E (deployed_grpc E config) ctx req) v = (Inr rsp, v')"
  shows "is_customer E config G (js_member (json_login G rsp) ''user'') (js_member (json_login G rsp) ''access_token'')"
proof -
  obtain u p w1 w2 where u: "u \<in> set (users (db v))" "u_Username u = glu_Username req"
      "CheckPassword E (glu_Password req) (u_HashedPassword u) = None" "glr_User rsp = convertUser u"
    and tok: "run_state (CreateToken (PasetoMaker E (TokenSymmetricKey config)) (u_Username u) (u_Role u)
       (AccessTokenDuration config) TokenTypeAccessToken) w1 = (Inr (glr_AccessToken rsp, p), w2)"
    by (rule login_success [OF run])
  note stored = reachable_user [OF assms(1,4) u(1)]
  have asc: "ascii (u_Username u)" "ascii (u_Role u)"
    using stored plain_name_ascii depositor_ascii by (simp_all add: named_def)
  note tok' = tok [unfolded PasetoMaker_def, simplified]
  have "paseto_decrypt E (TokenSymmetricKey config) (glr_AccessToken rsp) = Some p"
    by (rule paseto_decrypt_created [OF assms(3) asc tok'])
  moreover have "p_Username p = u_Username u" "p_Role p = DepositorRole" "p_Type p = TokenTypeAccessToken"
    using paseto_created(2-4) [OF tok'] stored(2) by simp_all
  moreover have "js_member (json_login G rsp) ''access_token'' = JStr (glr_AccessToken rsp)"
    using login_tokens(1) [OF assms(2) run] by (simp add: json_login_def json_text_def)
  moreover have "js_member (json_login G rsp) ''user'' = json_user G (convertUser u)"
    by (simp add: json_login_def u(4))
  ultimately show ?thesis unfolding is_customer_def using assms(4) u(1,3) stored(1) by blast
qed

lemma customer_inv_step:
  assumes "binding_ok E" and "tokens_nonempty E" and "paseto_ok E"
    and ev: "answered E config G s ev" and inv: "customer_inv E config G s"
  shows "customer_inv E config G (spa_step push base ld s ev)"
proof (cases rule: spa_step_auth_cases [of push base ld s ev])
  case same
  with inv show ?thesis by (simp only: customer_inv_def)
next
  case cleared
  then show ?thesis by (simp only: customer_inv_def) (simp add: isAuthenticated_def initial_auth_def)
next
  case (settled i out)
  show ?thesis
  proof (cases rule: settle_auth_cases [of i out s])
    case same
    with settled inv show ?thesis by (simp only: customer_inv_def)
  next
    case (login m d)
    with ev settled(1) obtain v ctx rsp v' where "reachable E config v" and d: "d = json_login G rsp"
      and "run_state (rpc_LoginUser E (deployed_grpc E config) ctx (sign_in_message (snd (sp_inflight s ! i)))) v = (Inr rsp, v')"
      unfolding answered_def by metis
    from login_customer [OF assms(1-3) this(1,3)] show ?thesis
      by (simp only: customer_inv_def settled(2) login(4) d) (simp add: setUser_def)
  qed
qed

lemma customer_inv_run:
  "binding_ok E \<Longrightarrow> tokens_nonempty E \<Longrightarrow> paseto_ok E \<Longrightarrow> customer_inv E config G s \<Longrightarrow>
   answered_run E config G push base ld s evs \<Longrightarrow> customer_inv E config G (spa_run push base ld s evs)"
  by (induction evs arbitrary: s) (simp_all add: customer_inv_step)

text \<open>C1: Both programs together: in every run of the frontend, from loading any page on, whose logins are answered by
  the backend, whatever requests, tasks and failures brought the backend where it is, the dashboard is shown
  to customers of the bank only: the user in the store is the profile of a registered user to whose stored password a
  login fitted, and the access token beside it is one the backend issued for that user, as a
  depositor.\<close>

theorem dashboard_shows_customers:
  assumes "honours_guard push" and "binding_ok E" and "tokens_nonempty E" and "paseto_ok E"
    and run: "answered_run E config G push base ld (boot push p) evs"
    and path: "sp_path (spa_run push base ld (boot push p) evs) = ''/dashboard''"
  shows "is_customer E config G (st_user (sp_auth (spa_run push base ld (boot push p) evs)))
     (st_accessToken (sp_auth (spa_run push base ld (boot push p) evs)))"
proof -
  let ?s = "spa_run push base ld (boot push p) evs"
  have "spa_inv ?s"
    using answered_run_typed [OF assms(2,3) run] spa_inv_run [OF assms(1) spa_inv_boot [OF assms(1)]] by blast
  with path have "isAuthenticated (sp_auth ?s)" by (simp add: spa_inv_def)
  moreover have "customer_inv E config G (boot push p)"
    by (simp add: customer_inv_def boot_def isAuthenticated_def initial_auth_def)
  then have "customer_inv E config G ?s" by (rule customer_inv_run [OF assms(2-4) _ run])
  ultimately show ?thesis by (simp add: customer_inv_def)
qed

text \<open>alice types her name and password, and the bank answers.\<close>

definition alice_at_the_bank :: "event list" where
  "alice_at_the_bank =
     [Type LoginUsername ''alice'', Type LoginPassword ''secret'', KeyPress ''Enter'', Settle 0 (Resolved alices_answer), Timeout 0]"

lemma answered_other: "\<nexists>i d. ev = Settle i (Resolved d) \<Longrightarrow> answered E config G s ev"
  by (auto simp: answered_def)

lemma alice_answered:
  "answered_run sample_env sample_config sample_gateway settled Undefined (\<lambda>_. []) (boot settled ''/'') alice_at_the_bank"
proof -
  let ?s = "alice_run [Type LoginUsername ''alice'', Type LoginPassword ''secret'', KeyPress ''Enter'']"
  have msg: "sign_in_message (snd (sp_inflight ?s ! 0)) = login_req ''alice'' ''secret''" by code_simp
  obtain rsp v' where "run_state (rpc_LoginUser sample_env sample_grpc phone (login_req ''alice'' ''secret'')) two_customers = (Inr rsp, v')"
    "alices_answer = json_login sample_gateway rsp" by (rule alices_login_run)
  then have "answered sample_env sample_config sample_gateway ?s (Settle 0 (Resolved alices_answer))"
    using reachable_two_customers msg unfolding answered_def by (auto intro!: exI)
  then show ?thesis by (simp add: alice_at_the_bank_def answered_other)
qed

theorem dashboard_shows_customers_witness:
  "sp_path (alice_run alice_at_the_bank) = ''/dashboard'' \<and>
   is_customer sample_env sample_config sample_gateway (st_user (sp_auth (alice_run alice_at_the_bank)))
     (st_accessToken (sp_auth (alice_run alice_at_the_bank)))"
proof -
  have "sp_path (alice_run alice_at_the_bank) = ''/dashboard''" by code_simp
  with dashboard_shows_customers [OF settled_honours_guard binding_ok_sample tokens_nonempty_sample paseto_ok_sample
      alice_answered] show ?thesis by blast
qed

end
