(* ===== verification/Boot.thy ===== *)
theory Boot
  imports System Gateway
begin

section \<open>Configuration, start and end of the process (util/config.go, main.go)\<close>

text \<open>
  How the process comes to be what \<open>System\<close> takes as given: the configuration is loaded, each part of
  \<^verbatim>\<open>main\<close> is started or ends the process, and the goroutines of the wait group run until a signal or the
  first error lets all of them stop. Viper, the migrations, asynq and the listeners answer through the
  parameter \<open>host\<close>; what \<^verbatim>\<open>net/http\<close>, gRPC, asynq and \<^verbatim>\<open>errgroup\<close> document of shutting down is the step relation.
\<close>

subsection \<open>config.go\<close>

record viper_settings =
  vs_paths :: "gostring list"
  vs_name :: gostring
  vs_type :: gostring
  vs_automatic_env :: bool
  vs_bound :: "gostring list"

record viper =
  vp_ReadInConfig :: "viper_settings \<Rightarrow> go_error option"
  vp_Unmarshal :: "viper_settings \<Rightarrow> Config \<times> go_error option"

definition empty_Config :: Config where
  "empty_Config =
     \<lparr>Environment = [], AllowedOrigins = [], DBSource = [], MigrationURL = [], RedisAddress = [],
      HTTPServerAddress = [], GRPCServerAddress = [], TokenSymmetricKey = [], AccessTokenDuration = 0,
      RefreshTokenDuration = 0, EmailSenderName = [], EmailSenderAddress = [], EmailSenderPassword = []\<rparr>"

text \<open>The tags of the structure: the name of each field's setting and how it is set.\<close>

datatype setter =
    SetString "gostring \<Rightarrow> Config \<Rightarrow> Config"
  | SetStrings "gostring list \<Rightarrow> Config \<Rightarrow> Config"
  | SetDuration "duration \<Rightarrow> Config \<Rightarrow> Config"

definition Config_tags :: "(gostring \<times> setter) list" where
  "Config_tags =
     [(''ENVIRONMENT'', SetString (\<lambda>s c. c\<lparr>Environment := s\<rparr>)),
      (''ALLOWED_ORIGINS'', SetStrings (\<lambda>ss c. c\<lparr>AllowedOrigins := ss\<rparr>)),
      (''DB_SOURCE'', SetString (\<lambda>s c. c\<lparr>DBSource := s\<rparr>)),
      (''MIGRATION_URL'', SetString (\<lambda>s c. c\<lparr>MigrationURL := s\<rparr>)),
      (''REDIS_ADDRESS'', SetString (\<lambda>s c. c\<lparr>RedisAddress := s\<rparr>)),
      (''HTTP_SERVER_ADDRESS'', SetString (\<lambda>s c. c\<lparr>HTTPServerAddress := s\<rparr>)),
      (''GRPC_SERVER_ADDRESS'', SetString (\<lambda>s c. c\<lparr>GRPCServerAddress := s\<rparr>)),
      (''TOKEN_SYMMETRIC_KEY'', SetString (\<lambda>s c. c\<lparr>TokenSymmetricKey := s\<rparr>)),
      (''ACCESS_TOKEN_DURATION'', SetDuration (\<lambda>d c. c\<lparr>AccessTokenDuration := d\<rparr>)),
      (''REFRESH_TOKEN_DURATION'', SetDuration (\<lambda>d c. c\<lparr>RefreshTokenDuration := d\<rparr>)),
      (''EMAIL_SENDER_NAME'', SetString (\<lambda>s c. c\<lparr>EmailSenderName := s\<rparr>)),
      (''EMAIL_SENDER_ADDRESS'', SetString (\<lambda>s c. c\<lparr>EmailSenderAddress := s\<rparr>)),
      (''EMAIL_SENDER_PASSWORD'', SetString (\<lambda>s c. c\<lparr>EmailSenderPassword := s\<rparr>))]"

definition config_settings :: "gostring \<Rightarrow> viper_settings" where
  "config_settings path =
     \<lparr>vs_paths = [path], vs_name = ''app'', vs_type = ''env'', vs_automatic_env = True,
      vs_bound = [''ENVIRONMENT'', ''ALLOWED_ORIGINS'', ''DB_SOURCE'', ''MIGRATION_URL'', ''REDIS_ADDRESS'',
        ''HTTP_SERVER_ADDRESS'', ''GRPC_SERVER_ADDRESS'', ''TOKEN_SYMMETRIC_KEY'', ''ACCESS_TOKEN_DURATION'',
        ''REFRESH_TOKEN_DURATION'', ''EMAIL_SENDER_NAME'', ''EMAIL_SENDER_ADDRESS'', ''EMAIL_SENDER_PASSWORD'']\<rparr>"

definition LoadConfig :: "viper \<Rightarrow> gostring \<Rightarrow> Config \<times> go_error option" where
  "LoadConfig V path =
     (case vp_ReadInConfig V (config_settings path) of
        Some err \<Rightarrow> (empty_Config, Some err)
      | None \<Rightarrow> vp_Unmarshal V (config_settings path))"

text \<open>What viper documents: a variable that is not empty goes before the file, if its name is bound or the
  file has the setting too; the settings that have a value are decoded into the fields with their names,
  lists being cut at commas.\<close>

fun decode_setting :: "(gostring \<Rightarrow> duration result) \<Rightarrow> setter \<Rightarrow> gostring \<Rightarrow> Config \<Rightarrow> Config result" where
  "decode_setting parse (SetString f) s c = Inr (f s c)"
| "decode_setting parse (SetStrings f) s c = Inr (f (if s = [] then [] else split_all CHR '','' s) c)"
| "decode_setting parse (SetDuration f) s c = map_sum id (\<lambda>d. f d c) (parse s)"

fun decode_settings :: "(gostring \<Rightarrow> duration result) \<Rightarrow> (gostring \<Rightarrow> gostring option) \<Rightarrow>
    (gostring \<times> setter) list \<Rightarrow> Config \<Rightarrow> Config result" where
  "decode_settings parse look [] c = Inr c"
| "decode_settings parse look ((k, f) # tags) c =
     (case look k of
        None \<Rightarrow> decode_settings parse look tags c
      | Some s \<Rightarrow>
          (case decode_setting parse f s c of
             Inl err \<Rightarrow> Inl err
           | Inr c' \<Rightarrow> decode_settings parse look tags c'))"

definition setting :: "viper_settings \<Rightarrow> (gostring \<Rightarrow> gostring) \<Rightarrow> (gostring \<times> gostring) list \<Rightarrow> gostring \<Rightarrow> gostring option" where
  "setting vs getenv file k =
     (if getenv k \<noteq> [] \<and> (k \<in> set (vs_bound vs) \<or> vs_automatic_env vs \<and> k \<in> fst ` set file)
      then Some (getenv k) else map_of file k)"

type_synonym config_files = "gostring list \<Rightarrow> gostring \<Rightarrow> gostring \<Rightarrow> (gostring \<times> gostring) list result"

definition viper_ok :: "viper \<Rightarrow> config_files \<Rightarrow> (gostring \<Rightarrow> gostring) \<Rightarrow> (gostring \<Rightarrow> duration result) \<Rightarrow> bool" where
  "viper_ok V find_config getenv parse \<longleftrightarrow>
     (\<forall>vs. case find_config (vs_paths vs) (vs_name vs) (vs_type vs) of
        Inl err \<Rightarrow> vp_ReadInConfig V vs = Some err
      | Inr file \<Rightarrow> vp_ReadInConfig V vs = None \<and>
          (case decode_settings parse (setting vs getenv file) Config_tags empty_Config of
             Inl err \<Rightarrow> snd (vp_Unmarshal V vs) \<noteq> None
           | Inr c \<Rightarrow> vp_Unmarshal V vs = (c, None)))"

subsection \<open>Starting (main.go)\<close>

text \<open>What starting does on the way, and the end of the process by \<^verbatim>\<open>log.Fatal\<close>.\<close>

datatype goroutine = ProcessorShutdown | GatewayServe | GatewayShutdown | GrpcServe | GrpcShutdown

datatype boot_event = Migrated | ProcessorStarted | Listening gostring | Go goroutine

datatype fatal = Fatal gostring go_error

type_synonym 'a boot = "(boot_event list, fatal + 'a) state"

definition must :: "gostring \<Rightarrow> 'a result \<Rightarrow> 'a boot" where
  "must msg r = State_Monad.return (case r of Inl err \<Rightarrow> Inl (Fatal msg err) | Inr x \<Rightarrow> Inr x)"

definition did :: "boot_event \<Rightarrow> unit boot" where
  "did ev = State (\<lambda>evs. (Inr (), evs @ [ev]))"

text \<open>\<^verbatim>\<open>migrate.ErrNoChange\<close>, \<^verbatim>\<open>http.ErrServerClosed\<close> and \<^verbatim>\<open>grpc.ErrServerStopped\<close>, and \<open>errors.Is\<close>.\<close>

definition ErrNoChange :: go_error where "ErrNoChange = Plain ''no change''"
definition ErrServerClosed :: go_error where "ErrServerClosed = Plain ''http: Server closed''"
definition ErrServerStopped :: go_error where "ErrServerStopped = Plain ''grpc: the server has been stopped''"

fun errors_Is :: "go_error \<Rightarrow> go_error \<Rightarrow> bool" where
  "errors_Is (Wrap p e) target = (Wrap p e = target \<or> errors_Is e target)"
| "errors_Is e target = (e = target)"

record host =
  hs_viper :: viper
  hs_pool :: "gostring \<Rightarrow> unit result"
  hs_migration :: "gostring \<Rightarrow> gostring \<Rightarrow> unit result"
  hs_up :: "gostring \<Rightarrow> gostring \<Rightarrow> go_error option"
  hs_processor :: "gostring \<Rightarrow> (gostring \<times> nat) list \<Rightarrow> unit result"
  hs_register :: "grpc_server \<Rightarrow> unit result"
  hs_statik :: "unit result"
  hs_listen :: "gostring \<Rightarrow> unit result"

definition runDBMigration :: "host \<Rightarrow> gostring \<Rightarrow> gostring \<Rightarrow> unit boot" where
  "runDBMigration H migrationURL dbSource =
     bindE (must ''cannot create new migrate instance'' (hs_migration H migrationURL dbSource)) (\<lambda>_.
     bindE (must ''failed to run migrate up''
       (case hs_up H migrationURL dbSource of
          Some err \<Rightarrow> if err \<noteq> ErrNoChange then Inl err else Inr ()
        | None \<Rightarrow> Inr ())) (\<lambda>_.
     did Migrated))"

type_synonym task_table = "gostring \<Rightarrow> (task \<Rightarrow> unit result io) option"

definition runTaskProcessor :: "env \<Rightarrow> host \<Rightarrow> Config \<Rightarrow> store \<Rightarrow> task_table boot" where
  "runTaskProcessor E H config S =
     (let mailer = SendEmail E
        \<lparr>gs_name = EmailSenderName config, gs_fromEmailAddress = EmailSenderAddress config,
         gs_fromEmailPassword = EmailSenderPassword config\<rparr>
      in bindE (must ''failed to start task processor'' (hs_processor H (RedisAddress config) processor_queues)) (\<lambda>_.
         bindE (did ProcessorStarted) (\<lambda>_.
         bindE (did (Go ProcessorShutdown)) (\<lambda>_.
           State_Monad.return (Inr (task_handler E S mailer))))))"

definition runGrpcServer :: "env \<Rightarrow> host \<Rightarrow> Config \<Rightarrow> store \<Rightarrow> task_distributor \<Rightarrow> grpc_server boot" where
  "runGrpcServer E H config S taskDistributor =
     bindE (must ''cannot create server'' (NewGrpcServer E config S taskDistributor)) (\<lambda>server.
     bindE (must ''cannot create listener'' (hs_listen H (GRPCServerAddress config))) (\<lambda>_.
     bindE (did (Listening (GRPCServerAddress config))) (\<lambda>_.
     bindE (did (Go GrpcServe)) (\<lambda>_.
     bindE (did (Go GrpcShutdown)) (\<lambda>_.
       State_Monad.return (Inr server))))))"

definition runGatewayServer ::
  "env \<Rightarrow> host \<Rightarrow> Config \<Rightarrow> store \<Rightarrow> task_distributor \<Rightarrow> (grpc_server \<times> rest_server \<times> cors_options) boot" where
  "runGatewayServer E H config S taskDistributor =
     bindE (must ''cannot create server'' (NewGrpcServer E config S taskDistributor)) (\<lambda>server.
     bindE (must ''cannot register handler server'' (hs_register H server)) (\<lambda>_.
     bindE (must ''cannot create statik fs'' (hs_statik H)) (\<lambda>_.
     bindE (must ''cannot create gin server'' (NewRestServer E config S)) (\<lambda>ginServer.
     bindE (did (Go GatewayServe)) (\<lambda>_.
     bindE (did (Go GatewayShutdown)) (\<lambda>_.
       State_Monad.return (Inr (server, ginServer, deployed_cors config))))))))"

text \<open>\<^verbatim>\<open>main\<close> up to the wait: the parts of the running process.\<close>

record running =
  rn_config :: Config
  rn_tasks :: task_table
  rn_gateway :: grpc_server
  rn_gin :: rest_server
  rn_cors :: cors_options
  rn_grpc :: grpc_server

definition main_start :: "env \<Rightarrow> host \<Rightarrow> running boot" where
  "main_start E H =
     bindE (must ''cannot load config'' (case LoadConfig (hs_viper H) ''.'' of
       (config, None) \<Rightarrow> Inr config | (config, Some err) \<Rightarrow> Inl err)) (\<lambda>config.
     bindE (must ''cannot connect to db'' (hs_pool H (DBSource config))) (\<lambda>_.
     bindE (runDBMigration H (MigrationURL config) (DBSource config)) (\<lambda>_.
     (let S = SQLStore E; taskDistributor = DistributeTaskSendVerifyEmail E in
      bindE (runTaskProcessor E H config S) (\<lambda>tasks.
      bindE (runGatewayServer E H config S taskDistributor) (\<lambda>(gateway, gin, cors).
      bindE (runGrpcServer E H config S taskDistributor) (\<lambda>grpc.
        State_Monad.return (Inr
          \<lparr>rn_config = config, rn_tasks = tasks, rn_gateway = gateway, rn_gin = gin, rn_cors = cors,
           rn_grpc = grpc\<rparr>))))))))"

text \<open>\<^verbatim>\<open>runGinServer\<close>, the Gin router alone, which nothing calls.\<close>

definition runGinServer :: "env \<Rightarrow> host \<Rightarrow> (gostring \<Rightarrow> rest_server \<Rightarrow> unit result) \<Rightarrow> Config \<Rightarrow> store \<Rightarrow> unit boot" where
  "runGinServer E H start config S =
     bindE (must ''cannot create server'' (NewRestServer E config S)) (\<lambda>server.
     bindE (must ''cannot start server'' (start (HTTPServerAddress config) server)) (\<lambda>_.
       State_Monad.return (Inr ())))"

end
