(* ===== verification/Lifecycle.thy ===== *)
theory Lifecycle
  imports Boot
begin

section \<open>The life of the process after its start (main.go)\<close>

text \<open>
  The five goroutines of the wait group. Each of the three servers is served and shut down as
  \<^verbatim>\<open>net/http\<close>, gRPC and asynq document it: a server takes work until it is told to stop or its listener
  fails, \<^verbatim>\<open>Shutdown\<close> and \<^verbatim>\<open>GracefulStop\<close> return when the requests under way have ended, asynq's \<^verbatim>\<open>Shutdown\<close>
  after a while puts unfinished tasks back. The context of the wait group is done after a signal or the
  first error of a goroutine.
\<close>

datatype server = Http | Grpc | Processor

lemma UNIV_server: "UNIV = {Http, Grpc, Processor}"
  using server.exhaust by blast

lemma UNIV_goroutine: "UNIV = {ProcessorShutdown, GatewayServe, GatewayShutdown, GrpcServe, GrpcShutdown}"
  using goroutine.exhaust by blast

instantiation server :: enum
begin

definition enum_server where "enum_server = [Http, Grpc, Processor]"
definition enum_all_server where "enum_all_server P \<longleftrightarrow> list_all P [Http, Grpc, Processor]"
definition enum_ex_server where "enum_ex_server P \<longleftrightarrow> list_ex P [Http, Grpc, Processor]"

instance
  by standard (simp_all add: enum_server_def enum_all_server_def enum_ex_server_def UNIV_server)

end

instantiation goroutine :: enum
begin

definition enum_goroutine where
  "enum_goroutine = [ProcessorShutdown, GatewayServe, GatewayShutdown, GrpcServe, GrpcShutdown]"
definition enum_all_goroutine where
  "enum_all_goroutine P \<longleftrightarrow> list_all P [ProcessorShutdown, GatewayServe, GatewayShutdown, GrpcServe, GrpcShutdown]"
definition enum_ex_goroutine where
  "enum_ex_goroutine P \<longleftrightarrow> list_ex P [ProcessorShutdown, GatewayServe, GatewayShutdown, GrpcServe, GrpcShutdown]"

instance
  by standard (simp_all add: enum_goroutine_def enum_all_goroutine_def enum_ex_goroutine_def UNIV_goroutine)

end

subsection \<open>The goroutines\<close>

text \<open>What each returns, from the error of the call it makes.\<close>

definition gateway_serve :: "go_error option \<Rightarrow> go_error option" where
  "gateway_serve r =
     (case r of Some err \<Rightarrow> if errors_Is err ErrServerClosed then None else Some err | None \<Rightarrow> None)"

definition gateway_shutdown :: "go_error option \<Rightarrow> go_error option" where
  "gateway_shutdown r = (case r of Some err \<Rightarrow> Some err | None \<Rightarrow> None)"

definition grpc_serve :: "go_error option \<Rightarrow> go_error option" where
  "grpc_serve r =
     (case r of Some err \<Rightarrow> if errors_Is err ErrServerStopped then None else Some err | None \<Rightarrow> None)"

fun serve_of :: "server \<Rightarrow> goroutine option" where
  "serve_of Http = Some GatewayServe"
| "serve_of Grpc = Some GrpcServe"
| "serve_of Processor = None"

fun shutdown_of :: "server \<Rightarrow> goroutine" where
  "shutdown_of Http = GatewayShutdown"
| "shutdown_of Grpc = GrpcShutdown"
| "shutdown_of Processor = ProcessorShutdown"

record process =
  pr_signalled :: bool
  pr_err :: "go_error option"
  pr_returned :: "goroutine \<Rightarrow> go_error option option"
  pr_stopping :: "server \<Rightarrow> bool"
  pr_active :: "server \<Rightarrow> nat"

definition started :: process where
  "started =
     \<lparr>pr_signalled = False, pr_err = None, pr_returned = \<lambda>g. None, pr_stopping = \<lambda>s. False, pr_active = \<lambda>s. 0\<rparr>"

definition ctx_done :: "process \<Rightarrow> bool" where
  "ctx_done p \<longleftrightarrow> pr_signalled p \<or> pr_err p \<noteq> None"

text \<open>A goroutine returns: the first error is kept.\<close>

definition returns :: "goroutine \<Rightarrow> go_error option \<Rightarrow> process \<Rightarrow> process" where
  "returns g r p =
     p\<lparr>pr_returned := (pr_returned p)(g := Some r), pr_err := if pr_err p = None then r else pr_err p\<rparr>"

text \<open>\<^verbatim>\<open>waitGroup.Wait()\<close> and the end of \<^verbatim>\<open>main\<close>.\<close>

definition main_result :: "process \<Rightarrow> (fatal + unit) option" where
  "main_result p =
     (if (\<forall>g. pr_returned p g \<noteq> None)
      then Some (case pr_err p of Some err \<Rightarrow> Inl (Fatal ''error from wait group'' err) | None \<Rightarrow> Inr ())
      else None)"

definition accepts :: "process \<Rightarrow> server \<Rightarrow> bool" where
  "accepts p s \<longleftrightarrow> \<not> pr_stopping p s \<and> (case serve_of s of None \<Rightarrow> True | Some g \<Rightarrow> pr_returned p g = None)"

subsection \<open>Steps\<close>

datatype life_event =
    Signal
  | Accept server
  | Finish server
  | Serve server "go_error option"
  | Stop server
  | Stopped server "go_error option"

inductive life_step :: "process \<Rightarrow> life_event \<Rightarrow> process \<Rightarrow> bool" where
  signal: "main_result p = None \<Longrightarrow> \<not> pr_signalled p \<Longrightarrow> life_step p Signal (p\<lparr>pr_signalled := True\<rparr>)"
| accept: "accepts p s \<Longrightarrow>
    life_step p (Accept s) (p\<lparr>pr_active := (pr_active p)(s := Suc (pr_active p s))\<rparr>)"
| finish: "pr_active p s = Suc n \<Longrightarrow> life_step p (Finish s) (p\<lparr>pr_active := (pr_active p)(s := n)\<rparr>)"
| serve_http: "pr_returned p GatewayServe = None \<Longrightarrow> errors_Is err ErrServerClosed \<longrightarrow> pr_stopping p Http \<Longrightarrow>
    life_step p (Serve Http (Some err)) (returns GatewayServe (gateway_serve (Some err)) p)"
| serve_grpc: "pr_returned p GrpcServe = None \<Longrightarrow> grpc_serve r = None \<longrightarrow> pr_stopping p Grpc \<Longrightarrow>
    life_step p (Serve Grpc r) (returns GrpcServe (grpc_serve r) p)"
| stop: "ctx_done p \<Longrightarrow> \<not> pr_stopping p s \<Longrightarrow>
    life_step p (Stop s) (p\<lparr>pr_stopping := (pr_stopping p)(s := True)\<rparr>)"
| stopped_http: "pr_stopping p Http \<Longrightarrow> pr_active p Http = 0 \<Longrightarrow> pr_returned p GatewayShutdown = None \<Longrightarrow>
    life_step p (Stopped Http r) (returns GatewayShutdown (gateway_shutdown r) p)"
| stopped_grpc: "pr_stopping p Grpc \<Longrightarrow> pr_active p Grpc = 0 \<Longrightarrow> pr_returned p GrpcShutdown = None \<Longrightarrow>
    life_step p (Stopped Grpc None) (returns GrpcShutdown None p)"
| stopped_processor: "pr_stopping p Processor \<Longrightarrow> pr_returned p ProcessorShutdown = None \<Longrightarrow>
    life_step p (Stopped Processor None)
      (returns ProcessorShutdown None (p\<lparr>pr_active := (pr_active p)(Processor := 0)\<rparr>))"

inductive life_run :: "process \<Rightarrow> life_event list \<Rightarrow> process \<Rightarrow> bool" where
  none: "life_run p [] p"
| more: "life_run p ls q \<Longrightarrow> life_step q l q' \<Longrightarrow> life_run p (ls @ [l]) q'"

inductive_cases life_runE: "life_run p ls q"

subsection \<open>What holds in every run\<close>

definition life_ok :: "process \<Rightarrow> bool" where
  "life_ok p \<longleftrightarrow>
     (\<forall>s. pr_returned p (shutdown_of s) \<noteq> None \<longrightarrow> pr_stopping p s \<and> pr_active p s = 0) \<and>
     (\<forall>s. pr_stopping p s \<longrightarrow> ctx_done p) \<and>
     (\<forall>err. pr_err p = Some err \<longrightarrow> (\<exists>g. pr_returned p g = Some (Some err))) \<and>
     (\<forall>g err. pr_returned p g = Some (Some err) \<longrightarrow> pr_err p \<noteq> None)"

lemma life_ok_started: "life_ok started"
  by (simp add: life_ok_def started_def)

lemma ctx_done_returns: "ctx_done p \<Longrightarrow> ctx_done (returns g r p)"
  by (auto simp: ctx_done_def returns_def)

lemma life_ok_returns:
  assumes "life_ok p" and "pr_returned p g = None"
    and "\<And>s. g = shutdown_of s \<Longrightarrow> pr_stopping p s \<and> pr_active p s = 0"
  shows "life_ok (returns g r p)"
  using assms unfolding life_ok_def
  by (intro conjI allI impI) (auto simp: returns_def ctx_done_def split: if_splits, metis option.distinct(1))

lemma shutdown_of_eq [simp]: "(GatewayShutdown = shutdown_of s) = (s = Http)"
  "(GrpcShutdown = shutdown_of s) = (s = Grpc)" "(ProcessorShutdown = shutdown_of s) = (s = Processor)"
  "GatewayServe \<noteq> shutdown_of s" "GrpcServe \<noteq> shutdown_of s"
  by (cases s; simp)+

lemma life_step_ok: "life_step p l q \<Longrightarrow> life_ok p \<Longrightarrow> life_ok q"
proof (induction rule: life_step.induct)
  case (stopped_processor p)
  let ?p = "p\<lparr>pr_active := (pr_active p)(Processor := 0)\<rparr>"
  from stopped_processor have "life_ok ?p" by (simp add: life_ok_def ctx_done_def)
  with stopped_processor show ?case by (intro life_ok_returns) simp_all
next
  case (accept p s)
  then have "pr_returned p (shutdown_of s) = None" by (auto simp: life_ok_def accepts_def)
  with accept show ?case by (simp add: life_ok_def ctx_done_def)
next
  case (finish p s n)
  then have "pr_returned p (shutdown_of s) = None" by (auto simp: life_ok_def)
  with finish show ?case by (simp add: life_ok_def ctx_done_def)
next
  case (signal p)
  then show ?case by (simp add: life_ok_def ctx_done_def)
next
  case (stop p s)
  then show ?case by (simp add: life_ok_def ctx_done_def)
qed (intro life_ok_returns; simp)+

lemma life_run_ok: "life_run p ls q \<Longrightarrow> life_ok p \<Longrightarrow> life_ok q"
  by (induction rule: life_run.induct) (auto dest: life_step_ok)

subsection \<open>The end\<close>

text \<open>What is left to do: goroutines that run, servers that were not told to stop, work under way, the signal.\<close>

definition unreturned :: "process \<Rightarrow> goroutine set" where
  "unreturned p = {g. pr_returned p g = None}"

definition work :: "process \<Rightarrow> nat" where
  "work p = card (unreturned p) + card {s. \<not> pr_stopping p s} + (\<Sum>s\<in>UNIV. pr_active p s) +
     (if pr_signalled p then 0 else 1)"

fun is_accept :: "life_event \<Rightarrow> bool" where
  "is_accept (Accept s) = True"
| "is_accept _ = False"

lemma card_unreturned_returns:
  "pr_returned p g = None \<Longrightarrow> Suc (card (unreturned (returns g r p))) = card (unreturned p)"
proof -
  assume "pr_returned p g = None"
  moreover then have "unreturned (returns g r p) = unreturned p - {g}"
    by (auto simp: unreturned_def returns_def)
  moreover from calculation(1) have "g \<in> unreturned p" by (simp add: unreturned_def)
  ultimately show ?thesis by (metis card_Suc_Diff1 finite)
qed

lemma returns_simps [simp]: "pr_stopping (returns g r p) = pr_stopping p" "pr_active (returns g r p) = pr_active p"
  "pr_signalled (returns g r p) = pr_signalled p"
  by (simp_all add: returns_def)

lemma unreturned_simps [simp]: "unreturned (p\<lparr>pr_signalled := b\<rparr>) = unreturned p"
  "unreturned (p\<lparr>pr_active := a\<rparr>) = unreturned p" "unreturned (p\<lparr>pr_stopping := st\<rparr>) = unreturned p"
  by (simp_all add: unreturned_def)

lemma work_returns: "pr_returned p g = None \<Longrightarrow> work (returns g r p) < work p"
  using card_unreturned_returns [of p g r] by (simp add: work_def)

lemma sum_server: "(\<Sum>s\<in>UNIV. f s) = f Http + f Grpc + (f Processor :: nat)"
  by (simp add: UNIV_server)

lemma card_stop:
  "\<not> pr_stopping p s \<Longrightarrow>
     Suc (card {x. \<not> ((pr_stopping p)(s := True)) x}) = card {x. \<not> pr_stopping p x}"
proof -
  assume "\<not> pr_stopping p s"
  then have "s \<in> {x. \<not> pr_stopping p x}" by simp
  moreover have "{x. \<not> ((pr_stopping p)(s := True)) x} = {x. \<not> pr_stopping p x} - {s}" by auto
  ultimately show ?thesis by (metis card_Suc_Diff1 finite)
qed

lemma life_step_work:
  "life_step p l q \<Longrightarrow> (if is_accept l then work q = Suc (work p) else work q < work p)"
proof (induction rule: life_step.induct)
  case (accept p s)
  then show ?case by (cases s) (simp_all add: work_def sum_server)
next
  case (finish p s n)
  then show ?case by (cases s) (simp_all add: work_def sum_server)
next
  case (stop p s)
  then show ?case using card_stop [of p s] by (simp add: work_def)
next
  case (stopped_processor p)
  then show ?case using card_unreturned_returns [of "p\<lparr>pr_active := (pr_active p)(Processor := 0)\<rparr>" ProcessorShutdown None]
    by (simp add: work_def sum_server)
qed (simp_all add: work_returns, simp add: work_def)

lemma life_run_work:
  "life_run p ls q \<Longrightarrow> length ls + work q \<le> work p + 2 * length (filter is_accept ls)"
proof (induction rule: life_run.induct)
  case (more p ls q l q')
  then show ?case using life_step_work [OF more(2)] by (auto split: if_splits)
qed simp

lemma life_step_ctx_done: "life_step p l q \<Longrightarrow> ctx_done p \<Longrightarrow> ctx_done q"
  by (induction rule: life_step.induct) (auto simp: ctx_done_def returns_def)

lemma life_run_ctx_done: "life_run p ls q \<Longrightarrow> ctx_done p \<Longrightarrow> ctx_done q"
  by (induction rule: life_run.induct) (auto dest: life_step_ctx_done)

text \<open>Once the context is done, something other than new work is always possible, until the end.\<close>

lemma life_progress:
  assumes "ctx_done p" and "main_result p = None"
  shows "\<exists>l q. life_step p l q \<and> \<not> is_accept l"
proof (cases "\<forall>s. pr_stopping p s")
  case False
  then show ?thesis using life_step.stop [OF assms(1)] is_accept.simps by blast
next
  case stopping: True
  have closed: "errors_Is ErrServerClosed ErrServerClosed" by (simp add: ErrServerClosed_def)
  obtain g where g: "pr_returned p g = None" using assms(2) by (auto simp: main_result_def split: if_splits)
  have ends: "\<exists>l q. life_step p l q \<and> \<not> is_accept l" if "pr_active p s \<noteq> 0" for s
    using life_step.finish [of p s] that is_accept.simps(3) by (metis not0_implies_Suc)
  show ?thesis
  proof (cases g)
    case GatewayServe
    with g show ?thesis using life_step.serve_http [of p ErrServerClosed] stopping by (auto intro!: exI)
  next
    case GrpcServe
    with g show ?thesis using life_step.serve_grpc [of p None] stopping by (auto intro!: exI)
  next
    case ProcessorShutdown
    with g show ?thesis using life_step.stopped_processor [of p] stopping by (auto intro!: exI)
  next
    case GatewayShutdown
    with g show ?thesis using life_step.stopped_http [of p None] stopping ends [of Http] by (cases "pr_active p Http = 0") (auto intro!: exI)
  next
    case GrpcShutdown
    with g show ?thesis using life_step.stopped_grpc [of p] stopping ends [of Grpc] by (cases "pr_active p Grpc = 0") (auto intro!: exI)
  qed
qed

text \<open>The calls that fail: a server that ends although nobody stopped it, or whose listeners cannot be closed.\<close>

fun failure :: "life_event \<Rightarrow> bool" where
  "failure (Serve Http (Some err)) = (\<not> errors_Is err ErrServerClosed)"
| "failure (Serve Grpc (Some err)) = (\<not> errors_Is err ErrServerStopped)"
| "failure (Stopped Http (Some err)) = True"
| "failure _ = False"

lemma life_step_err: "life_step p l q \<Longrightarrow> pr_err q = None \<longleftrightarrow> pr_err p = None \<and> \<not> failure l"
proof (induction rule: life_step.induct)
  case (serve_grpc p r)
  then show ?case by (cases r) (auto simp: returns_def grpc_serve_def)
next
  case (stopped_http p r)
  then show ?case by (cases r) (auto simp: returns_def gateway_shutdown_def)
qed (auto simp: returns_def gateway_serve_def)

lemma life_run_err: "life_run p ls q \<Longrightarrow> pr_err q = None \<longleftrightarrow> pr_err p = None \<and> \<not> list_ex failure ls"
  by (induction rule: life_run.induct) (auto simp: life_step_err)

text \<open>C29: The process ends gracefully, whatever its run was: when \<^verbatim>\<open>main\<close> is through with waiting, all three servers have
  been stopped and no request is under way; it ends as if nothing had happened exactly if nothing failed
  in the run (a server that ended by itself, listeners that could not be closed), which takes a signal, and
  otherwise fatally with the error that a goroutine returned.\<close>

theorem shutdown_is_graceful:
  assumes "life_run started ls p" and "main_result p = Some r"
  shows "(\<forall>s. pr_stopping p s \<and> pr_active p s = 0) \<and>
     (r = Inr () \<longleftrightarrow> \<not> list_ex failure ls) \<and>
     (r = Inr () \<longrightarrow> pr_signalled p) \<and>
     (\<forall>f. r = Inl f \<longrightarrow> (\<exists>g err. f = Fatal ''error from wait group'' err \<and> pr_returned p g = Some (Some err)))"
proof -
  have ok: "life_ok p" using assms(1) life_ok_started by (rule life_run_ok)
  have all: "pr_returned p g \<noteq> None" for g
    using assms(2) by (auto simp: main_result_def split: if_splits)
  have r: "r = (case pr_err p of Some err \<Rightarrow> Inl (Fatal ''error from wait group'' err) | None \<Rightarrow> Inr ())"
    using assms(2) by (auto simp: main_result_def split: if_splits)
  have stopped: "pr_stopping p s \<and> pr_active p s = 0" for s
    using ok all [of "shutdown_of s"] by (simp add: life_ok_def)
  then have "ctx_done p" using ok by (simp add: life_ok_def)
  moreover have "pr_err p = None \<longleftrightarrow> \<not> list_ex failure ls"
    using life_run_err [OF assms(1)] by (simp add: started_def)
  moreover have "\<exists>g. pr_returned p g = Some (Some err)" if "pr_err p = Some err" for err
    using ok that by (simp add: life_ok_def)
  ultimately show ?thesis using stopped r by (auto simp: ctx_done_def split: option.splits)
qed

text \<open>C30: The process comes to its end: from a signal or the first failure on (a server that cannot listen, say), a
  run has at most as many steps as there is work left, and two more for every request that is still let
  in; and until \<^verbatim>\<open>main\<close> is through, a step other than letting in work is possible.\<close>

theorem shutdown_completes:
  assumes "life_run started ls p" and "pr_signalled p \<or> list_ex failure ls"
    and "life_run p ms q"
  shows "length ms \<le> work p + 2 * length (filter is_accept ms) \<and>
     (main_result q \<noteq> None \<or> (\<exists>l q'. life_step q l q' \<and> \<not> is_accept l))"
proof -
  have "ctx_done p" using assms(2) life_run_err [OF assms(1)] by (auto simp: ctx_done_def started_def)
  with assms(3) have "ctx_done q" by (rule life_run_ctx_done)
  with life_progress life_run_work [OF assms(3)] show ?thesis by fastforce
qed

text \<open>A request comes in, the gRPC server fails, and everything else is stopped.\<close>

definition failing_run :: "life_event list" where
  "failing_run =
     [Accept Http, Serve Grpc (Some ConnError), Stop Http, Stop Grpc, Stop Processor, Stopped Processor None,
      Serve Http (Some ErrServerClosed), Stopped Grpc None, Finish Http, Stopped Http None]"

text \<open>Steps by evaluation.\<close>

fun life_next :: "process \<Rightarrow> life_event \<Rightarrow> process option" where
  "life_next p Signal =
     (if main_result p = None \<and> \<not> pr_signalled p then Some (p\<lparr>pr_signalled := True\<rparr>) else None)"
| "life_next p (Accept s) =
     (if accepts p s then Some (p\<lparr>pr_active := (pr_active p)(s := Suc (pr_active p s))\<rparr>) else None)"
| "life_next p (Finish s) =
     (case pr_active p s of 0 \<Rightarrow> None | Suc n \<Rightarrow> Some (p\<lparr>pr_active := (pr_active p)(s := n)\<rparr>))"
| "life_next p (Serve Http (Some err)) =
     (if pr_returned p GatewayServe = None \<and> (errors_Is err ErrServerClosed \<longrightarrow> pr_stopping p Http)
      then Some (returns GatewayServe (gateway_serve (Some err)) p) else None)"
| "life_next p (Serve Grpc r) =
     (if pr_returned p GrpcServe = None \<and> (grpc_serve r = None \<longrightarrow> pr_stopping p Grpc)
      then Some (returns GrpcServe (grpc_serve r) p) else None)"
| "life_next p (Stop s) =
     (if ctx_done p \<and> \<not> pr_stopping p s then Some (p\<lparr>pr_stopping := (pr_stopping p)(s := True)\<rparr>) else None)"
| "life_next p (Stopped Http r) =
     (if pr_stopping p Http \<and> pr_active p Http = 0 \<and> pr_returned p GatewayShutdown = None
      then Some (returns GatewayShutdown (gateway_shutdown r) p) else None)"
| "life_next p (Stopped Grpc None) =
     (if pr_stopping p Grpc \<and> pr_active p Grpc = 0 \<and> pr_returned p GrpcShutdown = None
      then Some (returns GrpcShutdown None p) else None)"
| "life_next p (Stopped Processor None) =
     (if pr_stopping p Processor \<and> pr_returned p ProcessorShutdown = None
      then Some (returns ProcessorShutdown None (p\<lparr>pr_active := (pr_active p)(Processor := 0)\<rparr>)) else None)"
| "life_next p _ = None"

lemma life_next_step: "life_next p l = Some q \<Longrightarrow> life_step p l q"
  by (induction p l rule: life_next.induct) (auto split: if_splits nat.splits intro: life_step.intros)

fun life_exec :: "process \<Rightarrow> life_event list \<Rightarrow> process option" where
  "life_exec p [] = Some p"
| "life_exec p (l # ls) = (case life_next p l of None \<Rightarrow> None | Some q \<Rightarrow> life_exec q ls)"

lemma life_run_exec: "life_run p ms q \<Longrightarrow> life_exec q ls = Some r \<Longrightarrow> life_run p (ms @ ls) r"
proof (induction ls arbitrary: ms q)
  case (Cons l ls)
  then obtain q' where "life_step q l q'" "life_exec q' ls = Some r"
    by (auto split: option.splits dest: life_next_step)
  with Cons show ?case using life_run.more by fastforce
qed simp

lemma life_exec_run: "life_exec p ls = Some q \<Longrightarrow> life_run p ls q"
  using life_run_exec [OF life_run.none] by fastforce

theorem shutdown_is_graceful_witness:
  "\<exists>p. life_run started failing_run p \<and> main_result p = Some (Inl (Fatal ''error from wait group'' ConnError)) \<and>
     pr_active p Http = 0 \<and> pr_stopping p Processor"
proof -
  have "map_option main_result (life_exec started failing_run) = Some (Some (Inl (Fatal ''error from wait group'' ConnError)))"
    by code_simp
  then obtain p where "life_exec started failing_run = Some p"
    and "main_result p = Some (Inl (Fatal ''error from wait group'' ConnError))" by auto
  with shutdown_is_graceful [OF life_exec_run] show ?thesis by (blast intro: life_exec_run)
qed

theorem shutdown_completes_witness:
  "\<exists>p q. life_run started [Accept Http, Signal] p \<and> life_run p [Stop Http, Stop Grpc] q \<and>
     2 \<le> work p \<and> main_result q = None \<and> (\<exists>l q'. life_step q l q' \<and> \<not> is_accept l)"
proof -
  have "map_option pr_signalled (life_exec started [Accept Http, Signal]) = Some True" by code_simp
  then obtain p where p: "life_exec started [Accept Http, Signal] = Some p" "pr_signalled p" by auto
  have "map_option main_result (Option.bind (life_exec started [Accept Http, Signal])
    (\<lambda>p. life_exec p [Stop Http, Stop Grpc])) = Some None" by code_simp
  with p obtain q where q: "life_exec p [Stop Http, Stop Grpc] = Some q" "main_result q = None" by auto
  from shutdown_completes [OF life_exec_run [OF p(1)] disjI1 [OF p(2)] life_exec_run [OF q(1)]] q(2)
  have "2 \<le> work p" "\<exists>l q'. life_step q l q' \<and> \<not> is_accept l" by simp_all
  with life_exec_run [OF p(1)] life_exec_run [OF q(1)] q(2) show ?thesis by blast
qed

end
