(* ===== verification/Concurrency.thy ===== *)
theory Concurrency
  imports Transfers "HOL-Library.Multiset"
begin

section \<open>Transfers at the same time (tx\_transfer.go)\<close>

text \<open>
  What \<^verbatim>\<open>TransferTx\<close> has its order of updates for: an \<^verbatim>\<open>UPDATE\<close> locks its row until the transaction ends, and
  waits while another one has it locked (the inserts before it take no lock that excludes another
  transfer). Several transfers run in any interleaving of their updates, commits and rollbacks; a state is
  the balances of the rows, uncommitted updates included, and how far each transfer is.
\<close>

subsection \<open>Steps\<close>

text \<open>The updates of a transfer in the code's order.\<close>

definition tx_updates :: "transfer_tx_params \<Rightarrow> (int64 \<times> int64) list" where
  "tx_updates arg =
     (if sint (tp_FromAccountID arg) < sint (tp_ToAccountID arg)
      then [(tp_FromAccountID arg, - tp_Amount arg), (tp_ToAccountID arg, tp_Amount arg)]
      else [(tp_ToAccountID arg, tp_Amount arg), (tp_FromAccountID arg, - tp_Amount arg)])"

text \<open>They are the calls of \<open>addMoney\<close> in \<open>transfer_body\<close>.\<close>

lemma tx_updates_code:
  "(if sint (tp_FromAccountID arg) < sint (tp_ToAccountID arg)
    then bindE (addMoney E q (tp_FromAccountID arg) (- tp_Amount arg) (tp_ToAccountID arg) (tp_Amount arg))
           (\<lambda>(fromAccount, toAccount). State_Monad.return (Inr (fromAccount, toAccount)))
    else bindE (addMoney E q (tp_ToAccountID arg) (tp_Amount arg) (tp_FromAccountID arg) (- tp_Amount arg))
           (\<lambda>(toAccount, fromAccount). State_Monad.return (Inr (fromAccount, toAccount)))) =
   bindE (addMoney E q (fst (tx_updates arg ! 0)) (snd (tx_updates arg ! 0)) (fst (tx_updates arg ! 1)) (snd (tx_updates arg ! 1)))
     (\<lambda>(account1, account2). State_Monad.return (Inr
        (if sint (tp_FromAccountID arg) < sint (tp_ToAccountID arg) then (account1, account2) else (account2, account1))))"
  by (simp add: tx_updates_def)

datatype progress = Running nat | Committed | RolledBack

type_synonym transaction = "transfer_tx_params \<times> progress"

record rows =
  row_balance :: "int64 \<Rightarrow> int"
  row_txs :: "transaction list"

fun applied :: "transaction \<Rightarrow> (int64 \<times> int64) list" where
  "applied (arg, Running n) = take n (tx_updates arg)"
| "applied (arg, Committed) = tx_updates arg"
| "applied (arg, RolledBack) = []"

fun locks :: "transaction \<Rightarrow> int64 list" where
  "locks (arg, Running n) = map fst (take n (tx_updates arg))"
| "locks (arg, _) = []"

definition sum_at :: "int64 \<Rightarrow> (int64 \<times> int64) list \<Rightarrow> int" where
  "sum_at i us = sum_list (map (\<lambda>(j, x). if j = i then sint x else 0) us)"

definition free_for :: "nat \<Rightarrow> int64 \<Rightarrow> rows \<Rightarrow> bool" where
  "free_for k i s \<longleftrightarrow> (\<forall>j < length (row_txs s). j \<noteq> k \<longrightarrow> i \<notin> set (locks (row_txs s ! j)))"

definition rolled_back :: "nat \<Rightarrow> rows \<Rightarrow> rows" where
  "rolled_back k s =
     \<lparr>row_balance = (\<lambda>i. row_balance s i - sum_at i (applied (row_txs s ! k))),
      row_txs = (row_txs s)[k := (fst (row_txs s ! k), RolledBack)]\<rparr>"

text \<open>The steps transactions do of themselves; a sum that leaves \<open>bigint\<close> is an error and rolls back.\<close>

inductive work_step :: "rows \<Rightarrow> rows \<Rightarrow> bool" where
  update: "k < length (row_txs s) \<Longrightarrow> row_txs s ! k = (arg, Running n) \<Longrightarrow> n < 2 \<Longrightarrow> tx_updates arg ! n = (i, x) \<Longrightarrow>
    free_for k i s \<Longrightarrow> in_int64 (row_balance s i + sint x) \<Longrightarrow>
    work_step s \<lparr>row_balance = (row_balance s)(i := row_balance s i + sint x),
      row_txs = (row_txs s)[k := (arg, Running (Suc n))]\<rparr>"
| overflow: "k < length (row_txs s) \<Longrightarrow> row_txs s ! k = (arg, Running n) \<Longrightarrow> n < 2 \<Longrightarrow> tx_updates arg ! n = (i, x) \<Longrightarrow>
    free_for k i s \<Longrightarrow> \<not> in_int64 (row_balance s i + sint x) \<Longrightarrow> work_step s (rolled_back k s)"
| commit: "k < length (row_txs s) \<Longrightarrow> row_txs s ! k = (arg, Running 2) \<Longrightarrow>
    work_step s (s\<lparr>row_txs := (row_txs s)[k := (arg, Committed)]\<rparr>)"

text \<open>A transaction can also be cut off at any time: its connection breaks, its request is cancelled.\<close>

inductive conc_step :: "rows \<Rightarrow> rows \<Rightarrow> bool" where
  work: "work_step s s' \<Longrightarrow> conc_step s s'"
| cut: "k < length (row_txs s) \<Longrightarrow> row_txs s ! k = (arg, Running n) \<Longrightarrow> conc_step s (rolled_back k s)"

inductive_cases work_stepE: "work_step s s'"
inductive_cases conc_stepE: "conc_step s s'"

definition all_started :: "(int64 \<Rightarrow> int) \<Rightarrow> transfer_tx_params list \<Rightarrow> rows" where
  "all_started b args = \<lparr>row_balance = b, row_txs = map (\<lambda>a. (a, Running 0)) args\<rparr>"

inductive conc_reach :: "(int64 \<Rightarrow> int) \<Rightarrow> transfer_tx_params list \<Rightarrow> rows \<Rightarrow> bool" for b args where
  start: "conc_reach b args (all_started b args)"
| step: "conc_reach b args s \<Longrightarrow> conc_step s s' \<Longrightarrow> conc_reach b args s'"

fun is_running :: "transaction \<Rightarrow> bool" where
  "is_running (arg, Running n) = True"
| "is_running _ = False"

definition all_ended :: "rows \<Rightarrow> bool" where
  "all_ended s \<longleftrightarrow> list_all (\<lambda>t. \<not> is_running t) (row_txs s)"

subsection \<open>No deadlock\<close>

fun tx_left :: "transaction \<Rightarrow> nat" where
  "tx_left (arg, Running n) = 3 - n"
| "tx_left _ = 0"

definition steps_left :: "rows \<Rightarrow> nat" where
  "steps_left s = sum_list (map tx_left (row_txs s))"

lemma steps_left_update:
  assumes "k < length ts" "tx_left t < tx_left (ts ! k)"
  shows "sum_list (map tx_left (ts[k := t])) < sum_list (map tx_left ts)"
  using assms by (induction ts arbitrary: k) (auto split: nat.splits simp: nth_Cons')

text \<open>Nobody runs past the second update, and nobody changes its parameters.\<close>

definition rows_ok :: "transfer_tx_params list \<Rightarrow> rows \<Rightarrow> bool" where
  "rows_ok args s \<longleftrightarrow> map fst (row_txs s) = args \<and> (\<forall>t \<in> set (row_txs s). \<forall>n. snd t = Running n \<longrightarrow> n \<le> 2)"

lemma rows_ok_update:
  assumes "rows_ok args s" "k < length (row_txs s)" "fst t = fst (row_txs s ! k)" "\<And>n. snd t = Running n \<Longrightarrow> n \<le> 2"
    and "row_txs s' = (row_txs s)[k := t]"
  shows "rows_ok args s'"
proof -
  have "map fst ((row_txs s)[k := t]) = map fst (row_txs s)"
    using assms(2,3) by (simp add: map_update list_update_same_conv)
  then show ?thesis
    using assms by (auto simp: rows_ok_def dest!: set_update_subset_insert [THEN subsetD])
qed

lemma length_tx_updates [simp]: "length (tx_updates arg) = 2"
  by (simp add: tx_updates_def)

lemma locks_Suc: "n < 2 \<Longrightarrow> tx_updates arg ! n = (i, x) \<Longrightarrow> set (locks (arg, Running (Suc n))) = insert i (set (locks (arg, Running n)))"
  by (simp add: take_Suc_conv_app_nth)

lemma applied_Suc: "n < 2 \<Longrightarrow> tx_updates arg ! n = (i, x) \<Longrightarrow> applied (arg, Running (Suc n)) = applied (arg, Running n) @ [(i, x)]"
  by (simp add: take_Suc_conv_app_nth)

text \<open>What a step does to one transaction and to the balances.\<close>

lemma conc_step_cases:
  assumes "conc_step s s'"
  obtains (tx) k arg n t where "k < length (row_txs s)" "row_txs s ! k = (arg, Running n)" "row_txs s' = (row_txs s)[k := t]"
    "fst t = arg" "\<And>m. snd t = Running m \<Longrightarrow> m \<le> 2" "n \<le> 2 \<Longrightarrow> tx_left t < tx_left (arg, Running n)"
    "set (locks t) \<subseteq> set (locks (arg, Running n)) \<or> (\<exists>i. free_for k i s \<and> set (locks t) = insert i (set (locks (arg, Running n))))"
    "\<And>i. row_balance s' i = row_balance s i - sum_at i (applied (arg, Running n)) + sum_at i (applied t)"
  using assms
proof cases
  case work
  then show thesis
  proof cases
    case (update k arg n i x)
    then show thesis
      by (intro tx [of k arg n "(arg, Running (Suc n))"])
        (auto simp: locks_Suc applied_Suc sum_at_def simp del: locks.simps applied.simps)
  next
    case (overflow k arg n i x)
    then show thesis by (intro tx [of k arg n "(arg, RolledBack)"]) (auto simp: rolled_back_def sum_at_def)
  next
    case (commit k arg)
    then show thesis by (intro tx [of k arg 2 "(arg, Committed)"]) auto
  qed
next
  case (cut k arg n)
  then show thesis by (intro tx [of k arg n "(arg, RolledBack)"]) (auto simp: rolled_back_def sum_at_def)
qed

lemma conc_step_ok: "conc_step s s' \<Longrightarrow> rows_ok args s \<Longrightarrow> rows_ok args s'"
  by (erule conc_step_cases) (rule rows_ok_update; simp)

lemma conc_reach_ok: "conc_reach b args s \<Longrightarrow> rows_ok args s"
proof (induction rule: conc_reach.induct)
  case start
  show ?case by (auto simp: all_started_def rows_ok_def comp_def)
qed (rule conc_step_ok)

lemma conc_step_left:
  assumes "conc_step s s'" "rows_ok args s"
  shows "steps_left s' < steps_left s"
  using assms(1)
proof (cases rule: conc_step_cases)
  case (tx k arg n t)
  have "n \<le> 2" using assms(2) tx(1,2) by (metis nth_mem rows_ok_def snd_conv)
  with tx(1,2,3,6) show ?thesis by (simp add: steps_left_def steps_left_update)
qed

text \<open>A row is locked by one transaction at a time.\<close>

definition exclusive :: "rows \<Rightarrow> bool" where
  "exclusive s \<longleftrightarrow> (\<forall>k < length (row_txs s). \<forall>i \<in> set (locks (row_txs s ! k)). free_for k i s)"

lemma conc_step_exclusive:
  assumes "conc_step s s'" "exclusive s"
  shows "exclusive s'"
  using assms(1)
proof (cases rule: conc_step_cases)
  case (tx k arg n t)
  have old: "i \<notin> set (locks (row_txs s ! l))"
    if "j < length (row_txs s)" "l < length (row_txs s)" "l \<noteq> j" "i \<in> set (locks (row_txs s ! j))" for i j l
    using assms(2) that unfolding exclusive_def free_for_def by blast
  have new: "i \<notin> set (locks t)" if "j < length (row_txs s)" "j \<noteq> k" "i \<in> set (locks (row_txs s ! j))" for i j
  proof
    assume "i \<in> set (locks t)"
    then have "i \<in> set (locks (row_txs s ! k)) \<or> free_for k i s" unfolding tx(2) using tx(7) by (auto simp del: locks.simps)
    then show False
    proof
      assume "i \<in> set (locks (row_txs s ! k))"
      with old [of j k i] that tx(1) show False by blast
    next
      assume "free_for k i s"
      with that show False by (simp add: free_for_def)
    qed
  qed
  have "i \<notin> set (locks (row_txs s' ! l))"
    if "j < length (row_txs s)" "i \<in> set (locks (row_txs s' ! j))" "l < length (row_txs s)" "l \<noteq> j" for i j l
  proof (cases "l = k")
    case True
    then have "row_txs s' ! l = t" "row_txs s' ! j = row_txs s ! j" using that tx(1) by (simp_all add: tx(3))
    then show ?thesis using that new [of j i] True by simp
  next
    case False
    then have "row_txs s' ! l = row_txs s ! l" by (simp add: tx(3))
    moreover have "j \<noteq> k \<Longrightarrow> row_txs s' ! j = row_txs s ! j" by (simp add: tx(3))
    moreover have "row_txs s' ! k = t" using tx(1) by (simp add: tx(3))
    ultimately show ?thesis using that old [of j l i] new [of l i] False by (cases "j = k") metis+
  qed
  then show ?thesis by (simp add: exclusive_def free_for_def tx(3))
qed

lemma conc_reach_exclusive: "conc_reach b args s \<Longrightarrow> exclusive s"
proof (induction rule: conc_reach.induct)
  case start
  show ?case by (auto simp: exclusive_def all_started_def)
qed (rule conc_step_exclusive)

text \<open>The second update of a transfer is of an account with a number that is not smaller.\<close>

lemma updates_ascend: "sint (fst (tx_updates arg ! 0)) \<le> sint (fst (tx_updates arg ! 1))"
  by (simp add: tx_updates_def)

definition wanted :: "transaction \<Rightarrow> int64" where
  "wanted t = (case snd t of Running n \<Rightarrow> fst (tx_updates (fst t) ! n) | _ \<Rightarrow> 0)"

definition ready :: "nat \<Rightarrow> rows \<Rightarrow> bool" where
  "ready k s \<longleftrightarrow> k < length (row_txs s) \<and>
     (\<exists>arg n. row_txs s ! k = (arg, Running n) \<and> (n = 2 \<or> n < 2 \<and> free_for k (wanted (arg, Running n)) s))"

lemma ready_works:
  assumes "ready k s"
  shows "\<exists>s'. work_step s s'"
proof -
  from assms obtain arg n where k: "k < length (row_txs s)" "row_txs s ! k = (arg, Running n)"
    "n = 2 \<or> n < 2 \<and> free_for k (wanted (arg, Running n)) s" by (auto simp: ready_def)
  obtain i x where u: "tx_updates arg ! n = (i, x)" by fastforce
  from k(3) show ?thesis
  proof
    assume "n = 2"
    with k show ?thesis by (blast intro: work_step.commit)
  next
    assume n: "n < 2 \<and> free_for k (wanted (arg, Running n)) s"
    then have "free_for k i s" by (simp add: wanted_def u)
    with k(1,2) u n show ?thesis
      by (cases "in_int64 (row_balance s i + sint x)") (blast intro: work_step.update work_step.overflow)+
  qed
qed

text \<open>Who holds a lock and is not ready has done its first update and holds nothing else.\<close>

lemma holder:
  assumes "rows_ok args s" "j < length (row_txs s)" "i \<in> set (locks (row_txs s ! j))" "\<not> ready j s"
  shows "\<exists>arg. row_txs s ! j = (arg, Running 1) \<and> i = fst (tx_updates arg ! 0)"
proof -
  obtain arg n where j: "row_txs s ! j = (arg, Running n)"
    using assms(3) by (cases "row_txs s ! j" rule: locks.cases) auto
  then have "n \<le> 2" "n \<noteq> 2" using assms(1,2,4) nth_mem [OF assms(2)] by (auto simp: rows_ok_def ready_def)
  moreover have "n \<noteq> 0" using assms(3) j by (cases n) auto
  ultimately have "n = 1" by simp
  with assms(3) j show ?thesis by (auto simp: take_Suc_conv_app_nth)
qed

lemma not_stuck:
  assumes ok: "rows_ok args s" and ex: "exclusive s" and running: "\<not> all_ended s"
  shows "\<exists>k. ready k s"
proof (rule ccontr)
  assume "\<nexists>k. ready k s"
  then have stuck: "\<not> ready k s" for k by blast
  define B where "B = {k. k < length (row_txs s) \<and> (\<exists>arg. row_txs s ! k = (arg, Running 1))}"
  have blocked: "\<exists>j \<in> B. j \<noteq> k \<and> (\<exists>a. row_txs s ! j = (a, Running 1) \<and> wanted (row_txs s ! k) = fst (tx_updates a ! 0))"
    if k: "k < length (row_txs s)" "row_txs s ! k = (arg, Running n)" for k arg n
  proof -
    have "n \<le> 2" using ok k nth_mem [OF k(1)] by (auto simp: rows_ok_def)
    then have "\<not> free_for k (wanted (row_txs s ! k)) s" using stuck [of k] k by (auto simp: ready_def)
    then obtain j where "j < length (row_txs s)" "j \<noteq> k" "wanted (row_txs s ! k) \<in> set (locks (row_txs s ! j))"
      by (auto simp: free_for_def)
    with holder [OF ok _ _ stuck] show ?thesis by (fastforce simp: B_def)
  qed
  from running obtain k arg n where "k < length (row_txs s)" "row_txs s ! k = (arg, Running n)"
    by (auto simp: all_ended_def list_all_length elim!: is_running.elims)
  from blocked [OF this] have "B \<noteq> {}" by blast
  moreover have "finite B" by (simp add: B_def)
  ultimately obtain m where m: "m \<in> B" "\<And>j. j \<in> B \<Longrightarrow> sint (wanted (row_txs s ! j)) \<le> sint (wanted (row_txs s ! m))"
    using Max_in [of "(\<lambda>k. sint (wanted (row_txs s ! k))) ` B"] Max_ge [of "(\<lambda>k. sint (wanted (row_txs s ! k))) ` B"]
    by fastforce
  then obtain j a where j: "j \<in> B" "j \<noteq> m" "row_txs s ! j = (a, Running 1)" "wanted (row_txs s ! m) = fst (tx_updates a ! 0)"
    using blocked [of m] by (auto simp: B_def)
  have "sint (wanted (row_txs s ! j)) = sint (wanted (row_txs s ! m))"
    using m(2) [OF j(1)] updates_ascend [of a] j(3,4) by (simp add: wanted_def)
  then have same: "wanted (row_txs s ! j) = fst (tx_updates a ! 0)" using j(4) by (simp add: sint_inj)
  obtain l b where l: "l \<in> B" "l \<noteq> j" "row_txs s ! l = (b, Running 1)" "wanted (row_txs s ! j) = fst (tx_updates b ! 0)"
    using blocked [of j] j by (auto simp: B_def)
  have "fst (tx_updates a ! 0) \<in> set (locks (row_txs s ! j))" "fst (tx_updates a ! 0) \<in> set (locks (row_txs s ! l))"
    using j(3) l(3,4) same by (simp_all add: take_Suc_conv_app_nth)
  then show False using ex j(1) l(1,2) by (auto simp: exclusive_def free_for_def B_def)
qed

lemma runs_to_the_end:
  assumes "rows_ok args s" "exclusive s"
  shows "\<exists>s'. work_step\<^sup>*\<^sup>* s s' \<and> all_ended s'"
  using assms
proof (induction "steps_left s" arbitrary: s rule: less_induct)
  case less
  show ?case
  proof (cases "all_ended s")
    case False
    then obtain s1 where s1: "work_step s s1" using not_stuck [OF less.prems] ready_works by blast
    then have step: "conc_step s s1" by (rule conc_step.work)
    from less.hyps [OF conc_step_left [OF step less.prems(1)] conc_step_ok [OF step less.prems(1)]
        conc_step_exclusive [OF step less.prems(2)]]
    show ?thesis using s1 converse_rtranclp_into_rtranclp [of work_step] by metis
  qed auto
qed

text \<open>C7: Transfers at the same time never wait for each other for good: in every state that any number of them can
  reach, whatever the interleaving and whoever is cut off, some transfer can go on as long as one
  runs; no run is longer than the steps left say; and from every state all transfers can come to their end.\<close>

theorem transfers_end:
  assumes "conc_reach b args s"
  shows "(\<not> all_ended s \<longrightarrow> (\<exists>s'. work_step s s')) \<and>
    (\<forall>s'. conc_step s s' \<longrightarrow> steps_left s' < steps_left s) \<and> steps_left s \<le> 3 * length args \<and>
    (\<exists>s'. work_step\<^sup>*\<^sup>* s s' \<and> all_ended s')"
proof -
  note ok = conc_reach_ok [OF assms] and ex = conc_reach_exclusive [OF assms]
  have left: "sum_list (map tx_left ts) \<le> 3 * length ts" for ts
  proof (induction ts)
    case (Cons t ts)
    have "tx_left t \<le> 3" by (cases t rule: tx_left.cases) auto
    with Cons show ?case by simp
  qed simp
  have "length args = length (row_txs s)" using ok by (auto simp: rows_ok_def)
  with left [of "row_txs s"] have "steps_left s \<le> 3 * length args" by (simp add: steps_left_def)
  with not_stuck [OF ok ex] ready_works conc_step_left [OF _ ok] runs_to_the_end [OF ok ex] show ?thesis by blast
qed

text \<open>alice pays bob while bob pays alice.\<close>

definition crossing :: "transfer_tx_params list" where
  "crossing = [\<lparr>tp_FromAccountID = 1, tp_ToAccountID = 2, tp_Amount = 10\<rparr>,
     \<lparr>tp_FromAccountID = 2, tp_ToAccountID = 1, tp_Amount = 20\<rparr>]"

theorem transfers_end_witness:
  "\<exists>s. work_step\<^sup>*\<^sup>* (all_started (\<lambda>_. 100) crossing) s \<and> all_ended s"
  using transfers_end [OF conc_reach.start] by blast

end
