(* ===== verification/Serializable.thy ===== *)
theory Serializable
  imports Concurrency TransferProps
begin

section \<open>Transfers at the same time and one after the other (tx\_transfer.go)\<close>

text \<open>
  What the interleaved updates of \<open>Concurrency\<close> come to: the balances that runs of \<open>TransferTx\<close> leave, one after
  the other, in the order in which the transfers committed. Each transfer has its two rows locked from its
  updates to its commit, so the sums it computed are those it computes on the balances the
  transfers committed before it have left; in another order a sum could leave \<open>bigint\<close>.
\<close>

subsection \<open>Updates on given balances\<close>

fun fits_from :: "(int64 \<Rightarrow> int) \<Rightarrow> (int64 \<times> int64) list \<Rightarrow> bool" where
  "fits_from c [] = True"
| "fits_from c ((i, x) # us) = (in_int64 (c i + sint x) \<and> fits_from (c(i := c i + sint x)) us)"

lemma sum_at_simps [simp]:
  "sum_at i [] = 0" "sum_at i (u # us) = (if fst u = i then sint (snd u) else 0) + sum_at i us"
  "sum_at i (us @ vs) = sum_at i us + sum_at i vs"
  by (simp_all add: sum_at_def split: prod.splits)

lemma sum_at_none: "i \<notin> fst ` set us \<Longrightarrow> sum_at i us = 0"
  by (induction us) auto

lemma fits_from_snoc:
  "fits_from c (us @ [(i, x)]) \<longleftrightarrow> fits_from c us \<and> in_int64 (c i + sum_at i us + sint x)"
proof (induction c us rule: fits_from.induct)
  case (2 c j y us)
  have "(c(j := c j + sint y)) i + sum_at i us + sint x = c i + sum_at i ((j, y) # us) + sint x" by simp
  with 2 show ?case by (simp del: sum_at_simps(2) fun_upd_apply)
qed simp

lemma fits_from_cong: "(\<And>i. i \<in> fst ` set us \<Longrightarrow> c i = c' i) \<Longrightarrow> fits_from c us = fits_from c' us"
proof (induction us arbitrary: c c')
  case (Cons u us)
  obtain i x where u: "u = (i, x)" by fastforce
  have "fits_from (c(i := c i + sint x)) us = fits_from (c'(i := c' i + sint x)) us"
    by (rule Cons.IH) (use Cons.prems [of i] Cons.prems in \<open>auto simp: u\<close>)
  then show ?case using Cons.prems [of i] by (simp add: u)
qed simp

text \<open>What a list of transfers adds to a row, and that each of them fits where the ones before it have got to.\<close>

definition paid :: "transfer_tx_params list \<Rightarrow> int64 \<Rightarrow> int" where
  "paid args i = sum_list (map (\<lambda>arg. sum_at i (tx_updates arg)) args)"

fun fits_in_turn :: "(int64 \<Rightarrow> int) \<Rightarrow> transfer_tx_params list \<Rightarrow> bool" where
  "fits_in_turn c [] = True"
| "fits_in_turn c (arg # args) =
     (fits_from c (tx_updates arg) \<and> fits_in_turn (\<lambda>i. c i + sum_at i (tx_updates arg)) args)"

lemma paid_simps [simp]:
  "paid [] i = 0" "paid (arg # args) i = sum_at i (tx_updates arg) + paid args i" "paid (as @ bs) i = paid as i + paid bs i"
  by (simp_all add: paid_def)

lemma paid_mset: "mset as = mset bs \<Longrightarrow> paid as i = paid bs i"
  unfolding paid_def by (metis mset_map sum_mset_sum_list)

lemma fits_in_turn_snoc:
  "fits_in_turn c (args @ [arg]) \<longleftrightarrow> fits_in_turn c args \<and> fits_from (\<lambda>i. c i + paid args i) (tx_updates arg)"
  by (induction c args rule: fits_in_turn.induct) (simp_all add: add.assoc)

subsection \<open>The committed transfers\<close>

definition committed :: "transaction list \<Rightarrow> transfer_tx_params list" where
  "committed ts = map fst (filter (\<lambda>t. snd t = Committed) ts)"

lemma filter_update_same: "k < length xs \<Longrightarrow> \<not> P (xs ! k) \<Longrightarrow> \<not> P y \<Longrightarrow> filter P (xs[k := y]) = filter P xs"
  by (induction xs arbitrary: k) (auto split: nat.splits)

lemma filter_update_new:
  "k < length xs \<Longrightarrow> \<not> P (xs ! k) \<Longrightarrow> P y \<Longrightarrow> mset (filter P (xs[k := y])) = add_mset y (mset (filter P xs))"
  by (induction xs arbitrary: k) (auto split: nat.splits)

lemma committed_same:
  "k < length ts \<Longrightarrow> ts ! k = (arg, Running n) \<Longrightarrow> snd t \<noteq> Committed \<Longrightarrow> committed (ts[k := t]) = committed ts"
  by (simp add: committed_def filter_update_same)

lemma committed_new:
  "k < length ts \<Longrightarrow> ts ! k = (arg, Running n) \<Longrightarrow>
     mset (committed (ts[k := (arg, Committed)])) = add_mset arg (mset (committed ts))"
  using filter_update_new [of k ts "\<lambda>t. snd t = Committed" "(arg, Committed)"] by (simp add: committed_def del: mset_filter)

text \<open>The balances as far as they are committed; a row nobody else has locked has this balance and one's own updates.\<close>

definition settled_balance :: "(int64 \<Rightarrow> int) \<Rightarrow> rows \<Rightarrow> int64 \<Rightarrow> int" where
  "settled_balance b s i = b i + paid (committed (row_txs s)) i"

definition effects :: "int64 \<Rightarrow> transaction list \<Rightarrow> int" where
  "effects i ts = sum_list (map (\<lambda>t. sum_at i (applied t)) ts)"

lemma effects_update:
  "k < length ts \<Longrightarrow> effects i (ts[k := t]) = effects i ts - sum_at i (applied (ts ! k)) + sum_at i (applied t)"
  unfolding effects_def by (induction ts arbitrary: k) (auto split: nat.splits simp: nth_Cons')

lemma conc_reach_balance: "conc_reach b args s \<Longrightarrow> row_balance s i = b i + effects i (row_txs s)"
proof (induction rule: conc_reach.induct)
  case start
  have "effects i (map (\<lambda>a. (a, Running 0)) args) = 0" by (induction args) (simp_all add: effects_def)
  then show ?case by (simp add: all_started_def)
next
  case (step s s')
  from step.hyps(2) show ?case
  proof (cases rule: conc_step_cases)
    case (tx k arg n t)
    then show ?thesis using step.IH by (simp add: effects_update del: applied.simps)
  qed
qed

definition pending :: "int64 \<Rightarrow> transaction \<Rightarrow> int" where
  "pending i t = (if is_running t then sum_at i (applied t) else 0)"

lemma effects_split: "effects i ts = paid (committed ts) i + sum_list (map (pending i) ts)"
proof (induction ts)
  case (Cons t ts)
  then show ?case by (cases t rule: applied.cases) (simp_all add: effects_def committed_def pending_def)
qed (simp add: effects_def committed_def)

lemma pending_unlocked: "i \<notin> set (locks t) \<Longrightarrow> pending i t = 0"
  by (cases t rule: applied.cases) (auto simp: pending_def intro: sum_at_none)

lemma sum_list_only:
  "k < length xs \<Longrightarrow> (\<And>j. j < length xs \<Longrightarrow> j \<noteq> k \<Longrightarrow> f (xs ! j) = (0::int)) \<Longrightarrow> sum_list (map f xs) = f (xs ! k)"
  by (subst sum_list_sum_nth) (simp, subst sum.remove [of _ k], auto)

lemma own_row:
  assumes "conc_reach b args s" "k < length (row_txs s)" "row_txs s ! k = (arg, Running n)" "free_for k i s"
  shows "row_balance s i = settled_balance b s i + sum_at i (take n (tx_updates arg))"
proof -
  have "sum_list (map (pending i) (row_txs s)) = pending i (row_txs s ! k)"
    using assms(2,4) by (intro sum_list_only pending_unlocked) (auto simp: free_for_def)
  then show ?thesis
    using assms(3) by (simp add: conc_reach_balance [OF assms(1)] effects_split settled_balance_def pending_def)
qed

subsection \<open>The order of the commits\<close>

text \<open>Transfers that have committed fit one after the other, in some order, and what a running one has done fits
  after them.\<close>

definition in_order :: "(int64 \<Rightarrow> int) \<Rightarrow> rows \<Rightarrow> transfer_tx_params list \<Rightarrow> bool" where
  "in_order b s order \<longleftrightarrow> mset order = mset (committed (row_txs s)) \<and> fits_in_turn b order \<and>
     (\<forall>k arg n. k < length (row_txs s) \<and> row_txs s ! k = (arg, Running n) \<longrightarrow>
        fits_from (settled_balance b s) (take n (tx_updates arg)))"

text \<open>Steps that commit nothing.\<close>

lemma in_order_same:
  assumes inv: "in_order b s order" and k: "k < length (row_txs s)" "row_txs s ! k = (arg, Running n)"
    and t: "row_txs s' = (row_txs s)[k := (arg, st)]" "st \<noteq> Committed"
    and fits: "\<And>m. st = Running m \<Longrightarrow> fits_from (settled_balance b s) (take m (tx_updates arg))"
  shows "in_order b s' order"
proof -
  have same: "committed ((row_txs s)[k := (arg, st)]) = committed (row_txs s)" using committed_same [OF k] t(2) by simp
  then have "settled_balance b s' = settled_balance b s" by (simp add: settled_balance_def t(1) fun_eq_iff)
  moreover have "fits_from (settled_balance b s) (take m (tx_updates a))"
    if "j < length (row_txs s)" "row_txs s' ! j = (a, Running m)" for j a m
    using that inv t fits k(1) by (cases "j = k") (auto simp: in_order_def)
  ultimately show ?thesis using inv same by (auto simp: in_order_def t(1))
qed

text \<open>A commit: the locks of the others are on other rows.\<close>

lemma in_order_commit:
  assumes inv: "in_order b s order" and ex: "exclusive s"
    and k: "k < length (row_txs s)" "row_txs s ! k = (arg, Running 2)"
    and t: "row_txs s' = (row_txs s)[k := (arg, Committed)]"
  shows "in_order b s' (order @ [arg])"
proof -
  have new: "mset (committed (row_txs s')) = mset (order @ [arg])"
    using committed_new [OF k] inv by (simp add: t in_order_def)
  then have paid': "paid (committed (row_txs s')) i = paid order i + sum_at i (tx_updates arg)" for i
    using paid_mset [of "committed (row_txs s')" "order @ [arg]" i] by simp
  have bal: "settled_balance b s = (\<lambda>i. b i + paid order i)"
    using inv paid_mset [of order "committed (row_txs s)"] by (simp add: settled_balance_def in_order_def fun_eq_iff)
  have "fits_from (settled_balance b s) (tx_updates arg)"
    using inv k unfolding in_order_def by (metis length_tx_updates order_refl take_all)
  then have "fits_in_turn b (order @ [arg])" using inv by (simp add: fits_in_turn_snoc bal in_order_def)
  moreover have "fits_from (settled_balance b s') (take m (tx_updates a))"
    if j: "j < length (row_txs s')" "row_txs s' ! j = (a, Running m)" for j a m
  proof -
    have "j \<noteq> k" using j t k(1) by auto
    then have other: "j < length (row_txs s)" "row_txs s ! j = (a, Running m)" using j t by simp_all
    have "sum_at i (tx_updates arg) = 0" if "i \<in> fst ` set (take m (tx_updates a))" for i
    proof (rule sum_at_none)
      have "i \<in> set (locks (row_txs s ! j))" using that other(2) by simp
      then have "i \<notin> set (locks (row_txs s ! k))"
        using ex other(1) k(1) \<open>j \<noteq> k\<close> unfolding exclusive_def free_for_def by blast
      then show "i \<notin> fst ` set (tx_updates arg)" using k(2) by simp
    qed
    then have "fits_from (settled_balance b s') (take m (tx_updates a)) = fits_from (settled_balance b s) (take m (tx_updates a))"
      by (intro fits_from_cong) (simp add: bal, simp add: settled_balance_def paid')
    moreover have "fits_from (settled_balance b s) (take m (tx_updates a))" using inv other by (auto simp: in_order_def)
    ultimately show ?thesis by simp
  qed
  ultimately show ?thesis using new by (auto simp: in_order_def)
qed

lemma conc_reach_in_order: "conc_reach b args s \<Longrightarrow> \<exists>order. in_order b s order"
proof (induction rule: conc_reach.induct)
  case start
  have "in_order b (all_started b args) []"
    by (auto simp: in_order_def all_started_def committed_def filter_map comp_def)
  then show ?case ..
next
  case (step s s')
  then obtain order where inv: "in_order b s order" by blast
  from step.hyps(2) show ?case
  proof cases
    case work
    then show ?thesis
    proof cases
      case (update k arg n i x)
      have "settled_balance b s i + sum_at i (take n (tx_updates arg)) = row_balance s i"
        using own_row [OF step.hyps(1) update(2,3,6)] by simp
      then have "fits_from (settled_balance b s) (take (Suc n) (tx_updates arg))"
        using inv update by (simp add: take_Suc_conv_app_nth fits_from_snoc in_order_def)
      then have "in_order b s' order"
        using update by (intro in_order_same [OF inv update(2,3)]) auto
      then show ?thesis ..
    next
      case (overflow k arg n i x)
      then have "in_order b s' order" by (intro in_order_same [OF inv overflow(2,3)]) (auto simp: rolled_back_def)
      then show ?thesis ..
    next
      case (commit k arg)
      then have "in_order b s' (order @ [arg])"
        by (intro in_order_commit [OF inv conc_reach_exclusive [OF step.hyps(1)] commit(2,3)]) simp
      then show ?thesis ..
    qed
  next
    case (cut k arg n)
    then have "in_order b s' order" by (intro in_order_same [OF inv cut(2,3)]) (auto simp: rolled_back_def)
    then show ?thesis ..
  qed
qed

lemma ended_balance:
  assumes "conc_reach b args s" "all_ended s"
  shows "row_balance s i = settled_balance b s i"
proof -
  have "pending i t = 0" if "t \<in> set (row_txs s)" for t
    using assms(2) that by (auto simp: pending_def all_ended_def list_all_iff)
  then have "sum_list (map (pending i) (row_txs s)) = 0" by (simp add: sum_list_0 cong: map_cong)
  then show ?thesis by (simp add: conc_reach_balance [OF assms(1)] effects_split settled_balance_def)
qed

subsection \<open>Runs of TransferTx, one after the other\<close>

text \<open>The answers of the runs; \<open>transfers_in_turn\<close> has what they leave.\<close>

fun transfer_answers :: "env \<Rightarrow> transfer_tx_params list \<Rightarrow> world \<Rightarrow> transfer_tx_result result list" where
  "transfer_answers E [] w = []"
| "transfer_answers E (arg # args) w =
     fst (run_state (TransferTx E arg) w) # transfer_answers E args (snd (run_state (TransferTx E arg) w))"

definition shows_balances :: "(int64 \<Rightarrow> int) \<Rightarrow> database \<Rightarrow> bool" where
  "shows_balances c d \<longleftrightarrow> (\<forall>a \<in> set (accounts d). sint (a_Balance a) = c (a_ID a))"

lemma fits_from_transfer_fits:
  assumes "shows_balances c d" "fits_from c (tx_updates arg)" "0 < sint (tp_Amount arg)"
  shows "transfer_fits arg d"
  unfolding transfer_fits_def
proof
  fix a assume "a \<in> set (accounts d)"
  then have a: "c (a_ID a) = sint (a_Balance a)" using assms(1) by (simp add: shows_balances_def)
  note range = in_int64_sint [of "a_Balance a"]
  show "in_int64 (sint (a_Balance a) + amount_to arg (a_ID a)) \<and>
      (a_ID a = tp_FromAccountID arg \<and> tp_FromAccountID arg = tp_ToAccountID arg \<longrightarrow>
        in_int64 (sint (a_Balance a) + sint (tp_Amount arg)))"
    using assms(2) a range sint_neg_pos [OF less_imp_le [OF assms(3)]]
    by (auto simp: tx_updates_def amount_to_def split: if_splits)
qed

lemma amount_to_updates: "0 < sint (tp_Amount arg) \<Longrightarrow> sum_at i (tx_updates arg) = amount_to arg i"
  by (auto simp: tx_updates_def amount_to_def sint_neg_pos)

lemma transfer_seqs:
  assumes ok: "schema_ok (db w)" and pos: "0 < sint (tp_Amount arg)" and run: "run_state (TransferTx E arg) w = (Inr res, w')"
  shows "seq_transfers (db w') = Suc (seq_transfers (db w)) \<and> seq_entries (db w') = Suc (Suc (seq_entries (db w)))"
proof -
  have ids: "distinct (map a_ID (accounts (db (w\<lparr>tick := Suc (tick w)\<rparr>))))"
    using ok by (auto simp: schema_ok_def dest: serial_distinct)
  from run [unfolded TransferTx_def] show ?thesis
    by (cases rule: execTx_cases) (use transfer_body_InrD [OF _ ids sint_neg_pos [OF less_imp_le [OF pos]]] in auto)
qed

text \<open>Transfers that fit one after the other all succeed.\<close>

lemma serial_run:
  assumes calm: "calm_db E" and ok: "world_ok w" and start: "shows_balances c (db w)"
    and args: "\<forall>arg \<in> set order. 0 < sint (tp_Amount arg) \<and> tp_FromAccountID arg \<in> account_ids (db w) \<and>
      tp_ToAccountID arg \<in> account_ids (db w)"
    and seqs: "int (seq_transfers (db w) + length order) < 2 ^ 63" "int (seq_entries (db w) + 2 * length order) < 2 ^ 63"
    and fits: "fits_in_turn c order"
  shows "list_all (\<lambda>r. \<not> isl r) (transfer_answers E order w) \<and>
    map a_ID (accounts (db (transfers_in_turn E order w))) = map a_ID (accounts (db w)) \<and>
    shows_balances (\<lambda>i. c i + paid order i) (db (transfers_in_turn E order w))"
  using ok start args seqs fits
proof (induction order arbitrary: w c)
  case (Cons arg order)
  obtain r w1 where run: "run_state (TransferTx E arg) w = (r, w1)" by fastforce
  have pos: "0 < sint (tp_Amount arg)" and seq: "int (Suc (seq_transfers (db w))) < 2 ^ 63" "int (Suc (Suc (seq_entries (db w)))) < 2 ^ 63"
    and known: "True \<longleftrightarrow> tp_FromAccountID arg \<in> account_ids (db w) \<and> tp_ToAccountID arg \<in> account_ids (db w)"
    using Cons.prems(3-5) by simp_all
  have "transfer_fits arg (db w)" using fits_from_transfer_fits [OF Cons.prems(2) _ pos] Cons.prems(6) by simp
  with transfer_calm [OF Cons.prems(1) calm pos seq known run] obtain res
    where tr: "transferred arg (db w) (db w1)" and r: "r = Inr res" by auto
  have accs: "accounts (db w1) = map (credit arg) (accounts (db w))" using tr by (simp add: transferred_def)
  then have ids: "map a_ID (accounts (db w1)) = map a_ID (accounts (db w))" by (simp add: comp_def)
  then have known1: "account_ids (db w1) = account_ids (db w)" unfolding account_ids_def by (metis set_map)
  have ok1: "world_ok w1" using keepsD [OF keeps_since_world_ok [OF keeps_TransferTx] run Cons.prems(1)] .
  have bal: "shows_balances (\<lambda>i. c i + sum_at i (tx_updates arg)) (db w1)"
    using tr Cons.prems(2) by (auto simp: shows_balances_def accs amount_to_updates [OF pos] sint_credit transferred_def)
  have "schema_ok (db w)" using Cons.prems(1) by (simp add: world_ok_def)
  note seq1 = transfer_seqs [OF this pos run [unfolded r]]
  have "list_all (\<lambda>r. \<not> isl r) (transfer_answers E order w1) \<and>
      map a_ID (accounts (db (transfers_in_turn E order w1))) = map a_ID (accounts (db w1)) \<and>
      shows_balances (\<lambda>i. (c i + sum_at i (tx_updates arg)) + paid order i) (db (transfers_in_turn E order w1))"
    using Cons.IH [OF ok1 bal] Cons.prems(3-6) known1 seq1 by simp
  with run r ids show ?case by (simp add: add.assoc)
qed (simp add: shows_balances_def)

subsection \<open>The interleaving makes no difference\<close>

text \<open>C6: Interleaved transfers do what they do one after the other: when all have ended, whoever was cut off or
  rolled back, there is an order of exactly the committed ones in which runs of \<open>TransferTx\<close>, on the database the transfers
  started from and with nothing failing to get through, all succeed and leave the very balances the interleaving left.\<close>

theorem interleaving_is_serial:
  assumes reach: "conc_reach b args s" and ended: "all_ended s"
    and bank: "world_ok w" "calm_db E" "shows_balances b (db w)"
    and args: "\<forall>arg \<in> set args. 0 < sint (tp_Amount arg) \<and> tp_FromAccountID arg \<in> account_ids (db w) \<and>
      tp_ToAccountID arg \<in> account_ids (db w)"
    and seqs: "int (seq_transfers (db w) + length args) < 2 ^ 63" "int (seq_entries (db w) + 2 * length args) < 2 ^ 63"
  shows "\<exists>order. mset order = mset (committed (row_txs s)) \<and>
    list_all (\<lambda>r. \<not> isl r) (transfer_answers E order w) \<and>
    map a_ID (accounts (db (transfers_in_turn E order w))) = map a_ID (accounts (db w)) \<and>
    (\<forall>a \<in> set (accounts (db (transfers_in_turn E order w))). sint (a_Balance a) = row_balance s (a_ID a))"
proof -
  obtain order where order: "mset order = mset (committed (row_txs s))" "fits_in_turn b order"
    using conc_reach_in_order [OF reach] by (auto simp: in_order_def)
  have all: "map fst (row_txs s) = args" using conc_reach_ok [OF reach] by (simp add: rows_ok_def)
  have "set order = set (committed (row_txs s))" "length order = length (committed (row_txs s))"
    using order(1) by (metis set_mset_mset, metis size_mset)
  moreover have "set (committed (row_txs s)) \<subseteq> set args" "length (committed (row_txs s)) \<le> length args"
    using length_filter_le [of "\<lambda>t. snd t = Committed" "row_txs s"] by (auto simp: committed_def all [symmetric] image_iff)
  ultimately have "set order \<subseteq> set args" "length order \<le> length args" by simp_all
  then have "list_all (\<lambda>r. \<not> isl r) (transfer_answers E order w) \<and>
      map a_ID (accounts (db (transfers_in_turn E order w))) = map a_ID (accounts (db w)) \<and>
      shows_balances (\<lambda>i. b i + paid order i) (db (transfers_in_turn E order w))"
    using args seqs by (intro serial_run [OF bank(2,1,3)] order(2)) auto
  moreover have "row_balance s i = b i + paid order i" for i
    using ended_balance [OF reach ended] paid_mset [OF order(1)] by (simp add: settled_balance_def)
  ultimately show ?thesis using order(1) by (auto simp: shows_balances_def)
qed

text \<open>alice's payment goes through while bob's is cut off between its two updates.\<close>

definition sample_balances :: "int64 \<Rightarrow> int" where
  "sample_balances i = (if i = 1 then 100 else 50)"

lemma crossing_run:
  "\<exists>s. conc_reach sample_balances crossing s \<and> all_ended s \<and> committed (row_txs s) = [hd crossing]"
proof -
  let ?a = "crossing ! 0" and ?b = "crossing ! 1"
  let ?s0 = "all_started sample_balances crossing"
  let ?s1 = "\<lparr>row_balance = (row_balance ?s0)(1 := row_balance ?s0 1 + sint (20 :: int64)), row_txs = (row_txs ?s0)[1 := (?b, Running (Suc 0))]\<rparr>"
  let ?s2 = "rolled_back 1 ?s1"
  let ?s3 = "\<lparr>row_balance = (row_balance ?s2)(1 := row_balance ?s2 1 + sint (- 10 :: int64)), row_txs = (row_txs ?s2)[0 := (?a, Running (Suc 0))]\<rparr>"
  let ?s4 = "\<lparr>row_balance = (row_balance ?s3)(2 := row_balance ?s3 2 + sint (10 :: int64)), row_txs = (row_txs ?s3)[0 := (?a, Running (Suc 1))]\<rparr>"
  let ?s5 = "?s4\<lparr>row_txs := (row_txs ?s4)[0 := (?a, Committed)]\<rparr>"
  have u: "tx_updates ?b ! 0 = (1, 20)" "tx_updates ?a ! 0 = (1, - 10)" "tx_updates ?a ! 1 = (2, 10)" by code_simp+
  note defs = all_started_def crossing_def free_for_def in_int64_def rolled_back_def sample_balances_def
  have "work_step ?s0 ?s1" by (rule work_step.update [where k = 1 and n = 0]) (use u in \<open>auto simp: defs less_Suc_eq\<close>)
  moreover have "conc_step ?s1 ?s2" by (rule conc_step.cut [where k = 1 and n = 1]) (auto simp: defs)
  moreover have "work_step ?s2 ?s3"
    by (rule work_step.update [where s = ?s2 and k = 0 and n = 0 and arg = ?a and i = 1 and x = "- 10"]) (use u in \<open>auto simp: defs less_Suc_eq take_Suc_conv_app_nth\<close>)
  moreover have "work_step ?s3 ?s4"
    by (rule work_step.update [where s = ?s3 and k = 0 and n = 1 and arg = ?a and i = 2 and x = 10]) (use u in \<open>auto simp: defs less_Suc_eq take_Suc_conv_app_nth\<close>)
  moreover have "work_step ?s4 ?s5" by (rule work_step.commit [where k = 0]) (auto simp: defs eval_nat_numeral)
  ultimately have "conc_reach sample_balances crossing ?s5"
    by (meson conc_reach.intros conc_step.work)
  moreover have "all_ended ?s5" "committed (row_txs ?s5) = [hd crossing]"
    by (auto simp: defs all_ended_def committed_def)
  ultimately show ?thesis by blast
qed

theorem interleaving_is_serial_witness:
  "\<exists>s. conc_reach sample_balances crossing s \<and> all_ended s \<and>
     list_all (\<lambda>r. \<not> isl r) (transfer_answers sample_env [hd crossing] sample_world) \<and>
     (\<forall>a \<in> set (accounts (db (transfers_in_turn sample_env [hd crossing] sample_world))). sint (a_Balance a) = row_balance s (a_ID a)) \<and>
     map (\<lambda>a. sint (a_Balance a)) (accounts (db (transfers_in_turn sample_env [hd crossing] sample_world))) = [90, 60]"
proof -
  obtain s where s: "conc_reach sample_balances crossing s" "all_ended s" "committed (row_txs s) = [hd crossing]"
    using crossing_run by blast
  have calm: "calm_db sample_env" by (simp add: calm_db_def sample_env_def)
  have facts: "shows_balances sample_balances (db sample_world)"
    "\<forall>arg \<in> set crossing. 0 < sint (tp_Amount arg) \<and> tp_FromAccountID arg \<in> account_ids (db sample_world) \<and>
      tp_ToAccountID arg \<in> account_ids (db sample_world)"
    "int (seq_transfers (db sample_world) + length crossing) < 2 ^ 63"
    "int (seq_entries (db sample_world) + 2 * length crossing) < 2 ^ 63"
    "map (\<lambda>a. sint (a_Balance a)) (accounts (db (transfers_in_turn sample_env [hd crossing] sample_world))) = [90, 60]"
    by code_simp+
  have one: "order = [hd crossing]" if "mset order = mset [hd crossing]" for order
    using that by simp
  from interleaving_is_serial [OF s(1,2) sample_world_ok calm facts(1-4)] s facts(5) one show ?thesis by metis
qed

end
