(* ===== verification/LinkRace.thy ===== *)
theory LinkRace
  imports EmailProps Serializable
begin

section \<open>Links opened at the same time (tx\_verify\_email.go)\<close>

text \<open>
  Several transactions of \<^verbatim>\<open>VerifyEmailTx\<close> at once: a link clicked twice, two links of one user. Each of the
  two updates locks the row it writes until the transaction ends; who meets a locked row waits and then
  judges it as the other one left it. What a transaction writes is seen by the others when it commits. A state
  is what is committed, how far each call is, and the order of the commits.
\<close>

subsection \<open>The transaction\<close>

definition tx_link :: "verify_email_tx_params \<Rightarrow> update_verify_email_params" where
  "tx_link p = \<lparr>uv_ID = vp_EmailId p, uv_SecretCode = vp_SecretCode p\<rparr>"

definition verified_arg :: "gostring \<Rightarrow> update_user_params" where
  "verified_arg name =
     \<lparr>uu_HashedPassword = None, uu_PasswordChangedAt = None, uu_FullName = None, uu_Email = None,
      uu_IsEmailVerified = Some True, uu_Username = name\<rparr>"

definition verify_body :: "verify_email_tx_params \<Rightarrow> verify_email_tx_result stmt" where
  "verify_body p now d =
     (case sql_UpdateVerifyEmail (tx_link p) now d of
        (Inl e, d1) \<Rightarrow> (Inl e, d1)
      | (Inr ve, d1) \<Rightarrow>
          (case sql_UpdateUser (verified_arg (v_Username ve)) now d1 of
             (Inl e, d2) \<Rightarrow> (Inl e, d2)
           | (Inr u, d2) \<Rightarrow> (Inr \<lparr>vr_User = u, vr_VerifyEmail = ve\<rparr>, d2)))"

text \<open>It is what \<open>VerifyEmailTx\<close> does when nothing else runs and everything gets through.\<close>

lemma VerifyEmailTx_body:
  assumes "calm_db E"
  shows "fst (run_state (VerifyEmailTx E p) w) = fst (verify_body p (clock E (tick w)) (db w))"
    and "fst (run_state (VerifyEmailTx E p) w) = Inr r \<Longrightarrow>
      db (snd (run_state (VerifyEmailTx E p) w)) = snd (verify_body p (clock E (tick w)) (db w))"
  unfolding VerifyEmailTx_def execTx_calm [OF assms] verify_body_def tx_link_def verified_arg_def
  by (auto simp: run_bindE q_UpdateVerifyEmail_def q_UpdateUser_def run_query_calm [OF assms] split: prod.splits sum.splits)

subsection \<open>Interleaved calls\<close>

datatype stage = Begun | Marked time gostring | Ready time gostring | Done time | Failed

record race =
  rc_db :: database
  rc_calls :: "(verify_email_tx_params \<times> stage) list"
  rc_log :: "(verify_email_tx_params \<times> time) list"

fun link_lock :: "verify_email_tx_params \<times> stage \<Rightarrow> int64 set" where
  "link_lock (p, Marked now who) = {vp_EmailId p}"
| "link_lock (p, Ready now who) = {vp_EmailId p}"
| "link_lock _ = {}"

fun user_lock :: "verify_email_tx_params \<times> stage \<Rightarrow> gostring set" where
  "user_lock (p, Ready now who) = {who}"
| "user_lock _ = {}"

definition unlocked :: "(verify_email_tx_params \<times> stage \<Rightarrow> 'k set) \<Rightarrow> nat \<Rightarrow> 'k \<Rightarrow> race \<Rightarrow> bool" where
  "unlocked lock k x s \<longleftrightarrow> (\<forall>j < length (rc_calls s). j \<noteq> k \<longrightarrow> x \<notin> lock (rc_calls s ! j))"

definition stage_set :: "nat \<Rightarrow> stage \<Rightarrow> race \<Rightarrow> race" where
  "stage_set k st s = s\<lparr>rc_calls := (rc_calls s)[k := (fst (rc_calls s ! k), st)]\<rparr>"

inductive race_work :: "race \<Rightarrow> race \<Rightarrow> bool" where
  mark: "k < length (rc_calls s) \<Longrightarrow> rc_calls s ! k = (p, Begun) \<Longrightarrow> unlocked link_lock k (vp_EmailId p) s \<Longrightarrow>
    sql_UpdateVerifyEmail (tx_link p) now (rc_db s) = (Inr ve, d1) \<Longrightarrow>
    race_work s (stage_set k (Marked now (v_Username ve)) s)"
| refuse: "k < length (rc_calls s) \<Longrightarrow> rc_calls s ! k = (p, Begun) \<Longrightarrow>
    sql_UpdateVerifyEmail (tx_link p) now (rc_db s) = (Inl e, d1) \<Longrightarrow> race_work s (stage_set k Failed s)"
| verify: "k < length (rc_calls s) \<Longrightarrow> rc_calls s ! k = (p, Marked now who) \<Longrightarrow> unlocked user_lock k who s \<Longrightarrow>
    verify_body p now (rc_db s) = (Inr r, d2) \<Longrightarrow> race_work s (stage_set k (Ready now who) s)"
| no_user: "k < length (rc_calls s) \<Longrightarrow> rc_calls s ! k = (p, Marked now who) \<Longrightarrow> unlocked user_lock k who s \<Longrightarrow>
    verify_body p now (rc_db s) = (Inl e, d2) \<Longrightarrow> race_work s (stage_set k Failed s)"
| commit: "k < length (rc_calls s) \<Longrightarrow> rc_calls s ! k = (p, Ready now who) \<Longrightarrow>
    race_work s ((stage_set k (Done now) s)\<lparr>rc_db := snd (verify_body p now (rc_db s)), rc_log := rc_log s @ [(p, now)]\<rparr>)"

fun ended :: "stage \<Rightarrow> bool" where
  "ended (Done now) = True"
| "ended Failed = True"
| "ended _ = False"

text \<open>A call can be cut off as long as it has not ended.\<close>

inductive race_step :: "race \<Rightarrow> race \<Rightarrow> bool" where
  work: "race_work s s' \<Longrightarrow> race_step s s'"
| cut: "k < length (rc_calls s) \<Longrightarrow> \<not> ended (snd (rc_calls s ! k)) \<Longrightarrow> race_step s (stage_set k Failed s)"

inductive race_reach :: "database \<Rightarrow> verify_email_tx_params list \<Rightarrow> race \<Rightarrow> bool" for d ps where
  start: "race_reach d ps \<lparr>rc_db = d, rc_calls = map (\<lambda>p. (p, Begun)) ps, rc_log = []\<rparr>"
| step: "race_reach d ps s \<Longrightarrow> race_step s s' \<Longrightarrow> race_reach d ps s'"

subsection \<open>What a committed call changes for the others\<close>

text \<open>Rows of users as far as the check of an update looks at them.\<close>

definition addresses :: "database \<Rightarrow> (gostring \<times> gostring) list" where
  "addresses d = map (\<lambda>u. (u_Username u, u_Email u)) (users d)"

lemma find_map_keep: "(\<And>x. P (f x) = P x) \<Longrightarrow> find P (map f xs) = map_option f (find P xs)"
  by (induction xs) auto

lemma find_user:
  "find (\<lambda>u. u_Username u = name) us = None \<longleftrightarrow> name \<notin> fst ` set (map (\<lambda>u. (u_Username u, u_Email u)) us)"
  "find (\<lambda>u. u_Username u = name) us = Some u \<Longrightarrow>
     find (\<lambda>p. fst p = name) (map (\<lambda>u. (u_Username u, u_Email u)) us) = Some (name, u_Email u)"
  by (induction us) (auto split: if_splits)

lemma update_verified:
  "isl (fst (sql_UpdateUser (verified_arg name) now d)) \<longleftrightarrow>
     (case find (\<lambda>p. fst p = name) (addresses d) of
        None \<Rightarrow> True
      | Some p \<Rightarrow> list_ex (\<lambda>q. fst q \<noteq> name \<and> snd q = snd p) (addresses d))"
proof (cases "find (\<lambda>u. u_Username u = name) (users d)")
  case None
  then have "find (\<lambda>p. fst p = name) (addresses d) = None"
    by (auto simp: addresses_def find_None_iff)
  with None show ?thesis by (simp add: sql_UpdateUser_def read_row_def verified_arg_def)
next
  case (Some u)
  with find_user(2) [OF this] show ?thesis
    by (auto simp: sql_UpdateUser_def read_row_def verified_arg_def addresses_def set_user_def coalesce_def list_ex_iff)
qed

lemma verify_body_InrD:
  assumes "verify_body p now d = (Inr r, d')"
  obtains ve where "find (link_valid (tx_link p) now) (verify_emails d) = Some ve"
    "verify_emails d' = map (\<lambda>v. if link_valid (tx_link p) now v then v\<lparr>v_IsUsed := True\<rparr> else v) (verify_emails d)"
    "addresses d' = addresses d"
proof -
  from assms obtain ve where ve: "find (link_valid (tx_link p) now) (verify_emails d) = Some ve"
    by (auto simp: verify_body_def sql_UpdateVerifyEmail_def split: option.splits)
  have keep: "map (\<lambda>u. (u_Username u, u_Email u)) (write_row u_Username name (set_user (verified_arg name)) us) =
      map (\<lambda>u. (u_Username u, u_Email u)) us" for name us
    by (auto simp: write_row_def set_user_def verified_arg_def coalesce_def)
  have "verify_emails d' = map (\<lambda>v. if link_valid (tx_link p) now v then v\<lparr>v_IsUsed := True\<rparr> else v) (verify_emails d)"
    using assms ve
    by (auto simp: verify_body_def sql_UpdateVerifyEmail_def sql_UpdateUser_def split: sum.splits if_splits)
  moreover have "addresses d' = addresses d"
    using assms ve keep
    by (auto simp: addresses_def verify_body_def sql_UpdateVerifyEmail_def sql_UpdateUser_def verified_arg_def
        split: sum.splits if_splits)
  ultimately show thesis using that ve by blast
qed

text \<open>Whether the transaction succeeds depends on its link and on the addresses.\<close>

definition user_fine :: "gostring \<Rightarrow> (gostring \<times> gostring) list \<Rightarrow> bool" where
  "user_fine name as \<longleftrightarrow>
     (case find (\<lambda>p. fst p = name) as of
        None \<Rightarrow> False
      | Some p \<Rightarrow> \<not> list_ex (\<lambda>q. fst q \<noteq> name \<and> snd q = snd p) as)"

lemma verify_body_ok:
  "\<not> isl (fst (verify_body p now d)) \<longleftrightarrow>
     (case find (link_valid (tx_link p) now) (verify_emails d) of
        None \<Rightarrow> False | Some ve \<Rightarrow> user_fine (v_Username ve) (addresses d))"
proof (cases "find (link_valid (tx_link p) now) (verify_emails d)")
  case None
  then show ?thesis by (simp add: verify_body_def sql_UpdateVerifyEmail_def)
next
  case (Some ve)
  let ?d1 = "d\<lparr>verify_emails := map (\<lambda>v. if link_valid (tx_link p) now v then v\<lparr>v_IsUsed := True\<rparr> else v) (verify_emails d)\<rparr>"
  have "\<not> isl (fst (verify_body p now d)) \<longleftrightarrow> \<not> isl (fst (sql_UpdateUser (verified_arg (v_Username ve)) now ?d1))"
    using Some by (auto simp: verify_body_def sql_UpdateVerifyEmail_def split: prod.splits sum.splits)
  moreover have "addresses ?d1 = addresses d" by (simp add: addresses_def)
  ultimately show ?thesis using Some update_verified [of "v_Username ve" now ?d1]
    by (simp add: user_fine_def split: option.splits)
qed

lemma other_link:
  assumes "verify_body p now d = (Inr r, d')" and "vp_EmailId q \<noteq> vp_EmailId p"
  shows "find (link_valid (tx_link q) t) (verify_emails d') = find (link_valid (tx_link q) t) (verify_emails d)"
proof -
  let ?f = "\<lambda>v. if link_valid (tx_link p) now v then v\<lparr>v_IsUsed := True\<rparr> else v"
  have "find (link_valid (tx_link q) t) (map ?f (verify_emails d)) = map_option ?f (find (link_valid (tx_link q) t) (verify_emails d))"
    by (rule find_map_keep) (use assms(2) in \<open>auto simp: link_valid_def tx_link_def\<close>)
  also have "\<dots> = find (link_valid (tx_link q) t) (verify_emails d)"
    using assms(2) by (cases "find (link_valid (tx_link q) t) (verify_emails d)")
      (auto dest!: find_SomeD simp: link_valid_def tx_link_def)
  finally show ?thesis using verify_body_InrD [OF assms(1)] by metis
qed

subsection \<open>The invariant\<close>

text \<open>What a call has found still holds, whatever the others have committed since.\<close>

fun sound_call :: "database \<Rightarrow> verify_email_tx_params \<times> stage \<Rightarrow> bool" where
  "sound_call d (p, Marked now who) =
     (\<exists>ve. find (link_valid (tx_link p) now) (verify_emails d) = Some ve \<and> v_Username ve = who)"
| "sound_call d (p, Ready now who) = (\<not> isl (fst (verify_body p now d)))"
| "sound_call d _ = True"

fun serial_verify :: "database \<Rightarrow> (verify_email_tx_params \<times> time) list \<Rightarrow> database option" where
  "serial_verify d [] = Some d"
| "serial_verify d ((p, now) # ps) =
     (case verify_body p now d of (Inl e, d') \<Rightarrow> None | (Inr r, d') \<Rightarrow> serial_verify d' ps)"

fun is_done :: "verify_email_tx_params \<times> stage \<Rightarrow> bool" where
  "is_done (p, Done now) = True"
| "is_done _ = False"

fun done_at :: "verify_email_tx_params \<times> stage \<Rightarrow> verify_email_tx_params \<times> time" where
  "done_at (p, Done now) = (p, now)"
| "done_at (p, _) = (p, 0)"

definition committed_calls :: "race \<Rightarrow> (verify_email_tx_params \<times> time) list" where
  "committed_calls s = map done_at (filter is_done (rc_calls s))"

definition exclusive_links :: "(verify_email_tx_params \<times> stage) list \<Rightarrow> bool" where
  "exclusive_links cs \<longleftrightarrow>
     (\<forall>i < length cs. \<forall>j < length cs. i \<noteq> j \<longrightarrow> link_lock (cs ! i) \<inter> link_lock (cs ! j) = {})"

definition race_inv :: "database \<Rightarrow> race \<Rightarrow> bool" where
  "race_inv d s \<longleftrightarrow> serial_verify d (rc_log s) = Some (rc_db s) \<and>
     mset (committed_calls s) = mset (rc_log s) \<and>
     (\<forall>k < length (rc_calls s). sound_call (rc_db s) (rc_calls s ! k)) \<and>
     exclusive_links (rc_calls s)"

lemma sound_call_other:
  assumes body: "verify_body p now d = (Inr r, d')"
    and apart: "link_lock (q, st) \<inter> {vp_EmailId p} = {}" and sound: "sound_call d (q, st)"
  shows "sound_call d' (q, st)"
proof -
  have keep: "addresses d' = addresses d" by (rule verify_body_InrD [OF body])
  from apart sound show ?thesis
    by (cases st) (auto simp: other_link [OF body] keep verify_body_ok split: option.splits)
qed

lemma serial_verify_snoc:
  "serial_verify d (ps @ [(p, now)]) =
     (case serial_verify d ps of None \<Rightarrow> None
      | Some d1 \<Rightarrow> (case verify_body p now d1 of (Inl e, d') \<Rightarrow> None | (Inr r, d') \<Rightarrow> Some d'))"
  by (induction d ps rule: serial_verify.induct) (auto split: prod.splits sum.splits)

lemma stage_set_simps [simp]: "rc_db (stage_set k st s) = rc_db s" "rc_log (stage_set k st s) = rc_log s"
  "rc_calls (stage_set k st s) = (rc_calls s)[k := (fst (rc_calls s ! k), st)]"
  by (simp_all add: stage_set_def)

text \<open>What a call may go on to, as far as locks go.\<close>

lemma exclusive_update:
  assumes "exclusive_links cs" "k < length cs"
    and "\<And>x j. x \<in> link_lock c \<Longrightarrow> x \<notin> link_lock (cs ! k) \<Longrightarrow> j < length cs \<Longrightarrow> j \<noteq> k \<Longrightarrow> x \<notin> link_lock (cs ! j)"
  shows "exclusive_links (cs[k := c])"
proof -
  have new: "link_lock c \<inter> link_lock (cs ! j) = {}" if "j < length cs" "j \<noteq> k" for j
  proof -
    have "link_lock (cs ! k) \<inter> link_lock (cs ! j) = {}"
      using assms(1,2) that by (simp add: exclusive_links_def)
    then show ?thesis using assms(3) [OF _ _ that] by blast
  qed
  show ?thesis unfolding exclusive_links_def
  proof (intro allI impI)
    fix i j
    assume ij: "i < length (cs[k := c])" "j < length (cs[k := c])" "i \<noteq> j"
    show "link_lock (cs[k := c] ! i) \<inter> link_lock (cs[k := c] ! j) = {}"
    proof (cases "i = k")
      case True
      with ij new [of j] show ?thesis by simp
    next
      case False
      with ij new [of i] assms(1) show ?thesis by (cases "j = k") (auto simp: exclusive_links_def Int_commute)
    qed
  qed
qed

lemma race_inv_calls:
  assumes inv: "race_inv d s" and k: "k < length (rc_calls s)" "\<not> is_done (rc_calls s ! k)"
    and st: "\<not> is_done (fst (rc_calls s ! k), st)" "sound_call (rc_db s) (fst (rc_calls s ! k), st)"
    and lock: "\<And>x. x \<in> link_lock (fst (rc_calls s ! k), st) \<Longrightarrow> x \<in> link_lock (rc_calls s ! k) \<or> unlocked link_lock k x s"
  shows "race_inv d (stage_set k st s)"
proof -
  have "committed_calls (stage_set k st s) = committed_calls s"
    using k st(1) by (simp add: committed_calls_def filter_update_same)
  moreover have "sound_call (rc_db s) (rc_calls (stage_set k st s) ! j)" if "j < length (rc_calls s)" for j
    using that inv st(2) k(1) by (cases "j = k") (auto simp: race_inv_def)
  moreover have "exclusive_links (rc_calls (stage_set k st s))"
    unfolding stage_set_simps
  proof (rule exclusive_update [OF _ k(1)])
    show "exclusive_links (rc_calls s)" using inv by (simp add: race_inv_def)
  qed (use lock in \<open>auto simp: unlocked_def\<close>)
  ultimately show ?thesis using inv by (simp add: race_inv_def)
qed

text \<open>A call that commits.\<close>

lemma race_inv_commit:
  assumes inv: "race_inv d s" and k: "k < length (rc_calls s)" "rc_calls s ! k = (p, Ready now who)"
  shows "race_inv d ((stage_set k (Done now) s)\<lparr>rc_db := snd (verify_body p now (rc_db s)), rc_log := rc_log s @ [(p, now)]\<rparr>)"
proof -
  have sound: "sound_call (rc_db s) (rc_calls s ! j)" if "j < length (rc_calls s)" for j
    using inv that by (simp add: race_inv_def)
  obtain r d' where body: "verify_body p now (rc_db s) = (Inr r, d')"
    using sound [OF k(1)] k(2)
    by (cases "verify_body p now (rc_db s)"; cases "fst (verify_body p now (rc_db s))") auto
  have ex: "exclusive_links (rc_calls s)" using inv by (simp add: race_inv_def)
  let ?cs = "(rc_calls s)[k := (p, Done now)]"
  have "mset (map done_at (filter is_done ?cs)) = mset (rc_log s @ [(p, now)])"
    using inv k filter_update_new [of k "rc_calls s" is_done "(p, Done now)"]
    by (simp add: race_inv_def committed_calls_def)
  moreover have "sound_call d' (?cs ! j)" if j: "j < length (rc_calls s)" for j
  proof (cases "j = k")
    case False
    obtain q st where c: "rc_calls s ! j = (q, st)" by fastforce
    have "link_lock (q, st) \<inter> {vp_EmailId p} = {}"
      using ex j k c False unfolding exclusive_links_def by (metis link_lock.simps(2))
    then have "sound_call d' (q, st)"
      using sound_call_other [OF body] sound [OF j] c by simp
    then show ?thesis using False c by simp
  qed (use k in simp)
  moreover have "exclusive_links ?cs" by (rule exclusive_update [OF ex k(1)]) simp
  ultimately show ?thesis
    using inv body k by (simp add: race_inv_def serial_verify_snoc committed_calls_def)
qed

lemma race_inv_step:
  assumes "race_step s s'" "race_inv d s"
  shows "race_inv d s'"
  using assms(1)
proof cases
  case work
  then show ?thesis
  proof cases
    case (mark k p now ve d1)
    then show ?thesis
      by (auto intro!: race_inv_calls [OF assms(2)] simp: sql_UpdateVerifyEmail_def split: option.splits)
  next
    case (refuse k p now e d1)
    then show ?thesis by (auto intro!: race_inv_calls [OF assms(2)])
  next
    case (verify k p now who r d2)
    then show ?thesis by (auto intro!: race_inv_calls [OF assms(2)])
  next
    case (no_user k p now who e d2)
    then show ?thesis by (auto intro!: race_inv_calls [OF assms(2)])
  next
    case (commit k p now who)
    then show ?thesis using race_inv_commit [OF assms(2)] by blast
  qed
next
  case (cut k)
  then have "\<not> is_done (rc_calls s ! k)" by (cases "rc_calls s ! k"; cases "snd (rc_calls s ! k)") auto
  then show ?thesis using cut by (auto intro!: race_inv_calls [OF assms(2)])
qed

lemma race_reach_inv: "race_reach d ps s \<Longrightarrow> race_inv d s"
proof (induction rule: race_reach.induct)
  case start
  show ?case by (simp add: race_inv_def committed_calls_def exclusive_links_def filter_map comp_def)
qed (rule race_inv_step)

subsection \<open>A link serves once\<close>

definition used_links :: "database \<Rightarrow> int64 set" where
  "used_links d = v_ID ` {v \<in> set (verify_emails d). v_IsUsed v}"

lemma verify_body_uses:
  assumes body: "verify_body p now d = (Inr r, d')" and ids: "distinct (map v_ID (verify_emails d))"
  shows "distinct (map v_ID (verify_emails d'))" and "vp_EmailId p \<notin> used_links d"
    and "insert (vp_EmailId p) (used_links d) \<subseteq> used_links d'"
proof -
  from body obtain ve where ve: "find (link_valid (tx_link p) now) (verify_emails d) = Some ve"
    and d': "verify_emails d' = map (\<lambda>v. if link_valid (tx_link p) now v then v\<lparr>v_IsUsed := True\<rparr> else v) (verify_emails d)"
    by (rule verify_body_InrD)
  have row: "ve \<in> set (verify_emails d)" "v_ID ve = vp_EmailId p" "\<not> v_IsUsed ve"
    using find_SomeD [OF ve] by (simp_all add: link_valid_def tx_link_def)
  have "map v_ID (verify_emails d') = map v_ID (verify_emails d)" by (simp add: d' comp_def if_distrib)
  with ids show "distinct (map v_ID (verify_emails d'))" by simp
  show "vp_EmailId p \<notin> used_links d"
  proof
    assume "vp_EmailId p \<in> used_links d"
    then obtain v where v: "v \<in> set (verify_emails d)" "v_IsUsed v" "v_ID v = v_ID ve"
      using row(2) by (auto simp: used_links_def)
    with distinct_key_eq [OF ids v(1) row(1)] row(3) show False by simp
  qed
  have "ve\<lparr>v_IsUsed := True\<rparr> \<in> set (verify_emails d')"
    unfolding d' using row(1) find_SomeD [OF ve] by force
  then have "vp_EmailId p \<in> used_links d'" using row(2) by (force simp: used_links_def)
  moreover have "used_links d \<subseteq> used_links d'"
  proof
    fix i assume "i \<in> used_links d"
    then obtain v where v: "v \<in> set (verify_emails d)" "v_IsUsed v" "v_ID v = i" by (auto simp: used_links_def)
    then have "v \<in> set (verify_emails d')" by (force simp: d' link_valid_def)
    with v show "i \<in> used_links d'" by (auto simp: used_links_def)
  qed
  ultimately show "insert (vp_EmailId p) (used_links d) \<subseteq> used_links d'" by simp
qed

lemma serial_verify_distinct:
  "serial_verify d ps = Some d' \<Longrightarrow> distinct (map v_ID (verify_emails d)) \<Longrightarrow>
    distinct (map (vp_EmailId \<circ> fst) ps) \<and> used_links d \<inter> set (map (vp_EmailId \<circ> fst) ps) = {}"
proof (induction d ps rule: serial_verify.induct)
  case (2 d p now ps)
  then obtain r d1 where body: "verify_body p now d = (Inr r, d1)"
    by (cases "verify_body p now d"; cases "fst (verify_body p now d)") auto
  note uses = verify_body_uses [OF body "2.prems"(2)]
  have "distinct (map (vp_EmailId \<circ> fst) ps) \<and> used_links d1 \<inter> set (map (vp_EmailId \<circ> fst) ps) = {}"
    using "2.IH" [OF body [symmetric] refl] "2.prems"(1) body uses(1) by (simp add: comp_def)
  with uses(2,3) show ?case by (auto simp: comp_def)
qed simp

subsection \<open>Nobody waits for ever\<close>

fun stage_left :: "stage \<Rightarrow> nat" where
  "stage_left Begun = 3"
| "stage_left (Marked now who) = 2"
| "stage_left (Ready now who) = 1"
| "stage_left _ = 0"

definition race_left :: "race \<Rightarrow> nat" where
  "race_left s = sum_list (map (stage_left \<circ> snd) (rc_calls s))"

lemma sum_list_map_less:
  "k < length xs \<Longrightarrow> (f y :: nat) < f (xs ! k) \<Longrightarrow> sum_list (map f (xs[k := y])) < sum_list (map f xs)"
  by (induction xs arbitrary: k) (auto split: nat.splits simp: nth_Cons')

lemma race_step_left: "race_step s s' \<Longrightarrow> race_left s' < race_left s"
proof (induction rule: race_step.induct)
  case (work s s')
  then show ?case
    by (induction rule: race_work.induct) (simp_all add: race_left_def sum_list_map_less)
next
  case (cut k s)
  then show ?case by (cases "snd (rc_calls s ! k)") (simp_all add: race_left_def sum_list_map_less)
qed

text \<open>Who is ready commits; if nobody is, who has marked a link meets no lock; else who begins meets none.\<close>

lemma lockD:
  "x \<in> user_lock c \<Longrightarrow> \<exists>now. snd c = Ready now x"
  "i \<in> link_lock c \<Longrightarrow> \<exists>now who. snd c = Ready now who \<or> snd c = Marked now who"
  by (cases c; cases "snd c"; simp)+

lemma race_progress:
  assumes open_call: "k < length (rc_calls s)" "\<not> ended (snd (rc_calls s ! k))"
  shows "\<exists>s'. race_work s s'"
proof (cases "\<exists>j < length (rc_calls s). \<exists>now who. snd (rc_calls s ! j) = Ready now who")
  case True
  then show ?thesis by (metis race_work.commit prod.collapse)
next
  case no_ready: False
  then have users: "unlocked user_lock j who s" for j who
    unfolding unlocked_def using lockD(1) by blast
  show ?thesis
  proof (cases "\<exists>j < length (rc_calls s). \<exists>now who. snd (rc_calls s ! j) = Marked now who")
    case True
    then obtain j p now who where j: "j < length (rc_calls s)" "rc_calls s ! j = (p, Marked now who)"
      by (metis prod.collapse)
    obtain r d' where "verify_body p now (rc_db s) = (r, d')" by fastforce
    with j users show ?thesis by (cases r) (blast intro: race_work.verify race_work.no_user)+
  next
    case no_marked: False
    with no_ready have links: "unlocked link_lock j x s" for j x
      unfolding unlocked_def using lockD(2) by blast
    obtain p where k: "rc_calls s ! k = (p, Begun)"
      using open_call no_ready no_marked by (cases "rc_calls s ! k"; cases "snd (rc_calls s ! k)") force+
    obtain r d' where "sql_UpdateVerifyEmail (tx_link p) 0 (rc_db s) = (r, d')" by fastforce
    with k open_call(1) links show ?thesis by (cases r) (blast intro: race_work.mark race_work.refuse)+
  qed
qed

text \<open>C8: When calls of VerifyEmailTx run at the same time, in whatever order their updates take their row locks
  and whichever of them are cut off, the rows stored are those of the committed calls one after another, no two
  of which used the same link; and no call waits for ever, since as long as one has not ended one can go on, and every step
  brings the end nearer.\<close>

theorem link_used_once:
  assumes "distinct (map v_ID (verify_emails d))" and "race_reach d ps s"
  shows "serial_verify d (rc_log s) = Some (rc_db s) \<and> mset (committed_calls s) = mset (rc_log s) \<and>
    distinct (map (vp_EmailId \<circ> fst) (committed_calls s)) \<and>
    (list_all (\<lambda>c. ended (snd c)) (rc_calls s) \<or> (\<exists>s'. race_work s s')) \<and>
    (\<forall>s'. race_step s s' \<longrightarrow> race_left s' < race_left s)"
proof (intro conjI allI impI)
  have inv: "race_inv d s" using assms(2) by (rule race_reach_inv)
  then show log: "serial_verify d (rc_log s) = Some (rc_db s)" and same: "mset (committed_calls s) = mset (rc_log s)"
    by (simp_all add: race_inv_def)
  from serial_verify_distinct [OF log assms(1)] same show "distinct (map (vp_EmailId \<circ> fst) (committed_calls s))"
    by (metis mset_eq_imp_distinct_iff mset_map)
  show "list_all (\<lambda>c. ended (snd c)) (rc_calls s) \<or> (\<exists>s'. race_work s s')"
    using race_progress by (auto simp: list_all_length)
qed (rule race_step_left)

text \<open>alice's link, clicked twice: one call gets through, and the other is refused once it has committed.\<close>

definition alices_call :: verify_email_tx_params where
  "alices_call = \<lparr>vp_EmailId = 1, vp_SecretCode = ''abcdefghijklmnopqrstuvwxyzabcdef''\<rparr>"

lemma double_click:
  "\<exists>s. race_reach (db link_world) [alices_call, alices_call] s \<and>
     rc_calls s = [(alices_call, Done 0), (alices_call, Failed)] \<and> rc_log s = [(alices_call, 0)]"
proof -
  let ?p = alices_call and ?d = "db link_world"
  let ?s0 = "\<lparr>rc_db = ?d, rc_calls = map (\<lambda>p. (p, Begun)) [?p, ?p], rc_log = []\<rparr>"
  let ?s1 = "stage_set 0 (Marked 0 ''alice'') ?s0"
  let ?s2 = "stage_set 0 (Ready 0 ''alice'') ?s1"
  let ?s3 = "(stage_set 0 (Done 0) ?s2)\<lparr>rc_db := snd (verify_body ?p 0 (rc_db ?s2)), rc_log := rc_log ?s2 @ [(?p, 0)]\<rparr>"
  let ?s4 = "stage_set 1 Failed ?s3"
  have body: "fst (verify_body ?p 0 ?d) \<noteq> Inl e" for e by (rule notI) (drule arg_cong [where f = isl], code_simp)
  have who: "map_option v_Username (find (link_valid (tx_link ?p) 0) (verify_emails ?d)) = Some ''alice''" by code_simp
  have gone: "find (link_valid (tx_link ?p) 0) (verify_emails (snd (verify_body ?p 0 ?d))) = None" by code_simp
  obtain r d2 where body: "verify_body ?p 0 ?d = (Inr r, d2)"
    using body by (cases "verify_body ?p 0 ?d"; cases "fst (verify_body ?p 0 ?d)") auto
  obtain ve where ve: "find (link_valid (tx_link ?p) 0) (verify_emails ?d) = Some ve" "v_Username ve = ''alice''"
    using who by auto
  have "race_work ?s0 (stage_set 0 (Marked 0 (v_Username (ve\<lparr>v_IsUsed := True\<rparr>))) ?s0)"
    by (rule race_work.mark) (use ve in \<open>auto simp: unlocked_def less_Suc_eq sql_UpdateVerifyEmail_def\<close>)
  moreover have "race_work ?s1 ?s2"
    by (rule race_work.verify) (use body in \<open>auto simp: unlocked_def less_Suc_eq\<close>)
  moreover have "race_work ?s2 ?s3" by (rule race_work.commit) auto
  moreover have "race_work ?s3 ?s4"
    by (rule race_work.refuse [where p = ?p and now = 0]) (use gone in \<open>auto simp: sql_UpdateVerifyEmail_def\<close>)
  ultimately have "race_reach ?d [?p, ?p] ?s4"
    using ve(2) race_reach.start [of ?d "[?p, ?p]"] by (simp del: stage_set_simps) (meson race_reach.step race_step.work)
  then show ?thesis by (intro exI [of _ ?s4] conjI) simp_all
qed

theorem link_used_once_witness:
  "\<exists>s. race_reach (db link_world) [alices_call, alices_call] s \<and> length (rc_log s) = 1 \<and>
     committed_calls s = [(alices_call, 0)] \<and> serial_verify (db link_world) [(alices_call, 0)] = Some (rc_db s)"
proof -
  obtain s where s: "race_reach (db link_world) [alices_call, alices_call] s"
    "rc_calls s = [(alices_call, Done 0), (alices_call, Failed)]" "rc_log s = [(alices_call, 0)]"
    using double_click by blast
  have "distinct (map v_ID (verify_emails (db link_world)))" by code_simp
  from link_used_once [OF this s(1)] s show ?thesis by (auto simp: committed_calls_def)
qed

end
