(* ===== verification/Spec2Isabelle.thy ===== *)
theory Spec2Isabelle
  imports StyleProps BuildProps Together BootProps Lifecycle Concurrency LinkRace
begin

text \<open>
  Simple Bank is a bank in one Go process with a Vue single-page frontend. The process serves an HTTP API
  (gin), a gRPC API and its HTTP gateway, and works off a queue of verification mails; its data is a
  PostgreSQL database. This development models both programs from their sources and proves what makes them
  correct, each alone and together. Paths below are under \<^verbatim>\<open>src/\<close>.

  \<^bold>\<open>The frontend (\<^verbatim>\<open>frontend/\<close>).\<close>
  \<^item> \<open>JsValues\<close>: run-time values and the expressions the code uses on them (types are erased, so the server's
    JSON may be anything).
  \<^item> \<open>AuthStore\<close>: \<^verbatim>\<open>store.ts\<close>, \<^verbatim>\<open>types/\<close>, \<^verbatim>\<open>api.ts\<close>. \<open>NavGuard\<close>: \<^verbatim>\<open>router/index.ts\<close>; vue-router is the parameter
    \<open>push\<close> with the law \<open>honours_guard\<close>.
  \<^item> \<open>Views\<close>: every template as a function to the tree it renders, with its listeners and bound inputs.
  \<^item> \<open>Css\<close>, \<open>GlobalCss\<close>, \<open>StyleProps\<close>: the style sheets as data, selectors, the cascade and media queries, and what
    the sheets do to the templates.
  \<^item> \<open>Build\<close>, \<open>BuildProps\<close>: the imports of every module and how they resolve, what components offer each other,
    the configuration of build, tests and linter, and the start of the application; that all of it fits.
  \<^item> \<open>Spa\<close>, \<open>SpaProps\<close>: the scripts as a state machine over browser events, split at their awaits; the
    invariants of every run (who sees the dashboard), the life of a login and of a registration.

  \<^bold>\<open>The backend.\<close>
  \<^item> \<open>World\<close>: the state (database, queue, sent mail) and \<open>env\<close>, the answers of everything outside: clock, random
    values, the libraries for tokens, passwords and addresses, and for every call to the database, the queue
    and the mail server whether it gets through (\<open>Through\<close>), is \<open>Lost\<close>, or is done without an answer (\<open>Unacked\<close>).
    Every question has its number, \<open>tick\<close>; a theorem holds for every \<open>env\<close> or names what it assumes.
  \<^item> \<open>Models\<close>, \<open>Queries\<close>, \<open>Schema\<close>: the rows and constraints (\<^verbatim>\<open>db/migration\<close>, \<^verbatim>\<open>db/sqlc/models.go\<close>), every statement
    and query (\<^verbatim>\<open>db/query\<close>, \<^verbatim>\<open>db/sqlc/*.sql.go\<close>), and that the statements keep the constraints.
  \<^item> \<open>Store\<close>, \<open>StoreFrames\<close>: connections, \<open>execTx\<close> and the transactions (\<^verbatim>\<open>tx_*.go\<close>), and the frame rules by which
    an invariant of the operations becomes one of the handlers.
  \<^item> \<open>Transfers\<close>, \<open>TransferProps\<close>, \<open>Concurrency\<close>, \<open>Serializable\<close>: the effect of a transfer, its atomicity under every
    fault, transfers at the same time with row locks, which never wait for ever and leave the balances of serial
    runs of \<open>TransferTx\<close> (\<^verbatim>\<open>tx_transfer.go\<close>).
  \<^item> \<open>Util\<close>, \<open>Token\<close>, \<open>Worker\<close>: \<^verbatim>\<open>util/\<close> and \<^verbatim>\<open>val/\<close>, \<^verbatim>\<open>token/\<close>, \<^verbatim>\<open>worker/\<close> and \<^verbatim>\<open>mail/\<close>.
  \<^item> \<open>RestApi\<close>, \<open>RestFrames\<close>, \<open>Ledger\<close>, \<open>RestProps\<close>, \<open>SessionProps\<close>: \<^verbatim>\<open>api/\<close>, who moves money and who holds sessions.
  \<^item> \<open>Gapi\<close>, \<open>GapiFrames\<close>, \<open>Users\<close>, \<open>GapiProps\<close>, \<open>SignupProps\<close>, \<open>EmailProps\<close>, \<open>LinkRace\<close>: \<^verbatim>\<open>gapi/\<close>, profiles, registration,
    login, the verification of addresses, and links opened at the same time (\<^verbatim>\<open>tx_verify_email.go\<close>).
  \<^item> \<open>AbstractBank\<close>, \<open>System\<close>, \<open>Refinement\<close>, \<open>SystemProps\<close>: the bank as its customers know it, the whole process
    as a transition system (\<^verbatim>\<open>main.go\<close>), and that the one implements the other.
  \<^item> \<open>Profiles\<close>: what every stored user has, whichever API registered or changed it.
  \<^item> \<open>Boot\<close>, \<open>BootProps\<close>, \<open>Lifecycle\<close>: \<^verbatim>\<open>util/config.go\<close> and the rest of \<^verbatim>\<open>main.go\<close>: the configuration, the start with
    every fatal exit, the goroutines of the wait group; that what starts is the process \<open>System\<close> takes as
    given, and that it ends, gracefully, after a signal or a failure.

  \<^bold>\<open>Together.\<close>
  \<^item> \<open>Gateway\<close>, \<open>FullStack\<close>, \<open>Together\<close>: the dispatch of paths, CORS, the gateway's JSON (\<^verbatim>\<open>main.go\<close>, \<^verbatim>\<open>proto/\<close>), and the
    properties that span both programs: requests, mails, errors, and runs of the frontend whose logins the
    backend answers, where the frontend's assumption on the answers is discharged.

  \<^bold>\<open>Interfaces.\<close> The locales are the contracts between components, each interpreted by the model of the
  code: \<open>bank_store\<close> and \<open>ledger_store\<close> (what the servers rely on of \<open>Store\<close>; \<open>SQLStore\<close>), \<open>token_maker\<close> (both
  makers), the REST and gRPC backends (the deployed servers), whose frame rules hold for every relation on
  the database that the store's operations keep.

  \<^bold>\<open>Integers, fuel and order.\<close> \<open>int64\<close> and \<open>int32\<close> are words: the page offset wraps around as in Go, a balance that
  leaves \<open>bigint\<close> is the database's error. Sequences are natural numbers, and where a number must fit into
  \<open>bigint\<close> the bound is a hypothesis. No loop of the sources needs fuel, they are structural
  recursions; only the order in which modules are evaluated (\<open>Build\<close>) is computed with a depth of imports, 8, and
  \<open>BuildProps\<close> shows that it holds every module. The runs of \<open>Concurrency\<close>, \<open>LinkRace\<close> and
  \<open>Lifecycle\<close> are shown to end by a measure. Requests are served one at a time, each of their calls being free
  to fail; the exceptions are \<open>Concurrency\<close> and \<open>LinkRace\<close>, for the two transactions that update rows.

  \<^bold>\<open>Assumed of libraries.\<close> \<open>paseto_ok\<close>, \<open>jwt_ok\<close>, \<open>bcrypt_ok\<close> (what is encrypted, signed or hashed is
  recognized), \<open>binding_ok\<close> (gin's tags), \<open>honours_guard\<close> (vue-router), \<open>cors_ok\<close>, \<open>gateway_ok\<close> (status codes),
  \<open>viper_ok\<close> (variables and file); the steps of \<open>Lifecycle\<close> are those \<^verbatim>\<open>net/http\<close>, gRPC, asynq and \<^verbatim>\<open>errgroup\<close> document of shutting down;
  \<open>calm_db\<close> where the outcome of a run without faults is stated. \<open>Samples\<close> gives an \<open>env\<close> that satisfies them,
  on which the witnesses are evaluated.

  \<^bold>\<open>Not modelled.\<close> The third-party libraries beyond these laws; the generated code in \<^verbatim>\<open>pb/\<close> and the mocks; what
  the migrations do (the schema they lead to is \<open>Schema\<close>); what is logged; the scheduling of asynq (a task may be
  taken at any time, any number of times until it succeeds or is dropped); the themes of
  PrimeVue and what a browser makes of a page; deployment files and scripts. Paths are compared as they are, where
  vue-router ignores case and a slash at the end, and times keep nanoseconds, where PostgreSQL rounds to
  microseconds.
\<close>

end
